(* ===== verification/Prelude.thy ===== *)
theory Prelude
  imports Main "HOL-Library.AList" "HOL-Library.List_Lexorder" "HOL-Library.Char_ord"
begin

text \<open>
  What every component of the development shares: Go errors as values, the early-return
  style of Go validation (\<open>first_error\<close>), calls that read and change the outside world,
  32-bit integers, and maps as association lists.

  A Go map is an association list whose order is the order in which one particular
  \<open>range\<close> loop happens to visit it; Go leaves that order unspecified, so a theorem about
  every list is a theorem about every order. Lookup is \<open>map_of\<close>, assignment is
  \<open>AList.update\<close> and removal is \<open>AList.delete\<close>.
\<close>

named_theorems error_simps \<open>rules that evaluate early returns and error sums\<close>
named_theorems alist_simps \<open>lookup after an update of a Go map\<close>

section \<open>Errors\<close>

text \<open>
  \<open>reason\<close> is what the Kubernetes helpers \<open>apierrors.IsNotFound\<close>,
  \<open>apierrors.IsConflict\<close> and \<open>meta.IsNoMatchError\<close> distinguish. \<open>Wrap\<close> is
  \<open>fmt.Errorf("...: %w", err)\<close>, through which those helpers see the inner error.
\<close>

datatype reason = NotFound | Conflict | NoMatch | OtherReason

datatype go_error = GoError reason string | Wrap string go_error

fun reason_of :: "go_error \<Rightarrow> reason" where
  "reason_of (GoError r m) = r"
| "reason_of (Wrap p e) = reason_of e"

fun error_text :: "go_error \<Rightarrow> string" where
  "error_text (GoError r m) = m"
| "error_text (Wrap p e) = p @ '': '' @ error_text e"

abbreviation IsNotFound :: "go_error \<Rightarrow> bool" where
  "IsNotFound e \<equiv> reason_of e = NotFound"

abbreviation IsConflict :: "go_error \<Rightarrow> bool" where
  "IsConflict e \<equiv> reason_of e = Conflict"

abbreviation IsNoMatch :: "go_error \<Rightarrow> bool" where
  "IsNoMatch e \<equiv> reason_of e = NoMatch"

abbreviation errorf :: "string \<Rightarrow> go_error" where
  "errorf m \<equiv> GoError OtherReason m"

type_synonym 'a result = "go_error + 'a"

text \<open>
  A chain of \<open>if err := check(); err != nil { return err }\<close> is the list of its checks;
  the first error is returned.
\<close>

fun first_error :: "'e option list \<Rightarrow> 'e option" where
  "first_error [] = None"
| "first_error (None # es) = first_error es"
| "first_error (Some e # es) = Some e"

lemma first_error_None [error_simps]: "first_error es = None \<longleftrightarrow> (\<forall>e\<in>set es. e = None)"
  by (induction es rule: first_error.induct) auto

lemma first_error_Some_mem: "first_error es = Some e \<Longrightarrow> Some e \<in> set es"
  by (induction es rule: first_error.induct) auto

lemma first_error_append:
  "first_error (xs @ ys) = (case first_error xs of Some e \<Rightarrow> Some e | None \<Rightarrow> first_error ys)"
  by (induction xs rule: first_error.induct) auto

definition err_of :: "'e + 'a \<Rightarrow> 'e option" where
  "err_of r = (case r of Inl e \<Rightarrow> Some e | Inr _ \<Rightarrow> None)"

lemma err_of_simps [simp]: "err_of (Inl e) = Some e" "err_of (Inr x) = None"
  by (simp_all add: err_of_def)

lemma err_of_None [error_simps]: "err_of r = None \<longleftrightarrow> (\<exists>x. r = Inr x)"
  by (cases r) auto

text \<open>\<open>f\<close> on the value of a successful result; an error passes through.\<close>

definition bind_result :: "'e + 'a \<Rightarrow> ('a \<Rightarrow> 'e + 'b) \<Rightarrow> 'e + 'b" where
  "bind_result r f = (case r of Inl e \<Rightarrow> Inl e | Inr x \<Rightarrow> f x)"

lemma bind_result_simps [simp]:
  "bind_result (Inl e) f = Inl e" "bind_result (Inr x) f = f x"
  by (simp_all add: bind_result_def)

lemma bind_result_Inr [error_simps]:
  "bind_result r f = Inr y \<longleftrightarrow> (\<exists>x. r = Inr x \<and> f x = Inr y)"
  by (cases r) auto

text \<open>
  A step that may fail and changes the outside world: in Go, a call that returns
  \<open>(T, error)\<close>. What it wrote before failing stays written.
\<close>

type_synonym ('w, 'a) step = "'w \<Rightarrow> 'a result \<times> 'w"

definition and_then :: "('e + 'a) \<times> 'w \<Rightarrow> ('a \<Rightarrow> 'w \<Rightarrow> ('e + 'b) \<times> 'w) \<Rightarrow> ('e + 'b) \<times> 'w" where
  "and_then r f = (case r of (Inl e, w) \<Rightarrow> (Inl e, w) | (Inr x, w) \<Rightarrow> f x w)"

lemma and_then_simps [simp]:
  "and_then (Inl e, w) f = (Inl e, w)" "and_then (Inr x, w) f = f x w"
  by (simp_all add: and_then_def)

lemma and_then_Inr [error_simps]:
  "and_then r f = (Inr y, w') \<longleftrightarrow> (\<exists>x w. r = (Inr x, w) \<and> f x w = (Inr y, w'))"
  by (cases r; cases "fst r") auto

text \<open>
  \<open>if err != nil { return fmt.Errorf("p: %w", err) }\<close>, for a pure call and for one that
  changes the world.
\<close>

definition wrap_result :: "string \<Rightarrow> 'a result \<Rightarrow> 'a result" where
  "wrap_result p r = (case r of Inl e \<Rightarrow> Inl (Wrap p e) | Inr x \<Rightarrow> Inr x)"

lemma wrap_result_simps [simp]:
  "wrap_result p (Inl e) = Inl (Wrap p e)" "wrap_result p (Inr x) = Inr x"
  by (simp_all add: wrap_result_def)

lemma wrap_result_Inr [error_simps]: "wrap_result p r = Inr x \<longleftrightarrow> r = Inr x"
  by (cases r) auto

definition wrap_error :: "string \<Rightarrow> 'a result \<times> 'w \<Rightarrow> 'a result \<times> 'w" where
  "wrap_error p r = (wrap_result p (fst r), snd r)"

lemma wrap_error_simps [simp]:
  "wrap_error p (Inl e, w) = (Inl (Wrap p e), w)" "wrap_error p (Inr x, w) = (Inr x, w)"
  by (simp_all add: wrap_error_def)

lemma wrap_error_Inr [error_simps]: "wrap_error p r = (Inr x, w) \<longleftrightarrow> r = (Inr x, w)"
  by (cases r; cases "fst r") auto

lemma snd_wrap_error [simp]: "snd (wrap_error p r) = snd r"
  by (simp add: wrap_error_def)

section \<open>32-bit integers\<close>

text \<open>
  A Go \<open>int32\<close> is an \<open>int\<close>; \<open>add32\<close> is its addition, which wraps around. Only
  additions are written with the wrap-around: comparisons and literals never leave the range.
\<close>

definition wrap32 :: "int \<Rightarrow> int" where
  "wrap32 x = (x + 2 ^ 31) mod 2 ^ 32 - 2 ^ 31"

definition add32 :: "int \<Rightarrow> int \<Rightarrow> int" where
  "add32 a b = wrap32 (a + b)"

definition is_int32 :: "int \<Rightarrow> bool" where
  "is_int32 x \<longleftrightarrow> - (2 ^ 31) \<le> x \<and> x < 2 ^ 31"

lemma wrap32_id: "is_int32 x \<Longrightarrow> wrap32 x = x"
  by (simp add: wrap32_def is_int32_def)

lemma is_int32_wrap32 [simp]: "is_int32 (wrap32 x)"
proof -
  have "0 \<le> (x + 2 ^ 31) mod 2 ^ 32" "(x + 2 ^ 31) mod 2 ^ 32 < 2 ^ 32"
    by simp_all
  then show ?thesis by (simp add: wrap32_def is_int32_def)
qed

lemma wrap32_add_wrap32: "wrap32 (wrap32 a + b) = wrap32 (a + b)"
proof -
  have "((a + 2 ^ 31) mod 2 ^ 32 + b) mod 2 ^ 32 = (a + 2 ^ 31 + b) mod 2 ^ 32"
    by (rule mod_add_left_eq)
  then show ?thesis by (simp add: wrap32_def algebra_simps)
qed

lemma wrap32_wrap32_right: "wrap32 (b + wrap32 a) = wrap32 (a + b)"
  using wrap32_add_wrap32 [of a b] by (simp add: add.commute)

text \<open>A running \<open>int32\<close> total is the exact total, wrapped around once at the end.\<close>

lemma fold_add32: "fold (\<lambda>x acc. add32 acc x) xs (wrap32 a) = wrap32 (a + sum_list xs)"
  by (induction xs arbitrary: a) (simp_all add: add32_def wrap32_add_wrap32 add.assoc)

lemma wrap32_0 [simp]: "wrap32 0 = 0"
  by (simp add: wrap32_def)

lemma fold_add32_0: "fold (\<lambda>x acc. add32 acc x) xs 0 = wrap32 (sum_list xs)"
  using fold_add32 [of xs 0] by simp

section \<open>Optional values and lists\<close>

text \<open>\<open>ptr.Deref(p, default)\<close>.\<close>

definition deref :: "'a option \<Rightarrow> 'a \<Rightarrow> 'a" where
  "deref p d = (case p of Some x \<Rightarrow> x | None \<Rightarrow> d)"

lemma deref_simps [simp]: "deref None d = d" "deref (Some x) d = x"
  by (simp_all add: deref_def)

fun first_some :: "'a option list \<Rightarrow> 'a option" where
  "first_some [] = None"
| "first_some (None # xs) = first_some xs"
| "first_some (Some x # xs) = Some x"

lemma first_some_None: "first_some xs = None \<longleftrightarrow> (\<forall>x\<in>set xs. x = None)"
  by (induction xs rule: first_some.induct) auto

lemma first_some_mem: "first_some xs = Some x \<Longrightarrow> Some x \<in> set xs"
  by (induction xs rule: first_some.induct) auto

section \<open>Maps as association lists\<close>

abbreviation keys :: "('k \<times> 'v) list \<Rightarrow> 'k list" where
  "keys m \<equiv> map fst m"

lemma map_of_update [alist_simps]:
  "map_of (AList.update k v m) k' = (if k = k' then Some v else map_of m k')"
  by (simp add: update_conv)

lemma map_of_Some_key: "map_of m k = Some v \<Longrightarrow> k \<in> set (keys m)"
  by (force dest: map_of_SomeD)

lemma map_of_None_key: "map_of m k = None \<longleftrightarrow> k \<notin> set (keys m)"
  by (simp add: map_of_eq_None_iff)

lemma update_not_Nil [simp]: "AList.update k v m \<noteq> []"
  by (cases m) auto

text \<open>
  Two association lists with distinct keys and the same entries, in any order, are the
  same Go map.
\<close>

lemma map_of_set_eq:
  assumes "distinct (keys m)" "distinct (keys m')" "set m = set m'"
  shows "map_of m = map_of m'"
proof
  fix k
  show "map_of m k = map_of m' k"
  proof (cases "map_of m k")
    case None
    with assms(3) have "k \<notin> set (keys m')" by (auto simp: map_of_eq_None_iff)
    then show ?thesis using None by (simp add: map_of_eq_None_iff [THEN iffD2])
  next
    case (Some v)
    with assms have "(k, v) \<in> set m'" by (auto dest: map_of_SomeD)
    with assms(2) Some show ?thesis by simp
  qed
qed

text \<open>
  The contract of a \<open>range\<close> loop over a Go map that does not depend on the order in which Go
  happens to visit the entries: two association lists with the same entries give the same
  result. What the code computes is then what the loop computes over the sorted keys.
\<close>

locale order_free =
  fixes loop :: "('k::linorder \<times> 'v) list \<Rightarrow> 'b"
  assumes same_entries:
    "distinct (keys m) \<Longrightarrow> distinct (keys m') \<Longrightarrow> set m = set m' \<Longrightarrow> loop m = loop m'"
begin

lemma loop_rev: "distinct (keys m) \<Longrightarrow> loop (rev m) = loop m"
  by (rule same_entries) (simp_all add: rev_map [symmetric])

lemma loop_sorted: "distinct (keys m) \<Longrightarrow> loop (sort_key fst m) = loop m"
  by (rule same_entries) (simp_all add: distinct_map)

lemma loop_swap: "distinct (keys (xs @ ys)) \<Longrightarrow> loop (xs @ ys) = loop (ys @ xs)"
  by (rule same_entries) auto

end

text \<open>A loop over the sorted keys that reads the entries by lookup is such a loop.\<close>

lemma sorted_keys_same:
  assumes "distinct (keys m)" "distinct (keys m')" "set m = set m'"
  shows "sort (keys m) = sort (keys m')"
proof -
  have "set (keys m) = set (keys m')" using assms(3) by simp
  then show ?thesis
    using assms(1,2) by (intro sorted_distinct_set_unique) simp_all
qed

end
