(* ===== verification/GoStrings.thy ===== *)
theory GoStrings
  imports Prelude
begin

text \<open>
  The parts of Go's standard library for strings that the provider uses: \<open>strings\<close>
  (Trim, Split, Join, Cut, LastIndex, Replace, EqualFold, ToLower), \<open>strconv\<close> (Itoa,
  Atoi, Quote) and \<open>net\<close> (SplitHostPort, JoinHostPort).

  A Go string is a byte sequence and a \<open>char\<close> is a byte. Case folding and white space
  are those of ASCII, which covers every name the Kubernetes API accepts.
\<close>

section \<open>Trimming, cutting, splitting\<close>

definition trim_left :: "(char \<Rightarrow> bool) \<Rightarrow> string \<Rightarrow> string" where
  "trim_left p s = dropWhile p s"

definition trim_right :: "(char \<Rightarrow> bool) \<Rightarrow> string \<Rightarrow> string" where
  "trim_right p s = rev (dropWhile p (rev s))"

definition trim_both :: "(char \<Rightarrow> bool) \<Rightarrow> string \<Rightarrow> string" where
  "trim_both p s = trim_left p (trim_right p s)"

definition is_space :: "char \<Rightarrow> bool" where
  "is_space c \<longleftrightarrow> c \<in> {CHR 0x09, CHR 0x0A, CHR 0x0B, CHR 0x0C, CHR 0x0D, CHR '' ''}"

definition trim_space :: "string \<Rightarrow> string" where
  "trim_space s = trim_both is_space s"

lemma trim_left_set: "set (trim_left p s) \<subseteq> set s"
  by (auto simp: trim_left_def dest: set_dropWhileD)

lemma trim_right_set: "set (trim_right p s) \<subseteq> set s"
  by (auto simp: trim_right_def dest: set_dropWhileD)

lemma trim_both_set: "set (trim_both p s) \<subseteq> set s"
  unfolding trim_both_def using trim_left_set trim_right_set by blast

lemma trim_right_length: "length (trim_right p s) \<le> length s"
  by (simp add: trim_right_def length_dropWhile_le [THEN order_trans])

lemma trim_both_length: "length (trim_both p s) \<le> length s"
  unfolding trim_both_def trim_left_def
  by (rule order_trans [OF length_dropWhile_le trim_right_length])

lemma trim_right_last: "trim_right p s \<noteq> [] \<Longrightarrow> \<not> p (last (trim_right p s))"
  using hd_dropWhile [of p "rev s"] by (simp add: trim_right_def last_rev)

lemma trim_left_last: "trim_left p s \<noteq> [] \<Longrightarrow> last (trim_left p s) = last s"
  by (induction s) (auto simp: trim_left_def split: if_splits)

lemma trim_both_ends:
  assumes "trim_both p s \<noteq> []"
  shows "\<not> p (hd (trim_both p s)) \<and> \<not> p (last (trim_both p s))"
proof
  show "\<not> p (hd (trim_both p s))"
    using assms hd_dropWhile by (simp add: trim_both_def trim_left_def)
  have "trim_right p s \<noteq> []" using assms by (auto simp: trim_both_def trim_left_def)
  then show "\<not> p (last (trim_both p s))"
    using trim_right_last trim_left_last [of p "trim_right p s"] assms
    by (simp add: trim_both_def)
qed

text \<open>\<open>strings.Split\<close> at a one-character separator, and \<open>strings.Join\<close>.\<close>

fun split_on :: "char \<Rightarrow> string \<Rightarrow> string list" where
  "split_on c [] = [[]]"
| "split_on c (x # xs) =
     (if x = c then [] # split_on c xs
      else (case split_on c xs of [] \<Rightarrow> [[x]] | y # ys \<Rightarrow> (x # y) # ys))"

fun join :: "string \<Rightarrow> string list \<Rightarrow> string" where
  "join sep [] = []"
| "join sep [x] = x"
| "join sep (x # y # ys) = x @ sep @ join sep (y # ys)"

lemma split_on_not_Nil [simp]: "split_on c s \<noteq> []"
  by (induction s) (auto split: list.splits)

lemma split_on_no_sep: "p \<in> set (split_on c s) \<Longrightarrow> c \<notin> set p"
  by (induction s arbitrary: p) (auto split: list.splits if_splits)

lemma join_Cons: "ys \<noteq> [] \<Longrightarrow> join sep (x # ys) = x @ sep @ join sep ys"
  by (cases ys) auto

lemma join_split_on: "join [c] (split_on c s) = s"
proof (induction s)
  case (Cons x xs)
  obtain y ys where s: "split_on c xs = y # ys" by (cases "split_on c xs") auto
  with Cons show ?case by (cases ys) auto
qed simp

text \<open>The text before and after the first, or the last, occurrence of a character.\<close>

fun cut_first :: "char \<Rightarrow> string \<Rightarrow> (string \<times> string) option" where
  "cut_first c [] = None"
| "cut_first c (x # xs) =
     (if x = c then Some ([], xs) else map_option (\<lambda>(a, b). (x # a, b)) (cut_first c xs))"

fun cut_last :: "char \<Rightarrow> string \<Rightarrow> (string \<times> string) option" where
  "cut_last c [] = None"
| "cut_last c (x # xs) =
     (case cut_last c xs of Some (a, b) \<Rightarrow> Some (x # a, b)
      | None \<Rightarrow> if x = c then Some ([], xs) else None)"

lemma cut_first_Some: "cut_first c s = Some (a, b) \<Longrightarrow> s = a @ c # b \<and> c \<notin> set a"
  by (induction s arbitrary: a) (auto split: if_splits)

lemma cut_first_None [simp]: "cut_first c s = None \<longleftrightarrow> c \<notin> set s"
  by (induction s) auto

lemma cut_last_None [simp]: "cut_last c s = None \<longleftrightarrow> c \<notin> set s"
  by (induction s) (auto split: option.splits)

lemma cut_last_Some: "cut_last c s = Some (a, b) \<Longrightarrow> s = a @ c # b \<and> c \<notin> set b"
proof (induction s arbitrary: a)
  case (Cons x xs)
  then show ?case
    using cut_last_None [of c xs] by (auto split: option.splits if_splits)
qed simp

lemma cut_last_append [simp]: "c \<notin> set b \<Longrightarrow> cut_last c (a @ c # b) = Some (a, b)"
  by (induction a) (auto simp: cut_last_None [THEN iffD2])

lemma cut_first_append [simp]: "c \<notin> set a \<Longrightarrow> cut_first c (a @ c # b) = Some (a, b)"
  by (induction a) auto

definition before_first :: "char \<Rightarrow> string \<Rightarrow> string" where
  "before_first c s = (case cut_first c s of Some (a, b) \<Rightarrow> a | None \<Rightarrow> s)"

definition cut_suffix :: "string \<Rightarrow> string \<Rightarrow> string option" where
  "cut_suffix s suf =
     (let n = length s - length suf
      in if length suf \<le> length s \<and> drop n s = suf then Some (take n s) else None)"

definition has_suffix :: "string \<Rightarrow> string \<Rightarrow> bool" where
  "has_suffix s suf \<longleftrightarrow> cut_suffix s suf \<noteq> None"

definition has_prefix :: "string \<Rightarrow> string \<Rightarrow> bool" where
  "has_prefix s p \<longleftrightarrow> take (length p) s = p"

definition trim_prefix :: "string \<Rightarrow> string \<Rightarrow> string" where
  "trim_prefix s p = (if has_prefix s p then drop (length p) s else s)"

lemma cut_suffix_Some: "cut_suffix s suf = Some a \<longleftrightarrow> s = a @ suf"
proof
  assume "cut_suffix s suf = Some a"
  then show "s = a @ suf"
    by (auto simp: cut_suffix_def Let_def split: if_splits) (metis append_take_drop_id)
qed (simp add: cut_suffix_def)

lemma has_suffix_iff: "has_suffix s suf \<longleftrightarrow> (\<exists>a. s = a @ suf)"
  using cut_suffix_Some by (fastforce simp: has_suffix_def)

lemma trim_prefix_append [simp]: "trim_prefix (p @ s) p = s"
  by (simp add: trim_prefix_def has_prefix_def)

text \<open>The tail of \<open>s\<close> that starts at the last occurrence of \<open>sub\<close>.\<close>

fun tail_at_last :: "string \<Rightarrow> string \<Rightarrow> string option" where
  "tail_at_last sub [] = (if sub = [] then Some [] else None)"
| "tail_at_last sub (x # xs) =
     (case tail_at_last sub xs of Some t \<Rightarrow> Some t
      | None \<Rightarrow> if has_prefix (x # xs) sub then Some (x # xs) else None)"

lemma tail_at_last_Some:
  "tail_at_last sub s = Some t \<Longrightarrow> (\<exists>a. s = a @ t) \<and> has_prefix t sub"
proof (induction s arbitrary: t)
  case (Cons x xs)
  show ?case
  proof (cases "tail_at_last sub xs")
    case None
    with Cons.prems show ?thesis by (auto split: if_splits)
  next
    case (Some u)
    with Cons.prems have "u = t" by simp
    with Cons.IH [OF Some] show ?thesis by (metis append_Cons)
  qed
qed (auto simp: has_prefix_def split: if_splits)

section \<open>Case\<close>

definition lower_char :: "char \<Rightarrow> char" where
  "lower_char c =
     (case map_of (zip ''ABCDEFGHIJKLMNOPQRSTUVWXYZ'' ''abcdefghijklmnopqrstuvwxyz'') c of
        Some d \<Rightarrow> d | None \<Rightarrow> c)"

definition to_lower :: "string \<Rightarrow> string" where
  "to_lower s = map lower_char s"

definition equal_fold :: "string \<Rightarrow> string \<Rightarrow> bool" where
  "equal_fold s t \<longleftrightarrow> to_lower s = to_lower t"

lemma lower_char_idem [simp]: "lower_char (lower_char c) = lower_char c"
  by (simp add: lower_char_def)

lemma to_lower_idem [simp]: "to_lower (to_lower s) = to_lower s"
  by (simp add: to_lower_def)

lemma to_lower_length [simp]: "length (to_lower s) = length s"
  by (simp add: to_lower_def)

end
