(* ===== verification/Values.thy ===== *)
theory Values
  imports GoStrings
begin

text \<open>
  \<open>milvusapi.Values\<close> (\<open>map[string]any\<close>), the free-form trees of the engine
  configuration and of the Helm values, and \<open>deepMergeValues\<close> of
  \<open>internal/provider/provider.go\<close>, which lays one tree over another.
\<close>

section \<open>Free-form values\<close>

text \<open>
  \<open>VOther\<close> is a scalar the provider only passes on (a float, say), by its text. The
  entries of a \<open>VMap\<close> are in iteration order.
\<close>

datatype val =
    VNull
  | VBool bool
  | VInt int
  | VStr string
  | VOther string
  | VList "val list"
  | VMap "(string \<times> val) list"

type_synonym vmap = "(string \<times> val) list"

text \<open>The type assertions \<open>v.(map[string]any)\<close>, \<open>v.(string)\<close> and \<open>v.(bool)\<close>.\<close>

fun as_map :: "val \<Rightarrow> vmap option" where
  "as_map (VMap m) = Some m"
| "as_map _ = None"

fun as_str :: "val \<Rightarrow> string option" where
  "as_str (VStr s) = Some s"
| "as_str _ = None"

fun as_bool :: "val \<Rightarrow> bool option" where
  "as_bool (VBool b) = Some b"
| "as_bool _ = None"

lemma as_map_Some [simp]: "as_map v = Some m \<longleftrightarrow> v = VMap m"
  by (cases v) auto

lemma as_str_Some [simp]: "as_str v = Some s \<longleftrightarrow> v = VStr s"
  by (cases v) auto

lemma as_bool_Some [simp]: "as_bool v = Some b \<longleftrightarrow> v = VBool b"
  by (cases v) auto

text \<open>
  \<open>x, _ := m[key].(map[string]any)\<close> and \<open>s, _ := m[key].(string)\<close>: a missing key or
  another type gives the zero value, the nil map or the empty string.
\<close>

definition sub_map :: "vmap \<Rightarrow> string \<Rightarrow> vmap" where
  "sub_map m k = deref (Option.bind (map_of m k) as_map) []"

definition sub_str :: "vmap \<Rightarrow> string \<Rightarrow> string" where
  "sub_str m k = deref (Option.bind (map_of m k) as_str) ''''"

section \<open>Deep merge\<close>

lemma size_as_map: "as_map v = Some m \<Longrightarrow> size_list (size_prod (\<lambda>_. 0) size) m < size v"
  by (cases v) auto

function deepMergeValues :: "vmap \<Rightarrow> vmap \<Rightarrow> vmap" where
  "deepMergeValues dst [] = dst"
| "deepMergeValues dst ((key, srcVal) # src) =
     (case as_map srcVal of
        None \<Rightarrow> deepMergeValues (AList.update key srcVal dst) src
      | Some srcMap \<Rightarrow>
          (case Option.bind (map_of dst key) as_map of
             None \<Rightarrow> deepMergeValues (AList.update key srcVal dst) src
           | Some dstMap \<Rightarrow>
               deepMergeValues
                 (AList.update key (VMap (deepMergeValues dstMap srcMap)) dst) src))"
  by pat_completeness auto
termination
  by (relation "measure (\<lambda>(d, s). size_list (size_prod (\<lambda>_. 0) size) s)")
     (auto dest: size_as_map)

text \<open>What happens at one key: maps are merged, anything else is replaced.\<close>

definition merge_val :: "val option \<Rightarrow> val \<Rightarrow> val" where
  "merge_val old new =
     (case (as_map new, Option.bind old as_map) of
        (Some s, Some d) \<Rightarrow> VMap (deepMergeValues d s)
      | _ \<Rightarrow> new)"

lemma deepMergeValues_Cons:
  "deepMergeValues d ((k, v) # s) = deepMergeValues (AList.update k (merge_val (map_of d k) v) d) s"
  by (auto simp: merge_val_def split: option.splits)

lemma deepMergeValues_not_in:
  "k \<notin> set (keys s) \<Longrightarrow> map_of (deepMergeValues d s) k = map_of d k"
proof (induction s arbitrary: d)
  case (Cons kv s)
  obtain k' v where kv: "kv = (k', v)" by (cases kv)
  with Cons.prems have "k \<noteq> k'" "k \<notin> set (keys s)" by auto
  with kv show ?case
    by (simp add: deepMergeValues_Cons Cons.IH alist_simps del: deepMergeValues.simps)
qed simp

text \<open>
  The whole function at the top level: a key of the overlay gets the merged value, any
  other key keeps the value it had. Only lookups in the overlay appear on the right, so the
  order in which Go visits the overlay does not matter.
\<close>

lemma deepMergeValues_lookup:
  "distinct (keys s) \<Longrightarrow>
   map_of (deepMergeValues d s) k =
     (case map_of s k of None \<Rightarrow> map_of d k | Some v \<Rightarrow> Some (merge_val (map_of d k) v))"
proof (induction s arbitrary: d)
  case (Cons kv s)
  obtain k' v where kv: "kv = (k', v)" by (cases kv)
  show ?case
  proof (cases "k = k'")
    case True
    with Cons.prems kv have "k \<notin> set (keys s)" by auto
    with True kv show ?thesis
      by (simp add: deepMergeValues_Cons deepMergeValues_not_in alist_simps
          del: deepMergeValues.simps)
  next
    case False
    with Cons kv show ?thesis
      by (simp add: deepMergeValues_Cons alist_simps split: option.split
          del: deepMergeValues.simps)
  qed
qed simp

lemma deepMergeValues_keys:
  "set (keys (deepMergeValues d s)) = set (keys d) \<union> set (keys s)"
proof (induction s arbitrary: d)
  case (Cons kv s)
  then show ?case
    by (cases kv) (simp add: deepMergeValues_Cons dom_update del: deepMergeValues.simps)
qed simp

section \<open>Well-formed trees and paths\<close>

text \<open>A Go map has one value per key, at every level of the tree.\<close>

fun wf_val :: "val \<Rightarrow> bool" where
  "wf_val (VMap m) = (distinct (map fst m) \<and> (\<forall>kv\<in>set m. wf_val (snd kv)))"
| "wf_val (VList xs) = (\<forall>x\<in>set xs. wf_val x)"
| "wf_val _ = True"

definition wf_vmap :: "vmap \<Rightarrow> bool" where
  "wf_vmap m \<longleftrightarrow> wf_val (VMap m)"

text \<open>The value at a path of keys.\<close>

fun at_path :: "string list \<Rightarrow> vmap \<Rightarrow> val option" where
  "at_path [] m = Some (VMap m)"
| "at_path (k # ks) m =
     (case map_of m k of
        None \<Rightarrow> None
      | Some v \<Rightarrow> if ks = [] then Some v
                  else (case as_map v of None \<Rightarrow> None | Some m' \<Rightarrow> at_path ks m'))"

text \<open>The overlay says nothing about a path: no value at it, and no leaf above it.\<close>

fun untouched :: "string list \<Rightarrow> vmap \<Rightarrow> bool" where
  "untouched [] s = False"
| "untouched (k # ks) s =
     (case map_of s k of
        None \<Rightarrow> True
      | Some v \<Rightarrow> (case as_map v of None \<Rightarrow> False | Some s' \<Rightarrow> ks \<noteq> [] \<and> untouched ks s'))"

lemma wf_vmap_lookup:
  assumes "wf_vmap s" "map_of s k = Some v"
  shows "wf_val v"
  using assms by (fastforce simp: wf_vmap_def dest: map_of_SomeD)

lemma wf_vmap_distinct: "wf_vmap s \<Longrightarrow> distinct (keys s)"
  by (simp add: wf_vmap_def)

lemma untouched_at_path: "untouched p s \<Longrightarrow> at_path p s = None"
  by (induction p s rule: untouched.induct) (auto split: option.splits if_splits)

lemma deepMerge_leaf:
  assumes "wf_vmap s" "at_path p s = Some v" "as_map v = None"
  shows "at_path p (deepMergeValues d s) = Some v"
  using assms
proof (induction p arbitrary: d s)
  case (Cons k ks)
  from Cons.prems(2) obtain u where u: "map_of s k = Some u"
    by (auto split: option.splits)
  note look = deepMergeValues_lookup [OF wf_vmap_distinct [OF Cons.prems(1)], of d k]
  show ?case
  proof (cases "ks = []")
    case True
    with Cons.prems u have "u = v" "as_map u = None" by auto
    with look u True show ?thesis by (simp add: merge_val_def)
  next
    case False
    with Cons.prems u obtain s' where s': "u = VMap s'" "at_path ks s' = Some v"
      by (auto split: option.splits)
    have wf: "wf_vmap s'"
      using wf_vmap_lookup [OF Cons.prems(1) u] s'(1) by (simp add: wf_vmap_def)
    have "at_path ks (deepMergeValues d' s') = Some v" for d'
      by (rule Cons.IH [OF wf s'(2) Cons.prems(3)])
    with look u s' False show ?thesis
      by (auto simp: merge_val_def split: option.splits)
  qed
qed (auto simp: wf_vmap_def)

lemma deepMerge_untouched:
  assumes "wf_vmap s" "untouched p s"
  shows "at_path p (deepMergeValues d s) = at_path p d"
  using assms
proof (induction p arbitrary: d s)
  case (Cons k ks)
  note look = deepMergeValues_lookup [OF wf_vmap_distinct [OF Cons.prems(1)], of d k]
  show ?case
  proof (cases "map_of s k")
    case None
    with look show ?thesis by simp
  next
    case (Some u)
    with Cons.prems obtain s' where s': "u = VMap s'" "ks \<noteq> []" "untouched ks s'"
      by (auto split: option.splits)
    have wf: "wf_vmap s'"
      using wf_vmap_lookup [OF Cons.prems(1) Some] s'(1) by (simp add: wf_vmap_def)
    have IH: "at_path ks (deepMergeValues d' s') = at_path ks d'" for d'
      by (rule Cons.IH [OF wf s'(3)])
    have "at_path ks s' = None" by (rule untouched_at_path [OF s'(3)])
    with look Some s' IH show ?thesis
      by (auto simp: merge_val_def split: option.splits)
  qed
qed simp

section \<open>Properties\<close>

text \<open>
  C35: an overlay wins where it speaks and nowhere else. At any path, \<open>deepMergeValues\<close> has
  the overlay's leaf if it has one there, and the base's value if the overlay does not
  mention the path; no other setting of either is lost, at any depth, in whatever order the
  entries are visited.
\<close>

theorem deep_merge_overlay:
  assumes "wf_vmap src"
  shows "(\<forall>path v. at_path path src = Some v \<and> as_map v = None \<longrightarrow>
      at_path path (deepMergeValues dst src) = Some v) \<and>
    (\<forall>path. untouched path src \<longrightarrow> at_path path (deepMergeValues dst src) = at_path path dst) \<and>
    set (keys (deepMergeValues dst src)) = set (keys dst) \<union> set (keys src)"
  using deepMerge_leaf [OF assms] deepMerge_untouched [OF assms] deepMergeValues_keys by blast

theorem deep_merge_overlay_witness:
  "at_path [''minio'', ''bucketName''] (deepMergeValues
      [(''minio'', VMap [(''bucketName'', VStr ''old''), (''useSSL'', VBool True)])]
      [(''minio'', VMap [(''bucketName'', VStr ''new'')])]) = Some (VStr ''new'')"
proof -
  let ?src = "[(''minio'', VMap [(''bucketName'', VStr ''new'')])]"
  have wf: "wf_vmap ?src" by (simp add: wf_vmap_def)
  have "at_path [''minio'', ''bucketName''] ?src = Some (VStr ''new'') \<and> as_map (VStr ''new'') = None" by simp
  with deep_merge_overlay [OF wf] show ?thesis by blast
qed

end
