(* ===== verification/GoFormat.thy ===== *)
theory GoFormat
  imports GoStrings
begin

text \<open>
  Formatting and parsing of Go's standard library: decimal integers (\<open>%d\<close>,
  \<open>strconv.Itoa\<close>, \<open>strconv.Atoi\<close>), quoted strings (\<open>%q\<close>) and
  \<open>host:port\<close> pairs (\<open>net.SplitHostPort\<close>, \<open>net.JoinHostPort\<close>).
\<close>

section \<open>Decimal integers\<close>

definition digit_char :: "nat \<Rightarrow> char" where
  "digit_char d = ''0123456789'' ! d"

definition char_digit :: "char \<Rightarrow> nat option" where
  "char_digit c = (let n = of_char c in if 48 \<le> n \<and> n \<le> 57 then Some (n - 48) else None)"

fun nat_digits :: "nat \<Rightarrow> string" where
  "nat_digits n = (if n < 10 then [digit_char n] else nat_digits (n div 10) @ [digit_char (n mod 10)])"

declare nat_digits.simps [simp del]

definition itoa :: "int \<Rightarrow> string" where
  "itoa n = (if n < 0 then CHR ''-'' # nat_digits (nat (- n)) else nat_digits (nat n))"

fun digits_value :: "nat \<Rightarrow> string \<Rightarrow> nat option" where
  "digits_value acc [] = Some acc"
| "digits_value acc (c # cs) =
     (case char_digit c of None \<Rightarrow> None | Some d \<Rightarrow> digits_value (acc * 10 + d) cs)"

text \<open>\<open>strconv.Atoi\<close>: an optional sign, at least one digit, and a value that fits 64 bits.\<close>

definition atoi_digits :: "string \<Rightarrow> nat option" where
  "atoi_digits s = (if s = [] then None else digits_value 0 s)"

definition atoi_unbounded :: "string \<Rightarrow> int option" where
  "atoi_unbounded s =
     (case s of
        [] \<Rightarrow> None
      | c # cs \<Rightarrow>
          if c = CHR ''-'' then map_option (\<lambda>n. - int n) (atoi_digits cs)
          else if c = CHR ''+'' then map_option int (atoi_digits cs)
          else map_option int (atoi_digits s))"

definition is_int64 :: "int \<Rightarrow> bool" where
  "is_int64 n \<longleftrightarrow> - (2 ^ 63) \<le> n \<and> n < 2 ^ 63"

text \<open>Arithmetic on a Go \<open>int\<close> wraps around at 64 bits.\<close>

definition wrap64 :: "int \<Rightarrow> int" where
  "wrap64 x = (x + 2 ^ 63) mod 2 ^ 64 - 2 ^ 63"

lemma wrap64_id: "is_int64 x \<Longrightarrow> wrap64 x = x"
  by (simp add: wrap64_def is_int64_def)

definition atoi :: "string \<Rightarrow> int option" where
  "atoi s = (case atoi_unbounded s of None \<Rightarrow> None | Some n \<Rightarrow> if is_int64 n then Some n else None)"

lemma char_digit_digit_char [simp]: "d < 10 \<Longrightarrow> char_digit (digit_char d) = Some d"
proof -
  assume "d < 10"
  then have "d \<in> {0, 1, 2, 3, 4, 5, 6, 7, 8, 9}" unfolding insert_iff empty_iff by arith
  then show ?thesis by (auto simp: char_digit_def digit_char_def)
qed

lemma digits_value_append:
  "digits_value a (xs @ ys) = (case digits_value a xs of None \<Rightarrow> None | Some b \<Rightarrow> digits_value b ys)"
  by (induction xs arbitrary: a) (auto split: option.splits)

lemma nat_digits_not_Nil [simp]: "nat_digits n \<noteq> []"
  by (subst nat_digits.simps) simp

lemma digits_value_nat_digits: "digits_value 0 (nat_digits n) = Some n"
proof (induction n rule: nat_digits.induct)
  case (1 n)
  show ?case
  proof (cases "n < 10")
    case True
    then show ?thesis by (subst nat_digits.simps) simp
  next
    case False
    with 1 show ?thesis by (subst nat_digits.simps) (simp add: digits_value_append)
  qed
qed

lemma nat_digits_digit: "c \<in> set (nat_digits n) \<Longrightarrow> \<exists>d<10. c = digit_char d"
proof (induction n rule: nat_digits.induct)
  case (1 n)
  show ?case
  proof (cases "n < 10")
    case True
    with 1 have "c = digit_char n" by (simp add: nat_digits.simps [of n])
    with True show ?thesis by blast
  next
    case False
    with "1.prems" consider "c \<in> set (nat_digits (n div 10))" | "c = digit_char (n mod 10)"
      by (auto simp: nat_digits.simps [of n])
    then show ?thesis
    proof cases
      case 1
      with "1.IH" False show ?thesis by blast
    next
      case 2
      then show ?thesis by (intro exI [of _ "n mod 10"]) simp
    qed
  qed
qed

lemma digit_char_range:
  assumes "d < 10"
  shows "48 \<le> (of_char (digit_char d) :: nat) \<and> (of_char (digit_char d) :: nat) \<le> 57"
  using char_digit_digit_char [OF assms] by (auto simp: char_digit_def Let_def split: if_splits)

lemma nat_digits_no_char:
  assumes "(of_char c :: nat) < 48 \<or> 57 < (of_char c :: nat)"
  shows "c \<notin> set (nat_digits n)"
proof
  assume "c \<in> set (nat_digits n)"
  then obtain d where "d < 10" "c = digit_char d" using nat_digits_digit by blast
  with assms digit_char_range [of d] show False by auto
qed

lemma itoa_no_char:
  assumes "(of_char c :: nat) < 48 \<or> 57 < (of_char c :: nat)" "c \<noteq> CHR ''-''"
  shows "c \<notin> set (itoa n)"
  using nat_digits_no_char [OF assms(1)] assms(2) by (auto simp: itoa_def)

lemma itoa_not_Nil [simp]: "itoa n \<noteq> []"
  by (simp add: itoa_def)

lemma atoi_itoa: "is_int64 n \<Longrightarrow> atoi (itoa n) = Some n"
proof -
  assume n: "is_int64 n"
  have "atoi_unbounded (itoa n) = Some n"
  proof (cases "n < 0")
    case True
    then show ?thesis
      by (simp add: atoi_unbounded_def itoa_def atoi_digits_def digits_value_nat_digits)
  next
    case False
    obtain c cs where s: "nat_digits (nat n) = c # cs" by (cases "nat_digits (nat n)") auto
    have "CHR ''-'' \<notin> set (nat_digits (nat n))" "CHR ''+'' \<notin> set (nat_digits (nat n))"
      by (rule nat_digits_no_char, simp)+
    with s False show ?thesis
      using digits_value_nat_digits [of "nat n"]
      by (auto simp: atoi_unbounded_def itoa_def atoi_digits_def)
  qed
  with n show ?thesis by (simp add: atoi_def)
qed

lemma atoi_int64: "atoi s = Some n \<Longrightarrow> is_int64 n"
  by (auto simp: atoi_def split: option.splits if_splits)

section \<open>Quoted strings\<close>

text \<open>
  \<open>%q\<close>: double quotes around the string, with \<open>strconv.Quote\<close>'s escapes. Bytes above
  126 stand for valid UTF-8 here and are kept.
\<close>

definition hex_digit :: "nat \<Rightarrow> char" where
  "hex_digit d = ''0123456789abcdef'' ! d"

definition quote_char :: "char \<Rightarrow> string" where
  "quote_char c =
     (if c = CHR 0x22 then [CHR 0x5C, CHR 0x22]
      else if c = CHR 0x5C then [CHR 0x5C, CHR 0x5C]
      else if c = CHR 0x07 then [CHR 0x5C, CHR ''a'']
      else if c = CHR 0x08 then [CHR 0x5C, CHR ''b'']
      else if c = CHR 0x0C then [CHR 0x5C, CHR ''f'']
      else if c = CHR 0x0A then [CHR 0x5C, CHR ''n'']
      else if c = CHR 0x0D then [CHR 0x5C, CHR ''r'']
      else if c = CHR 0x09 then [CHR 0x5C, CHR ''t'']
      else if c = CHR 0x0B then [CHR 0x5C, CHR ''v'']
      else if (of_char c :: nat) < 32 \<or> c = CHR 0x7F
      then [CHR 0x5C, CHR ''x'', hex_digit (of_char c div 16), hex_digit (of_char c mod 16)]
      else [c])"

definition quote :: "string \<Rightarrow> string" where
  "quote s = [CHR 0x22] @ concat (map quote_char s) @ [CHR 0x22]"

section \<open>Host and port\<close>

definition split_host_port :: "string \<Rightarrow> (string \<times> string) option" where
  "split_host_port hostport =
     (case cut_last (CHR '':'') hostport of
        None \<Rightarrow> None
      | Some (before, port) \<Rightarrow>
          if take 1 hostport = ''[''
          then (case cut_first (CHR '']'') hostport of
                  None \<Rightarrow> None
                | Some (inside, after) \<Rightarrow>
                    let host = drop 1 inside in
                    if after = CHR '':'' # port \<and> CHR ''['' \<notin> set host
                       \<and> CHR ''['' \<notin> set after \<and> CHR '']'' \<notin> set after
                    then Some (host, port) else None)
          else if CHR '':'' \<in> set before \<or> CHR ''['' \<in> set hostport \<or> CHR '']'' \<in> set hostport
          then None else Some (before, port))"

definition join_host_port :: "string \<Rightarrow> string \<Rightarrow> string" where
  "join_host_port host port =
     (if CHR '':'' \<in> set host then ''['' @ host @ '']:'' @ port else host @ '':'' @ port)"

lemma split_join_host_port:
  assumes "CHR ''['' \<notin> set host" "CHR '']'' \<notin> set host"
    and "CHR '':'' \<notin> set port" "CHR ''['' \<notin> set port" "CHR '']'' \<notin> set port"
  shows "split_host_port (join_host_port host port) = Some (host, port)"
proof (cases "CHR '':'' \<in> set host")
  case True
  have 1: "cut_last (CHR '':'') (''['' @ host @ '']:'' @ port) = Some (''['' @ host @ '']'', port)"
    using cut_last_append [OF assms(3), of "''['' @ host @ '']''"] by simp
  have 2: "cut_first (CHR '']'') (''['' @ host @ '']:'' @ port) = Some (''['' @ host, '':'' @ port)"
    using cut_first_append [of "CHR '']''" "''['' @ host" "'':'' @ port"] assms(2) by simp
  from True 1 2 assms show ?thesis
    by (simp add: split_host_port_def join_host_port_def del: cut_first.simps cut_last.simps)
next
  case False
  have "cut_last (CHR '':'') (host @ '':'' @ port) = Some (host, port)"
    using cut_last_append [OF assms(3), of host] by simp
  moreover have "take 1 (host @ '':'' @ port) \<noteq> ''[''"
    using assms(1) by (cases host) auto
  ultimately show ?thesis
    using False assms
    by (simp add: split_host_port_def join_host_port_def del: cut_first.simps cut_last.simps)
qed

lemma split_host_port_Some:
  "split_host_port s = Some (h, p) \<Longrightarrow> CHR ''['' \<notin> set h \<and> CHR '']'' \<notin> set h \<and> CHR '':'' \<notin> set p"
  by (auto simp: split_host_port_def Let_def split: option.splits prod.splits if_splits
      dest!: cut_last_Some cut_first_Some dest: in_set_dropD)

end
