(* ===== verification/KubeTypes.thy ===== *)
theory KubeTypes
  imports Values GoFormat
begin

text \<open>
  The Kubernetes and OpenEverest objects the provider reads and writes, cut down to the
  fields its code touches. They are data of the API, not of this repository; a field the
  code only passes on (an affinity, a toleration) is a free-form \<open>val\<close>. A Go pointer is an
  \<open>option\<close>, and an absent string is the empty string, as in Go.
\<close>

type_synonym labels = "(string \<times> string) list"

text \<open>Times are nanoseconds since 1970-01-01 UTC.\<close>

type_synonym time = int

section \<open>Quantities, environment variables, probes\<close>

text \<open>
  A \<open>resource.Quantity\<close> is an exact multiple of one billionth; \<open>Cmp\<close> compares the
  amounts, and the text is what \<open>String\<close> prints.
\<close>

record quantity =
  q_amount :: int
  q_string :: string

definition Cmp :: "quantity \<Rightarrow> quantity \<Rightarrow> int" where
  "Cmp a b = (if q_amount a < q_amount b then -1 else if q_amount a = q_amount b then 0 else 1)"

lemma Cmp_less [simp]: "Cmp a b < 0 \<longleftrightarrow> q_amount a < q_amount b"
  by (simp add: Cmp_def)

lemma Cmp_greater [simp]: "0 < Cmp a b \<longleftrightarrow> q_amount b < q_amount a"
  by (auto simp: Cmp_def)

type_synonym resource_list = "(string \<times> quantity) list"

record ResourceRequirements =
  rr_Limits :: resource_list
  rr_Requests :: resource_list

record ObjectFieldSelector =
  ofs_APIVersion :: string
  ofs_FieldPath :: string

record SecretKeySelector =
  sks_Name :: string
  sks_Key :: string

record EnvVarSource =
  evs_FieldRef :: "ObjectFieldSelector option"
  evs_SecretKeyRef :: "SecretKeySelector option"
  evs_Other :: val

record EnvVar =
  env_Name :: string
  env_Value :: string
  env_ValueFrom :: "EnvVarSource option"

datatype probe_handler = TCPSocket int | HTTPGet string int string

record Probe =
  pr_Handler :: probe_handler
  pr_InitialDelaySeconds :: int
  pr_TimeoutSeconds :: int
  pr_PeriodSeconds :: int
  pr_SuccessThreshold :: int
  pr_FailureThreshold :: int

text \<open>The parts of a \<open>corev1.Volume\<close> the API server gives defaults to.\<close>

record DownwardAPIItem =
  dai_Path :: string
  dai_FieldRef :: "ObjectFieldSelector option"

record DownwardAPISource =
  das_DefaultMode :: "int option"
  das_Items :: "DownwardAPIItem list"

record ProjectedSource =
  pjs_DefaultMode :: "int option"
  pjs_Sources :: "DownwardAPIItem list option list"

record Volume =
  vol_Name :: string
  vol_HostPathType :: "string option option"
  vol_DownwardAPI :: "DownwardAPISource option"
  vol_Projected :: "ProjectedSource option"
  vol_Other :: val

record Container =
  con_Name :: string
  con_Image :: string
  con_Env :: "EnvVar list"
  con_Other :: val

section \<open>The Instance\<close>

record ExposedService =
  es_ServiceType :: string
  es_Annotations :: labels

record SchedulingPolicy =
  sp_SchedulerName :: string
  sp_NodeSelector :: labels
  sp_Affinity :: "val option"
  sp_Tolerations :: "val list"
  sp_TopologySpread :: "val list"

text \<open>\<open>corev1alpha1.ComponentSpec\<close>; the parameters are the raw JSON text.\<close>

record InstanceComponent =
  ic_Replicas :: "int option"
  ic_Resources :: "ResourceRequirements option"
  ic_Storage :: "val option"
  ic_Version :: string
  ic_Image :: string
  ic_Parameters :: "string option"
  ic_SchedulingPolicy :: "SchedulingPolicy option"
  ic_Service :: "ExposedService option"

definition zero_InstanceComponent :: InstanceComponent where
  "zero_InstanceComponent =
     \<lparr>ic_Replicas = None, ic_Resources = None, ic_Storage = None, ic_Version = '''',
      ic_Image = '''', ic_Parameters = None, ic_SchedulingPolicy = None, ic_Service = None\<rparr>"

text \<open>Indexing a Go map with a missing key gives the zero value.\<close>

type_synonym instance_components = "(string \<times> InstanceComponent) list"

definition component_at :: "instance_components \<Rightarrow> string \<Rightarrow> InstanceComponent" where
  "component_at cs name = deref (map_of cs name) zero_InstanceComponent"

datatype retention_type = RetentionCount | RetentionTime | RetentionOther

record Retention =
  ret_Type :: retention_type
  ret_Count :: "int option"
  ret_Duration :: string

record BackupSchedule =
  sch_Name :: string
  sch_Enabled :: bool
  sch_Cron :: string
  sch_Parameters :: "string option"
  sch_Retention :: "Retention option"

record InstanceBackupStorage =
  ibs_StorageRef :: string
  ibs_Schedules :: "BackupSchedule list"

record InstanceBackup =
  ib_Enabled :: bool
  ib_ClassRef :: string
  ib_Storages :: "InstanceBackupStorage list"

record InstanceTopology =
  top_Type :: string
  top_Parameters :: "string option"

record Instance =
  in_Components :: instance_components
  in_Topology :: "InstanceTopology option"
  in_Version :: string
  in_ProviderRef :: string
  in_Backup :: "InstanceBackup option"
  in_HasDataSource :: bool

text \<open>The provider's catalog is read through the runtime's functions only.\<close>

type_synonym ProviderSpec = val

record VersionBundle =
  vb_Components :: labels

section \<open>Objects of the cluster\<close>

record ObjectMeta =
  om_Name :: string
  om_Namespace :: string
  om_Labels :: labels

record Secret =
  sec_Meta :: ObjectMeta
  sec_Type :: string
  sec_Data :: "(string \<times> string) list"

record ConfigMap =
  cm_Meta :: ObjectMeta
  cm_Data :: "(string \<times> string) list"

record ServicePort =
  sport_Name :: string
  sport_Port :: int
  sport_NodePort :: int

type_synonym KubeService = "ServicePort list"

text \<open>A node is its addresses, each with its type.\<close>

type_synonym Node = "(string \<times> string) list"

text \<open>A Deployment or a StatefulSet.\<close>

record Workload =
  wl_Name :: string
  wl_Labels :: labels
  wl_Annotations :: labels
  wl_Replicas :: "int option"
  wl_ReadyReplicas :: int

text \<open>A pod, by the termination message of each of its containers that has terminated.\<close>

type_synonym Pod = "string option list"

record PodMonitor =
  pm_Meta :: ObjectMeta
  pm_Owner :: "(string \<times> string) option"
  pm_UID :: string
  pm_Selector :: labels
  pm_PodTargetLabels :: "string list"
  pm_Port :: string
  pm_Path :: string
  pm_Interval :: string

end
