(* ===== verification/MilvusTypes.thy ===== *)
theory MilvusTypes
  imports KubeTypes
begin

text \<open>
  \<open>internal/milvusapi/milvus_types.go\<close>: the Milvus custom resource the provider renders and
  the operator acts on. A Go struct that embeds another is a record that extends it, so a
  function on \<open>*ComponentSpec\<close> is a function on every record that embeds one.
\<close>

section \<open>Constants\<close>

definition GroupVersion :: string where
  "GroupVersion = ''milvus.io/v1beta1''"

definition MilvusModeCluster :: string where
  "MilvusModeCluster = ''cluster''"

definition MilvusModeStandalone :: string where
  "MilvusModeStandalone = ''standalone''"

definition ImageUpdateModeRollingUpgrade :: string where
  "ImageUpdateModeRollingUpgrade = ''rollingUpgrade''"

definition ImageUpdateModeAll :: string where
  "ImageUpdateModeAll = ''all''"

definition ConditionMilvusUpdated :: string where
  "ConditionMilvusUpdated = ''MilvusUpdated''"

text \<open>\<open>MilvusHealthStatus\<close> is a string type; the last constructor is any other string.\<close>

datatype health_status =
    StatusPending | StatusHealthy | StatusUnhealthy | StatusStopped | StatusDeleting
  | StatusOther string

section \<open>Components\<close>

record Probes =
  StartupProbe :: "Probe option"
  LivenessProbe :: "Probe option"
  ReadinessProbe :: "Probe option"

record ComponentSpec =
  Image :: string
  Version :: string
  Resources :: "ResourceRequirements option"
  PodLabels :: labels
  SchedulerName :: string
  NodeSelector :: labels
  Affinity :: "val option"
  Tolerations :: "val list"
  TopologySpreadConstraints :: "val list"
  PodAnnotations :: labels
  Env :: "EnvVar list"
  Volumes :: "val list"
  VolumeMounts :: "val list"
  SecurityContext :: "vmap option"
  ServiceAccountName :: string
  ProbesOf :: "Probes option"

text \<open>A metric is the resource and the average utilization to keep, in percent.\<close>

record HPASpec =
  MinReplicas :: "int option"
  MaxReplicas :: int
  Metrics :: "(string \<times> int) list"

record Component = ComponentSpec +
  Replicas :: "int option"
  InitContainers :: "val list"
  HPA :: "HPASpec option"

record ServiceComponent = Component +
  Port :: int
  ServiceType :: string
  ServiceAnnotations :: labels

type_synonym MilvusStandalone = ServiceComponent

text \<open>
  An unset placement (\<open>None\<close>) of a group inherits the component's; a set one, even empty,
  overrides it.
\<close>

record DeploymentGroup =
  GroupName :: string
  GroupReplicas :: "int option"
  GroupAnnotations :: labels
  ExtraEnv :: "EnvVar list"
  GroupNodeSelector :: "labels option"
  GroupAffinity :: "val option"
  GroupTolerations :: "val list option"

record MilvusProxy = ServiceComponent +
  ProxyGroups :: "DeploymentGroup list"

type_synonym MilvusMixCoord = Component

text \<open>\<open>MilvusDataNode\<close>, \<open>MilvusQueryNode\<close> and \<open>MilvusStreamingNode\<close> have the same fields.\<close>

record MilvusNode = Component +
  NodeGroups :: "DeploymentGroup list"

record MilvusComponents = ComponentSpec +
  ImageUpdateMode :: string
  Standalone :: "MilvusStandalone option"
  Proxy :: "MilvusProxy option"
  MixCoord :: "MilvusMixCoord option"
  DataNode :: "MilvusNode option"
  QueryNode :: "MilvusNode option"
  StreamingNode :: "MilvusNode option"
  EnableManualMode :: bool
  DisableMetric :: bool

section \<open>Dependencies\<close>

record InClusterConfig =
  HelmValues :: vmap
  DeletionPolicy :: string
  PVCDeletion :: bool

record MilvusEtcd =
  EtcdEndpoints :: "string list"
  EtcdExternal :: bool
  EtcdInCluster :: "InClusterConfig option"

record MilvusPulsar =
  PulsarInCluster :: "InClusterConfig option"
  PulsarExternal :: bool
  PulsarEndpoint :: string

record MilvusStorage =
  StorageType :: string
  StorageSecretRef :: string
  StorageEndpoint :: string
  StorageInCluster :: "InClusterConfig option"
  StorageExternal :: bool

record MilvusDependencies =
  DepEtcd :: MilvusEtcd
  MsgStreamType :: string
  DepPulsar :: MilvusPulsar
  DepStorage :: MilvusStorage

section \<open>The custom resource\<close>

text \<open>\<open>Conf\<close> is a Go map that may be nil, which the code tells apart from an empty one.\<close>

record MilvusSpec =
  Mode :: string
  Com :: MilvusComponents
  Dep :: "MilvusDependencies option"
  Conf :: "vmap option"

datatype cond_status = CondTrue | CondFalse | CondUnknown

record MilvusCondition =
  CondType :: string
  CondStatus :: cond_status
  CondReason :: string
  CondMessage :: string

record MilvusStatus =
  Status :: health_status
  Endpoint :: string
  Conditions :: "MilvusCondition list"
  ObservedGeneration :: int

record Milvus =
  MilvusName :: string
  MilvusNamespace :: string
  Generation :: int
  Spec :: MilvusSpec
  CRStatus :: MilvusStatus

section \<open>Zero values\<close>

text \<open>The fields a Go composite literal leaves out.\<close>

definition zero_ComponentSpec :: ComponentSpec where
  "zero_ComponentSpec =
     \<lparr>Image = '''', Version = '''', Resources = None, PodLabels = [], SchedulerName = '''',
      NodeSelector = [], Affinity = None, Tolerations = [], TopologySpreadConstraints = [],
      PodAnnotations = [], Env = [], Volumes = [], VolumeMounts = [], SecurityContext = None,
      ServiceAccountName = '''', ProbesOf = None\<rparr>"

definition zero_Component :: Component where
  "zero_Component =
     ComponentSpec.extend zero_ComponentSpec
       (Component.fields None [] None)"

definition zero_MilvusComponents :: MilvusComponents where
  "zero_MilvusComponents =
     ComponentSpec.extend zero_ComponentSpec
       (MilvusComponents.fields '''' None None None None None None False False)"

definition zero_MilvusPulsar :: MilvusPulsar where
  "zero_MilvusPulsar = \<lparr>PulsarInCluster = None, PulsarExternal = False, PulsarEndpoint = ''''\<rparr>"

definition zero_MilvusEtcd :: MilvusEtcd where
  "zero_MilvusEtcd = \<lparr>EtcdEndpoints = [], EtcdExternal = False, EtcdInCluster = None\<rparr>"

definition zero_MilvusStorage :: MilvusStorage where
  "zero_MilvusStorage =
     \<lparr>StorageType = '''', StorageSecretRef = '''', StorageEndpoint = '''',
      StorageInCluster = None, StorageExternal = False\<rparr>"

lemmas zero_component_defs =
  zero_ComponentSpec_def zero_Component_def zero_MilvusComponents_def ComponentSpec.defs
  Component.defs MilvusComponents.defs

lemma zero_component_simps [simp]:
  "Standalone zero_MilvusComponents = None" "Proxy zero_MilvusComponents = None"
  "MixCoord zero_MilvusComponents = None" "DataNode zero_MilvusComponents = None"
  "QueryNode zero_MilvusComponents = None" "StreamingNode zero_MilvusComponents = None"
  "Replicas zero_Component = None" "HPA zero_Component = None"
  "Volumes zero_Component = []" "InitContainers zero_Component = []"
  "ProbesOf zero_ComponentSpec = None"
  by (simp_all add: zero_component_defs)

end
