(* ===== verification/ParamTypes.thy ===== *)
theory ParamTypes
  imports KubeTypes
begin

text \<open>
  The parameter types under \<open>definition/\<close>: the bundled dependencies
  (\<open>definition/dependencies/types.go\<close>), the component parameters
  (\<open>definition/components/types.go\<close>), monitoring, the two topologies and the backup class.
  They are what the JSON of an Instance's parameters decodes into.
\<close>

section \<open>Dependencies\<close>

definition MessageStreamWoodpecker :: string where
  "MessageStreamWoodpecker = ''woodpecker''"

definition MessageStreamPulsar :: string where
  "MessageStreamPulsar = ''pulsar''"

text \<open>
  \<open>Quantity.UnmarshalJSON\<close>: a JSON string or a bare number. \<open>dec\<close> decodes a JSON string
  literal (\<open>json.Unmarshal\<close>); an empty or null document leaves the value as it was.
\<close>

type_synonym Quantity = string

definition UnmarshalJSON :: "(string \<Rightarrow> string result) \<Rightarrow> Quantity \<Rightarrow> string \<Rightarrow> Quantity result" where
  "UnmarshalJSON dec q data =
     (let d = trim_space data in
      if d = [] \<or> d = ''null'' then Inr q
      else if hd d = CHR 0x22 then dec d
      else Inr d)"

record ResourceList =
  CPU :: Quantity
  Memory :: Quantity

record DepResources =
  Requests :: "ResourceList option"
  Limits :: "ResourceList option"

record Persistence =
  Size :: string

record Etcd =
  etcd_External :: bool
  etcd_Endpoints :: "string list"
  etcd_RootPath :: string
  etcd_Replicas :: "int option"
  etcd_Resources :: "DepResources option"
  etcd_Persistence :: "Persistence option"

record Storage =
  st_BackupStorageName :: string
  st_External :: bool
  st_Endpoint :: string
  st_Type :: string
  st_CredentialsSecret :: string
  st_UseIAM :: bool
  st_ServiceAccountName :: string
  st_Region :: string
  st_CloudProvider :: string
  st_RootPath :: string
  st_Bucket :: string
  st_UseSSL :: bool
  st_Replicas :: "int option"
  st_Resources :: "DepResources option"
  st_Persistence :: "Persistence option"

record PulsarComponent =
  pc_Replicas :: "int option"
  pc_Resources :: "DepResources option"

record PulsarBookKeeper =
  bkp_Replicas :: "int option"
  bkp_Resources :: "DepResources option"
  bkp_Journal :: "Persistence option"
  bkp_Ledgers :: "Persistence option"

record PulsarZooKeeper =
  zk_Replicas :: "int option"
  zk_Resources :: "DepResources option"
  zk_Data :: "Persistence option"

record Pulsar =
  pl_External :: bool
  pl_Endpoint :: string
  pl_Broker :: "PulsarComponent option"
  pl_BookKeeper :: "PulsarBookKeeper option"
  pl_ZooKeeper :: "PulsarZooKeeper option"
  pl_Proxy :: "PulsarComponent option"

section \<open>Topologies and monitoring\<close>

record ClusterDependencies =
  cd_Etcd :: "Etcd option"
  cd_MessageStreamType :: string
  cd_Pulsar :: "Pulsar option"
  cd_Storage :: "Storage option"
  cd_StorageClassName :: string

record Prometheus =
  prom_Enabled :: bool
  prom_Interval :: string
  prom_PodMonitorLabels :: labels

record Monitoring =
  mon_Prometheus :: "Prometheus option"

record ClusterTopologyParameters =
  ctp_Dependencies :: "ClusterDependencies option"
  ctp_Monitoring :: "Monitoring option"

record StandaloneDependencies =
  sd_Etcd :: "Etcd option"
  sd_Storage :: "Storage option"
  sd_StorageClassName :: string

record StandaloneTopologyParameters =
  stp_Dependencies :: "StandaloneDependencies option"
  stp_Monitoring :: "Monitoring option"

text \<open>\<open>topologyMonitoring\<close> of \<open>internal/provider/monitoring.go\<close>: the monitoring block alone.\<close>

record topologyMonitoring =
  tm_Monitoring :: "Monitoring option"

section \<open>Component parameters\<close>

record ProbeTuning =
  pt_InitialDelaySeconds :: "int option"
  pt_PeriodSeconds :: "int option"
  pt_TimeoutSeconds :: "int option"
  pt_FailureThreshold :: "int option"

record ProbesParam =
  pp_Startup :: "ProbeTuning option"
  pp_Liveness :: "ProbeTuning option"
  pp_Readiness :: "ProbeTuning option"

record Autoscaling =
  as_MaxReplicas :: int
  as_TargetCPUUtilization :: "int option"
  as_TargetMemoryUtilization :: "int option"

record GroupParam =
  gp_Name :: string
  gp_Replicas :: int
  gp_NodeSelector :: "labels option"
  gp_Tolerations :: "val list option"
  gp_Affinity :: "vmap option"
  gp_Annotations :: labels
  gp_Env :: "EnvVar list"

record PodCustomization =
  pod_Annotations :: labels
  pod_Env :: "EnvVar list"
  pod_Volumes :: "vmap list"
  pod_VolumeMounts :: "val list"
  pod_SecurityContext :: "vmap option"
  pod_InitContainers :: "vmap list"

record MilvusParameters =
  mp_Configuration :: string
  mp_Pod :: "PodCustomization option"
  mp_Groups :: "GroupParam list"
  mp_Autoscaling :: "Autoscaling option"
  mp_Probes :: "ProbesParam option"

section \<open>The backup class\<close>

record MilvusBackupParameters =
  bp_Collections :: string
  bp_IncludeRBAC :: bool

record MilvusRestoreParameters =
  rp_Collections :: string
  rp_CollectionSuffix :: string
  rp_KeepExistingCollections :: bool
  rp_IncludeRBAC :: bool

section \<open>Zero values\<close>

text \<open>What a Go variable of the type holds before anything is decoded into it.\<close>

definition zero_ClusterDependencies :: ClusterDependencies where
  "zero_ClusterDependencies =
     \<lparr>cd_Etcd = None, cd_MessageStreamType = '''', cd_Pulsar = None, cd_Storage = None,
      cd_StorageClassName = ''''\<rparr>"

definition zero_ClusterTopologyParameters :: ClusterTopologyParameters where
  "zero_ClusterTopologyParameters = \<lparr>ctp_Dependencies = None, ctp_Monitoring = None\<rparr>"

definition zero_StandaloneTopologyParameters :: StandaloneTopologyParameters where
  "zero_StandaloneTopologyParameters = \<lparr>stp_Dependencies = None, stp_Monitoring = None\<rparr>"

definition zero_topologyMonitoring :: topologyMonitoring where
  "zero_topologyMonitoring = \<lparr>tm_Monitoring = None\<rparr>"

definition zero_MilvusParameters :: MilvusParameters where
  "zero_MilvusParameters =
     \<lparr>mp_Configuration = '''', mp_Pod = None, mp_Groups = [], mp_Autoscaling = None,
      mp_Probes = None\<rparr>"

definition zero_MilvusBackupParameters :: MilvusBackupParameters where
  "zero_MilvusBackupParameters = \<lparr>bp_Collections = '''', bp_IncludeRBAC = False\<rparr>"

definition zero_MilvusRestoreParameters :: MilvusRestoreParameters where
  "zero_MilvusRestoreParameters =
     \<lparr>rp_Collections = '''', rp_CollectionSuffix = '''', rp_KeepExistingCollections = False,
      rp_IncludeRBAC = False\<rparr>"

end
