(* ===== verification/BackupTypes.thy ===== *)
theory BackupTypes
  imports KubeTypes
begin

text \<open>
  The Backup, Restore and BackupStorage objects of OpenEverest and the Jobs and CronJobs of
  Kubernetes, cut down to the fields the provider's backup code touches. Like
  \<open>KubeTypes\<close>, this is data of the API.
\<close>

section \<open>Jobs\<close>

datatype condition_status = ConditionTrue | ConditionFalse | ConditionUnknown

record JobCondition =
  jc_Type :: string
  jc_Status :: condition_status
  jc_LastTransitionTime :: time

record SecurityContext =
  sc_RunAsNonRoot :: bool
  sc_RunAsUser :: int
  sc_RunAsGroup :: int
  sc_SeccompProfile :: string
  sc_AllowPrivilegeEscalation :: bool
  sc_ReadOnlyRootFilesystem :: bool
  sc_DropCapabilities :: "string list"

record VolumeMount =
  vm_Name :: string
  vm_MountPath :: string
  vm_ReadOnly :: bool

text \<open>A volume of a Job's pod: a ConfigMap by name, or an empty directory.\<close>

datatype job_volume = ConfigMapVolume string string | EmptyDirVolume string

record JobSpec =
  js_BackoffLimit :: int
  js_PodLabels :: labels
  js_RestartPolicy :: string
  js_ServiceAccountName :: string
  js_AutomountServiceAccountToken :: bool
  js_SecurityContext :: SecurityContext
  js_ContainerName :: string
  js_Image :: string
  js_Command :: "string list"
  js_Args :: "string list"
  js_Env :: "EnvVar list"
  js_Resources :: val
  js_TerminationMessagePolicy :: string
  js_VolumeMounts :: "VolumeMount list"
  js_Volumes :: "job_volume list"

record Job =
  job_Name :: string
  job_Namespace :: string
  job_Labels :: labels
  job_Owner :: "string option"
  job_Deleting :: bool
  job_Spec :: JobSpec
  job_Conditions :: "JobCondition list"
  job_StartTime :: "time option"
  job_CompletionTime :: "time option"

record CronJob =
  cj_Meta :: ObjectMeta
  cj_Schedule :: string
  cj_TimeZone :: string
  cj_Suspend :: bool
  cj_ConcurrencyPolicy :: string
  cj_StartingDeadlineSeconds :: int
  cj_SuccessfulJobsHistoryLimit :: int
  cj_FailedJobsHistoryLimit :: int
  cj_JobLabels :: labels
  cj_JobSpec :: JobSpec

section \<open>Backups and restores\<close>

text \<open>The state of a Backup or a Restore; a new object has none.\<close>

datatype op_state =
    StateNone | StatePending | StateRunning | StateSucceeded | StateFailed | StateError
  | StateDeleting

datatype origin_type = OriginInstance | OriginExternal

datatype deletion_policy = PolicyDelete | PolicyRetain

record Backup =
  bk_Name :: string
  bk_Namespace :: string
  bk_Deleting :: bool
  bk_CreationTimestamp :: time
  bk_OriginType :: origin_type
  bk_InstanceRef :: "string option"
  bk_ExternalPath :: "string option"
  bk_ClassRef :: string
  bk_StorageRef :: string
  bk_ScheduleName :: string
  bk_Parameters :: "string option"
  bk_DeletionPolicy :: deletion_policy
  bk_State :: op_state
  bk_Message :: string
  bk_OperatorRef :: "string option"
  bk_StartedAt :: "time option"
  bk_CompletedAt :: "time option"
  bk_Size :: string

record Restore =
  rs_Name :: string
  rs_Namespace :: string
  rs_Deleting :: bool
  rs_InstanceRef :: string
  rs_FromBackup :: bool
  rs_BackupRef :: "string option"
  rs_Parameters :: "string option"
  rs_State :: op_state

record S3Spec =
  s3_EndpointURL :: string
  s3_Bucket :: string
  s3_Region :: string
  s3_VerifyTLS :: "bool option"
  s3_CredentialsSecret :: string

record BackupStorage =
  bs_Name :: string
  bs_Type :: string
  bs_S3 :: "S3Spec option"

text \<open>\<open>controller.BackupExecutionStatus\<close>, also used for restores; the reference names the Job.\<close>

record ExecutionStatus =
  xs_State :: op_state
  xs_Message :: string
  xs_OperatorRef :: "string option"
  xs_StartedAt :: "time option"
  xs_CompletedAt :: "time option"
  xs_Size :: string

record DataSourceStatus =
  ds_State :: string
  ds_Reason :: string
  ds_Message :: string
  ds_Done :: bool

end
