(* ===== verification/Context.thy ===== *)
theory Context
  imports MilvusTypes ParamTypes BackupTypes
begin

text \<open>
  Everything the provider calls that is not in this repository, as the argument
  \<open>c :: 'w ctx\<close> of the definitions that call it (the code's \<open>c *controller.Context\<close>).
  Three records group it:

  \<^item> \<open>lib\<close>: pure functions of third-party packages (quantities, semver, cron, YAML and
    JSON decoders, the runtime's catalog functions);
  \<^item> \<open>'w api\<close>: the Kubernetes API, the Milvus REST API, the random source. \<open>'w\<close> is
    the state of the outside world, about which the development assumes nothing: a read is
    a function of it, a write returns its next value;
  \<^item> \<open>'w ctx\<close>: the Instance under reconciliation and its decoded parameters.

  What a theorem needs of any of these is a named hypothesis of that theorem.
\<close>

section \<open>Library functions\<close>

text \<open>The \<open>minio\<close> section of the config the operator renders; the port by its printed text.\<close>

record MinioSection =
  min_Address :: string
  min_Port :: "string option"
  min_UseSSL :: bool
  min_Region :: string
  min_BucketName :: string
  min_RootPath :: string
  min_UseIAM :: bool
  min_CloudProvider :: string

record lib =
  ParseQuantity :: "string \<Rightarrow> quantity result"
  SemverIsValid :: "string \<Rightarrow> bool"
  SemverCompare :: "string \<Rightarrow> string \<Rightarrow> int"
  CronParseStandard :: "string \<Rightarrow> go_error option"
  IsDNS1123Label :: "string \<Rightarrow> string list"
  IsQualifiedName :: "string \<Rightarrow> string list"
  IsValidLabelValue :: "string \<Rightarrow> string list"
  ParseDuration :: "string \<Rightarrow> go_error option"
  YamlToMap :: "string \<Rightarrow> vmap result"
  YamlToMinio :: "string \<Rightarrow> MinioSection result"
  YamlMarshal :: "val \<Rightarrow> string result"
  UrlParse :: "string \<Rightarrow> (string \<times> string) result"
  DecodeVolume :: "vmap \<Rightarrow> Volume result"
  DecodeContainer :: "vmap \<Rightarrow> Container result"
  DecodeAffinity :: "vmap \<Rightarrow> val result"
  DecodeSecurityContext :: "vmap \<Rightarrow> val result"
  VolumeToValues :: "Volume \<Rightarrow> vmap result"
  ContainerToValues :: "Container \<Rightarrow> vmap result"
  DecodeBackupParameters :: "string \<Rightarrow> MilvusBackupParameters result"
  DecodeRestoreParameters :: "string \<Rightarrow> MilvusRestoreParameters result"
  DecodeMilvusStatus :: "string \<Rightarrow> (int \<times> string) result"
  DecodeResourceGroups :: "string \<Rightarrow> string list result"
  DecodeLoadedReplicas :: "string \<Rightarrow> (string \<times> int) list result"
  EffectiveVersionBundleName :: "ProviderSpec option \<Rightarrow> Instance \<Rightarrow> string"
  ResolveVersionBundle :: "ProviderSpec option \<Rightarrow> string \<Rightarrow> VersionBundle option"
  GetImageForVersion :: "ProviderSpec option \<Rightarrow> string \<Rightarrow> string \<Rightarrow> string"
  GetDefaultImageForComponent :: "ProviderSpec option \<Rightarrow> string \<Rightarrow> string"
  SpreadConstraints :: "SchedulingPolicy option \<Rightarrow> labels \<Rightarrow> val list"
  Getenv :: "string \<Rightarrow> string"
  UnmarshalResources :: "string \<Rightarrow> val"
  SetControllerReference :: "string \<Rightarrow> string \<Rightarrow> go_error option"
  SortNewestFirst :: "(Backup \<Rightarrow> time) \<Rightarrow> Backup list \<Rightarrow> Backup list"
  ProviderLabel :: string
  InstanceLabel :: string
  ComponentLabel :: string
  DataSourceStateWaiting :: string
  ReasonDataSourceWaitingForCluster :: string

section \<open>The outside world\<close>

record http_request =
  rq_URL :: string
  rq_Bearer :: string
  rq_Body :: "(string \<times> string) list"

record http_response =
  rp_StatusCode :: int
  rp_Body :: string

record 'w api =
  GetMilvus :: "'w \<Rightarrow> string \<Rightarrow> Milvus result"
  GetSecret :: "'w \<Rightarrow> string \<Rightarrow> Secret result"
  GetConfigMap :: "'w \<Rightarrow> string \<Rightarrow> ConfigMap result"
  GetService :: "'w \<Rightarrow> string \<Rightarrow> KubeService result"
  GetPodMonitor :: "'w \<Rightarrow> string \<Rightarrow> PodMonitor result"
  GetBackup :: "'w \<Rightarrow> string \<Rightarrow> Backup result"
  GetJob :: "'w \<Rightarrow> string \<Rightarrow> string \<Rightarrow> Job result"
  GetInstance :: "'w \<Rightarrow> string \<Rightarrow> string \<Rightarrow> Instance result"
  GetBackupStorage :: "'w \<Rightarrow> string \<Rightarrow> BackupStorage result"
  GetBackupStorageCredentials :: "'w \<Rightarrow> BackupStorage \<Rightarrow> (string \<times> string) result"
  BackupsForInstance :: "'w \<Rightarrow> Backup list result"
  ListDeployments :: "'w \<Rightarrow> Workload list result"
  ListStatefulSets :: "'w \<Rightarrow> Workload list result"
  ListNodes :: "'w \<Rightarrow> Node list result"
  ListRestores :: "'w \<Rightarrow> Restore list result"
  ListJobs :: "'w \<Rightarrow> string \<Rightarrow> string \<Rightarrow> Job list result"
  ListPods :: "'w \<Rightarrow> string \<Rightarrow> string \<Rightarrow> Pod list result"
  ListCronJobs :: "'w \<Rightarrow> CronJob list result"
  Now :: "'w \<Rightarrow> time"
  GetDataSourceStatus :: "'w \<Rightarrow> DataSourceStatus option"
  PodMonitorMapping :: "'w \<Rightarrow> go_error option"
  ApplyMilvus :: "string \<Rightarrow> MilvusSpec \<Rightarrow> ('w, unit) step"
  ApplySecret :: "Secret \<Rightarrow> ('w, unit) step"
  ApplyConfigMap :: "ConfigMap \<Rightarrow> ('w, unit) step"
  ApplyCronJob :: "CronJob \<Rightarrow> ('w, unit) step"
  ApplyPodMonitor :: "PodMonitor \<Rightarrow> ('w, unit) step"
  PatchMilvus :: "string \<Rightarrow> (string \<times> string) list list \<Rightarrow> ('w, unit) step"
  DeletePodMonitor :: "string \<Rightarrow> string option \<Rightarrow> ('w, unit) step"
  DeleteCronJob :: "string \<Rightarrow> ('w, unit) step"
  DeleteConfigMap :: "string \<Rightarrow> ('w, unit) step"
  DeleteBackup :: "Backup \<Rightarrow> ('w, unit) step"
  CreateOrUpdateConfigMap :: "string \<Rightarrow> ConfigMap \<Rightarrow> ('w, unit) step"
  CreateJob :: "Job \<Rightarrow> ('w, Job) step"
  SetDataSourceStatus :: "DataSourceStatus \<Rightarrow> 'w \<Rightarrow> 'w"
  ReconcileDataSource :: "('w, unit) step"
  RandRead :: "nat \<Rightarrow> ('w, nat list) step"
  HttpPost :: "http_request \<Rightarrow> ('w, http_response) step"

section \<open>The reconciliation context\<close>

text \<open>
  \<open>TryDecodeTopologyParameters\<close> returns a flag and fills its argument: \<open>None\<close> is
  false. \<open>TryDecodeComponentParameters\<close> keeps the flag and the argument apart, because
  \<open>componentParameters\<close> uses the argument whatever the flag says.
\<close>

record 'w ctx =
  Name :: string
  Namespace :: string
  Inst :: Instance
  ProviderSpecOf :: "ProviderSpec option result"
  PodLabelsOf :: "string \<Rightarrow> labels"
  ObjectMetaOf :: "string \<Rightarrow> ObjectMeta"
  TryDecodeCluster :: "ClusterTopologyParameters option"
  TryDecodeStandalone :: "StandaloneTopologyParameters option"
  TryDecodeMonitoring :: "topologyMonitoring option"
  DecodeCluster :: "ClusterTopologyParameters result"
  DecodeStandalone :: "StandaloneTopologyParameters result"
  DecodeMonitoring :: "topologyMonitoring result"
  TryDecodeComponentParameters :: "InstanceComponent \<Rightarrow> bool \<times> MilvusParameters"
  DecodeComponentParameters :: "InstanceComponent \<Rightarrow> MilvusParameters result"
  lib :: lib
  api :: "'w api"

text \<open>\<open>c.Get(&milvusapi.Milvus{}, c.Name())\<close>, the read most of the code starts with.\<close>

definition existing_milvus :: "'w ctx \<Rightarrow> 'w \<Rightarrow> Milvus result" where
  "existing_milvus c w = GetMilvus (api c) w (Name c)"

text \<open>The Milvus CR as an optional value, for code that treats every read error as absence.\<close>

definition milvus_or_none :: "'w ctx \<Rightarrow> 'w \<Rightarrow> Milvus option" where
  "milvus_or_none c w = (case existing_milvus c w of Inl _ \<Rightarrow> None | Inr m \<Rightarrow> Some m)"

text \<open>The component names of \<open>internal/common/spec.go\<close>.\<close>

definition ProviderName :: string where "ProviderName = ''milvus''"
definition ComponentStandalone :: string where "ComponentStandalone = ''standalone''"
definition ComponentProxy :: string where "ComponentProxy = ''proxy''"
definition ComponentMixCoord :: string where "ComponentMixCoord = ''mixCoord''"
definition ComponentDataNode :: string where "ComponentDataNode = ''dataNode''"
definition ComponentQueryNode :: string where "ComponentQueryNode = ''queryNode''"
definition ComponentStreaming :: string where "ComponentStreaming = ''streamingNode''"
definition ComponentTypeMilvus :: string where "ComponentTypeMilvus = ''milvus''"

lemmas component_name_defs =
  ComponentStandalone_def ComponentProxy_def ComponentMixCoord_def
  ComponentDataNode_def ComponentQueryNode_def ComponentStreaming_def

end
