(* ===== verification/Samples.thy ===== *)
theory Samples
  imports Context
begin

text \<open>
  A concrete context for the witnesses: every theorem with a hypothesis about the outside
  world is applied to an instance built from \<open>sample_ctx\<close>, so that its hypotheses are seen
  to hold together. In it nothing exists yet (every read answers NotFound or an empty
  list), every write succeeds and changes nothing, and the library functions are small
  executable ones (quantities in \<open>Gi\<close>, \<open>Mi\<close> and \<open>m\<close>, versions of three numbers).
\<close>

abbreviation not_found :: "go_error + 'a" where
  "not_found \<equiv> Inl (GoError NotFound ''not found'')"

definition sample_quantity :: "string \<Rightarrow> int \<Rightarrow> string \<Rightarrow> quantity result" where
  "sample_quantity digits unit s =
     (case atoi digits of None \<Rightarrow> Inl (errorf ''bad quantity'')
      | Some n \<Rightarrow> Inr \<lparr>q_amount = n * unit, q_string = s\<rparr>)"

definition sample_ParseQuantity :: "string \<Rightarrow> quantity result" where
  "sample_ParseQuantity s =
     (case cut_suffix s ''Gi'' of Some d \<Rightarrow> sample_quantity d (2 ^ 30 * 10 ^ 9) s
      | None \<Rightarrow>
     (case cut_suffix s ''Mi'' of Some d \<Rightarrow> sample_quantity d (2 ^ 20 * 10 ^ 9) s
      | None \<Rightarrow>
     (case cut_suffix s ''m'' of Some d \<Rightarrow> sample_quantity d (10 ^ 6) s
      | None \<Rightarrow> sample_quantity s (10 ^ 9) s)))"

text \<open>A version \<open>vX.Y.Z\<close> as one number; other strings are invalid.\<close>

definition sample_version :: "string \<Rightarrow> int option" where
  "sample_version s =
     (case map atoi (split_on (CHR ''.'') (drop 1 s)) of
        [Some a, Some b, Some c] \<Rightarrow>
          if take 1 s = ''v'' then Some (a * 1000000 + b * 1000 + c) else None
      | _ \<Rightarrow> None)"

definition sample_compare :: "string \<Rightarrow> string \<Rightarrow> int" where
  "sample_compare a b = sgn (deref (sample_version a) (-1) - deref (sample_version b) (-1))"

definition sample_lib :: lib where
  "sample_lib =
     \<lparr>ParseQuantity = sample_ParseQuantity,
      SemverIsValid = (\<lambda>s. sample_version s \<noteq> None),
      SemverCompare = sample_compare,
      CronParseStandard = (\<lambda>_. None),
      IsDNS1123Label = (\<lambda>s. if s = '''' then [''must not be empty''] else []),
      IsQualifiedName = (\<lambda>_. []),
      IsValidLabelValue = (\<lambda>_. []),
      ParseDuration = (\<lambda>_. None),
      YamlToMap = (\<lambda>_. Inr []),
      YamlToMinio = (\<lambda>_. Inr \<lparr>min_Address = ''minio'', min_Port = None, min_UseSSL = False,
        min_Region = '''', min_BucketName = ''bucket'', min_RootPath = '''', min_UseIAM = False,
        min_CloudProvider = ''''\<rparr>),
      YamlMarshal = (\<lambda>_. Inr ''config''),
      UrlParse = (\<lambda>s. if has_prefix s ''https://'' then Inr (''https'', drop 8 s)
                      else if has_prefix s ''http://'' then Inr (''http'', drop 7 s)
                      else Inl (errorf ''bad url'')),
      DecodeVolume = (\<lambda>_. Inl (errorf ''bad volume'')),
      DecodeContainer = (\<lambda>_. Inl (errorf ''bad container'')),
      DecodeAffinity = (\<lambda>m. Inr (VMap m)),
      DecodeSecurityContext = (\<lambda>m. Inr (VMap m)),
      VolumeToValues = (\<lambda>_. Inr []),
      ContainerToValues = (\<lambda>_. Inr []),
      DecodeBackupParameters = (\<lambda>_. Inr zero_MilvusBackupParameters),
      DecodeRestoreParameters = (\<lambda>_. Inr zero_MilvusRestoreParameters),
      DecodeMilvusStatus = (\<lambda>_. Inr (0, '''')),
      DecodeResourceGroups = (\<lambda>_. Inr []),
      DecodeLoadedReplicas = (\<lambda>_. Inr []),
      EffectiveVersionBundleName = (\<lambda>_ inst. in_Version inst),
      ResolveVersionBundle = (\<lambda>_ _. None),
      GetImageForVersion = (\<lambda>_ _ v. ''milvusdb/milvus:v'' @ v),
      GetDefaultImageForComponent = (\<lambda>_ _. ''milvusdb/milvus:v2.6.25''),
      SpreadConstraints = (\<lambda>_ _. []),
      Getenv = (\<lambda>_. ''''),
      UnmarshalResources = (\<lambda>_. VNull), SetControllerReference = (\<lambda>_ _. None),
      SortNewestFirst = (\<lambda>key. sort_key (\<lambda>b. - key b)),
      ProviderLabel = ''provider'', InstanceLabel = ''instance'', ComponentLabel = ''component'',
      DataSourceStateWaiting = ''Waiting'',
      ReasonDataSourceWaitingForCluster = ''WaitingForCluster''\<rparr>"

definition sample_api :: "'w api" where
  "sample_api =
     \<lparr>GetMilvus = (\<lambda>_ _. not_found), GetSecret = (\<lambda>_ _. not_found),
      GetConfigMap = (\<lambda>_ _. not_found), GetService = (\<lambda>_ _. not_found),
      GetPodMonitor = (\<lambda>_ _. not_found), GetBackup = (\<lambda>_ _. not_found),
      GetJob = (\<lambda>_ _ _. not_found), GetInstance = (\<lambda>_ _ _. not_found),
      GetBackupStorage = (\<lambda>_ _. not_found), GetBackupStorageCredentials = (\<lambda>_ _. not_found),
      BackupsForInstance = (\<lambda>_. Inr []), ListDeployments = (\<lambda>_. Inr []),
      ListStatefulSets = (\<lambda>_. Inr []), ListNodes = (\<lambda>_. Inr []),
      ListRestores = (\<lambda>_. Inr []), ListJobs = (\<lambda>_ _ _. Inr []), ListPods = (\<lambda>_ _ _. Inr []),
      ListCronJobs = (\<lambda>_. Inr []), Now = (\<lambda>_. 0), GetDataSourceStatus = (\<lambda>_. None),
      PodMonitorMapping = (\<lambda>_. None),
      ApplyMilvus = (\<lambda>_ _ w. (Inr (), w)), ApplySecret = (\<lambda>_ w. (Inr (), w)),
      ApplyConfigMap = (\<lambda>_ w. (Inr (), w)), ApplyCronJob = (\<lambda>_ w. (Inr (), w)),
      ApplyPodMonitor = (\<lambda>_ w. (Inr (), w)), PatchMilvus = (\<lambda>_ _ w. (Inr (), w)),
      DeletePodMonitor = (\<lambda>_ _ w. (Inr (), w)), DeleteCronJob = (\<lambda>_ w. (Inr (), w)),
      DeleteConfigMap = (\<lambda>_ w. (Inr (), w)), DeleteBackup = (\<lambda>_ w. (Inr (), w)),
      CreateOrUpdateConfigMap = (\<lambda>_ _ w. (Inr (), w)), CreateJob = (\<lambda>j w. (Inr j, w)),
      SetDataSourceStatus = (\<lambda>_ w. w), ReconcileDataSource = (\<lambda>w. (Inr (), w)),
      RandRead = (\<lambda>n w. (Inr (replicate n 0), w)),
      HttpPost = (\<lambda>_ w. (Inr \<lparr>rp_StatusCode = 200, rp_Body = ''''\<rparr>, w))\<rparr>"

definition sample_Instance :: Instance where
  "sample_Instance =
     \<lparr>in_Components = [], in_Topology = None, in_Version = ''2.6.25'', in_ProviderRef = ''milvus'',
      in_Backup = None, in_HasDataSource = False\<rparr>"

definition sample_ctx :: "'w ctx" where
  "sample_ctx =
     \<lparr>Name = ''inst'', Namespace = ''ns'', Inst = sample_Instance, ProviderSpecOf = Inr None,
      PodLabelsOf = (\<lambda>name. [(''component'', name)]),
      ObjectMetaOf = (\<lambda>name. \<lparr>om_Name = name, om_Namespace = ''ns'', om_Labels = []\<rparr>),
      TryDecodeCluster = None, TryDecodeStandalone = None, TryDecodeMonitoring = None,
      DecodeCluster = Inr zero_ClusterTopologyParameters,
      DecodeStandalone = Inr zero_StandaloneTopologyParameters,
      DecodeMonitoring = Inr zero_topologyMonitoring,
      TryDecodeComponentParameters = (\<lambda>_. (False, zero_MilvusParameters)),
      DecodeComponentParameters = (\<lambda>_. Inr zero_MilvusParameters),
      lib = sample_lib, api = sample_api\<rparr>"

definition sample_spec :: MilvusSpec where
  "sample_spec = \<lparr>Mode = ''standalone'', Com = zero_MilvusComponents, Dep = None, Conf = None\<rparr>"

definition sample_milvus :: Milvus where
  "sample_milvus =
     \<lparr>MilvusName = ''inst'', MilvusNamespace = ''ns'', Generation = 1, Spec = sample_spec,
      CRStatus = \<lparr>Status = StatusHealthy, Endpoint = '''', Conditions = [], ObservedGeneration = 1\<rparr>\<rparr>"

text \<open>The sample context with one Milvus CR in the cluster.\<close>

definition ctx_with_milvus :: "Milvus \<Rightarrow> 'w ctx" where
  "ctx_with_milvus m = sample_ctx\<lparr>api := sample_api\<lparr>GetMilvus := \<lambda>_ _. Inr m\<rparr>\<rparr>"

lemma existing_sample: "existing_milvus (ctx_with_milvus m) w = Inr m"
  by (simp add: existing_milvus_def ctx_with_milvus_def sample_ctx_def sample_api_def)

lemmas sample_defs =
  sample_ctx_def sample_api_def sample_lib_def sample_Instance_def sample_spec_def
  sample_milvus_def ctx_with_milvus_def existing_milvus_def

end
