(* ===== verification/PodSettings.thy ===== *)
theory PodSettings
  imports Samples
begin

text \<open>
  The pod-level settings of a component: \<open>scheduling.go\<close> (placement), \<open>pod.go\<close>
  (annotations, environment, volumes, init containers and their validation) and
  \<open>probes.go\<close> (tuned health checks) of \<open>internal/provider\<close>.

  The operator compares the pod template it renders with the live one, so what the provider
  renders must already hold every default the API server would add: the defaulting functions
  are shown to be idempotent, and validated input is shown to take the defaulting path.
\<close>

section \<open>Placement\<close>

definition applySchedulingPolicy ::
  "lib \<Rightarrow> 'a ComponentSpec_scheme \<Rightarrow> SchedulingPolicy option \<Rightarrow> 'a ComponentSpec_scheme" where
  "applySchedulingPolicy l spec policy =
     (let spec1 = spec\<lparr>TopologySpreadConstraints := SpreadConstraints l policy (PodLabels spec)\<rparr> in
      case policy of
        None \<Rightarrow> spec1
      | Some p \<Rightarrow>
          spec1\<lparr>SchedulerName := sp_SchedulerName p, NodeSelector := sp_NodeSelector p,
                Affinity := sp_Affinity p, Tolerations := sp_Tolerations p\<rparr>)"

section \<open>Parameters\<close>

definition componentParameters :: "'w ctx \<Rightarrow> string \<Rightarrow> MilvusParameters" where
  "componentParameters c name =
     snd (TryDecodeComponentParameters c (component_at (in_Components (Inst c)) name))"

section \<open>Server-side defaults\<close>

definition defaultFieldRef :: "ObjectFieldSelector \<Rightarrow> ObjectFieldSelector" where
  "defaultFieldRef ref = (if ofs_APIVersion ref = '''' then ref\<lparr>ofs_APIVersion := ''v1''\<rparr> else ref)"

definition withEnvDefault :: "EnvVar \<Rightarrow> EnvVar" where
  "withEnvDefault env =
     env\<lparr>env_ValueFrom :=
       map_option (\<lambda>ref. ref\<lparr>evs_FieldRef := map_option defaultFieldRef (evs_FieldRef ref)\<rparr>)
         (env_ValueFrom env)\<rparr>"

definition withEnvDefaults :: "EnvVar list \<Rightarrow> EnvVar list" where
  "withEnvDefaults env = map withEnvDefault env"

definition defaultDownwardAPIItems :: "DownwardAPIItem list \<Rightarrow> DownwardAPIItem list" where
  "defaultDownwardAPIItems items =
     map (\<lambda>item. item\<lparr>dai_FieldRef := map_option defaultFieldRef (dai_FieldRef item)\<rparr>) items"

text \<open>
  The defaults are \<open>HostPathUnset\<close> (the empty string) and mode 0644 for both the
  downward-API and the projected volume source.
\<close>

definition defaultVolume :: "Volume \<Rightarrow> Volume" where
  "defaultVolume volume =
     volume
       \<lparr>vol_HostPathType :=
          map_option (\<lambda>t. case t of None \<Rightarrow> Some '''' | Some x \<Rightarrow> Some x) (vol_HostPathType volume),
        vol_DownwardAPI :=
          map_option (\<lambda>d. d\<lparr>das_DefaultMode := Some (deref (das_DefaultMode d) 420),
                           das_Items := defaultDownwardAPIItems (das_Items d)\<rparr>)
            (vol_DownwardAPI volume),
        vol_Projected :=
          map_option (\<lambda>p. p\<lparr>pjs_DefaultMode := Some (deref (pjs_DefaultMode p) 420),
                           pjs_Sources := map (map_option defaultDownwardAPIItems) (pjs_Sources p)\<rparr>)
            (vol_Projected volume)\<rparr>"

text \<open>An object that does not decode, or does not encode again, is passed through as it is.\<close>

definition withDefaults ::
  "(vmap \<Rightarrow> 'a result) \<Rightarrow> ('a \<Rightarrow> vmap result) \<Rightarrow> ('a \<Rightarrow> 'a) \<Rightarrow> vmap \<Rightarrow> vmap" where
  "withDefaults decode encode applyDefaults raw =
     (case decode raw of
        Inl _ \<Rightarrow> raw
      | Inr target \<Rightarrow> (case encode (applyDefaults target) of Inl _ \<Rightarrow> raw | Inr defaulted \<Rightarrow> defaulted))"

definition defaultContainer :: "Container \<Rightarrow> Container" where
  "defaultContainer container = container\<lparr>con_Env := withEnvDefaults (con_Env container)\<rparr>"

definition applyPodCustomization ::
  "lib \<Rightarrow> 'a Component_scheme \<Rightarrow> PodCustomization option \<Rightarrow> 'a Component_scheme" where
  "applyPodCustomization l component pod =
     (case pod of
        None \<Rightarrow> component
      | Some p \<Rightarrow>
          component
            \<lparr>PodAnnotations := pod_Annotations p,
             Env := withEnvDefaults (pod_Env p),
             VolumeMounts := pod_VolumeMounts p,
             SecurityContext := pod_SecurityContext p,
             Volumes := Volumes component @
               map (\<lambda>raw. VMap (withDefaults (DecodeVolume l) (VolumeToValues l) defaultVolume raw))
                 (pod_Volumes p),
             InitContainers := InitContainers component @
               map (\<lambda>raw. VMap (withDefaults (DecodeContainer l) (ContainerToValues l)
                                  defaultContainer raw))
                 (pod_InitContainers p)\<rparr>)"

definition pod_error :: "string \<Rightarrow> string \<Rightarrow> nat \<Rightarrow> string" where
  "pod_error name field i =
     ''component '' @ quote name @ '' pod.'' @ field @ ''['' @ itoa (int i) @ '']''"

text \<open>The bodies of the two loops over free-form objects, at index \<open>i\<close>.\<close>

definition podVolumeError :: "lib \<Rightarrow> string \<Rightarrow> nat \<times> vmap \<Rightarrow> go_error option" where
  "podVolumeError l name ir =
     (case DecodeVolume l (snd ir) of
        Inl e \<Rightarrow> Some (Wrap (pod_error name ''volumes'' (fst ir) @ '' is invalid'') e)
      | Inr volume \<Rightarrow> if vol_Name volume = ''''
          then Some (errorf (pod_error name ''volumes'' (fst ir) @ ''.name is required'')) else None)"

definition podInitContainerError :: "lib \<Rightarrow> string \<Rightarrow> nat \<times> vmap \<Rightarrow> go_error option" where
  "podInitContainerError l name ir =
     (case DecodeContainer l (snd ir) of
        Inl e \<Rightarrow> Some (Wrap (pod_error name ''initContainers'' (fst ir) @ '' is invalid'') e)
      | Inr container \<Rightarrow> if con_Name container = '''' \<or> con_Image container = ''''
          then Some (errorf (pod_error name ''initContainers'' (fst ir) @ '' requires name and image''))
          else None)"

definition validatePodCustomization ::
  "lib \<Rightarrow> string \<Rightarrow> PodCustomization option \<Rightarrow> go_error option" where
  "validatePodCustomization l name pod =
     (case pod of
        None \<Rightarrow> None
      | Some p \<Rightarrow> first_error
          (map (\<lambda>(i, env). if env_Name env = ''''
                  then Some (errorf (pod_error name ''env'' i @ ''.name is required'')) else None)
             (List.enumerate 0 (pod_Env p))
           @ map (podVolumeError l name) (List.enumerate 0 (pod_Volumes p))
           @ [case pod_SecurityContext p of
                None \<Rightarrow> None
              | Some sc \<Rightarrow> (case DecodeSecurityContext l sc of
                    Inl e \<Rightarrow> Some (Wrap (''component '' @ quote name @ '' pod.securityContext is invalid'') e)
                  | Inr _ \<Rightarrow> None)]
           @ map (podInitContainerError l name) (List.enumerate 0 (pod_InitContainers p))))"

section \<open>Probes\<close>

definition milvusHealthPort :: int where "milvusHealthPort = 9091"

definition defaultStartupProbe :: Probe where
  "defaultStartupProbe =
     \<lparr>pr_Handler = TCPSocket milvusHealthPort, pr_InitialDelaySeconds = 0, pr_TimeoutSeconds = 3,
      pr_PeriodSeconds = 10, pr_SuccessThreshold = 1, pr_FailureThreshold = 18\<rparr>"

definition defaultLivenessProbe :: Probe where
  "defaultLivenessProbe =
     \<lparr>pr_Handler = TCPSocket milvusHealthPort, pr_InitialDelaySeconds = 0, pr_TimeoutSeconds = 10,
      pr_PeriodSeconds = 15, pr_SuccessThreshold = 1, pr_FailureThreshold = 3\<rparr>"

definition defaultReadinessProbe :: Probe where
  "defaultReadinessProbe =
     \<lparr>pr_Handler = HTTPGet ''/healthz'' milvusHealthPort ''HTTP'', pr_InitialDelaySeconds = 0,
      pr_TimeoutSeconds = 3, pr_PeriodSeconds = 15, pr_SuccessThreshold = 1, pr_FailureThreshold = 2\<rparr>"

definition tunedProbe :: "Probe \<Rightarrow> ProbeTuning option \<Rightarrow> Probe option" where
  "tunedProbe probe tuning =
     (case tuning of
        None \<Rightarrow> None
      | Some t \<Rightarrow> Some
          (probe\<lparr>pr_InitialDelaySeconds := deref (pt_InitialDelaySeconds t) (pr_InitialDelaySeconds probe),
                 pr_PeriodSeconds := deref (pt_PeriodSeconds t) (pr_PeriodSeconds probe),
                 pr_TimeoutSeconds := deref (pt_TimeoutSeconds t) (pr_TimeoutSeconds probe),
                 pr_FailureThreshold := deref (pt_FailureThreshold t) (pr_FailureThreshold probe)\<rparr>))"

definition applyProbes ::
  "'a ComponentSpec_scheme \<Rightarrow> ProbesParam option \<Rightarrow> 'a ComponentSpec_scheme" where
  "applyProbes spec probes =
     (case probes of
        None \<Rightarrow> spec
      | Some p \<Rightarrow>
          let rendered = \<lparr>StartupProbe = tunedProbe defaultStartupProbe (pp_Startup p),
                          LivenessProbe = tunedProbe defaultLivenessProbe (pp_Liveness p),
                          ReadinessProbe = tunedProbe defaultReadinessProbe (pp_Readiness p)\<rparr>
          in if StartupProbe rendered = None \<and> LivenessProbe rendered = None
                \<and> ReadinessProbe rendered = None
             then spec else spec\<lparr>ProbesOf := Some rendered\<rparr>)"

definition validateTuning :: "string \<Rightarrow> string \<Rightarrow> ProbeTuning option \<Rightarrow> go_error option" where
  "validateTuning name probe tuning =
     (case tuning of
        None \<Rightarrow> None
      | Some t \<Rightarrow>
          let prefix = ''component '' @ quote name @ '' probes.'' @ probe @ ''.'' in
          first_error
            (map (\<lambda>(field, value). case value of
                     None \<Rightarrow> None
                   | Some v \<Rightarrow> if v < 1 then Some (errorf (prefix @ field @ '' must be at least 1'')) else None)
               [(''periodSeconds'', pt_PeriodSeconds t), (''timeoutSeconds'', pt_TimeoutSeconds t),
                (''failureThreshold'', pt_FailureThreshold t)]
             @ [case pt_InitialDelaySeconds t of
                  None \<Rightarrow> None
                | Some v \<Rightarrow> if v < 0
                    then Some (errorf (prefix @ ''initialDelaySeconds must not be negative'')) else None]))"

definition validateProbes :: "string \<Rightarrow> ProbesParam option \<Rightarrow> go_error option" where
  "validateProbes name probes =
     (case probes of
        None \<Rightarrow> None
      | Some p \<Rightarrow> first_error
          (map (\<lambda>(probe, tuning). validateTuning name probe tuning)
             [(''startup'', pp_Startup p), (''liveness'', pp_Liveness p), (''readiness'', pp_Readiness p)]))"

section \<open>Properties\<close>

lemma defaultFieldRef_idem: "defaultFieldRef (defaultFieldRef r) = defaultFieldRef r"
  by (simp add: defaultFieldRef_def)

lemma withEnvDefault_idem: "withEnvDefault (withEnvDefault e) = withEnvDefault e"
  by (simp add: withEnvDefault_def option.map_comp comp_def defaultFieldRef_idem)

lemma withEnvDefaults_idem: "withEnvDefaults (withEnvDefaults es) = withEnvDefaults es"
  by (simp add: withEnvDefaults_def withEnvDefault_idem)

lemma defaultDownwardAPIItems_idem:
  "defaultDownwardAPIItems (defaultDownwardAPIItems xs) = defaultDownwardAPIItems xs"
  by (simp add: defaultDownwardAPIItems_def option.map_comp comp_def defaultFieldRef_idem)

lemma defaultVolume_idem: "defaultVolume (defaultVolume v) = defaultVolume v"
proof -
  have items: "map_option (\<lambda>x. defaultDownwardAPIItems (defaultDownwardAPIItems x)) =
      map_option defaultDownwardAPIItems"
    by (simp add: defaultDownwardAPIItems_idem)
  have path: "vol_HostPathType (defaultVolume (defaultVolume v)) = vol_HostPathType (defaultVolume v)"
    by (cases "vol_HostPathType v") (auto simp: defaultVolume_def split: option.split)
  show ?thesis
    by (rule Volume.equality)
      (use path in \<open>simp_all add: defaultVolume_def defaultDownwardAPIItems_idem option.map_comp
        comp_def items\<close>)
qed

text \<open>
  The rendered pod template is a fixed point of the API server's defaulting, so the
  operator's comparison never sees a spurious change: defaulting a defaulted environment,
  volume or init container again changes nothing.
\<close>

theorem rendered_defaults_are_fixed_points:
  "withEnvDefaults (withEnvDefaults env) = withEnvDefaults env \<and>
   defaultVolume (defaultVolume volume) = defaultVolume volume \<and>
   defaultContainer (defaultContainer container) = defaultContainer container"
  by (simp add: withEnvDefaults_idem defaultVolume_idem defaultContainer_def)

lemma enumerate_all: "(\<forall>(i, x)\<in>set (List.enumerate n xs). P x) \<longleftrightarrow> (\<forall>x\<in>set xs. P x)"
  by (induction xs arbitrary: n) auto

lemma enumerated_mem: "x \<in> set xs \<Longrightarrow> \<exists>i. (i, x) \<in> set (List.enumerate n xs)"
  using enumerate_all [of n xs "\<lambda>y. y \<noteq> x"] by auto

lemma validated_loops:
  assumes "validatePodCustomization l name (Some p) = None"
  shows "\<forall>ir\<in>set (List.enumerate 0 (pod_Volumes p)). podVolumeError l name ir = None"
    "\<forall>ir\<in>set (List.enumerate 0 (pod_InitContainers p)). podInitContainerError l name ir = None"
  using assms unfolding validatePodCustomization_def option.case first_error_None by auto

lemma validated_volume:
  assumes "validatePodCustomization l name (Some p) = None" "raw \<in> set (pod_Volumes p)"
  shows "\<exists>v. DecodeVolume l raw = Inr v \<and> vol_Name v \<noteq> ''''"
proof -
  obtain i where "(i, raw) \<in> set (List.enumerate 0 (pod_Volumes p))"
    using enumerated_mem [OF assms(2)] by blast
  then have "podVolumeError l name (i, raw) = None" using validated_loops(1) [OF assms(1)] by blast
  then show ?thesis by (simp add: podVolumeError_def split: sum.splits if_splits)
qed

lemma validated_container:
  assumes "validatePodCustomization l name (Some p) = None" "raw \<in> set (pod_InitContainers p)"
  shows "\<exists>v. DecodeContainer l raw = Inr v \<and> con_Name v \<noteq> '''' \<and> con_Image v \<noteq> ''''"
proof -
  obtain i where "(i, raw) \<in> set (List.enumerate 0 (pod_InitContainers p))"
    using enumerated_mem [OF assms(2)] by blast
  then have "podInitContainerError l name (i, raw) = None"
    using validated_loops(2) [OF assms(1)] by blast
  then show ?thesis by (simp add: podInitContainerError_def split: sum.splits if_splits)
qed

text \<open>
  Nothing a validated Instance asks for is passed to the operator unchecked. When
  \<open>validatePodCustomization\<close> accepts, and whatever decodes also encodes, every volume and
  every init container in the rendered component is the encoding of a decoded, named and
  defaulted object; the fallback that copies the raw input is never taken.
\<close>

theorem validated_pod_objects_are_defaulted:
  assumes "validatePodCustomization l name (Some p) = None"
    and "\<And>v. \<exists>m. VolumeToValues l v = Inr m" "\<And>v. \<exists>m. ContainerToValues l v = Inr m"
    and "Volumes component = []" "InitContainers component = []"
  shows "(\<forall>x\<in>set (Volumes (applyPodCustomization l component (Some p))).
            \<exists>v m. vol_Name v \<noteq> '''' \<and> VolumeToValues l (defaultVolume v) = Inr m \<and> x = VMap m) \<and>
         (\<forall>x\<in>set (InitContainers (applyPodCustomization l component (Some p))).
            \<exists>v m. con_Name v \<noteq> '''' \<and> con_Image v \<noteq> '''' \<and>
                  ContainerToValues l (defaultContainer v) = Inr m \<and> x = VMap m)"
proof -
  have vol: "\<exists>v m. vol_Name v \<noteq> '''' \<and> VolumeToValues l (defaultVolume v) = Inr m \<and>
      VMap (withDefaults (DecodeVolume l) (VolumeToValues l) defaultVolume raw) = VMap m"
    if raw: "raw \<in> set (pod_Volumes p)" for raw
  proof -
    obtain v where v: "DecodeVolume l raw = Inr v" "vol_Name v \<noteq> ''''"
      using validated_volume [OF assms(1) raw] by blast
    obtain m where "VolumeToValues l (defaultVolume v) = Inr m" using assms(2) by blast
    with v show ?thesis by (auto simp: withDefaults_def)
  qed
  have con: "\<exists>v m. con_Name v \<noteq> '''' \<and> con_Image v \<noteq> '''' \<and>
      ContainerToValues l (defaultContainer v) = Inr m \<and>
      VMap (withDefaults (DecodeContainer l) (ContainerToValues l) defaultContainer raw) = VMap m"
    if raw: "raw \<in> set (pod_InitContainers p)" for raw
  proof -
    obtain v where v: "DecodeContainer l raw = Inr v" "con_Name v \<noteq> ''''" "con_Image v \<noteq> ''''"
      using validated_container [OF assms(1) raw] by blast
    obtain m where "ContainerToValues l (defaultContainer v) = Inr m" using assms(3) by blast
    with v show ?thesis by (auto simp: withDefaults_def)
  qed
  show ?thesis using vol con assms(4,5) by (fastforce simp: applyPodCustomization_def)
qed

definition sample_volume :: Volume where
  "sample_volume =
     \<lparr>vol_Name = ''data'', vol_HostPathType = Some None, vol_DownwardAPI = None,
      vol_Projected = None, vol_Other = VNull\<rparr>"

definition sample_pod :: PodCustomization where
  "sample_pod =
     \<lparr>pod_Annotations = [], pod_Env = [], pod_Volumes = [[(''name'', VStr ''data'')]],
      pod_VolumeMounts = [], pod_SecurityContext = None, pod_InitContainers = []\<rparr>"

definition volume_lib :: lib where
  "volume_lib = sample_lib\<lparr>DecodeVolume := \<lambda>_. Inr sample_volume,
     VolumeToValues := \<lambda>v. Inr [(''name'', VStr (vol_Name v))]\<rparr>"

theorem validated_pod_objects_are_defaulted_witness:
  "\<exists>v m. vol_Name v \<noteq> '''' \<and> VolumeToValues volume_lib (defaultVolume v) = Inr m \<and>
     hd (Volumes (applyPodCustomization volume_lib zero_Component (Some sample_pod))) = VMap m"
proof -
  have ok: "validatePodCustomization volume_lib ''proxy'' (Some sample_pod) = None"
    by (simp add: validatePodCustomization_def podVolumeError_def volume_lib_def sample_pod_def sample_volume_def
        sample_lib_def)
  have vols: "Volumes (zero_Component :: Component) = []" "InitContainers (zero_Component :: Component) = []"
    by (simp_all add: zero_Component_def zero_ComponentSpec_def ComponentSpec.defs Component.defs)
  have enc: "\<exists>m. VolumeToValues volume_lib v = Inr m" "\<exists>m. ContainerToValues volume_lib u = Inr m" for v u
    by (simp_all add: volume_lib_def sample_lib_def)
  have "Volumes (applyPodCustomization volume_lib zero_Component (Some sample_pod)) \<noteq> []"
    by (simp add: applyPodCustomization_def sample_pod_def)
  with validated_pod_objects_are_defaulted [OF ok enc vols] show ?thesis by (meson list.set_sel(1))
qed

text \<open>A probe the API server accepts.\<close>

definition valid_probe :: "Probe \<Rightarrow> bool" where
  "valid_probe p \<longleftrightarrow> 0 \<le> pr_InitialDelaySeconds p \<and> 1 \<le> pr_PeriodSeconds p \<and>
     1 \<le> pr_TimeoutSeconds p \<and> 1 \<le> pr_FailureThreshold p \<and> 1 \<le> pr_SuccessThreshold p"

lemma tunedProbe_valid:
  assumes "validateTuning name probe t = None" "valid_probe d" "tunedProbe d t = Some p"
  shows "valid_probe p \<and> pr_Handler p = pr_Handler d \<and> pr_SuccessThreshold p = pr_SuccessThreshold d"
  using assms
  by (auto simp: validateTuning_def tunedProbe_def valid_probe_def error_simps Let_def deref_def
      split: option.splits if_splits)

lemma default_probes_valid:
  "valid_probe defaultStartupProbe" "valid_probe defaultLivenessProbe" "valid_probe defaultReadinessProbe"
  by (simp_all add: valid_probe_def defaultStartupProbe_def defaultLivenessProbe_def
      defaultReadinessProbe_def)

text \<open>
  Tuned probes are well-formed and keep checking the Milvus health port. If
  \<open>validateProbes\<close> accepts the tuning, every probe \<open>applyProbes\<close> sets on the component has
  timings the API server accepts and the default's handler; a probe that was not tuned is
  left to the operator.
\<close>

theorem validated_probes_are_well_formed:
  assumes "validateProbes name (Some tuning) = None"
    and "ProbesOf spec = None" "ProbesOf (applyProbes spec (Some tuning)) = Some rendered"
  shows "(\<forall>p. StartupProbe rendered = Some p \<longrightarrow>
            valid_probe p \<and> pr_Handler p = TCPSocket milvusHealthPort) \<and>
         (\<forall>p. LivenessProbe rendered = Some p \<longrightarrow>
            valid_probe p \<and> pr_Handler p = TCPSocket milvusHealthPort) \<and>
         (\<forall>p. ReadinessProbe rendered = Some p \<longrightarrow>
            valid_probe p \<and> pr_Handler p = HTTPGet ''/healthz'' milvusHealthPort ''HTTP'') \<and>
         (pp_Startup tuning = None \<longleftrightarrow> StartupProbe rendered = None) \<and>
         (pp_Liveness tuning = None \<longleftrightarrow> LivenessProbe rendered = None) \<and>
         (pp_Readiness tuning = None \<longleftrightarrow> ReadinessProbe rendered = None)"
proof -
  have ok: "validateTuning name ''startup'' (pp_Startup tuning) = None"
    "validateTuning name ''liveness'' (pp_Liveness tuning) = None"
    "validateTuning name ''readiness'' (pp_Readiness tuning) = None"
    using assms(1) by (simp_all add: validateProbes_def error_simps)
  have r: "StartupProbe rendered = tunedProbe defaultStartupProbe (pp_Startup tuning)"
    "LivenessProbe rendered = tunedProbe defaultLivenessProbe (pp_Liveness tuning)"
    "ReadinessProbe rendered = tunedProbe defaultReadinessProbe (pp_Readiness tuning)"
    using assms(2,3) by (auto simp: applyProbes_def Let_def split: if_splits)
  have h: "pr_Handler defaultStartupProbe = TCPSocket milvusHealthPort"
    "pr_Handler defaultLivenessProbe = TCPSocket milvusHealthPort"
    "pr_Handler defaultReadinessProbe = HTTPGet ''/healthz'' milvusHealthPort ''HTTP''"
    by (simp_all add: defaultStartupProbe_def defaultLivenessProbe_def defaultReadinessProbe_def)
  have none: "tunedProbe d t = None \<longleftrightarrow> t = None" for d t
    by (simp add: tunedProbe_def split: option.split)
  show ?thesis
    unfolding r none
    using tunedProbe_valid [OF ok(1) default_probes_valid(1)]
      tunedProbe_valid [OF ok(2) default_probes_valid(2)]
      tunedProbe_valid [OF ok(3) default_probes_valid(3)] by (simp add: h)
qed

definition sample_tuning :: ProbesParam where
  "sample_tuning =
     \<lparr>pp_Startup = Some \<lparr>pt_InitialDelaySeconds = Some 5, pt_PeriodSeconds = None,
                          pt_TimeoutSeconds = None, pt_FailureThreshold = Some 60\<rparr>,
      pp_Liveness = None, pp_Readiness = None\<rparr>"

theorem validated_probes_are_well_formed_witness:
  "\<exists>rendered p. ProbesOf (applyProbes zero_ComponentSpec (Some sample_tuning)) = Some rendered \<and>
     StartupProbe rendered = Some p \<and> pr_FailureThreshold p = 60 \<and> valid_probe p"
proof -
  let ?p = "the (tunedProbe defaultStartupProbe (pp_Startup sample_tuning))"
  let ?r = "\<lparr>StartupProbe = Some ?p, LivenessProbe = None, ReadinessProbe = None\<rparr>"
  have ok: "validateProbes ''queryNode'' (Some sample_tuning) = None"
    by (simp add: validateProbes_def validateTuning_def sample_tuning_def Let_def)
  have z: "ProbesOf zero_ComponentSpec = None" by (simp add: zero_ComponentSpec_def)
  have r: "ProbesOf (applyProbes zero_ComponentSpec (Some sample_tuning)) = Some ?r"
    by (simp add: applyProbes_def tunedProbe_def sample_tuning_def Let_def)
  have "pr_FailureThreshold ?p = 60" by (simp add: tunedProbe_def sample_tuning_def)
  with validated_probes_are_well_formed [OF ok z r] r show ?thesis by auto
qed

end
