(* ===== verification/Dependencies.thy ===== *)
theory Dependencies
  imports Samples
begin

text \<open>
  \<open>internal/provider/dependencies.go\<close>: rendering the bundled etcd, MinIO and Pulsar (or
  their external replacements) from the topology parameters, on top of per-topology
  defaults; and the accessors of those parameters in \<open>validate.go\<close>.

  The overlay functions share one contract, the locale \<open>defaulted_field\<close>: a field the
  user set wins, any other keeps its default. It is interpreted for every field that is
  rendered, and gives that none of them is ever left to the chart.
\<close>

section \<open>The topology parameters\<close>

definition clusterDependencyParams :: "'w ctx \<Rightarrow> ClusterDependencies" where
  "clusterDependencyParams c =
     (case TryDecodeCluster c of
        None \<Rightarrow> zero_ClusterDependencies
      | Some params \<Rightarrow> deref (ctp_Dependencies params) zero_ClusterDependencies)"

definition standaloneDependencyParams :: "'w ctx \<Rightarrow> StandaloneDependencies option" where
  "standaloneDependencyParams c =
     (case TryDecodeStandalone c of None \<Rightarrow> None | Some params \<Rightarrow> stp_Dependencies params)"

definition storageDependencyParam :: "'w ctx \<Rightarrow> string \<Rightarrow> Storage option" where
  "storageDependencyParam c topologyType =
     (if topologyType = ''cluster''
      then (case TryDecodeCluster c of
              None \<Rightarrow> None
            | Some params \<Rightarrow>
                (case ctp_Dependencies params of None \<Rightarrow> None | Some deps \<Rightarrow> cd_Storage deps))
      else (case standaloneDependencyParams c of None \<Rightarrow> None | Some deps \<Rightarrow> sd_Storage deps))"

definition etcdDependencyParam :: "'w ctx \<Rightarrow> string \<Rightarrow> Etcd option" where
  "etcdDependencyParam c topologyType =
     (if topologyType = ''cluster'' then cd_Etcd (clusterDependencyParams c)
      else (case standaloneDependencyParams c of None \<Rightarrow> None | Some deps \<Rightarrow> sd_Etcd deps))"

section \<open>Defaults\<close>

definition defaultStandaloneEtcdReplicas :: int where "defaultStandaloneEtcdReplicas = 1"
definition defaultClusterEtcdReplicas :: int where "defaultClusterEtcdReplicas = 3"

definition requests_only :: "string \<Rightarrow> string \<Rightarrow> DepResources" where
  "requests_only cpu mem = \<lparr>Requests = Some \<lparr>CPU = cpu, Memory = mem\<rparr>, Limits = None\<rparr>"

definition defaultEtcdResources :: "DepResources option" where
  "defaultEtcdResources = Some (requests_only ''100m'' ''256Mi'')"

definition defaultEtcdPersistence :: string where "defaultEtcdPersistence = ''10Gi''"

definition defaultStorageResources :: "DepResources option" where
  "defaultStorageResources = Some (requests_only ''100m'' ''256Mi'')"

definition defaultStorageReplicas :: int where "defaultStorageReplicas = 1"
definition defaultStoragePersistence :: string where "defaultStoragePersistence = ''10Gi''"

definition defaultPulsarBroker :: PulsarComponent where
  "defaultPulsarBroker =
     \<lparr>pc_Replicas = Some 1, pc_Resources = Some (requests_only ''200m'' ''512Mi'')\<rparr>"

definition defaultPulsarProxy :: PulsarComponent where
  "defaultPulsarProxy =
     \<lparr>pc_Replicas = Some 1, pc_Resources = Some (requests_only ''100m'' ''256Mi'')\<rparr>"

definition defaultPulsarBookKeeper :: PulsarBookKeeper where
  "defaultPulsarBookKeeper =
     \<lparr>bkp_Replicas = Some 2, bkp_Resources = Some (requests_only ''200m'' ''512Mi''),
      bkp_Journal = Some \<lparr>Size = ''5Gi''\<rparr>, bkp_Ledgers = Some \<lparr>Size = ''10Gi''\<rparr>\<rparr>"

definition defaultPulsarZooKeeper :: PulsarZooKeeper where
  "defaultPulsarZooKeeper =
     \<lparr>zk_Replicas = Some 1, zk_Resources = Some (requests_only ''100m'' ''256Mi''),
      zk_Data = Some \<lparr>Size = ''5Gi''\<rparr>\<rparr>"

section \<open>Overlays\<close>

definition mergeResources :: "DepResources option \<Rightarrow> DepResources option \<Rightarrow> DepResources option" where
  "mergeResources param def =
     (case param of
        None \<Rightarrow> def
      | Some p \<Rightarrow>
          (case def of
             None \<Rightarrow> Some p
           | Some d \<Rightarrow>
               Some \<lparr>Requests = (if Requests p = None then Requests d else Requests p),
                     Limits = (if Limits p = None then Limits d else Limits p)\<rparr>))"

text \<open>The size a persistence setting asks for, if it asks for one.\<close>

definition size_of :: "Persistence option \<Rightarrow> string option" where
  "size_of p = (case p of None \<Rightarrow> None | Some x \<Rightarrow> if Size x = '''' then None else Some (Size x))"

definition mergePersistence :: "Persistence option \<Rightarrow> Persistence option \<Rightarrow> Persistence option" where
  "mergePersistence param def = (if size_of param \<noteq> None then param else def)"

definition mergePulsarComponent ::
  "PulsarComponent option \<Rightarrow> PulsarComponent \<Rightarrow> PulsarComponent" where
  "mergePulsarComponent param def =
     (case param of
        None \<Rightarrow> def
      | Some p \<Rightarrow>
          \<lparr>pc_Replicas = (if pc_Replicas p = None then pc_Replicas def else pc_Replicas p),
           pc_Resources = mergeResources (pc_Resources p) (pc_Resources def)\<rparr>)"

definition mergePulsarBookKeeper ::
  "PulsarBookKeeper option \<Rightarrow> PulsarBookKeeper \<Rightarrow> PulsarBookKeeper" where
  "mergePulsarBookKeeper param def =
     (case param of
        None \<Rightarrow> def
      | Some p \<Rightarrow>
          \<lparr>bkp_Replicas = (if bkp_Replicas p = None then bkp_Replicas def else bkp_Replicas p),
           bkp_Resources = mergeResources (bkp_Resources p) (bkp_Resources def),
           bkp_Journal = mergePersistence (bkp_Journal p) (bkp_Journal def),
           bkp_Ledgers = mergePersistence (bkp_Ledgers p) (bkp_Ledgers def)\<rparr>)"

definition mergePulsarZooKeeper ::
  "PulsarZooKeeper option \<Rightarrow> PulsarZooKeeper \<Rightarrow> PulsarZooKeeper" where
  "mergePulsarZooKeeper param def =
     (case param of
        None \<Rightarrow> def
      | Some p \<Rightarrow>
          \<lparr>zk_Replicas = (if zk_Replicas p = None then zk_Replicas def else zk_Replicas p),
           zk_Resources = mergeResources (zk_Resources p) (zk_Resources def),
           zk_Data = mergePersistence (zk_Data p) (zk_Data def)\<rparr>)"

text \<open>The contract of an overlay, for one field of what it merges.\<close>

locale defaulted_field =
  fixes merge :: "'a option \<Rightarrow> 'a \<Rightarrow> 'a"
    and field :: "'a \<Rightarrow> 'b option"
  assumes merge_None: "merge None d = d"
    and merge_Some: "field (merge (Some p) d) = (if field p = None then field d else field p)"
begin

lemma user_wins: "field p = Some x \<Longrightarrow> field (merge (Some p) d) = Some x"
  by (simp add: merge_Some)

lemma default_kept: "field p = None \<Longrightarrow> field (merge (Some p) d) = field d"
  by (simp add: merge_Some)

lemma never_lost: "field d = Some x \<Longrightarrow> field (merge param d) \<noteq> None"
  by (cases param) (simp_all add: merge_None merge_Some)

lemma merge_idem: "field (merge param (merge param d)) = field (merge param d)"
  by (cases param) (simp_all add: merge_None merge_Some)

lemma layers:
  "field (merge (Some p) (merge (Some q) d)) = field (merge (Some (merge (Some p) q)) d)"
  by (cases "field p"; cases "field q") (simp_all add: merge_Some)

end

lemma size_of_mergePersistence:
  "size_of (mergePersistence p d) = (if size_of p = None then size_of d else size_of p)"
  by (simp add: mergePersistence_def)

definition requests_of :: "DepResources option \<Rightarrow> ResourceList option" where
  "requests_of r = Option.bind r Requests"

lemma requests_of_mergeResources:
  "requests_of (mergeResources p d) = (if requests_of p = None then requests_of d else requests_of p)"
  by (auto simp: requests_of_def mergeResources_def split: option.splits)

interpretation broker_replicas: defaulted_field mergePulsarComponent pc_Replicas
  by unfold_locales (simp_all add: mergePulsarComponent_def)

interpretation broker_requests: defaulted_field mergePulsarComponent "\<lambda>x. requests_of (pc_Resources x)"
  by unfold_locales (simp_all add: mergePulsarComponent_def requests_of_mergeResources)

interpretation bookie_replicas: defaulted_field mergePulsarBookKeeper bkp_Replicas
  by unfold_locales (simp_all add: mergePulsarBookKeeper_def)

interpretation bookie_journal: defaulted_field mergePulsarBookKeeper "\<lambda>x. size_of (bkp_Journal x)"
  by unfold_locales (simp_all add: mergePulsarBookKeeper_def size_of_mergePersistence)

interpretation bookie_ledgers: defaulted_field mergePulsarBookKeeper "\<lambda>x. size_of (bkp_Ledgers x)"
  by unfold_locales (simp_all add: mergePulsarBookKeeper_def size_of_mergePersistence)

interpretation zookeeper_replicas: defaulted_field mergePulsarZooKeeper zk_Replicas
  by unfold_locales (simp_all add: mergePulsarZooKeeper_def)

interpretation zookeeper_data: defaulted_field mergePulsarZooKeeper "\<lambda>x. size_of (zk_Data x)"
  by unfold_locales (simp_all add: mergePulsarZooKeeper_def size_of_mergePersistence)

section \<open>Helm values\<close>

definition resourceListToValues :: "ResourceList option \<Rightarrow> vmap option" where
  "resourceListToValues l =
     (case l of
        None \<Rightarrow> None
      | Some r \<Rightarrow>
          let values = (if CPU r \<noteq> '''' then [(''cpu'', VStr (CPU r))] else [])
                       @ (if Memory r \<noteq> '''' then [(''memory'', VStr (Memory r))] else [])
          in if values = [] then None else Some values)"

definition resourcesToValues :: "DepResources option \<Rightarrow> vmap option" where
  "resourcesToValues resources =
     (case resources of
        None \<Rightarrow> None
      | Some r \<Rightarrow>
          let values =
                (case resourceListToValues (Requests r) of
                   None \<Rightarrow> [] | Some req \<Rightarrow> [(''requests'', VMap req)])
                @ (case resourceListToValues (Limits r) of
                     None \<Rightarrow> [] | Some lim \<Rightarrow> [(''limits'', VMap lim)])
          in if values = [] then None else Some values)"

text \<open>\<open>if res := resourcesToValues(r); res != nil { values["resources"] = res }\<close>.\<close>

definition put_resources :: "DepResources option \<Rightarrow> vmap \<Rightarrow> vmap" where
  "put_resources r values =
     (case resourcesToValues r of
        None \<Rightarrow> values | Some res \<Rightarrow> AList.update ''resources'' (VMap res) values)"

definition put_replicas :: "int option \<Rightarrow> vmap \<Rightarrow> vmap" where
  "put_replicas r values =
     (case r of None \<Rightarrow> values | Some n \<Rightarrow> AList.update ''replicaCount'' (VInt n) values)"

definition withStorageClass :: "vmap \<Rightarrow> string \<Rightarrow> string \<Rightarrow> vmap" where
  "withStorageClass volume key storageClass =
     (if storageClass \<noteq> '''' then AList.update key (VStr storageClass) volume else volume)"

definition bundledInCluster :: "vmap \<Rightarrow> InClusterConfig" where
  "bundledInCluster values =
     \<lparr>HelmValues = values, DeletionPolicy = ''Delete'', PVCDeletion = True\<rparr>"

definition pulsarComponentValues :: "PulsarComponent \<Rightarrow> vmap" where
  "pulsarComponentValues component =
     put_resources (pc_Resources component) (put_replicas (pc_Replicas component) [])"

text \<open>A sized Pulsar volume; an unset or empty size renders none.\<close>

definition volume_values :: "string \<Rightarrow> Persistence option \<Rightarrow> string \<Rightarrow> vmap" where
  "volume_values key p storageClass =
     (case size_of p of
        None \<Rightarrow> []
      | Some s \<Rightarrow>
          [(key, VMap (withStorageClass [(''size'', VStr s)] ''storageClassName'' storageClass))])"

text \<open>\<open>if len(volumes) > 0 { values["volumes"] = volumes }\<close>.\<close>

definition put_volumes :: "vmap \<Rightarrow> vmap \<Rightarrow> vmap" where
  "put_volumes volumes values =
     (if volumes \<noteq> [] then AList.update ''volumes'' (VMap volumes) values else values)"

definition bookKeeperValues :: "PulsarBookKeeper \<Rightarrow> string \<Rightarrow> vmap" where
  "bookKeeperValues bk storageClass =
     put_volumes
       (volume_values ''journal'' (bkp_Journal bk) storageClass
        @ volume_values ''ledgers'' (bkp_Ledgers bk) storageClass)
       (put_resources (bkp_Resources bk) (put_replicas (bkp_Replicas bk) []))"

definition zooKeeperValues :: "PulsarZooKeeper \<Rightarrow> string \<Rightarrow> vmap" where
  "zooKeeperValues zk storageClass =
     put_volumes (volume_values ''data'' (zk_Data zk) storageClass)
       (put_resources (zk_Resources zk) (put_replicas (zk_Replicas zk) []))"

section \<open>The dependencies\<close>

text \<open>The bundled branch of \<open>buildEtcd\<close>: defaults, the user's overrides, the Helm values.\<close>

definition bundledEtcdValues :: "Etcd option \<Rightarrow> string \<Rightarrow> string \<Rightarrow> vmap" where
  "bundledEtcdValues param topologyType storageClass =
     (let defaultReplicas = (if topologyType = ''cluster'' then defaultClusterEtcdReplicas
                             else defaultStandaloneEtcdReplicas);
          replicas = deref (Option.bind param etcd_Replicas) defaultReplicas;
          resources = mergeResources (Option.bind param etcd_Resources) defaultEtcdResources;
          persistenceSize = deref (size_of (Option.bind param etcd_Persistence)) defaultEtcdPersistence;
          values = put_resources resources [(''replicaCount'', VInt replicas)]
      in if persistenceSize \<noteq> ''''
         then AList.update ''persistence''
                (VMap (withStorageClass [(''size'', VStr persistenceSize)] ''storageClass'' storageClass))
                values
         else values)"

definition buildEtcd :: "Etcd option \<Rightarrow> string \<Rightarrow> string \<Rightarrow> MilvusEtcd" where
  "buildEtcd param topologyType storageClass =
     (let bundled = zero_MilvusEtcd
            \<lparr>EtcdInCluster :=
               Some (bundledInCluster (bundledEtcdValues param topologyType storageClass))\<rparr>
      in case param of
           None \<Rightarrow> bundled
         | Some p \<Rightarrow>
             if etcd_External p
             then zero_MilvusEtcd\<lparr>EtcdExternal := True, EtcdEndpoints := etcd_Endpoints p\<rparr>
             else bundled)"

definition minioMode :: "int \<Rightarrow> string" where
  "minioMode replicas = (if replicas > 1 then ''distributed'' else ''standalone'')"

definition bundledStorageValues :: "Storage option \<Rightarrow> string \<Rightarrow> vmap" where
  "bundledStorageValues param storageClass =
     (let replicas = deref (Option.bind param st_Replicas) defaultStorageReplicas;
          resources = mergeResources (Option.bind param st_Resources) defaultStorageResources;
          persistenceSize = deref (size_of (Option.bind param st_Persistence)) defaultStoragePersistence;
          values =
            [(''mode'', VStr (minioMode replicas)),
             (''replicas'', VInt replicas),
             (''image'', VMap [(''repository'', VStr ''pgsty/silo''),
                               (''tag'', VStr ''RELEASE.2026-09-03T13-18-01Z'')]),
             (''mcImage'', VMap [(''repository'', VStr ''pgsty/mc''),
                                 (''tag'', VStr ''RELEASE.2026-09-13T00-00-00Z'')]),
             (''persistence'',
              VMap (withStorageClass [(''size'', VStr persistenceSize)] ''storageClass'' storageClass))]
      in put_resources resources values)"

definition buildStorage :: "Storage option \<Rightarrow> string \<Rightarrow> MilvusStorage" where
  "buildStorage param storageClass =
     (let bundled = zero_MilvusStorage
            \<lparr>StorageInCluster := Some (bundledInCluster (bundledStorageValues param storageClass))\<rparr>
      in case param of
           None \<Rightarrow> bundled
         | Some p \<Rightarrow>
             if st_External p
             then zero_MilvusStorage
                    \<lparr>StorageExternal := True, StorageEndpoint := st_Endpoint p,
                     StorageType := st_Type p, StorageSecretRef := st_CredentialsSecret p\<rparr>
             else bundled)"

definition bundledPulsarValues :: "Pulsar option \<Rightarrow> string \<Rightarrow> vmap" where
  "bundledPulsarValues param storageClass =
     (let broker = mergePulsarComponent (Option.bind param pl_Broker) defaultPulsarBroker;
          bookkeeper = mergePulsarBookKeeper (Option.bind param pl_BookKeeper) defaultPulsarBookKeeper;
          zookeeper = mergePulsarZooKeeper (Option.bind param pl_ZooKeeper) defaultPulsarZooKeeper;
          proxy = mergePulsarComponent (Option.bind param pl_Proxy) defaultPulsarProxy
      in [(''broker'', VMap (pulsarComponentValues broker)),
          (''bookkeeper'', VMap (bookKeeperValues bookkeeper storageClass)),
          (''zookeeper'', VMap (zooKeeperValues zookeeper storageClass)),
          (''proxy'', VMap (pulsarComponentValues proxy))])"

definition buildPulsar :: "Pulsar option \<Rightarrow> string \<Rightarrow> MilvusPulsar" where
  "buildPulsar param storageClass =
     (let bundled = zero_MilvusPulsar
            \<lparr>PulsarInCluster := Some (bundledInCluster (bundledPulsarValues param storageClass))\<rparr>
      in case param of
           None \<Rightarrow> bundled
         | Some p \<Rightarrow>
             if pl_External p
             then zero_MilvusPulsar\<lparr>PulsarExternal := True, PulsarEndpoint := pl_Endpoint p\<rparr>
             else bundled)"

section \<open>The message stream\<close>

definition existingMessageStreamType :: "'w ctx \<Rightarrow> 'w \<Rightarrow> string" where
  "existingMessageStreamType c w =
     (case existing_milvus c w of
        Inl _ \<Rightarrow> ''''
      | Inr existing \<Rightarrow>
          (case Dep (Spec existing) of
             None \<Rightarrow> ''''
           | Some dep \<Rightarrow>
               if MsgStreamType dep \<noteq> '''' then MsgStreamType dep
               else if PulsarInCluster (DepPulsar dep) \<noteq> None \<or> PulsarExternal (DepPulsar dep)
               then MessageStreamPulsar else ''''))"

definition messageStreamType :: "'w ctx \<Rightarrow> 'w \<Rightarrow> string \<Rightarrow> string" where
  "messageStreamType c w requested =
     (if requested \<noteq> '''' then requested
      else let existing = existingMessageStreamType c w in
           if existing \<noteq> '''' then existing else MessageStreamWoodpecker)"

section \<open>All dependencies of an instance\<close>

definition buildDependencies ::
  "'w ctx \<Rightarrow> 'w \<Rightarrow> string \<Rightarrow> Storage option \<Rightarrow> MilvusDependencies" where
  "buildDependencies c w topologyType storageParam =
     (if topologyType \<noteq> ''cluster'' then
        let etcdParam = Option.bind (standaloneDependencyParams c) sd_Etcd;
            storageClass = (case standaloneDependencyParams c of
                              None \<Rightarrow> '''' | Some deps \<Rightarrow> sd_StorageClassName deps)
        in \<lparr>DepEtcd = buildEtcd etcdParam topologyType storageClass, MsgStreamType = '''',
            DepPulsar = zero_MilvusPulsar, DepStorage = buildStorage storageParam storageClass\<rparr>
      else
        let deps = clusterDependencyParams c;
            stream = messageStreamType c w (cd_MessageStreamType deps)
        in \<lparr>DepEtcd = buildEtcd (cd_Etcd deps) topologyType (cd_StorageClassName deps),
            MsgStreamType = stream,
            DepPulsar =
              (if stream = MessageStreamPulsar
               then buildPulsar (cd_Pulsar deps) (cd_StorageClassName deps)
               else zero_MilvusPulsar),
            DepStorage = buildStorage storageParam (cd_StorageClassName deps)\<rparr>)"

text \<open>The storage class the topology parameters ask for.\<close>

definition requestedStorageClass :: "'w ctx \<Rightarrow> string \<Rightarrow> string" where
  "requestedStorageClass c topologyType =
     (if topologyType = ''cluster'' then cd_StorageClassName (clusterDependencyParams c)
      else (case standaloneDependencyParams c of
              None \<Rightarrow> '''' | Some deps \<Rightarrow> sd_StorageClassName deps))"

section \<open>Engine configuration of external dependencies\<close>

definition str_entry :: "string \<Rightarrow> string \<Rightarrow> vmap" where
  "str_entry k s = (if s \<noteq> '''' then [(k, VStr s)] else [])"

definition externalStorageConfig :: "Storage option \<Rightarrow> vmap option" where
  "externalStorageConfig param =
     (case param of
        None \<Rightarrow> None
      | Some p \<Rightarrow>
          if \<not> st_External p then None
          else
            let minio =
                  str_entry ''bucketName'' (st_Bucket p) @ str_entry ''rootPath'' (st_RootPath p)
                  @ str_entry ''region'' (st_Region p)
                  @ str_entry ''cloudProvider'' (st_CloudProvider p)
                  @ (if st_UseSSL p then [(''useSSL'', VBool True)] else [])
                  @ (if st_UseIAM p then [(''useIAM'', VBool True)] else [])
            in if minio = [] then None else Some [(''minio'', VMap minio)])"

definition externalEtcdConfig :: "Etcd option \<Rightarrow> vmap option" where
  "externalEtcdConfig param =
     (case param of
        None \<Rightarrow> None
      | Some p \<Rightarrow>
          if \<not> etcd_External p \<or> etcd_RootPath p = '''' then None
          else Some
            [(''etcd'', VMap [(''rootPath'', VStr (etcd_RootPath p))]),
             (''msgChannel'',
              VMap [(''chanNamePrefix'', VMap [(''cluster'', VStr (etcd_RootPath p))])])])"

definition storageServiceAccount :: "Storage option \<Rightarrow> string" where
  "storageServiceAccount param =
     (case param of None \<Rightarrow> '''' | Some p \<Rightarrow> if \<not> st_External p then '''' else st_ServiceAccountName p)"

section \<open>What the rendered values hold\<close>

lemma size_of_not_empty: "size_of p = Some s \<Longrightarrow> s \<noteq> ''''"
  by (auto simp: size_of_def split: option.splits if_splits)

lemma map_of_put_resources:
  "k \<noteq> ''resources'' \<Longrightarrow> map_of (put_resources r values) k = map_of values k"
  by (simp add: put_resources_def alist_simps split: option.split)

lemma map_of_put_replicas:
  "k \<noteq> ''replicaCount'' \<Longrightarrow> map_of (put_replicas r values) k = map_of values k"
  by (simp add: put_replicas_def alist_simps split: option.split)

lemma map_of_withStorageClass:
  "map_of (withStorageClass volume key sc) k =
     (if sc \<noteq> '''' \<and> k = key then Some (VStr sc) else map_of volume k)"
  by (auto simp: withStorageClass_def alist_simps)

definition etcd_size :: "Etcd option \<Rightarrow> string" where
  "etcd_size param = deref (size_of (Option.bind param etcd_Persistence)) defaultEtcdPersistence"

definition storage_size :: "Storage option \<Rightarrow> string" where
  "storage_size param = deref (size_of (Option.bind param st_Persistence)) defaultStoragePersistence"

lemma etcd_size_not_empty: "etcd_size param \<noteq> ''''"
  by (auto simp: etcd_size_def deref_def defaultEtcdPersistence_def size_of_not_empty
      split: option.split)

lemma storage_size_not_empty: "storage_size param \<noteq> ''''"
  by (auto simp: storage_size_def deref_def defaultStoragePersistence_def size_of_not_empty
      split: option.split)

lemma etcd_persistence:
  "map_of (bundledEtcdValues param t sc) ''persistence'' =
     Some (VMap (withStorageClass [(''size'', VStr (etcd_size param))] ''storageClass'' sc))"
  using etcd_size_not_empty [of param]
  by (simp add: bundledEtcdValues_def etcd_size_def Let_def alist_simps)

lemma storage_persistence:
  "map_of (bundledStorageValues param sc) ''persistence'' =
     Some (VMap (withStorageClass [(''size'', VStr (storage_size param))] ''storageClass'' sc))"
  by (simp add: bundledStorageValues_def storage_size_def Let_def map_of_put_resources)

lemma sub_map_persistence:
  "sub_map (bundledEtcdValues param t sc) ''persistence'' =
     withStorageClass [(''size'', VStr (etcd_size param))] ''storageClass'' sc"
  "sub_map (bundledStorageValues sparam sc) ''persistence'' =
     withStorageClass [(''size'', VStr (storage_size sparam))] ''storageClass'' sc"
  by (simp_all add: sub_map_def etcd_persistence storage_persistence)

lemma bookie_volumes:
  assumes "size_of (bkp_Journal bk) = Some j" "size_of (bkp_Ledgers bk) = Some l"
  shows "map_of (bookKeeperValues bk sc) ''volumes'' =
     Some (VMap [(''journal'', VMap (withStorageClass [(''size'', VStr j)] ''storageClassName'' sc)),
                 (''ledgers'', VMap (withStorageClass [(''size'', VStr l)] ''storageClassName'' sc))])"
  using assms by (simp add: bookKeeperValues_def put_volumes_def volume_values_def alist_simps)

lemma zookeeper_volumes:
  assumes "size_of (zk_Data zk) = Some d"
  shows "map_of (zooKeeperValues zk sc) ''volumes'' =
     Some (VMap [(''data'', VMap (withStorageClass [(''size'', VStr d)] ''storageClassName'' sc))])"
  using assms by (simp add: zooKeeperValues_def put_volumes_def volume_values_def alist_simps)

lemma size_entry: "map_of (withStorageClass [(''size'', VStr s)] ''storageClass'' sc) ''size'' = Some (VStr s)"
    "map_of (withStorageClass [(''size'', VStr s)] ''storageClassName'' sc) ''size'' = Some (VStr s)"
  by (simp_all add: map_of_withStorageClass)

lemma bookie_volumes_merged:
  "\<exists>j l. j \<noteq> '''' \<and> l \<noteq> '''' \<and>
     map_of (bookKeeperValues (mergePulsarBookKeeper p defaultPulsarBookKeeper) sc) ''volumes'' =
     Some (VMap [(''journal'', VMap (withStorageClass [(''size'', VStr j)] ''storageClassName'' sc)),
                 (''ledgers'', VMap (withStorageClass [(''size'', VStr l)] ''storageClassName'' sc))])"
proof -
  let ?bk = "mergePulsarBookKeeper p defaultPulsarBookKeeper"
  have "size_of (bkp_Journal defaultPulsarBookKeeper) = Some ''5Gi''"
    and "size_of (bkp_Ledgers defaultPulsarBookKeeper) = Some ''10Gi''"
    by (simp_all add: defaultPulsarBookKeeper_def size_of_def)
  then obtain j l where j: "size_of (bkp_Journal ?bk) = Some j" and l: "size_of (bkp_Ledgers ?bk) = Some l"
    using bookie_journal.never_lost [of defaultPulsarBookKeeper _ p]
      bookie_ledgers.never_lost [of defaultPulsarBookKeeper _ p] by auto
  show ?thesis
    by (intro exI conjI, rule size_of_not_empty [OF j], rule size_of_not_empty [OF l],
        rule bookie_volumes [OF j l])
qed

lemma zookeeper_volumes_merged:
  "\<exists>d. d \<noteq> '''' \<and>
     map_of (zooKeeperValues (mergePulsarZooKeeper p defaultPulsarZooKeeper) sc) ''volumes'' =
     Some (VMap [(''data'', VMap (withStorageClass [(''size'', VStr d)] ''storageClassName'' sc))])"
proof -
  let ?zk = "mergePulsarZooKeeper p defaultPulsarZooKeeper"
  have "size_of (zk_Data defaultPulsarZooKeeper) = Some ''5Gi''"
    by (simp add: defaultPulsarZooKeeper_def size_of_def)
  then obtain d where d: "size_of (zk_Data ?zk) = Some d"
    using zookeeper_data.never_lost [of defaultPulsarZooKeeper _ p] by auto
  show ?thesis
    by (intro exI conjI, rule size_of_not_empty [OF d], rule zookeeper_volumes [OF d])
qed

lemma pulsar_sections:
  "map_of (bundledPulsarValues param sc) ''bookkeeper'' =
     Some (VMap (bookKeeperValues
       (mergePulsarBookKeeper (Option.bind param pl_BookKeeper) defaultPulsarBookKeeper) sc))"
  "map_of (bundledPulsarValues param sc) ''zookeeper'' =
     Some (VMap (zooKeeperValues
       (mergePulsarZooKeeper (Option.bind param pl_ZooKeeper) defaultPulsarZooKeeper) sc))"
  by (simp_all add: bundledPulsarValues_def Let_def)

lemma messageStreamType_not_empty: "messageStreamType c w r \<noteq> ''''"
  by (simp add: messageStreamType_def MessageStreamWoodpecker_def Let_def)

section \<open>Properties\<close>

text \<open>
  No bundled volume is ever left to its chart's (oversized) default. Whatever the user
  set or left out, and whatever the storage class, the Helm values rendered for etcd, MinIO,
  the Pulsar bookies (journal and ledgers) and ZooKeeper name a non-empty size.
\<close>

theorem bundled_volumes_always_sized:
  "(\<exists>s. s \<noteq> '''' \<and> at_path [''persistence'', ''size''] (bundledEtcdValues etcd t sc) = Some (VStr s)) \<and>
   (\<exists>s. s \<noteq> '''' \<and> at_path [''persistence'', ''size''] (bundledStorageValues storage sc) = Some (VStr s)) \<and>
   (\<exists>s. s \<noteq> '''' \<and> at_path [''bookkeeper'', ''volumes'', ''journal'', ''size'']
                      (bundledPulsarValues pulsar sc) = Some (VStr s)) \<and>
   (\<exists>s. s \<noteq> '''' \<and> at_path [''bookkeeper'', ''volumes'', ''ledgers'', ''size'']
                      (bundledPulsarValues pulsar sc) = Some (VStr s)) \<and>
   (\<exists>s. s \<noteq> '''' \<and> at_path [''zookeeper'', ''volumes'', ''data'', ''size'']
                      (bundledPulsarValues pulsar sc) = Some (VStr s))"
proof -
  obtain j l where bk: "j \<noteq> ''''" "l \<noteq> ''''" and bkv:
    "map_of (bookKeeperValues
       (mergePulsarBookKeeper (Option.bind pulsar pl_BookKeeper) defaultPulsarBookKeeper) sc) ''volumes'' =
     Some (VMap [(''journal'', VMap (withStorageClass [(''size'', VStr j)] ''storageClassName'' sc)),
                 (''ledgers'', VMap (withStorageClass [(''size'', VStr l)] ''storageClassName'' sc))])"
    using bookie_volumes_merged by blast
  obtain d where zk: "d \<noteq> ''''" and zkv:
    "map_of (zooKeeperValues
       (mergePulsarZooKeeper (Option.bind pulsar pl_ZooKeeper) defaultPulsarZooKeeper) sc) ''volumes'' =
     Some (VMap [(''data'', VMap (withStorageClass [(''size'', VStr d)] ''storageClassName'' sc))])"
    using zookeeper_volumes_merged by blast
  from bk zk show ?thesis
    by (simp add: etcd_persistence storage_persistence pulsar_sections bkv zkv size_entry
        etcd_size_not_empty storage_size_not_empty)
qed

text \<open>
  The storage class of the topology parameters reaches every bundled volume, under the
  key its chart reads: \<open>storageClass\<close> for etcd and MinIO, \<open>storageClassName\<close> for the
  Pulsar bookies and ZooKeeper.
\<close>

theorem storage_class_on_every_volume:
  assumes "sc \<noteq> ''''"
  shows "at_path [''persistence'', ''storageClass''] (bundledEtcdValues etcd t sc) = Some (VStr sc) \<and>
    at_path [''persistence'', ''storageClass''] (bundledStorageValues storage sc) = Some (VStr sc) \<and>
    at_path [''bookkeeper'', ''volumes'', ''journal'', ''storageClassName'']
      (bundledPulsarValues pulsar sc) = Some (VStr sc) \<and>
    at_path [''bookkeeper'', ''volumes'', ''ledgers'', ''storageClassName'']
      (bundledPulsarValues pulsar sc) = Some (VStr sc) \<and>
    at_path [''zookeeper'', ''volumes'', ''data'', ''storageClassName'']
      (bundledPulsarValues pulsar sc) = Some (VStr sc)"
proof -
  obtain j l where bkv:
    "map_of (bookKeeperValues
       (mergePulsarBookKeeper (Option.bind pulsar pl_BookKeeper) defaultPulsarBookKeeper) sc) ''volumes'' =
     Some (VMap [(''journal'', VMap (withStorageClass [(''size'', VStr j)] ''storageClassName'' sc)),
                 (''ledgers'', VMap (withStorageClass [(''size'', VStr l)] ''storageClassName'' sc))])"
    using bookie_volumes_merged by blast
  obtain d where zkv:
    "map_of (zooKeeperValues
       (mergePulsarZooKeeper (Option.bind pulsar pl_ZooKeeper) defaultPulsarZooKeeper) sc) ''volumes'' =
     Some (VMap [(''data'', VMap (withStorageClass [(''size'', VStr d)] ''storageClassName'' sc))])"
    using zookeeper_volumes_merged by blast
  from assms show ?thesis
    by (simp add: etcd_persistence storage_persistence pulsar_sections bkv zkv map_of_withStorageClass)
qed

theorem storage_class_on_every_volume_witness:
  "at_path [''persistence'', ''storageClass''] (bundledEtcdValues None ''cluster'' ''fast'') =
     Some (VStr ''fast'') \<and>
   at_path [''zookeeper'', ''volumes'', ''data'', ''storageClassName'']
     (bundledPulsarValues None ''fast'') = Some (VStr ''fast'')"
  using storage_class_on_every_volume [of "''fast''" None "''cluster''" None None] by simp

text \<open>
  An instance keeps its write-ahead log. Once a cluster's Milvus CR carries the
  dependencies the provider rendered for it (from whatever parameters \<open>c0\<close> and cluster
  state \<open>w0\<close>), a later reconcile that no longer names a message stream resolves to the one
  it was created with: it never falls back to the default for new instances.
\<close>

theorem message_stream_kept:
  assumes "existing_milvus c w = Inr m"
    and "Dep (Spec m) = Some (buildDependencies c0 w0 ''cluster'' p0)"
  shows "messageStreamType c w '''' =
    messageStreamType c0 w0 (cd_MessageStreamType (clusterDependencyParams c0))"
  using assms messageStreamType_not_empty [of c0 w0 "cd_MessageStreamType (clusterDependencyParams c0)"]
  by (simp add: messageStreamType_def [of c] existingMessageStreamType_def buildDependencies_def Let_def)

theorem message_stream_kept_witness:
  "messageStreamType
     (ctx_with_milvus (sample_milvus\<lparr>Spec := sample_spec
        \<lparr>Dep := Some (buildDependencies (sample_ctx :: unit ctx) () ''cluster'' None)\<rparr>\<rparr>) :: unit ctx) () ''''
   = messageStreamType (sample_ctx :: unit ctx) ()
       (cd_MessageStreamType (clusterDependencyParams (sample_ctx :: unit ctx)))"
  by (rule message_stream_kept [OF existing_sample]) simp

end
