(* ===== verification/BackupConfig.thy ===== *)
theory BackupConfig
  imports Dependencies
begin

text \<open>
  \<open>internal/provider/backup_config.go\<close>: the two object stores of a milvus-backup run, read
  from the config the operator rendered and from the BackupStorage, and the config file
  built from them; \<open>internal/provider/storage_location.go\<close>: running Milvus itself on such a
  BackupStorage; and the object prefixes of \<open>backup_job.go\<close> that keep all of these apart.
\<close>

section \<open>Object stores\<close>

definition milvusConfigKey :: string where "milvusConfigKey = ''user.yaml''"
definition defaultMilvusStoragePort :: int where "defaultMilvusStoragePort = 9000"
definition defaultMilvusRootPath :: string where "defaultMilvusRootPath = ''files''"
definition milvusGRPCPort :: int where "milvusGRPCPort = 19530"
definition milvusManagementPort :: int where "milvusManagementPort = 9091"
definition rootUsername :: string where "rootUsername = ''root''"

record backupObjectStore =
  os_Provider :: string
  os_Address :: string
  os_Port :: int
  os_UseSSL :: bool
  os_Region :: string
  os_Bucket :: string
  os_RootPath :: string
  os_UseIAM :: bool

definition store_values :: "backupObjectStore \<Rightarrow> vmap" where
  "store_values s =
     [(''provider'', VStr (os_Provider s)), (''address'', VStr (os_Address s)),
      (''port'', VInt (os_Port s)), (''useSSL'', VBool (os_UseSSL s)),
      (''region'', VStr (os_Region s)), (''bucketName'', VStr (os_Bucket s)),
      (''rootPath'', VStr (os_RootPath s)),
      (''auth'', VMap [(''type'', VStr (if os_UseIAM s then ''iam'' else ''static''))])]"

text \<open>The error of \<open>strconv.Atoi\<close>.\<close>

definition atoi_error :: "string \<Rightarrow> go_error" where
  "atoi_error s =
     errorf (''strconv.Atoi: parsing '' @ quote s
             @ (if atoi_unbounded s = None then '': invalid syntax'' else '': value out of range''))"

definition parseMilvusObjectStore :: "lib \<Rightarrow> string \<Rightarrow> backupObjectStore result" where
  "parseMilvusObjectStore l userYAML =
     (case YamlToMinio l userYAML of
        Inl e \<Rightarrow> Inl (Wrap ''parse Milvus config'' e)
      | Inr minio \<Rightarrow>
          if min_Address minio = '''' \<or> min_BucketName minio = ''''
          then Inl (errorf ''the Milvus config has no object storage address or bucket yet'')
          else
            bind_result
              (case min_Port minio of
                 None \<Rightarrow> Inr defaultMilvusStoragePort
               | Some text \<Rightarrow>
                   (case atoi text of
                      None \<Rightarrow> Inl (Wrap (''parse Milvus object storage port '' @ text) (atoi_error text))
                    | Some parsed \<Rightarrow> Inr parsed))
              (\<lambda>port. Inr
                 \<lparr>os_Provider = (if min_CloudProvider minio \<noteq> '''' then min_CloudProvider minio
                                 else ''minio''),
                  os_Address = min_Address minio, os_Port = port, os_UseSSL = min_UseSSL minio,
                  os_Region = min_Region minio, os_Bucket = min_BucketName minio,
                  os_RootPath = (if min_RootPath minio = '''' then defaultMilvusRootPath
                                 else min_RootPath minio),
                  os_UseIAM = min_UseIAM minio\<rparr>))"

text \<open>A missing key of the ConfigMap's data reads as the empty string.\<close>

definition milvusObjectStore :: "'w ctx \<Rightarrow> 'w \<Rightarrow> string \<Rightarrow> backupObjectStore result" where
  "milvusObjectStore c w inst =
     (case GetConfigMap (api c) w inst of
        Inl e \<Rightarrow> Inl (Wrap ''read Milvus config'' e)
      | Inr cm \<Rightarrow>
          parseMilvusObjectStore (lib c) (deref (map_of (cm_Data cm) milvusConfigKey) ''''))"

definition backupStorageObjectStore ::
  "lib \<Rightarrow> BackupStorage \<Rightarrow> string \<Rightarrow> backupObjectStore result" where
  "backupStorageObjectStore l bs rootPath =
     (let prefix = ''BackupStorage '' @ quote (bs_Name bs) in
      case bs_S3 bs of
        None \<Rightarrow> Inl (errorf (prefix @ '': only s3 storage is supported''))
      | Some s3 \<Rightarrow>
          if bs_Type bs \<noteq> ''s3'' then Inl (errorf (prefix @ '': only s3 storage is supported''))
          else
            (case UrlParse l (s3_EndpointURL s3) of
               Inl _ \<Rightarrow> Inl (errorf (prefix @ '': invalid endpointURL '' @ quote (s3_EndpointURL s3)))
             | Inr (scheme, host_port) \<Rightarrow>
                 if host_port = ''''
                 then Inl (errorf (prefix @ '': invalid endpointURL '' @ quote (s3_EndpointURL s3)))
                 else
                   let useSSL = (scheme = ''https'') in
                   if useSSL \<and> s3_VerifyTLS s3 = Some False
                   then Inl (errorf (prefix @ '': verifyTLS false is not supported: Milvus and milvus-backup always verify TLS''))
                   else
                     let (host, portText) =
                           (case split_host_port host_port of
                              Some hp \<Rightarrow> hp
                            | None \<Rightarrow> (host_port, if useSSL then ''443'' else ''80''))
                     in (case atoi portText of
                           None \<Rightarrow> Inl (errorf (prefix @ '': invalid endpoint port '' @ quote portText))
                         | Some port \<Rightarrow> Inr
                             \<lparr>os_Provider = (if has_suffix host ''.amazonaws.com'' then ''aws'' else ''minio''),
                              os_Address = host, os_Port = port, os_UseSSL = useSSL,
                              os_Region = s3_Region s3, os_Bucket = s3_Bucket s3,
                              os_RootPath = rootPath, os_UseIAM = False\<rparr>)))"

definition milvusBackupConfig ::
  "lib \<Rightarrow> string \<Rightarrow> string \<Rightarrow> backupObjectStore \<Rightarrow> backupObjectStore \<Rightarrow> string result" where
  "milvusBackupConfig l inst namespace milvus backup =
     (let service = inst @ ''-milvus.'' @ namespace @ ''.svc'';
          config = VMap
            [(''configVersion'', VStr ''v2''),
             (''log'', VMap [(''level'', VStr ''info''), (''console'', VBool True),
                             (''file'', VMap [(''path'', VStr ''/tmp/milvus-backup.log'')])]),
             (''milvus'', VMap
               [(''user'', VStr rootUsername),
                (''grpc'', VMap [(''address'', VStr service), (''port'', VInt milvusGRPCPort)]),
                (''management'', VMap
                  [(''endpoint'', VStr (''http://'' @ service @ '':'' @ itoa milvusManagementPort))]),
                (''storage'', VMap (store_values milvus))]),
             (''backup'', VMap [(''storage'', VMap (store_values backup))])]
      in case YamlMarshal l config of
           Inl e \<Rightarrow> Inl (Wrap ''render milvus-backup config'' e)
         | Inr out \<Rightarrow> Inr out)"

definition milvusStorageSecret :: "Milvus \<Rightarrow> backupObjectStore \<Rightarrow> string" where
  "milvusStorageSecret cr store =
     (if os_UseIAM store then ''''
      else (case Dep (Spec cr) of None \<Rightarrow> '''' | Some dep \<Rightarrow> StorageSecretRef (DepStorage dep)))"

section \<open>Object prefixes\<close>

definition backupRootPath :: "string \<Rightarrow> string \<Rightarrow> string" where
  "backupRootPath namespace inst = ''everest/milvus/'' @ namespace @ ''/'' @ inst"

definition defaultStorageLocationRootPath :: "string \<Rightarrow> string \<Rightarrow> string" where
  "defaultStorageLocationRootPath namespace inst = ''milvus/'' @ namespace @ ''/'' @ inst"

definition storageLocationSecretName :: "string \<Rightarrow> string" where
  "storageLocationSecretName inst = inst @ ''-object-storage''"

section \<open>Storage locations\<close>

definition resolveStorageLocation ::
  "'w ctx \<Rightarrow> 'w \<Rightarrow> Storage option \<Rightarrow> Storage option result" where
  "resolveStorageLocation c w param =
     (case param of
        None \<Rightarrow> Inr None
      | Some p \<Rightarrow>
          if st_BackupStorageName p = '''' then Inr (Some p)
          else
            (case GetBackupStorage (api c) w (st_BackupStorageName p) of
               Inl e \<Rightarrow> Inl (Wrap ''storage location'' e)
             | Inr bs \<Rightarrow>
                 (case backupStorageObjectStore (lib c) bs '''' of
                    Inl e \<Rightarrow> Inl (Wrap ''storage location'' e)
                  | Inr store \<Rightarrow> Inr (Some
                      (p\<lparr>st_External := True,
                         st_Endpoint := join_host_port (os_Address store) (itoa (os_Port store)),
                         st_Type := (if os_Provider store = ''aws'' then ''S3'' else ''MinIO''),
                         st_Bucket := os_Bucket store,
                         st_Region := os_Region store,
                         st_UseSSL := os_UseSSL store,
                         st_CredentialsSecret := storageLocationSecretName (Name c),
                         st_RootPath := (if st_RootPath p = ''''
                                         then defaultStorageLocationRootPath (Namespace c) (Name c)
                                         else st_RootPath p)\<rparr>)))))"

definition storageLocationKeys :: "'w ctx \<Rightarrow> 'w \<Rightarrow> string \<Rightarrow> (string \<times> string) result" where
  "storageLocationKeys c w name =
     (case GetBackupStorage (api c) w name of
        Inl e \<Rightarrow> Inl (Wrap ''storage location'' e)
      | Inr bs \<Rightarrow>
          (case GetBackupStorageCredentials (api c) w bs of
             Inl e \<Rightarrow> Inl (Wrap (''storage location '' @ quote name) e)
           | Inr (accessKey, secretKey) \<Rightarrow>
               if accessKey = '''' \<or> secretKey = ''''
               then Inl (errorf (''storage location '' @ quote name
                      @ '': its credentials Secret has no AWS_ACCESS_KEY_ID or AWS_SECRET_ACCESS_KEY''))
               else Inr (accessKey, secretKey)))"

definition storageSecretKeyUser :: string where "storageSecretKeyUser = ''accesskey''"
definition storageSecretKeyPassword :: string where "storageSecretKeyPassword = ''secretkey''"

definition syncStorageLocationSecret :: "'w ctx \<Rightarrow> Storage option \<Rightarrow> ('w, unit) step" where
  "syncStorageLocationSecret c param w =
     (case param of
        None \<Rightarrow> (Inr (), w)
      | Some p \<Rightarrow>
          if st_BackupStorageName p = '''' then (Inr (), w)
          else
            (case storageLocationKeys c w (st_BackupStorageName p) of
               Inl e \<Rightarrow> (Inl e, w)
             | Inr (accessKey, secretKey) \<Rightarrow>
                 ApplySecret (api c)
                   \<lparr>sec_Meta = ObjectMetaOf c (storageLocationSecretName (Name c)),
                    sec_Type = ''Opaque'',
                    sec_Data = [(storageSecretKeyUser, accessKey),
                                (storageSecretKeyPassword, secretKey)]\<rparr> w))"

text \<open>
  For namespace and instance names without a slash, a default prefix tells its instance, and
  the prefixes of data and of backups never contain each other.
\<close>

lemma default_prefixes_apart:
  assumes "CHR ''/'' \<notin> set ns" "CHR ''/'' \<notin> set ns'" "CHR ''/'' \<notin> set i" "CHR ''/'' \<notin> set i'"
  shows "(has_prefix (defaultStorageLocationRootPath ns' i' @ ''/'' @ obj)
            (defaultStorageLocationRootPath ns i @ ''/'') \<longrightarrow> ns = ns' \<and> i = i') \<and>
         (has_prefix (backupRootPath ns' i' @ ''/'' @ obj) (backupRootPath ns i @ ''/'') \<longrightarrow>
            ns = ns' \<and> i = i') \<and>
         \<not> has_prefix (defaultStorageLocationRootPath ns' i' @ ''/'' @ obj) (backupRootPath ns i @ ''/'') \<and>
         \<not> has_prefix (backupRootPath ns' i' @ ''/'' @ obj) (defaultStorageLocationRootPath ns i @ ''/'')"
proof -
  have split: "ns = ns' \<and> i = i'"
    if "take (length (pre @ ns @ ''/'' @ i @ ''/'')) (pre @ ns' @ ''/'' @ i' @ ''/'' @ obj)
        = pre @ ns @ ''/'' @ i @ ''/''" for pre
  proof -
    let ?u = "pre @ ns @ ''/'' @ i @ ''/''" and ?v = "pre @ ns' @ ''/'' @ i' @ ''/'' @ obj"
    let ?rest = "drop (length ?u) ?v"
    have "?u @ ?rest = ?v"
      using that append_take_drop_id [of "length ?u" ?v] by argo
    then have "ns @ ''/'' @ i @ ''/'' @ ?rest = ns' @ ''/'' @ i' @ ''/'' @ obj"
      by (simp only: append_assoc same_append_eq)
    then obtain rest where "ns @ ''/'' @ i @ ''/'' @ rest = ns' @ ''/'' @ i' @ ''/'' @ obj" ..
    then have "cut_first (CHR ''/'') (ns @ CHR ''/'' # (i @ CHR ''/'' # rest)) =
        cut_first (CHR ''/'') (ns' @ CHR ''/'' # (i' @ CHR ''/'' # obj))" by simp
    then have ns: "ns = ns'" and i: "i @ CHR ''/'' # rest = i' @ CHR ''/'' # obj"
      using cut_first_append [OF assms(1)] cut_first_append [OF assms(2)] by simp_all
    from i have "cut_first (CHR ''/'') (i @ CHR ''/'' # rest) =
        cut_first (CHR ''/'') (i' @ CHR ''/'' # obj)" by simp
    with ns show ?thesis
      using cut_first_append [OF assms(3)] cut_first_append [OF assms(4)] by simp
  qed
  show ?thesis
    using split [of "''milvus/''"] split [of "''everest/milvus/''"]
    by (auto simp: has_prefix_def defaultStorageLocationRootPath_def backupRootPath_def)
qed

section \<open>Properties\<close>

text \<open>A bracketed host with no port does not split.\<close>

lemma split_bracketed_without_port:
  assumes "CHR ''['' \<notin> set addr" "CHR '']'' \<notin> set addr"
  shows "split_host_port (''['' @ addr @ '']'') = None"
  using cut_first_append [of "CHR '']''" "''['' @ addr" "[]"] assms
  by (auto simp: split_host_port_def split: option.split)

text \<open>What a successful read of a BackupStorage says about its endpoint.\<close>

lemma backupStorageObjectStore_Inr:
  assumes "backupStorageObjectStore l bs r = Inr store"
  obtains s3 scheme hp where "bs_S3 bs = Some s3" "UrlParse l (s3_EndpointURL s3) = Inr (scheme, hp)"
    "os_UseSSL store \<longleftrightarrow> scheme = ''https''"
    "case split_host_port hp of
       Some (h, p) \<Rightarrow> os_Address store = h \<and> atoi p = Some (os_Port store)
     | None \<Rightarrow> os_Address store = hp \<and> os_Port store = (if scheme = ''https'' then 443 else 80)"
    "os_Bucket store = s3_Bucket s3" "os_Region store = s3_Region s3" "os_RootPath store = r"
    "scheme = ''https'' \<longrightarrow> s3_VerifyTLS s3 \<noteq> Some False"
proof -
  have ports: "atoi ''443'' = Some 443" "atoi ''80'' = Some 80"
    by (simp_all add: atoi_def atoi_unbounded_def atoi_digits_def char_digit_def is_int64_def)
  obtain s3 where s3: "bs_S3 bs = Some s3"
    using assms by (cases "bs_S3 bs") (simp_all add: backupStorageObjectStore_def Let_def)
  obtain scheme hp where url: "UrlParse l (s3_EndpointURL s3) = Inr (scheme, hp)"
    using assms s3 by (cases "UrlParse l (s3_EndpointURL s3)")
      (auto simp: backupStorageObjectStore_def Let_def split: if_splits)
  note eq = assms [unfolded backupStorageObjectStore_def Let_def s3 option.case url sum.case prod.case]
  show ?thesis
  proof (cases "split_host_port hp")
    case None
    with eq s3 url show ?thesis
      by (intro that [of s3 scheme hp]) (auto simp: ports split: if_splits)
  next
    case (Some q)
    obtain h p where q: "q = (h, p)" by (cases q)
    with Some eq s3 url show ?thesis
      by (intro that [of s3 scheme hp]) (auto simp: ports split: if_splits option.splits)
  qed
qed

lemma atoi_port: "atoi p = Some n \<Longrightarrow> atoi (itoa n) = Some n"
  by (rule atoi_itoa) (rule atoi_int64)

lemma resolveStorageLocation_Inr:
  assumes "resolveStorageLocation c w (Some p) = Inr (Some q)" "st_BackupStorageName p \<noteq> ''''"
  obtains bs store where "GetBackupStorage (api c) w (st_BackupStorageName p) = Inr bs"
    "backupStorageObjectStore (lib c) bs '''' = Inr store"
    "st_Endpoint q = join_host_port (os_Address store) (itoa (os_Port store))"
    "st_External q" "st_Bucket q = os_Bucket store" "st_UseSSL q = os_UseSSL store"
    "st_CredentialsSecret q = storageLocationSecretName (Name c)" "st_RootPath q \<noteq> ''''"
  using assms
  by (auto simp: resolveStorageLocation_def defaultStorageLocationRootPath_def
      split: sum.splits if_splits)


definition sample_storage :: "string \<Rightarrow> BackupStorage" where
  "sample_storage url =
     \<lparr>bs_Name = ''s3'', bs_Type = ''s3'',
      bs_S3 = Some \<lparr>s3_EndpointURL = url, s3_Bucket = ''b'', s3_Region = ''r'',
                    s3_VerifyTLS = None, s3_CredentialsSecret = ''keys''\<rparr>\<rparr>"

definition ctx_with_storage :: "string \<Rightarrow> 'w ctx" where
  "ctx_with_storage url = sample_ctx\<lparr>api := sample_api\<lparr>GetBackupStorage := \<lambda>_ _. Inr (sample_storage url)\<rparr>\<rparr>"

definition sample_location :: Storage where
  "sample_location =
     \<lparr>st_BackupStorageName = ''s3'', st_External = False, st_Endpoint = '''', st_Type = '''',
      st_CredentialsSecret = '''', st_UseIAM = False, st_ServiceAccountName = '''', st_Region = '''',
      st_CloudProvider = '''', st_RootPath = '''', st_Bucket = '''', st_UseSSL = False,
      st_Replicas = None, st_Resources = None, st_Persistence = None\<rparr>"

lemma resolve_sample:
  "resolveStorageLocation (ctx_with_storage ''http://minio:9000'' :: unit ctx) () (Some sample_location) =
     Inr (Some (sample_location\<lparr>st_External := True, st_Endpoint := ''minio:9000'', st_Type := ''MinIO'',
       st_Bucket := ''b'', st_Region := ''r'', st_CredentialsSecret := ''inst-object-storage'',
       st_RootPath := ''milvus/ns/inst''\<rparr>))"
  by (simp add: resolveStorageLocation_def ctx_with_storage_def sample_defs sample_location_def
      sample_storage_def backupStorageObjectStore_def Let_def has_prefix_def split_host_port_def
      has_suffix_def cut_suffix_def atoi_def atoi_unbounded_def atoi_digits_def char_digit_def
      is_int64_def join_host_port_def itoa_def nat_digits.simps digit_char_def
      defaultStorageLocationRootPath_def storageLocationSecretName_def)

lemma sample_host:
  "UrlParse (lib (ctx_with_storage u)) ''http://minio:9000'' = Inr (scheme, hp) \<Longrightarrow> hp = ''minio:9000''"
  by (simp add: ctx_with_storage_def sample_defs has_prefix_def)


text \<open>
  C39: an IPv6 endpoint without a port is mangled. For every BackupStorage whose endpoint URL has
  the authority \<open>[addr]\<close>, with \<open>addr\<close> any text with a colon and no brackets, the address keeps its
  brackets, and joining it with the default port of the scheme adds a second pair: the
  endpoint Milvus is configured with is \<open>[[addr]]:80\<close> (or \<open>:443\<close>), which no client can split
  into a host and a port.
\<close>

theorem ipv6_endpoint_without_port_mangled:
  assumes "GetBackupStorage (api c) w (st_BackupStorageName p) = Inr bs"
    and "bs_Type bs = ''s3''" "bs_S3 bs = Some s3"
    and "UrlParse (lib c) (s3_EndpointURL s3) = Inr (scheme, ''['' @ addr @ '']'')"
    and "CHR '':'' \<in> set addr" "CHR ''['' \<notin> set addr" "CHR '']'' \<notin> set addr"
    and "\<not> (scheme = ''https'' \<and> s3_VerifyTLS s3 = Some False)" "st_BackupStorageName p \<noteq> ''''"
  shows "\<exists>q. resolveStorageLocation c w (Some p) = Inr (Some q) \<and>
     st_Endpoint q = ''[['' @ addr @ '']]:'' @ (if scheme = ''https'' then ''443'' else ''80'') \<and>
     split_host_port (st_Endpoint q) = None"
proof -
  let ?port = "if scheme = ''https'' then ''443'' else ''80''"
  have bare: "split_host_port (''['' @ addr @ '']'') = None"
    by (rule split_bracketed_without_port [OF assms(6,7)])
  have mangled: "split_host_port (''[['' @ addr @ '']]:'' @ ?port) = None"
    using cut_first_append [OF assms(7), of "'']:'' @ ?port"]
    by (auto simp: split_host_port_def split: option.split dest: cut_last_Some)
  have ports: "atoi ''443'' = Some 443" "atoi ''80'' = Some 80" "itoa 443 = ''443''" "itoa 80 = ''80''"
    by code_simp+
  from assms ports bare have "\<exists>q. resolveStorageLocation c w (Some p) = Inr (Some q) \<and>
      st_Endpoint q = ''[['' @ addr @ '']]:'' @ ?port"
    by (auto simp: resolveStorageLocation_def backupStorageObjectStore_def Let_def join_host_port_def)
  with mangled show ?thesis by metis
qed

theorem ipv6_endpoint_without_port_mangled_witness:
  "\<exists>q. resolveStorageLocation (ctx_with_storage ''http://[::1]'' :: unit ctx) () (Some sample_location) =
         Inr (Some q) \<and> st_Endpoint q = ''[[::1]]:80'' \<and> split_host_port (st_Endpoint q) = None"
  using ipv6_endpoint_without_port_mangled [of "ctx_with_storage ''http://[::1]'' :: unit ctx" "()"
        sample_location "sample_storage ''http://[::1]''"
        "\<lparr>s3_EndpointURL = ''http://[::1]'', s3_Bucket = ''b'', s3_Region = ''r'',
          s3_VerifyTLS = None, s3_CredentialsSecret = ''keys''\<rparr>" "''http''" "''::1''"]
  by (simp add: ctx_with_storage_def sample_storage_def sample_location_def sample_defs has_prefix_def)

end
