(* ===== verification/Credentials.thy ===== *)
theory Credentials
  imports BackupConfig
begin

text \<open>
  \<open>internal/provider/credentials.go\<close>: the root password of an instance and the keys of its
  bundled object storage, each generated once, kept in a Secret and read back from it.
\<close>

definition credentialsSecretSuffix :: string where "credentialsSecretSuffix = ''-credentials''"
definition secretKeyUsername :: string where "secretKeyUsername = ''username''"
definition secretKeyPassword :: string where "secretKeyPassword = ''password''"
definition secretKeyAppliedPassword :: string where "secretKeyAppliedPassword = ''appliedPassword''"
definition passwordLength :: nat where "passwordLength = 24"
definition rootPasswordEnv :: string where
  "rootPasswordEnv = ''COMMON_SECURITY_DEFAULTROOTPASSWORD''"
definition storageSecretSuffix :: string where "storageSecretSuffix = ''-minio''"
definition siloSecretKeyUser :: string where "siloSecretKeyUser = ''rootUser''"
definition siloSecretKeyPassword :: string where "siloSecretKeyPassword = ''rootPassword''"
definition storageUserLength :: nat where "storageUserLength = 20"
definition storagePasswordLength :: nat where "storagePasswordLength = 40"

lemmas secret_key_defs =
  secretKeyUsername_def secretKeyPassword_def secretKeyAppliedPassword_def
  storageSecretKeyUser_def storageSecretKeyPassword_def siloSecretKeyUser_def siloSecretKeyPassword_def

definition passwordLetters :: string where
  "passwordLetters = ''abcdefghijkmnopqrstuvwxyzABCDEFGHJKLMNPQRSTUVWXYZ''"

definition passwordAlphabet :: string where
  "passwordAlphabet = passwordLetters @ ''23456789''"

definition credentialsSecretName :: "string \<Rightarrow> string" where
  "credentialsSecretName instanceName = instanceName @ credentialsSecretSuffix"

definition storageSecretName :: "string \<Rightarrow> string" where
  "storageSecretName instanceName = instanceName @ storageSecretSuffix"

text \<open>A key of a Secret's data; a missing key reads as empty.\<close>

definition secret_value :: "Secret \<Rightarrow> string \<Rightarrow> string" where
  "secret_value s k = deref (map_of (sec_Data s) k) ''''"

section \<open>Generating passwords\<close>

text \<open>\<open>n\<close> bytes of the random source, each reduced to a character of the alphabet.\<close>

definition fillFromAlphabet :: "'w ctx \<Rightarrow> nat \<Rightarrow> string \<Rightarrow> ('w, string) step" where
  "fillFromAlphabet c n alphabet w =
     and_then (wrap_error ''generate password'' (RandRead (api c) n w)) (\<lambda>buf w.
       (Inr (map (\<lambda>b. alphabet ! (b mod length alphabet)) buf), w))"

definition generatePassword :: "'w ctx \<Rightarrow> nat \<Rightarrow> ('w, string) step" where
  "generatePassword c n w =
     and_then (fillFromAlphabet c 1 passwordLetters w) (\<lambda>first w.
     and_then (fillFromAlphabet c (n - 1) passwordAlphabet w) (\<lambda>rest w.
     (Inr (first @ rest), w)))"

section \<open>The root password\<close>

record rootCredentials =
  cred_password :: string
  cred_appliedPassword :: string

definition rotationPending :: "rootCredentials \<Rightarrow> bool" where
  "rotationPending r \<longleftrightarrow> cred_password r \<noteq> cred_appliedPassword r"

definition credentials_secret :: "'w ctx \<Rightarrow> rootCredentials \<Rightarrow> Secret" where
  "credentials_secret c creds =
     \<lparr>sec_Meta = ObjectMetaOf c (credentialsSecretName (Name c)),
      sec_Type = ''Opaque'',
      sec_Data = [(secretKeyUsername, rootUsername), (secretKeyPassword, cred_password creds),
                  (secretKeyAppliedPassword, cred_appliedPassword creds)]\<rparr>"

definition applyCredentialsSecret :: "'w ctx \<Rightarrow> rootCredentials \<Rightarrow> ('w, unit) step" where
  "applyCredentialsSecret c creds w =
     wrap_error ''apply credentials secret'' (ApplySecret (api c) (credentials_secret c creds) w)"

text \<open>\<open>return creds, applyCredentialsSecret(c, creds)\<close>; callers drop \<open>creds\<close> on an error.\<close>

definition apply_and_return :: "'w ctx \<Rightarrow> rootCredentials \<Rightarrow> ('w, rootCredentials) step" where
  "apply_and_return c creds w = and_then (applyCredentialsSecret c creds w) (\<lambda>_ w. (Inr creds, w))"

definition ensureCredentials :: "'w ctx \<Rightarrow> ('w, rootCredentials) step" where
  "ensureCredentials c w =
     (let generate =
            (\<lambda>_::unit. and_then (generatePassword c passwordLength w) (\<lambda>password w.
               apply_and_return c \<lparr>cred_password = password, cred_appliedPassword = password\<rparr> w))
      in case GetSecret (api c) w (credentialsSecretName (Name c)) of
           Inl e \<Rightarrow> if IsNotFound e then generate () else (Inl (Wrap ''get credentials secret'' e), w)
         | Inr existing \<Rightarrow>
             let password = secret_value existing secretKeyPassword;
                 applied = secret_value existing secretKeyAppliedPassword
             in if password = '''' then generate ()
                else if applied \<noteq> ''''
                then (Inr \<lparr>cred_password = password, cred_appliedPassword = applied\<rparr>, w)
                else apply_and_return c \<lparr>cred_password = password, cred_appliedPassword = password\<rparr> w)"

section \<open>The bundled object storage's keys\<close>

definition storage_secret :: "'w ctx \<Rightarrow> string \<Rightarrow> string \<Rightarrow> string \<Rightarrow> Secret" where
  "storage_secret c name user password =
     \<lparr>sec_Meta = ObjectMetaOf c name, sec_Type = ''Opaque'',
      sec_Data = [(storageSecretKeyUser, user), (storageSecretKeyPassword, password),
                  (siloSecretKeyUser, user), (siloSecretKeyPassword, password)]\<rparr>"

definition ensureStorageSecret :: "'w ctx \<Rightarrow> string \<Rightarrow> ('w, unit) step" where
  "ensureStorageSecret c name w =
     (let continue =
            (\<lambda>user password. and_then
               (if user = '''' \<or> password = ''''
                then and_then (generatePassword c storageUserLength w) (\<lambda>generatedUser w.
                     and_then (generatePassword c storagePasswordLength w) (\<lambda>generatedPassword w.
                     (Inr (generatedUser, generatedPassword), w)))
                else (Inr (user, password), w))
               (\<lambda>(user, password) w.
                  wrap_error (''apply secret '' @ name)
                    (ApplySecret (api c) (storage_secret c name user password) w)))
      in case GetSecret (api c) w name of
           Inl e \<Rightarrow> if IsNotFound e then continue '''' ''''
                    else (Inl (Wrap (''get secret '' @ name) e), w)
         | Inr existing \<Rightarrow> continue (secret_value existing storageSecretKeyUser)
                             (secret_value existing storageSecretKeyPassword))"

section \<open>Authentication in the rendered spec\<close>

definition applyAuthConfig :: "MilvusSpec \<Rightarrow> string \<Rightarrow> MilvusSpec" where
  "applyAuthConfig spec credentialsSecret =
     spec\<lparr>Conf := Some (deepMergeValues (deref (Conf spec) [])
            [(''common'', VMap [(''security'', VMap [(''authorizationEnabled'', VBool True)])])]),
          Com := (Com spec)\<lparr>Env := Env (Com spec) @
            [\<lparr>env_Name = rootPasswordEnv, env_Value = '''',
              env_ValueFrom = Some \<lparr>evs_FieldRef = None,
                evs_SecretKeyRef = Some \<lparr>sks_Name = credentialsSecret, sks_Key = secretKeyPassword\<rparr>,
                evs_Other = VNull\<rparr>\<rparr>]\<rparr>\<rparr>"

definition generatedStorageCredentials :: "'w ctx \<Rightarrow> 'w \<Rightarrow> bool result" where
  "generatedStorageCredentials c w =
     (case existing_milvus c w of
        Inl e \<Rightarrow> if IsNotFound e then Inr True else Inl (Wrap ''get Milvus CR'' e)
      | Inr existing \<Rightarrow>
          (case Dep (Spec existing) of
             None \<Rightarrow> Inr True
           | Some dep \<Rightarrow>
               if StorageExternal (DepStorage dep) then Inr True
               else (case StorageInCluster (DepStorage dep) of
                       None \<Rightarrow> Inr True
                     | Some inCluster \<Rightarrow>
                         Inr (map_of (HelmValues inCluster) ''existingSecret''
                              = Some (VStr (storageSecretName (Name c)))))))"

definition put_existing_secret :: "string \<Rightarrow> MilvusDependencies \<Rightarrow> InClusterConfig \<Rightarrow> MilvusDependencies" where
  "put_existing_secret name dep inCluster =
     dep\<lparr>DepStorage := (DepStorage dep)\<lparr>StorageInCluster := Some
       (inCluster\<lparr>HelmValues := AList.update ''existingSecret'' (VStr name) (HelmValues inCluster)\<rparr>)\<rparr>\<rparr>"

definition applyStorageCredentials :: "'w ctx \<Rightarrow> MilvusSpec \<Rightarrow> ('w, MilvusSpec) step" where
  "applyStorageCredentials c spec w =
     (case Dep spec of
        None \<Rightarrow> (Inr spec, w)
      | Some dep \<Rightarrow>
          if StorageExternal (DepStorage dep) then (Inr spec, w)
          else (case StorageInCluster (DepStorage dep) of
                  None \<Rightarrow> (Inr spec, w)
                | Some inCluster \<Rightarrow>
                    (case generatedStorageCredentials c w of
                       Inl e \<Rightarrow> (Inl e, w)
                     | Inr False \<Rightarrow> (Inr spec, w)
                     | Inr True \<Rightarrow>
                         let name = storageSecretName (Name c) in
                         and_then (ensureStorageSecret c name w) (\<lambda>_ w.
                           (Inr (spec\<lparr>Dep := Some (put_existing_secret name dep inCluster)\<rparr>), w)))))"

section \<open>Lemmas\<close>

text \<open>The contract of \<open>crypto/rand.Read\<close>: on success the whole buffer is filled.\<close>

definition rand_fills :: "'w ctx \<Rightarrow> bool" where
  "rand_fills c \<longleftrightarrow> (\<forall>n w buf w'. RandRead (api c) n w = (Inr buf, w') \<longrightarrow> length buf = n)"

text \<open>
  The contract of a Secret read after it was applied: the server holds the object as sent,
  under its name.
\<close>

definition secrets_read_back :: "'w ctx \<Rightarrow> bool" where
  "secrets_read_back c \<longleftrightarrow>
     (\<forall>s w w'. ApplySecret (api c) s w = (Inr (), w') \<longrightarrow>
        GetSecret (api c) w' (om_Name (sec_Meta s)) = Inr s) \<and>
     (\<forall>name. om_Name (ObjectMetaOf c name) = name)"

lemma passwordLetters_length [simp]: "length passwordLetters = 49"
  by (simp add: passwordLetters_def)

lemma passwordAlphabet_length [simp]: "length passwordAlphabet = 57"
  by (simp add: passwordAlphabet_def)

lemma fillFromAlphabet_Inr:
  assumes "rand_fills c" "fillFromAlphabet c n alphabet w = (Inr p, w')" "alphabet \<noteq> ''''"
  shows "length p = n \<and> set p \<subseteq> set alphabet"
proof -
  obtain buf where buf: "RandRead (api c) n w = (Inr buf, w')"
    "p = map (\<lambda>b. alphabet ! (b mod length alphabet)) buf"
    using assms(2) by (auto simp: fillFromAlphabet_def error_simps)
  with assms(1) have "length buf = n" by (auto simp: rand_fills_def)
  with buf(2) assms(3) show ?thesis by (auto intro!: nth_mem)
qed

lemma generatePassword_Inr:
  assumes "rand_fills c" "generatePassword c n w = (Inr p, w')" "0 < n"
  shows "length p = n \<and> hd p \<in> set passwordLetters \<and> set p \<subseteq> set passwordAlphabet"
proof -
  obtain a b w1 where a: "fillFromAlphabet c 1 passwordLetters w = (Inr a, w1)"
    and b: "fillFromAlphabet c (n - 1) passwordAlphabet w1 = (Inr b, w')" and p: "p = a @ b"
    using assms(2) by (auto simp: generatePassword_def error_simps)
  have ne: "passwordLetters \<noteq> ''''" "passwordAlphabet \<noteq> ''''"
    by (simp_all add: passwordLetters_def passwordAlphabet_def)
  have "length a = 1 \<and> set a \<subseteq> set passwordLetters" "length b = n - 1 \<and> set b \<subseteq> set passwordAlphabet"
    using fillFromAlphabet_Inr [OF assms(1) a ne(1)] fillFromAlphabet_Inr [OF assms(1) b ne(2)]
    by simp_all
  moreover have "set passwordLetters \<subseteq> set passwordAlphabet"
    by (auto simp: passwordAlphabet_def)
  ultimately show ?thesis using p assms(3) by (cases a) auto
qed

lemma apply_and_return_Inr:
  "apply_and_return c creds w = (Inr creds', w') \<longleftrightarrow>
     creds' = creds \<and> ApplySecret (api c) (credentials_secret c creds) w = (Inr (), w')"
  by (auto simp: apply_and_return_def applyCredentialsSecret_def error_simps)

lemma credentials_secret_values:
  "secret_value (credentials_secret c creds) secretKeyPassword = cred_password creds"
  "secret_value (credentials_secret c creds) secretKeyAppliedPassword = cred_appliedPassword creds"
  by (simp_all add: secret_value_def credentials_secret_def secret_key_defs)

lemma ensureCredentials_reads_back:
  assumes "secrets_read_back c" "ApplySecret (api c) (credentials_secret c creds) w = (Inr (), w')"
    and "cred_password creds \<noteq> ''''" "cred_appliedPassword creds \<noteq> ''''"
  shows "ensureCredentials c w' = (Inr creds, w')"
proof -
  have "GetSecret (api c) w' (credentialsSecretName (Name c)) = Inr (credentials_secret c creds)"
    using assms(1,2) by (force simp: secrets_read_back_def credentials_secret_def)
  with assms(3,4) show ?thesis
    by (simp add: ensureCredentials_def credentials_secret_values)
qed

section \<open>Properties\<close>

text \<open>
  A generated password is usable. When the random source fills its buffers,
  \<open>generatePassword\<close> returns exactly the requested number of characters (within the 72
  Milvus allows), all from the unambiguous alphabet, the first of them a letter, so that no
  reader takes the text for a number.
\<close>

theorem generated_password_shape:
  assumes "rand_fills c" "generatePassword c n w = (Inr p, w')" "0 < n"
  shows "length p = n \<and> hd p \<in> set passwordLetters \<and> set p \<subseteq> set passwordAlphabet \<and>
    set p \<inter> set ''01lIO'' = {} \<and> passwordLength \<le> 72"
proof -
  have "set passwordAlphabet \<inter> set ''01lIO'' = {}"
    by (simp add: passwordAlphabet_def passwordLetters_def)
  with generatePassword_Inr [OF assms] show ?thesis by (auto simp: passwordLength_def)
qed

theorem generated_password_shape_witness:
  "\<exists>p. generatePassword (sample_ctx :: unit ctx) 24 () = (Inr p, ()) \<and> length p = 24 \<and>
     hd p \<in> set passwordLetters"
proof -
  have fills: "rand_fills (sample_ctx :: unit ctx)" by (simp add: rand_fills_def sample_defs)
  obtain p where p: "generatePassword (sample_ctx :: unit ctx) 24 () = (Inr p, ())"
    by (simp add: generatePassword_def fillFromAlphabet_def sample_defs)
  with generated_password_shape [OF fills p] show ?thesis by auto
qed

text \<open>
  C14: an instance has one root password. Once \<open>ensureCredentials\<close> has succeeded, calling it
  again returns the same credentials and writes nothing, whether the first call found,
  completed or generated them; a password found in the Secret is never replaced, and one
  without an applied password is taken to be applied.
\<close>

theorem credentials_are_stable:
  assumes "rand_fills c" "secrets_read_back c" "ensureCredentials c w = (Inr creds, w')"
  shows "ensureCredentials c w' = (Inr creds, w') \<and> cred_password creds \<noteq> '''' \<and>
    (\<forall>s. GetSecret (api c) w (credentialsSecretName (Name c)) = Inr s \<and>
         secret_value s secretKeyPassword \<noteq> '''' \<longrightarrow>
       cred_password creds = secret_value s secretKeyPassword \<and>
       cred_appliedPassword creds =
         (if secret_value s secretKeyAppliedPassword = '''' then secret_value s secretKeyPassword
          else secret_value s secretKeyAppliedPassword) \<and>
       (secret_value s secretKeyAppliedPassword \<noteq> '''' \<longrightarrow> w' = w))"
proof -
  have generated: "cred_password creds \<noteq> '''' \<and> ensureCredentials c w' = (Inr creds, w')"
    if gen: "and_then (generatePassword c passwordLength w) (\<lambda>p w. apply_and_return c
        \<lparr>cred_password = p, cred_appliedPassword = p\<rparr> w) = (Inr creds, w')"
  proof -
    obtain p w1 where p: "generatePassword c passwordLength w = (Inr p, w1)"
      and creds: "creds = \<lparr>cred_password = p, cred_appliedPassword = p\<rparr>"
      and put: "ApplySecret (api c) (credentials_secret c creds) w1 = (Inr (), w')"
      using gen by (auto simp: error_simps apply_and_return_Inr)
    have "p \<noteq> ''''" using generatePassword_Inr [OF assms(1) p] by (auto simp: passwordLength_def)
    with creds show ?thesis using ensureCredentials_reads_back [OF assms(2) put] by simp
  qed
  show ?thesis
  proof (cases "GetSecret (api c) w (credentialsSecretName (Name c))")
    case (Inl e)
    with assms(3) generated show ?thesis
      by (auto simp: ensureCredentials_def Let_def split: if_splits)
  next
    case (Inr s)
    show ?thesis
    proof (cases "secret_value s secretKeyPassword = ''''")
      case True
      with assms(3) Inr generated show ?thesis by (simp add: ensureCredentials_def)
    next
      case False
      show ?thesis
      proof (cases "secret_value s secretKeyAppliedPassword = ''''")
        case True
        with assms(3) Inr False have "creds = \<lparr>cred_password = secret_value s secretKeyPassword,
              cred_appliedPassword = secret_value s secretKeyPassword\<rparr>"
          and "ApplySecret (api c) (credentials_secret c creds) w = (Inr (), w')"
          by (auto simp: ensureCredentials_def Let_def apply_and_return_Inr)
        with False True Inr show ?thesis using ensureCredentials_reads_back [OF assms(2)] by simp
      next
        case applied: False
        with assms(3) Inr False show ?thesis by (auto simp: ensureCredentials_def)
      qed
    qed
  qed
qed

text \<open>A cluster that holds at most one Secret and nothing else.\<close>

definition secret_store_ctx :: "Secret option ctx" where
  "secret_store_ctx = sample_ctx\<lparr>api := sample_api
     \<lparr>GetSecret := \<lambda>w name. (case w of None \<Rightarrow> not_found
        | Some s \<Rightarrow> if om_Name (sec_Meta s) = name then Inr s else not_found),
      ApplySecret := \<lambda>s _. (Inr (), Some s)\<rparr>\<rparr>"

lemma secret_store_contracts: "rand_fills secret_store_ctx" "secrets_read_back secret_store_ctx"
  by (simp_all add: rand_fills_def secrets_read_back_def secret_store_ctx_def sample_ctx_def
      sample_api_def)

theorem credentials_are_stable_witness:
  "\<exists>creds w. ensureCredentials secret_store_ctx None = (Inr creds, Some w) \<and>
     ensureCredentials secret_store_ctx (Some w) = (Inr creds, Some w) \<and> cred_password creds \<noteq> ''''"
proof -
  obtain creds w where cw: "ensureCredentials secret_store_ctx None = (Inr creds, Some w)"
    by (simp add: ensureCredentials_def secret_store_ctx_def generatePassword_def fillFromAlphabet_def
        sample_ctx_def sample_api_def apply_and_return_def applyCredentialsSecret_def)
  from credentials_are_stable [OF secret_store_contracts this] cw show ?thesis by blast
qed

lemma ensureStorageSecret_Inr:
  assumes "rand_fills c" "ensureStorageSecret c name w = (Inr (), w')"
  shows "\<exists>user password w1. ApplySecret (api c) (storage_secret c name user password) w1 = (Inr (), w') \<and>
    user \<noteq> '''' \<and> password \<noteq> '''' \<and>
    (\<forall>s. GetSecret (api c) w name = Inr s \<and> secret_value s storageSecretKeyUser \<noteq> '''' \<and>
       secret_value s storageSecretKeyPassword \<noteq> '''' \<longrightarrow>
       w1 = w \<and> user = secret_value s storageSecretKeyUser \<and>
       password = secret_value s storageSecretKeyPassword)"
proof -
  have pick: "\<exists>user password w1. user \<noteq> '''' \<and> password \<noteq> '''' \<and>
      ApplySecret (api c) (storage_secret c name user password) w1 = (Inr (), w') \<and>
      (u \<noteq> '''' \<and> p \<noteq> '''' \<longrightarrow> w1 = w \<and> user = u \<and> password = p)"
    if run: "and_then
               (if u = '''' \<or> p = ''''
                then and_then (generatePassword c storageUserLength w) (\<lambda>gu w.
                     and_then (generatePassword c storagePasswordLength w) (\<lambda>gp w. (Inr (gu, gp), w)))
                else (Inr (u, p), w))
               (\<lambda>(user, password) w.
                  wrap_error (''apply secret '' @ name)
                    (ApplySecret (api c) (storage_secret c name user password) w)) = (Inr (), w')" for u p
  proof (cases "u = '''' \<or> p = ''''")
    case True
    with run obtain gu gp w1 w2 where g: "generatePassword c storageUserLength w = (Inr gu, w1)"
      "generatePassword c storagePasswordLength w1 = (Inr gp, w2)"
      "ApplySecret (api c) (storage_secret c name gu gp) w2 = (Inr (), w')"
      by (auto simp: error_simps)
    have "length gu = 20" "length gp = 40"
      using generatePassword_Inr [OF assms(1) g(1)] generatePassword_Inr [OF assms(1) g(2)]
      by (simp_all add: storageUserLength_def storagePasswordLength_def)
    then have "gu \<noteq> ''''" "gp \<noteq> ''''" by auto
    with g(3) True show ?thesis by blast
  next
    case False
    with run show ?thesis by (auto simp: error_simps)
  qed
  show ?thesis
  proof (cases "GetSecret (api c) w name")
    case (Inl e)
    with assms(2) pick [of "''''" "''''"] show ?thesis
      by (auto simp: ensureStorageSecret_def Let_def split: if_splits)
  next
    case (Inr s)
    with assms(2) pick [of "secret_value s storageSecretKeyUser"
        "secret_value s storageSecretKeyPassword"] show ?thesis
      by (auto simp: ensureStorageSecret_def Let_def)
  qed
qed

text \<open>
  C25: the object storage keeps its keys. After \<open>ensureStorageSecret\<close> the Secret holds the
  same user and password under the names the operator reads and under those the Silo chart
  reads, non-empty; keys that were already there are kept; and running it again applies the
  very same Secret.
\<close>

theorem storage_keys_stable:
  assumes "rand_fills c" "secrets_read_back c" "ensureStorageSecret c name w = (Inr (), w')"
  shows "\<exists>user password. user \<noteq> '''' \<and> password \<noteq> '''' \<and>
    GetSecret (api c) w' name = Inr (storage_secret c name user password) \<and>
    (\<forall>s. GetSecret (api c) w name = Inr s \<and> secret_value s storageSecretKeyUser \<noteq> '''' \<and>
         secret_value s storageSecretKeyPassword \<noteq> '''' \<longrightarrow>
       user = secret_value s storageSecretKeyUser \<and>
       password = secret_value s storageSecretKeyPassword) \<and>
    (\<forall>w''. ensureStorageSecret c name w' = (Inr (), w'') \<longrightarrow>
       GetSecret (api c) w'' name = Inr (storage_secret c name user password)) \<and>
    secret_value (storage_secret c name user password) siloSecretKeyUser = user \<and>
    secret_value (storage_secret c name user password) siloSecretKeyPassword = password"
proof -
  have meta: "om_Name (sec_Meta (storage_secret c name u p)) = name" for u p
    using assms(2) by (simp add: secrets_read_back_def storage_secret_def)
  have reads: "GetSecret (api c) v name = Inr (storage_secret c name u p)"
    if "ApplySecret (api c) (storage_secret c name u p) v0 = (Inr (), v)" for u p v0 v
    using assms(2) that meta [of u p] unfolding secrets_read_back_def by metis
  have vals: "secret_value (storage_secret c name u p) storageSecretKeyUser = u"
    "secret_value (storage_secret c name u p) storageSecretKeyPassword = p"
    "secret_value (storage_secret c name u p) siloSecretKeyUser = u"
    "secret_value (storage_secret c name u p) siloSecretKeyPassword = p" for u p
    by (simp_all add: secret_value_def storage_secret_def secret_key_defs)
  obtain user password w1 where put:
      "ApplySecret (api c) (storage_secret c name user password) w1 = (Inr (), w')"
    and ne: "user \<noteq> ''''" "password \<noteq> ''''"
    and kept: "\<forall>s. GetSecret (api c) w name = Inr s \<and> secret_value s storageSecretKeyUser \<noteq> '''' \<and>
       secret_value s storageSecretKeyPassword \<noteq> '''' \<longrightarrow>
       w1 = w \<and> user = secret_value s storageSecretKeyUser \<and>
       password = secret_value s storageSecretKeyPassword"
    using ensureStorageSecret_Inr [OF assms(1,3)] by blast
  have again: "GetSecret (api c) w'' name = Inr (storage_secret c name user password)"
    if run: "ensureStorageSecret c name w' = (Inr (), w'')" for w''
  proof -
    obtain u p v where put2: "ApplySecret (api c) (storage_secret c name u p) v = (Inr (), w'')"
      and kept2: "\<forall>s. GetSecret (api c) w' name = Inr s \<and> secret_value s storageSecretKeyUser \<noteq> '''' \<and>
        secret_value s storageSecretKeyPassword \<noteq> '''' \<longrightarrow> v = w' \<and>
        u = secret_value s storageSecretKeyUser \<and> p = secret_value s storageSecretKeyPassword"
      using ensureStorageSecret_Inr [OF assms(1) run] by blast
    from kept2 reads [OF put] ne have "u = user" "p = password" by (simp_all add: vals)
    then show ?thesis using reads [OF put2] by simp
  qed
  show ?thesis
    using ne kept again by (intro exI [of _ user] exI [of _ password]) (simp add: reads [OF put] vals)
qed

theorem storage_keys_stable_witness:
  "\<exists>w user password. ensureStorageSecret secret_store_ctx ''inst-minio'' None = (Inr (), w) \<and>
     GetSecret (api secret_store_ctx) w ''inst-minio'' =
       Inr (storage_secret secret_store_ctx ''inst-minio'' user password) \<and> user \<noteq> ''''"
proof -
  obtain w where w: "ensureStorageSecret secret_store_ctx ''inst-minio'' None = (Inr (), w)"
    by (simp add: ensureStorageSecret_def secret_store_ctx_def generatePassword_def
        fillFromAlphabet_def sample_ctx_def sample_api_def storageUserLength_def
        storagePasswordLength_def passwordLetters_def)
  from storage_keys_stable [OF secret_store_contracts w] w show ?thesis by blast
qed

text \<open>
  Authentication cannot be configured away. Whatever engine configuration the user
  supplies, the spec \<open>applyAuthConfig\<close> returns has authorization enabled and ends its
  environment with the root password read from the credentials Secret, which Milvus ranks
  above its config files.
\<close>

theorem authorization_always_enabled:
  "(\<exists>conf. Conf (applyAuthConfig spec secret) = Some conf \<and>
      at_path [''common'', ''security'', ''authorizationEnabled''] conf = Some (VBool True)) \<and>
   (\<exists>src. env_ValueFrom (last (Env (Com (applyAuthConfig spec secret)))) = Some src \<and>
      env_Name (last (Env (Com (applyAuthConfig spec secret)))) = rootPasswordEnv \<and>
      evs_SecretKeyRef src = Some \<lparr>sks_Name = secret, sks_Key = secretKeyPassword\<rparr>)"
proof -
  have "at_path [''common'', ''security'', ''authorizationEnabled'']
      (deepMergeValues (deref (Conf spec) [])
        [(''common'', VMap [(''security'', VMap [(''authorizationEnabled'', VBool True)])])])
      = Some (VBool True)"
    by (rule deepMerge_leaf) (simp_all add: wf_vmap_def)
  then show ?thesis by (simp add: applyAuthConfig_def)
qed

lemma generatedStorageCredentials_bundled:
  assumes "existing_milvus c w = Inr m" "Dep (Spec m) = Some dep"
    and "\<not> StorageExternal (DepStorage dep)" "StorageInCluster (DepStorage dep) = Some inCluster"
  shows "generatedStorageCredentials c w =
    Inr (map_of (HelmValues inCluster) ''existingSecret'' = Some (VStr (storageSecretName (Name c))))"
  using assms by (simp add: generatedStorageCredentials_def)

lemma no_existingSecret_rendered: "map_of (bundledStorageValues param sc) ''existingSecret'' = None"
  by (simp add: bundledStorageValues_def Let_def map_of_put_resources)

lemma storage_key_mode_kept:
  assumes "applyStorageCredentials c spec w = (Inr spec', w')"
    and "Dep spec = Some dep" "DepStorage dep = buildStorage param sc" "\<not> StorageExternal (DepStorage dep)"
    and "existing_milvus c w1 = Inr m" "Dep (Spec m) = Dep spec'"
  shows "generatedStorageCredentials c w1 = generatedStorageCredentials c w"
proof -
  let ?ic = "bundledInCluster (bundledStorageValues param sc)"
  have st: "\<not> StorageExternal (DepStorage dep)" "StorageInCluster (DepStorage dep) = Some ?ic"
    using assms(3,4) by (auto simp: buildStorage_def zero_MilvusStorage_def Let_def split: option.splits if_splits)
  obtain g where g: "generatedStorageCredentials c w = Inr g"
    using assms(1,2) st by (auto simp: applyStorageCredentials_def split: sum.splits)
  show ?thesis
  proof (cases g)
    case True
    with assms(1,2) st g
    have "Dep spec' = Some (put_existing_secret (storageSecretName (Name c)) dep ?ic)"
      by (auto simp: applyStorageCredentials_def Let_def error_simps)
    with assms(5,6) st g True show ?thesis
      by (simp add: generatedStorageCredentials_def put_existing_secret_def alist_simps)
  next
    case False
    with assms(1,2) st g have "spec' = spec"
      by (simp add: applyStorageCredentials_def)
    with assms(2,5,6) st g False show ?thesis
      by (simp add: generatedStorageCredentials_bundled [of _ _ m dep ?ic] bundledInCluster_def
          no_existingSecret_rendered)
  qed
qed

text \<open>
  A bundled object store never changes how it gets its keys. If the Milvus CR in the
  cluster carries the dependencies \<open>applyStorageCredentials\<close> produced for the instance (from
  freshly rendered ones), a later reconcile decides the same way: an instance with generated
  keys keeps them, and one created with the chart's own keys is never handed a new Secret.
\<close>

theorem storage_key_mode_is_sticky:
  assumes "applyStorageCredentials c spec w = (Inr spec', w')"
    and "Dep spec = Some dep" "DepStorage dep = buildStorage param sc" "\<not> StorageExternal (DepStorage dep)"
    and "existing_milvus c w1 = Inr m" "Dep (Spec m) = Dep spec'"
  shows "generatedStorageCredentials c w1 = generatedStorageCredentials c w"
  by (rule storage_key_mode_kept [OF assms])

text \<open>A cluster that holds at most the Milvus CR; its state is that CR.\<close>

definition milvus_store_ctx :: "Milvus option ctx" where
  "milvus_store_ctx = sample_ctx\<lparr>api := sample_api
     \<lparr>GetMilvus := \<lambda>w _. (case w of None \<Rightarrow> not_found | Some m \<Rightarrow> Inr m)\<rparr>\<rparr>"

theorem storage_key_mode_is_sticky_witness:
  "\<exists>spec' m. applyStorageCredentials milvus_store_ctx
       (sample_spec\<lparr>Dep := Some (buildDependencies milvus_store_ctx None ''standalone'' None)\<rparr>) None
       = (Inr spec', None) \<and>
     Dep (Spec m) = Dep spec' \<and> generatedStorageCredentials milvus_store_ctx (Some m) = Inr True"
proof -
  let ?c = "milvus_store_ctx"
  let ?dep = "buildDependencies ?c None ''standalone'' None"
  let ?spec = "sample_spec\<lparr>Dep := Some ?dep\<rparr>"
  have dep: "DepStorage ?dep = buildStorage None ''''"
    by (simp add: buildDependencies_def standaloneDependencyParams_def milvus_store_ctx_def
        sample_ctx_def Let_def)
  have ext: "\<not> StorageExternal (DepStorage ?dep)"
    by (simp add: dep buildStorage_def zero_MilvusStorage_def)
  have g: "generatedStorageCredentials ?c None = Inr True"
    by (simp add: generatedStorageCredentials_def existing_milvus_def milvus_store_ctx_def)
  have ens: "ensureStorageSecret ?c n None = (Inr (), None)" for n
    by (simp add: ensureStorageSecret_def milvus_store_ctx_def generatePassword_def
        fillFromAlphabet_def sample_ctx_def sample_api_def Let_def)
  obtain spec' where run: "applyStorageCredentials ?c ?spec None = (Inr spec', None)"
    using g ens dep by (simp add: applyStorageCredentials_def buildStorage_def zero_MilvusStorage_def Let_def)
  let ?m = "sample_milvus\<lparr>Spec := spec'\<rparr>"
  have "existing_milvus ?c (Some ?m) = Inr ?m"
    by (simp add: existing_milvus_def milvus_store_ctx_def)
  from storage_key_mode_is_sticky [OF run _ dep ext this] run g show ?thesis
    by (intro exI [of _ spec'] exI [of _ ?m]) simp
qed

end
