(* ===== verification/RestClient.thy ===== *)
theory RestClient
  imports Credentials
begin

text \<open>
  The Milvus REST client of \<open>rootpassword.go\<close> and \<open>scaling.go\<close>, and the two interfaces of
  the provider that it implements: changing the root password, and asking how many replicas
  of each collection are loaded. The HTTP exchange itself is the parameter \<open>HttpPost\<close>.
\<close>

definition milvusPort :: string where "milvusPort = ''19530''"

definition milvusInternalURL :: "'w ctx \<Rightarrow> string" where
  "milvusInternalURL c =
     ''http://'' @ Name c @ ''-milvus.'' @ Namespace c @ ''.svc:'' @ milvusPort"

text \<open>
  \<open>call\<close> checks the HTTP status, reads at most 1 MiB, and checks Milvus's own code, which is
  an error even with HTTP 200, before it decodes the body.
\<close>

definition bearer :: "string \<Rightarrow> string" where
  "bearer password = ''Bearer '' @ rootUsername @ '':'' @ password"

definition call_response :: "lib \<Rightarrow> (string \<Rightarrow> 'a result) \<Rightarrow> http_response \<Rightarrow> 'a result" where
  "call_response l decode resp =
     (if rp_StatusCode resp \<noteq> 200
      then Inl (errorf (''milvus returned HTTP '' @ itoa (rp_StatusCode resp)))
      else
        let raw = take (2 ^ 20) (rp_Body resp) in
        (case DecodeMilvusStatus l raw of
           Inl e \<Rightarrow> Inl (Wrap ''decode milvus response'' e)
         | Inr (code, message) \<Rightarrow>
             if code \<noteq> 0
             then Inl (errorf (''milvus error '' @ itoa code @ '': '' @ message))
             else decode raw))"

definition rest_call ::
  "'w ctx \<Rightarrow> string \<Rightarrow> string \<Rightarrow> (string \<times> string) list \<Rightarrow> (string \<Rightarrow> 'a result) \<Rightarrow> ('w, 'a) step" where
  "rest_call c url password body decode w =
     and_then
       (HttpPost (api c) \<lparr>rq_URL = url, rq_Bearer = bearer password, rq_Body = body\<rparr> w)
       (\<lambda>resp w. (call_response (lib c) decode resp, w))"

text \<open>\<open>post\<close> decodes into an empty struct, which any response that passed the checks fits.\<close>

definition post :: "'w ctx \<Rightarrow> string \<Rightarrow> string \<Rightarrow> (string \<times> string) list \<Rightarrow> ('w, unit) step" where
  "post c url password body w = rest_call c url password body (\<lambda>_. Inr ()) w"

section \<open>The two interfaces\<close>

record 'w rootPasswordAPI =
  UpdatePassword :: "string \<Rightarrow> string \<Rightarrow> string \<Rightarrow> ('w, unit) step"
  Authenticate :: "string \<Rightarrow> string \<Rightarrow> ('w, unit) step"

type_synonym 'w loadedReplicasAPI = "string \<Rightarrow> string \<Rightarrow> ('w, (string \<times> int) list) step"

record 'w Provider =
  rootPassword :: "'w rootPasswordAPI"
  loadedReplicas :: "'w loadedReplicasAPI"

definition rest_UpdatePassword :: "'w ctx \<Rightarrow> string \<Rightarrow> string \<Rightarrow> string \<Rightarrow> ('w, unit) step" where
  "rest_UpdatePassword c baseURL oldPassword newPassword w =
     post c (baseURL @ ''/v2/vectordb/users/update_password'') oldPassword
       [(''userName'', rootUsername), (''password'', oldPassword), (''newPassword'', newPassword)] w"

definition rest_Authenticate :: "'w ctx \<Rightarrow> string \<Rightarrow> string \<Rightarrow> ('w, unit) step" where
  "rest_Authenticate c baseURL password w =
     post c (baseURL @ ''/v2/vectordb/users/list'') password [] w"

text \<open>\<open>replicas[collection] += n\<close> for every entry of one resource group.\<close>

definition add_replicas :: "(string \<times> int) list \<Rightarrow> (string \<times> int) list \<Rightarrow> (string \<times> int) list" where
  "add_replicas replicas described =
     fold (\<lambda>(collection, n) m.
        AList.update collection (add32 (deref (map_of m collection) 0) n) m) described replicas"

fun describe_groups ::
  "'w ctx \<Rightarrow> string \<Rightarrow> string \<Rightarrow> string list \<Rightarrow> (string \<times> int) list \<Rightarrow> ('w, (string \<times> int) list) step" where
  "describe_groups c baseURL password [] replicas w = (Inr replicas, w)"
| "describe_groups c baseURL password (g # groups) replicas w =
     and_then
       (rest_call c (baseURL @ ''/v2/vectordb/resource_groups/describe'') password
          [(''name'', g)] (DecodeLoadedReplicas (lib c)) w)
       (\<lambda>described w. describe_groups c baseURL password groups (add_replicas replicas described) w)"

definition LoadedReplicas :: "'w ctx \<Rightarrow> string \<Rightarrow> string \<Rightarrow> ('w, (string \<times> int) list) step" where
  "LoadedReplicas c baseURL password w =
     and_then
       (rest_call c (baseURL @ ''/v2/vectordb/resource_groups/list'') password []
          (DecodeResourceGroups (lib c)) w)
       (\<lambda>groups w. describe_groups c baseURL password groups [] w)"

definition NewProvider :: "'w ctx \<Rightarrow> 'w Provider" where
  "NewProvider c =
     \<lparr>rootPassword = \<lparr>UpdatePassword = rest_UpdatePassword c, Authenticate = rest_Authenticate c\<rparr>,
      loadedReplicas = LoadedReplicas c\<rparr>"

section \<open>Lemmas\<close>

lemma call_response_Inr:
  "call_response l decode resp = Inr x \<longleftrightarrow>
     rp_StatusCode resp = 200 \<and>
     (\<exists>m. DecodeMilvusStatus l (take (2 ^ 20) (rp_Body resp)) = Inr (0, m)) \<and>
     decode (take (2 ^ 20) (rp_Body resp)) = Inr x"
  by (auto simp: call_response_def Let_def split: sum.splits prod.splits if_splits)

lemma rest_call_Inr:
  "rest_call c url password body decode w = (Inr x, w') \<longleftrightarrow>
     (\<exists>resp. HttpPost (api c) \<lparr>rq_URL = url, rq_Bearer = bearer password, rq_Body = body\<rparr> w
             = (Inr resp, w') \<and> call_response (lib c) decode resp = Inr x)"
  by (auto simp: rest_call_def error_simps)

text \<open>How many replicas a collection has in one description of a resource group.\<close>

definition replica_count :: "(string \<times> int) list \<Rightarrow> string \<Rightarrow> int" where
  "replica_count m collection = sum_list (map snd (filter (\<lambda>e. fst e = collection) m))"

lemma add_replicas_lookup:
  "deref (map_of (add_replicas m d) collection) 0
     = wrap32 (deref (map_of m collection) 0 + replica_count d collection)"
  if "is_int32 (deref (map_of m collection) 0)"
  using that
proof (induction d arbitrary: m)
  case Nil
  then show ?case by (simp add: add_replicas_def replica_count_def wrap32_id)
next
  case (Cons e d)
  obtain k n where e: "e = (k, n)" by (cases e)
  let ?m = "AList.update k (add32 (deref (map_of m k) 0) n) m"
  have step: "add_replicas m (e # d) = add_replicas ?m d" by (simp add: add_replicas_def e)
  have "is_int32 (deref (map_of ?m collection) 0)"
    using Cons.prems by (simp add: alist_simps add32_def)
  from Cons.IH [OF this] show ?case
    unfolding step
    by (simp add: e replica_count_def alist_simps add32_def wrap32_add_wrap32 wrap32_wrap32_right
        ac_simps)
qed

lemma add_replicas_int32:
  "is_int32 (deref (map_of m collection) 0) \<Longrightarrow> is_int32 (deref (map_of (add_replicas m d) collection) 0)"
  by (simp add: add_replicas_lookup)

text \<open>
  What \<open>describe_groups\<close> adds up: each collection's replicas over the descriptions Milvus
  answered for the resource groups, one per group, as a 32-bit total.
\<close>

definition describes :: "'w ctx \<Rightarrow> string \<Rightarrow> string \<Rightarrow> string \<Rightarrow> (string \<times> int) list \<Rightarrow> bool" where
  "describes c baseURL password g d \<longleftrightarrow>
     (\<exists>w w'. rest_call c (baseURL @ ''/v2/vectordb/resource_groups/describe'') password
        [(''name'', g)] (DecodeLoadedReplicas (lib c)) w = (Inr d, w'))"

lemma describe_groups_total:
  assumes "describe_groups c url pw groups m w = (Inr r, w')"
  shows "\<exists>ds. list_all2 (describes c url pw) groups ds \<and>
    (\<forall>collection. is_int32 (deref (map_of m collection) 0) \<longrightarrow>
       deref (map_of r collection) 0 =
       wrap32 (deref (map_of m collection) 0 + sum_list (map (\<lambda>d. replica_count d collection) ds)))"
  using assms
proof (induction groups arbitrary: m w)
  case Nil
  then show ?case by (simp add: wrap32_id)
next
  case (Cons g groups)
  then obtain d w1 where d: "describe_groups c url pw groups (add_replicas m d) w1 = (Inr r, w')"
    and g: "describes c url pw g d"
    by (auto simp: error_simps describes_def)
  from Cons.IH [OF d] obtain ds where ds: "list_all2 (describes c url pw) groups ds"
    "\<And>k. is_int32 (deref (map_of (add_replicas m d) k) 0) \<Longrightarrow> deref (map_of r k) 0 =
      wrap32 (deref (map_of (add_replicas m d) k) 0 + sum_list (map (\<lambda>d. replica_count d k) ds))"
    by blast
  have "deref (map_of r k) 0 =
      wrap32 (deref (map_of m k) 0 + sum_list (map (\<lambda>d. replica_count d k) (d # ds)))"
    if k: "is_int32 (deref (map_of m k) 0)" for k
    using ds(2) [OF add_replicas_int32 [OF k]]
    by (simp add: add_replicas_lookup [OF k] wrap32_add_wrap32 add.assoc)
  with g ds(1) show ?case by (intro exI [of _ "d # ds"]) simp
qed

end
