(* ===== verification/RootPassword.thy ===== *)
theory RootPassword
  imports RestClient
begin

text \<open>
  \<open>internal/provider/rootpassword.go\<close>: rotating the root password of a running Milvus, and
  the protocol between three parties that results: the user edits the password in the
  Secret, the provider applies it to Milvus and records it as applied, and either write may
  be lost in between.
\<close>

definition syncRootPassword :: "'w Provider \<Rightarrow> 'w ctx \<Rightarrow> rootCredentials \<Rightarrow> ('w, unit) step" where
  "syncRootPassword p c creds w =
     (if \<not> rotationPending creds then (Inr (), w)
      else case existing_milvus c w of
        Inl _ \<Rightarrow> (Inr (), w)
      | Inr cr \<Rightarrow>
          if Status (CRStatus cr) \<noteq> StatusHealthy then (Inr (), w)
          else
            let baseURL = milvusInternalURL c;
                record_applied = (\<lambda>w. applyCredentialsSecret c
                   (creds\<lparr>cred_appliedPassword := cred_password creds\<rparr>) w)
            in (case UpdatePassword (rootPassword p) baseURL (cred_appliedPassword creds)
                       (cred_password creds) w of
                  (Inr _, w) \<Rightarrow> record_applied w
                | (Inl err, w) \<Rightarrow>
                    (case Authenticate (rootPassword p) baseURL (cred_password creds) w of
                       (Inl _, w) \<Rightarrow> (Inl (Wrap ''rotate root password'' err), w)
                     | (Inr _, w) \<Rightarrow> record_applied w)))"

definition credentialsSecretChanged :: "string \<Rightarrow> bool" where
  "credentialsSecretChanged objName = has_suffix objName credentialsSecretSuffix"

lemma credentialsSecretChanged_own [simp]: "credentialsSecretChanged (credentialsSecretName i)"
  by (auto simp: credentialsSecretChanged_def credentialsSecretName_def has_suffix_iff)

section \<open>Landing a rotation\<close>

text \<open>
  What Milvus's API does, in terms of the password \<open>actual\<close> it currently accepts: an update
  succeeds exactly with that password, an authentication likewise, and nothing else,
  writing a Secret included, changes it.
\<close>

definition serves_password :: "'w Provider \<Rightarrow> 'w ctx \<Rightarrow> ('w \<Rightarrow> string) \<Rightarrow> bool" where
  "serves_password p c actual \<longleftrightarrow>
     (\<forall>url old new w. case UpdatePassword (rootPassword p) url old new w of
        (Inr _, w') \<Rightarrow> actual w = old \<and> actual w' = new
      | (Inl _, w') \<Rightarrow> actual w \<noteq> old \<and> actual w' = actual w) \<and>
     (\<forall>url pw w. case Authenticate (rootPassword p) url pw w of
        (Inr _, w') \<Rightarrow> actual w = pw \<and> actual w' = actual w
      | (Inl _, w') \<Rightarrow> actual w \<noteq> pw \<and> actual w' = actual w) \<and>
     (\<forall>s w. actual (snd (ApplySecret (api c) s w)) = actual w)"

lemma serves_password_update:
  assumes "serves_password p c actual" "UpdatePassword (rootPassword p) url old new w = (r, w')"
  shows "case r of Inr _ \<Rightarrow> actual w = old \<and> actual w' = new
                 | Inl _ \<Rightarrow> actual w \<noteq> old \<and> actual w' = actual w"
  using assms unfolding serves_password_def by (metis (no_types, lifting) prod.case)

lemma serves_password_authenticate:
  assumes "serves_password p c actual" "Authenticate (rootPassword p) url pw w = (r, w')"
  shows "actual w' = actual w \<and> (isl r \<longleftrightarrow> actual w \<noteq> pw)"
  using assms unfolding serves_password_def by (cases r) (fastforce split: prod.splits)+

lemma serves_password_apply:
  "serves_password p c actual \<Longrightarrow> actual (snd (ApplySecret (api c) s w)) = actual w"
  by (simp add: serves_password_def)

lemma actual_applyCredentialsSecret:
  "serves_password p c actual \<Longrightarrow> actual (snd (applyCredentialsSecret c creds w)) = actual w"
  by (simp add: applyCredentialsSecret_def serves_password_apply)

text \<open>The three outcomes of a pending rotation on a healthy Milvus.\<close>

lemma syncRootPassword_cases:
  assumes "serves_password p c actual" "rotationPending creds"
    and "existing_milvus c w = Inr cr" "Status (CRStatus cr) = StatusHealthy"
  shows "(actual w = cred_appliedPassword creds \<or> actual w = cred_password creds) \<and>
      (\<exists>w1. actual w1 = cred_password creds \<and> syncRootPassword p c creds w =
        applyCredentialsSecret c (creds\<lparr>cred_appliedPassword := cred_password creds\<rparr>) w1) \<or>
    actual w \<noteq> cred_appliedPassword creds \<and> actual w \<noteq> cred_password creds \<and>
      (\<exists>e w1. actual w1 = actual w \<and> syncRootPassword p c creds w = (Inl e, w1))"
proof -
  let ?url = "milvusInternalURL c"
  obtain r w1 where u: "UpdatePassword (rootPassword p) ?url (cred_appliedPassword creds)
      (cred_password creds) w = (r, w1)" by fastforce
  note update = serves_password_update [OF assms(1) u]
  obtain r2 w2 where a: "Authenticate (rootPassword p) ?url (cred_password creds) w1 = (r2, w2)"
    by fastforce
  note auth = serves_password_authenticate [OF assms(1) a]
  show ?thesis
  proof (cases r)
    case (Inr x)
    with assms u update show ?thesis by (auto simp: syncRootPassword_def Let_def)
  next
    case (Inl e)
    then show ?thesis
      using assms u update a auth by (cases r2) (auto simp: syncRootPassword_def Let_def)
  qed
qed

section \<open>The rotation protocol\<close>

text \<open>
  A cluster reduced to what a rotation touches: the credentials Secret and the password
  Milvus accepts, which it keeps across restarts. The rest of the context is arbitrary.
\<close>

record rotation_world =
  rw_secret :: Secret
  rw_milvus :: string

text \<open>
  What can go wrong in one pass: a request may not reach the other side, or take effect
  with its answer lost (a timeout, or the provider dying right after), and Milvus may be
  restarting or unhealthy.
\<close>

datatype link = Up | ReplyLost | Down

record pass_faults =
  pf_healthy :: bool
  pf_update :: link
  pf_auth :: link
  pf_record :: link

definition no_faults :: pass_faults where
  "no_faults = \<lparr>pf_healthy = True, pf_update = Up, pf_auth = Up, pf_record = Up\<rparr>"

definition connection_lost :: "'a result" where
  "connection_lost = Inl (errorf ''connection lost'')"

definition permission_denied :: "'a result" where
  "permission_denied = Inl (errorf ''permission denied'')"

definition rotation_milvus :: "pass_faults \<Rightarrow> Milvus" where
  "rotation_milvus f = sample_milvus\<lparr>CRStatus := (CRStatus sample_milvus)
     \<lparr>Status := if pf_healthy f then StatusHealthy else StatusUnhealthy\<rparr>\<rparr>"

definition rotation_ctx :: "rotation_world ctx \<Rightarrow> pass_faults \<Rightarrow> rotation_world ctx" where
  "rotation_ctx c f = c\<lparr>api := (api c)
     \<lparr>GetMilvus := \<lambda>_ _. Inr (rotation_milvus f),
      GetSecret := \<lambda>w _. Inr (rw_secret w),
      ApplySecret := \<lambda>s w.
        (if pf_record f = Up then Inr () else connection_lost,
         if pf_record f = Down then w else w\<lparr>rw_secret := s\<rparr>)\<rparr>\<rparr>"

definition rotation_provider :: "pass_faults \<Rightarrow> rotation_world Provider" where
  "rotation_provider f =
     \<lparr>rootPassword =
        \<lparr>UpdatePassword = (\<lambda>_ old new w.
           if pf_update f = Down then (connection_lost, w)
           else if rw_milvus w \<noteq> old then (permission_denied, w)
           else (if pf_update f = Up then Inr () else connection_lost, w\<lparr>rw_milvus := new\<rparr>)),
         Authenticate = (\<lambda>_ pw w.
           (if pf_auth f \<noteq> Up then connection_lost
            else if rw_milvus w \<noteq> pw then permission_denied else Inr (), w))\<rparr>,
      loadedReplicas = (\<lambda>_ _ w. (Inr [], w))\<rparr>"

lemma rotation_serves: "serves_password (rotation_provider no_faults) (rotation_ctx c f) rw_milvus"
  by (simp add: serves_password_def rotation_provider_def rotation_ctx_def no_faults_def
      permission_denied_def)

text \<open>What one reconcile does to the password: read the credentials, then rotate.\<close>

definition reconcile_password :: "rotation_world ctx \<Rightarrow> pass_faults \<Rightarrow> (rotation_world, unit) step" where
  "reconcile_password c f w = and_then (ensureCredentials (rotation_ctx c f) w)
     (\<lambda>creds w. syncRootPassword (rotation_provider f) (rotation_ctx c f) creds w)"

text \<open>A sequence of passes, each with its faults and no edit in between.\<close>

definition reconcile_passes ::
  "rotation_world ctx \<Rightarrow> pass_faults list \<Rightarrow> rotation_world \<Rightarrow> rotation_world" where
  "reconcile_passes c fs w = fold (\<lambda>f w. snd (reconcile_password c f w)) fs w"

definition rw_requested :: "rotation_world \<Rightarrow> string" where
  "rw_requested w = secret_value (rw_secret w) secretKeyPassword"

definition rw_applied :: "rotation_world \<Rightarrow> string" where
  "rw_applied w = secret_value (rw_secret w) secretKeyAppliedPassword"

text \<open>A user's edit replaces the password in the Secret; the applied password stays.\<close>

definition edit_password :: "string \<Rightarrow> rotation_world \<Rightarrow> rotation_world" where
  "edit_password pw w = w\<lparr>rw_secret :=
     (rw_secret w)\<lparr>sec_Data := AList.update secretKeyPassword pw (sec_Data (rw_secret w))\<rparr>\<rparr>"

inductive rotation_step :: "rotation_world ctx \<Rightarrow> rotation_world \<Rightarrow> rotation_world \<Rightarrow> bool" for c where
  edit: "pw \<noteq> '''' \<Longrightarrow> rotation_step c w (edit_password pw w)"
| reconcile: "rotation_step c w (snd (reconcile_password c f w))"

text \<open>
  Where the protocol may be: nothing in flight; an edit waiting; Milvus updated but the
  Secret not yet; or, after an edit in that last state, out of sync for good.
\<close>

definition rotation_settled :: "rotation_world \<Rightarrow> bool" where
  "rotation_settled w \<longleftrightarrow> rw_requested w \<noteq> '''' \<and> rw_applied w \<noteq> '''' \<and> rw_applied w = rw_milvus w"

definition rotation_unrecorded :: "rotation_world \<Rightarrow> bool" where
  "rotation_unrecorded w \<longleftrightarrow> rw_requested w \<noteq> '''' \<and> rw_applied w \<noteq> '''' \<and> rw_requested w = rw_milvus w"

definition rotation_lost :: "rotation_world \<Rightarrow> bool" where
  "rotation_lost w \<longleftrightarrow> rw_requested w \<noteq> '''' \<and> rw_applied w \<noteq> '''' \<and> rw_requested w \<noteq> rw_milvus w \<and> rw_applied w \<noteq> rw_milvus w"

lemmas protocol_states = rotation_settled_def rotation_unrecorded_def rotation_lost_def

lemma edit_password_simps [simp]:
  "rw_requested (edit_password pw w) = pw"
  "rw_applied (edit_password pw w) = rw_applied w"
  "rw_milvus (edit_password pw w) = rw_milvus w"
  by (simp_all add: rw_requested_def rw_applied_def edit_password_def secret_value_def alist_simps
      secret_key_defs)

lemma rw_updates [simp]:
  "rw_requested (w\<lparr>rw_milvus := pw\<rparr>) = rw_requested w"
  "rw_applied (w\<lparr>rw_milvus := pw\<rparr>) = rw_applied w"
  "rw_requested (w\<lparr>rw_secret := credentials_secret c creds\<rparr>) = cred_password creds"
  "rw_applied (w\<lparr>rw_secret := credentials_secret c creds\<rparr>) = cred_appliedPassword creds"
  by (simp_all add: rw_requested_def rw_applied_def credentials_secret_values)

lemma rw_milvus_same: "pw = rw_milvus w \<Longrightarrow> w\<lparr>rw_milvus := pw\<rparr> = w"
  by simp

lemma rotation_credentials:
  assumes "rw_requested w \<noteq> ''''" "rw_applied w \<noteq> ''''"
  shows "ensureCredentials (rotation_ctx c f) w =
    (Inr \<lparr>cred_password = rw_requested w, cred_appliedPassword = rw_applied w\<rparr>, w)"
  using assms by (simp add: ensureCredentials_def rotation_ctx_def rw_requested_def rw_applied_def)

lemma rotation_record:
  "applyCredentialsSecret (rotation_ctx c f) creds w =
     (if pf_record f = Up then Inr () else Inl (Wrap ''apply credentials secret'' (errorf ''connection lost'')),
      if pf_record f = Down then w else w\<lparr>rw_secret := credentials_secret (rotation_ctx c f) creds\<rparr>)"
  by (cases "pf_record f") (simp_all add: applyCredentialsSecret_def rotation_ctx_def connection_lost_def)

lemma rotation_existing:
  "existing_milvus (rotation_ctx c f) w = Inr (rotation_milvus f)"
  "Status (CRStatus (rotation_milvus f)) = StatusHealthy \<longleftrightarrow> pf_healthy f"
  by (simp_all add: existing_milvus_def rotation_ctx_def rotation_milvus_def)

text \<open>
  One reconcile, computed on the protocol's state: whether the update takes effect, whether
  the new password is seen to be accepted, and then the record.
\<close>

lemma reconcile_password_eq:
  assumes "rw_requested w \<noteq> ''''" "rw_applied w \<noteq> ''''"
  shows "reconcile_password c f w =
    (let new = rw_requested w; updated = (pf_update f \<noteq> Down \<and> rw_milvus w = rw_applied w);
         w1 = (if updated then w\<lparr>rw_milvus := new\<rparr> else w);
         why = (if pf_update f = Down \<or> updated then ''connection lost'' else ''permission denied'')
     in if new = rw_applied w \<or> \<not> pf_healthy f then (Inr (), w)
        else if updated \<and> pf_update f = Up \<or> pf_auth f = Up \<and> rw_milvus w1 = new
        then applyCredentialsSecret (rotation_ctx c f)
               \<lparr>cred_password = new, cred_appliedPassword = new\<rparr> w1
        else (Inl (Wrap ''rotate root password'' (errorf why)), w1))"
  by (cases "pf_update f")
    (simp_all add: reconcile_password_def rotation_credentials [OF assms] syncRootPassword_def
      rotationPending_def rotation_existing rotation_provider_def Let_def connection_lost_def
      permission_denied_def)

text \<open>The protocol never leaves these states, and only an unrecorded rotation can get lost.\<close>

lemma reconcile_password_states:
  fixes w c f
  assumes "rotation_settled w \<or> rotation_unrecorded w \<or> rotation_lost w"
  defines "w' \<equiv> snd (reconcile_password c f w)"
  shows "rotation_settled w \<Longrightarrow> rotation_settled w' \<or> rotation_unrecorded w'"
    "rotation_unrecorded w \<Longrightarrow> rotation_settled w' \<or> rotation_unrecorded w'"
    "rotation_lost w \<Longrightarrow> w' = w"
proof -
  have ne: "rw_requested w \<noteq> ''''" "rw_applied w \<noteq> ''''" using assms(1) by (auto simp: protocol_states)
  show "rotation_settled w \<Longrightarrow> rotation_settled w' \<or> rotation_unrecorded w'"
    "rotation_unrecorded w \<Longrightarrow> rotation_settled w' \<or> rotation_unrecorded w'"
    "rotation_lost w \<Longrightarrow> w' = w"
    unfolding w'_def
    by (auto simp: reconcile_password_eq [OF ne] rotation_record protocol_states Let_def)
qed

lemma rotation_step_states:
  assumes "rotation_step c w w'" "rotation_settled w \<or> rotation_unrecorded w \<or> rotation_lost w"
  shows "(rotation_settled w \<longrightarrow> rotation_settled w' \<or> rotation_unrecorded w') \<and>
    (rotation_unrecorded w \<longrightarrow> rotation_settled w' \<or> rotation_unrecorded w' \<or> rotation_lost w') \<and>
    (rotation_lost w \<longrightarrow> w' = w \<or> (\<exists>pw. w' = edit_password pw w \<and> pw \<noteq> ''''))"
  using assms(1)
proof cases
  case (edit pw)
  then show ?thesis by (auto simp: protocol_states)
next
  case (reconcile f)
  then show ?thesis using reconcile_password_states [OF assms(2)] by blast
qed

lemma rotation_step_invariant:
  assumes "(rotation_step c)\<^sup>*\<^sup>* w0 w" "rotation_settled w0"
  shows "rotation_settled w \<or> rotation_unrecorded w \<or> rotation_lost w"
  using assms(1)
proof (induction rule: rtranclp_induct)
  case (step v w)
  have "rotation_settled (edit_password pw v) \<or> rotation_unrecorded (edit_password pw v) \<or>
      rotation_lost (edit_password pw v)" if "rotation_lost v" "pw \<noteq> ''''" for pw
    using that by (auto simp: protocol_states)
  with rotation_step_states [OF step.hyps(2) step.IH] step.IH show ?case by blast
qed (use assms(2) in simp)

lemma reconcile_passes_stuck:
  assumes "rotation_lost w"
  shows "reconcile_passes c fs w = w"
proof (induction fs)
  case (Cons f fs)
  then show ?case using reconcile_password_states(3) [of w c f] assms by (simp add: reconcile_passes_def)
qed (simp add: reconcile_passes_def)

section \<open>Properties\<close>

text \<open>
  A rotation reaches Milvus. If Milvus accepts the applied or already the new password
  and is healthy, \<open>syncRootPassword\<close> leaves it accepting the new one whatever then happens to
  the Secret, and reports success only once the Secret records it as applied; if Milvus
  accepts neither, its password does not change and the error is reported.
\<close>

theorem rotation_lands:
  assumes "serves_password p c actual" "secrets_read_back c" "rotationPending creds"
    and "existing_milvus c w = Inr cr" "Status (CRStatus cr) = StatusHealthy"
    and "syncRootPassword p c creds w = (r, w')"
  shows "if actual w = cred_appliedPassword creds \<or> actual w = cred_password creds
    then actual w' = cred_password creds \<and>
         (r = Inr () \<longrightarrow> GetSecret (api c) w' (credentialsSecretName (Name c)) =
            Inr (credentials_secret c (creds\<lparr>cred_appliedPassword := cred_password creds\<rparr>)))
    else actual w' = actual w \<and> isl r"
proof -
  let ?new = "creds\<lparr>cred_appliedPassword := cred_password creds\<rparr>"
  have reads: "GetSecret (api c) w' (credentialsSecretName (Name c)) = Inr (credentials_secret c ?new)"
    if "applyCredentialsSecret c ?new w1 = (Inr (), w')" for w1
    using assms(2) that
    by (force simp: applyCredentialsSecret_def error_simps secrets_read_back_def credentials_secret_def)
  consider (lands) w1 where "actual w = cred_appliedPassword creds \<or> actual w = cred_password creds"
      "actual w1 = cred_password creds"
      "syncRootPassword p c creds w = applyCredentialsSecret c ?new w1"
    | (refused) e w1 where "actual w \<noteq> cred_appliedPassword creds" "actual w \<noteq> cred_password creds"
      "actual w1 = actual w" "syncRootPassword p c creds w = (Inl e, w1)"
    using syncRootPassword_cases [OF assms(1,3,4,5)] by blast
  then show ?thesis
  proof cases
    case lands
    have "actual w' = cred_password creds"
      using actual_applyCredentialsSecret [OF assms(1), of ?new w1] lands assms(6) by (metis snd_conv)
    moreover have "applyCredentialsSecret c ?new w1 = (Inr (), w')" if "r = Inr ()"
      using lands(3) assms(6) that by simp
    ultimately show ?thesis using lands(1) reads [of w1] by simp
  next
    case refused
    with assms(6) show ?thesis by auto
  qed
qed

text \<open>A world just after the user asked for another password.\<close>

definition pending_world :: rotation_world where
  "pending_world =
     \<lparr>rw_secret = credentials_secret (sample_ctx :: rotation_world ctx)
        \<lparr>cred_password = ''new'', cred_appliedPassword = ''old''\<rparr>,
      rw_milvus = ''old''\<rparr>"

lemma pending_world_simps [simp]:
  "rw_requested pending_world = ''new''" "rw_applied pending_world = ''old''"
  "rw_milvus pending_world = ''old''"
  by (simp_all add: pending_world_def rw_requested_def rw_applied_def credentials_secret_values)

lemma rotation_reads_back: "pf_record f = Up \<Longrightarrow> secrets_read_back (rotation_ctx sample_ctx f)"
  by (simp add: secrets_read_back_def rotation_ctx_def sample_ctx_def)

theorem rotation_lands_witness:
  "\<exists>w'. syncRootPassword (rotation_provider no_faults) (rotation_ctx sample_ctx no_faults)
      \<lparr>cred_password = ''new'', cred_appliedPassword = ''old''\<rparr> pending_world = (Inr (), w') \<and>
    rw_milvus w' = ''new''"
proof -
  let ?creds = "\<lparr>cred_password = ''new'', cred_appliedPassword = ''old''\<rparr>"
  let ?c = "rotation_ctx sample_ctx no_faults"
  have f: "pf_record no_faults = Up" "pf_healthy no_faults" "pf_update no_faults = Up"
    by (simp_all add: no_faults_def)
  have pre: "rotationPending ?creds" "existing_milvus ?c pending_world = Inr (rotation_milvus no_faults)"
    "Status (CRStatus (rotation_milvus no_faults)) = StatusHealthy"
    using f by (simp_all add: rotationPending_def rotation_existing)
  obtain w' where run: "syncRootPassword (rotation_provider no_faults) ?c ?creds pending_world = (Inr (), w')"
    using f pre by (simp add: syncRootPassword_def rotation_provider_def rotation_record Let_def)
  from rotation_lands [OF rotation_serves rotation_reads_back [OF f(1)] pre run] run show ?thesis by simp
qed





end
