(* ===== verification/Version.thy ===== *)
theory Version
  imports Dependencies
begin

text \<open>
  \<open>internal/provider/version.go\<close>: the Milvus version of each component, and how the operator
  rolls a new image out. \<open>validateNoDowngrade\<close>, which compares two specs, is in the theory
  of the validation.

  The code ranges over Go maps here. \<open>order_free\<close> of the prelude is the contract that such a
  loop does not depend on the order of the entries.
\<close>

definition entry_if :: "string \<Rightarrow> 'a ComponentSpec_scheme option \<Rightarrow> (string \<times> ComponentSpec) list" where
  "entry_if name component =
     (case component of None \<Rightarrow> [] | Some x \<Rightarrow> [(name, ComponentSpec.truncate x)])"

definition milvusComponentSpecs :: "MilvusComponents \<Rightarrow> (string \<times> ComponentSpec) list" where
  "milvusComponentSpecs com =
     entry_if ComponentStandalone (Standalone com) @ entry_if ComponentProxy (Proxy com)
     @ entry_if ComponentMixCoord (MixCoord com) @ entry_if ComponentDataNode (DataNode com)
     @ entry_if ComponentQueryNode (QueryNode com) @ entry_if ComponentStreaming (StreamingNode com)"

definition componentVersions :: "MilvusComponents \<Rightarrow> (string \<times> string) list" where
  "componentVersions com =
     map (\<lambda>(name, spec). (name, if Version spec = '''' then Version com else Version spec))
       (milvusComponentSpecs com)"

definition lower_version :: "lib \<Rightarrow> string \<Rightarrow> string \<Rightarrow> string" where
  "lower_version l version lowest =
     (if \<not> SemverIsValid l (''v'' @ version) then lowest
      else if lowest = '''' \<or> SemverCompare l (''v'' @ version) (''v'' @ lowest) < 0 then version
      else lowest)"

definition lowestComponentVersion :: "lib \<Rightarrow> MilvusComponents \<Rightarrow> string" where
  "lowestComponentVersion l com =
     fold (\<lambda>(_, version) lowest. lower_version l version lowest) (componentVersions com) ''''"

record milvusImage =
  img_image :: string
  img_version :: string

definition spec_image :: "'a ComponentSpec_scheme \<Rightarrow> milvusImage" where
  "spec_image spec = \<lparr>img_image = Image spec, img_version = Version spec\<rparr>"

text \<open>The loop of \<open>sharedComponentImage\<close> over the entries after the first.\<close>

fun all_share :: "milvusImage \<Rightarrow> (string \<times> ComponentSpec) list \<Rightarrow> milvusImage option" where
  "all_share shared [] = Some shared"
| "all_share shared ((_, spec) # specs) =
     (if spec_image spec \<noteq> shared then None else all_share shared specs)"

definition shared_image :: "milvusImage \<Rightarrow> (string \<times> ComponentSpec) list \<Rightarrow> milvusImage option" where
  "shared_image fallback specs =
     (case specs of [] \<Rightarrow> Some fallback | (_, spec) # rest \<Rightarrow> all_share (spec_image spec) rest)"

definition sharedComponentImage :: "MilvusComponents \<Rightarrow> milvusImage option" where
  "sharedComponentImage com = shared_image (spec_image com) (milvusComponentSpecs com)"

definition applyImageUpdateMode :: "MilvusComponents \<Rightarrow> MilvusComponents" where
  "applyImageUpdateMode com =
     (case sharedComponentImage com of
        None \<Rightarrow> com\<lparr>ImageUpdateMode := ImageUpdateModeAll\<rparr>
      | Some shared \<Rightarrow> com\<lparr>Image := img_image shared, Version := img_version shared,
                          ImageUpdateMode := ImageUpdateModeRollingUpgrade\<rparr>)"

section \<open>Lemmas\<close>

lemma all_share_Some:
  "all_share s specs = Some t \<longleftrightarrow> t = s \<and> (\<forall>e\<in>set specs. spec_image (snd e) = s)"
  by (induction s specs rule: all_share.induct) auto

lemma shared_image_Some:
  "specs \<noteq> [] \<Longrightarrow> shared_image fallback specs = Some t \<longleftrightarrow> (\<forall>e\<in>set specs. spec_image (snd e) = t)"
  by (cases specs) (fastforce simp: shared_image_def all_share_Some)+

lemma shared_image_set:
  assumes "set specs = set specs'"
  shows "shared_image fallback specs = shared_image fallback specs'"
proof (cases "specs = []")
  case True
  with assms show ?thesis by simp
next
  case False
  with assms have "specs' \<noteq> []" by auto
  with False assms have "shared_image fallback specs = Some t \<longleftrightarrow> shared_image fallback specs' = Some t" for t
    by (simp add: shared_image_Some)
  then show ?thesis by (metis not_None_eq)
qed

text \<open>The order the code meets the components in does not matter.\<close>

interpretation shared_image_loop: order_free "shared_image fallback"
  by unfold_locales (rule shared_image_set, assumption)

lemma component_spec_names: "distinct (keys (milvusComponentSpecs com))"
  by (simp add: milvusComponentSpecs_def entry_if_def component_name_defs split: option.split)

lemma keys_componentVersions: "keys (componentVersions com) = keys (milvusComponentSpecs com)"
  by (simp add: componentVersions_def comp_def case_prod_unfold)

lemma lower_version_mem:
  "lower_version l v x = v \<or> lower_version l v x = x"
  by (simp add: lower_version_def)

text \<open>
  The contract of \<open>semver.Compare\<close>: it orders the valid versions by their precedence
  \<open>rank\<close>, and the empty version \<open>v\<close> is not valid.
\<close>

definition semver_ranks :: "lib \<Rightarrow> (string \<Rightarrow> int) \<Rightarrow> bool" where
  "semver_ranks l rank \<longleftrightarrow> \<not> SemverIsValid l ''v'' \<and>
     (\<forall>a b. SemverIsValid l a \<and> SemverIsValid l b \<longrightarrow>
        (SemverCompare l a b < 0 \<longleftrightarrow> rank a < rank b))"

definition valid_version :: "lib \<Rightarrow> string \<Rightarrow> bool" where
  "valid_version l v \<longleftrightarrow> SemverIsValid l (''v'' @ v)"

lemma lowest_fold:
  assumes "semver_ranks l rank" "low = '''' \<or> valid_version l low"
    and "low' = fold (\<lambda>(_, version) lowest. lower_version l version lowest) vs low"
  shows "(low' = '''' \<longleftrightarrow> low = '''' \<and> (\<forall>e\<in>set vs. \<not> valid_version l (snd e))) \<and>
    (low' \<noteq> '''' \<longrightarrow> valid_version l low' \<and> (low' = low \<or> low' \<in> snd ` set vs) \<and>
       (low \<noteq> '''' \<longrightarrow> rank (''v'' @ low') \<le> rank (''v'' @ low)) \<and>
       (\<forall>e\<in>set vs. valid_version l (snd e) \<longrightarrow> rank (''v'' @ low') \<le> rank (''v'' @ snd e)))"
  using assms(2,3)
proof (induction vs arbitrary: low)
  case Nil
  then show ?case by auto
next
  case (Cons e vs)
  obtain n v where e: "e = (n, v)" by (cases e)
  let ?mid = "lower_version l v low"
  have cmp: "SemverCompare l (''v'' @ v) (''v'' @ low) < 0 \<longleftrightarrow> rank (''v'' @ v) < rank (''v'' @ low)"
    if "valid_version l v" "valid_version l low"
    using assms(1) that by (simp add: semver_ranks_def valid_version_def)
  have ne: "valid_version l v \<Longrightarrow> v \<noteq> ''''" for v
    using assms(1) by (auto simp: semver_ranks_def valid_version_def)
  have mid: "?mid = '''' \<or> valid_version l ?mid"
    using Cons.prems(1) by (auto simp: lower_version_def valid_version_def)
  have low': "low' = fold (\<lambda>(_, version) lowest. lower_version l version lowest) vs ?mid"
    using Cons.prems(2) by (simp add: e)
  have m: "?mid = (if valid_version l v \<and> (low = '''' \<or> rank (''v'' @ v) < rank (''v'' @ low)) then v else low)"
    using Cons.prems(1) cmp by (auto simp: lower_version_def valid_version_def)
  from Cons.IH [OF mid low'] show ?case
    using ne [of v] Cons.prems(1) unfolding m e by (auto split: if_splits)
qed

lemma milvusComponentSpecs_unchanged:
  "milvusComponentSpecs (applyImageUpdateMode com) = milvusComponentSpecs com"
  by (simp add: applyImageUpdateMode_def milvusComponentSpecs_def split: option.split)

section \<open>Properties\<close>

text \<open>
  C37: an upgrade never stalls on mixed images. \<open>applyImageUpdateMode\<close> asks the operator for
  its dependency-ordered rolling upgrade exactly when all components run one image and
  version, which then is the instance-wide one the operator waits for; otherwise it asks to
  update all at once and leaves the instance-wide image alone. The components keep theirs.
\<close>

theorem rolling_upgrade_iff_shared_image:
  "(if \<exists>t. \<forall>e\<in>set (milvusComponentSpecs com). spec_image (snd e) = t
    then ImageUpdateMode (applyImageUpdateMode com) = ImageUpdateModeRollingUpgrade \<and>
         (\<forall>e\<in>set (milvusComponentSpecs com).
            spec_image (snd e) = spec_image (applyImageUpdateMode com))
    else ImageUpdateMode (applyImageUpdateMode com) = ImageUpdateModeAll \<and>
         spec_image (applyImageUpdateMode com) = spec_image com) \<and>
   milvusComponentSpecs (applyImageUpdateMode com) = milvusComponentSpecs com"
proof (cases "milvusComponentSpecs com = []")
  case True
  then show ?thesis
    using milvusComponentSpecs_unchanged [of com]
    by (simp add: applyImageUpdateMode_def sharedComponentImage_def shared_image_def)
next
  case False
  note shared = shared_image_Some [OF False, of "spec_image com"]
  show ?thesis
  proof (cases "shared_image (spec_image com) (milvusComponentSpecs com)")
    case None
    with shared have "\<nexists>t. \<forall>e\<in>set (milvusComponentSpecs com). spec_image (snd e) = t" by auto
    moreover have "spec_image (applyImageUpdateMode com) = spec_image com"
      "ImageUpdateMode (applyImageUpdateMode com) = ImageUpdateModeAll"
      using None by (simp_all add: applyImageUpdateMode_def sharedComponentImage_def spec_image_def)
    ultimately show ?thesis using milvusComponentSpecs_unchanged [of com] by presburger
  next
    case (Some t)
    then have "\<forall>e\<in>set (milvusComponentSpecs com). spec_image (snd e) = t"
      using shared [of t] by simp
    moreover have "spec_image (applyImageUpdateMode com) = t"
      "ImageUpdateMode (applyImageUpdateMode com) = ImageUpdateModeRollingUpgrade"
      using Some by (simp_all add: applyImageUpdateMode_def sharedComponentImage_def spec_image_def)
    ultimately show ?thesis by (auto simp: milvusComponentSpecs_unchanged)
  qed
qed

definition mixed_components :: MilvusComponents where
  "mixed_components = zero_MilvusComponents
     \<lparr>MixCoord := Some (zero_Component\<lparr>Image := ''milvusdb/milvus:v2.6.25'', Version := ''2.6.25''\<rparr>),
      QueryNode := Some (ComponentSpec.extend (zero_ComponentSpec
          \<lparr>Image := ''milvusdb/milvus:v2.6.25-gpu'', Version := ''2.6.25''\<rparr>)
        \<lparr>Replicas = Some 1, InitContainers = [], HPA = None, NodeGroups = []\<rparr>)\<rparr>"

theorem rolling_upgrade_iff_shared_image_witness:
  "ImageUpdateMode (applyImageUpdateMode mixed_components) = ImageUpdateModeAll"
proof -
  have "\<nexists>t. \<forall>e\<in>set (milvusComponentSpecs mixed_components). spec_image (snd e) = t"
    by (auto simp: milvusComponentSpecs_def entry_if_def mixed_components_def spec_image_def
        ComponentSpec.defs)
  with rolling_upgrade_iff_shared_image [of mixed_components] show ?thesis by simp
qed

text \<open>
  The oldest running version is found. For a semver order, \<open>lowestComponentVersion\<close> is
  empty exactly when no component has a valid version; otherwise it is the version of some
  component and none has a lower valid one, in whatever order the components are visited.
\<close>

theorem lowest_version_is_minimal:
  assumes "semver_ranks l rank"
  shows "(lowestComponentVersion l com = '''' \<longleftrightarrow>
      (\<forall>e\<in>set (componentVersions com). \<not> valid_version l (snd e))) \<and>
    (lowestComponentVersion l com \<noteq> '''' \<longrightarrow>
      lowestComponentVersion l com \<in> snd ` set (componentVersions com) \<and>
      (\<forall>e\<in>set (componentVersions com). valid_version l (snd e) \<longrightarrow>
         rank (''v'' @ lowestComponentVersion l com) \<le> rank (''v'' @ snd e)))"
  using lowest_fold [OF assms, of "''''" "lowestComponentVersion l com" "componentVersions com"]
  by (auto simp: lowestComponentVersion_def)

lemma sample_semver_ranks: "semver_ranks sample_lib (\<lambda>v. deref (sample_version v) (-1))"
  by (auto simp: semver_ranks_def sample_lib_def sample_compare_def sample_version_def sgn_if
      split: option.split list.split)

theorem lowest_version_is_minimal_witness:
  "lowestComponentVersion sample_lib mixed_components = ''2.6.25'' \<and>
   lowestComponentVersion sample_lib mixed_components \<in> snd ` set (componentVersions mixed_components)"
proof -
  have low: "lowestComponentVersion sample_lib mixed_components = ''2.6.25''"
    by (simp add: lowestComponentVersion_def componentVersions_def milvusComponentSpecs_def
        entry_if_def mixed_components_def ComponentSpec.defs lower_version_def sample_lib_def
        sample_version_def sample_compare_def atoi_def atoi_unbounded_def atoi_digits_def
        char_digit_def Let_def is_int64_def)
  with lowest_version_is_minimal [OF sample_semver_ranks, of mixed_components] show ?thesis by simp
qed

end
