(* ===== verification/Exposure.thy ===== *)
theory Exposure
  imports RestClient
begin

text \<open>
  \<open>internal/provider/exposure.go\<close>: which service clients connect to, and the host and port
  the Instance publishes for it.
\<close>

definition exposedComponentName :: "string \<Rightarrow> string" where
  "exposedComponentName topologyType =
     (if topologyType = ''cluster'' then ComponentProxy else ComponentStandalone)"

definition applyServiceExposure ::
  "'a ServiceComponent_scheme \<Rightarrow> ExposedService option \<Rightarrow> 'a ServiceComponent_scheme" where
  "applyServiceExposure sc service =
     (case service of
        None \<Rightarrow> sc
      | Some s \<Rightarrow>
          let sc1 = sc\<lparr>ServiceType := es_ServiceType s\<rparr> in
          if es_Annotations s \<noteq> [] then sc1\<lparr>ServiceAnnotations := es_Annotations s\<rparr> else sc1)"

definition serviceTypeFromSpec :: "Milvus \<Rightarrow> string" where
  "serviceTypeFromSpec cr =
     (let serviceType =
            (if Mode (Spec cr) = MilvusModeCluster
             then (case Proxy (Com (Spec cr)) of None \<Rightarrow> '''' | Some p \<Rightarrow> ServiceType p)
             else (case Standalone (Com (Spec cr)) of None \<Rightarrow> '''' | Some s \<Rightarrow> ServiceType s))
      in if serviceType = '''' then ''ClusterIP'' else serviceType)"

text \<open>The loop from the end of the string stops at the last colon.\<close>

definition splitEndpoint :: "string \<Rightarrow> string \<times> string" where
  "splitEndpoint endpoint =
     (let (host, port) = (case cut_last (CHR '':'') endpoint of
                            Some hp \<Rightarrow> hp | None \<Rightarrow> (endpoint, milvusPort))
      in (host, if port = '''' then milvusPort else port))"

text \<open>The addresses of all nodes in order; \<open>internal\<close> is the fallback seen so far.\<close>

fun scan_addresses :: "string \<Rightarrow> (string \<times> string) list \<Rightarrow> string" where
  "scan_addresses internal [] = internal"
| "scan_addresses internal ((addrType, address) # rest) =
     (if addrType = ''ExternalIP''
      then if address \<noteq> '''' then address else scan_addresses internal rest
      else if addrType = ''InternalIP''
      then scan_addresses (if internal = '''' then address else internal) rest
      else scan_addresses internal rest)"

definition firstNodeAddress :: "'w ctx \<Rightarrow> 'w \<Rightarrow> string result" where
  "firstNodeAddress c w =
     (case ListNodes (api c) w of
        Inl e \<Rightarrow> Inl e | Inr nodes \<Rightarrow> Inr (scan_addresses '''' (concat nodes)))"

definition nodePortEndpoint :: "'w ctx \<Rightarrow> 'w \<Rightarrow> string \<Rightarrow> (string \<times> string) result" where
  "nodePortEndpoint c w instanceName =
     (case GetService (api c) w (instanceName @ ''-milvus'') of
        Inl e \<Rightarrow> Inl e
      | Inr ports \<Rightarrow>
          let nodePort = (case List.find (\<lambda>p. sport_Name p = ''milvus'' \<or> sport_Port p = 19530) ports of
                            None \<Rightarrow> 0 | Some p \<Rightarrow> sport_NodePort p)
          in if nodePort = 0 then Inr ('''', '''')
             else (case firstNodeAddress c w of
                     Inl e \<Rightarrow> Inl e
                   | Inr nodeIP \<Rightarrow>
                       if nodeIP = '''' then Inr ('''', '''') else Inr (nodeIP, itoa nodePort)))"

text \<open>\<open>(host, port, ready, message)\<close>: an address, or what the instance is waiting for.\<close>

datatype endpoint = ReadyEndpoint string string | WaitingFor string

definition resolveEndpoint :: "'w ctx \<Rightarrow> 'w \<Rightarrow> Milvus \<Rightarrow> endpoint" where
  "resolveEndpoint c w cr =
     (let serviceType = serviceTypeFromSpec cr; reported = Endpoint (CRStatus cr) in
      if serviceType = ''LoadBalancer'' then
        (if reported = '''' then WaitingFor ''waiting for load balancer address''
         else (case splitEndpoint reported of (host, port) \<Rightarrow> ReadyEndpoint host port))
      else if serviceType = ''NodePort'' then
        (case nodePortEndpoint c w (MilvusName cr) of
           Inl _ \<Rightarrow> WaitingFor ''waiting for NodePort address''
         | Inr (host, port) \<Rightarrow>
             if host = '''' \<or> port = '''' then WaitingFor ''waiting for NodePort address''
             else ReadyEndpoint host port)
      else
        let address = (if reported = ''''
              then MilvusName cr @ ''-milvus.'' @ MilvusNamespace cr @ ''.svc.cluster.local:'' @ milvusPort
              else reported)
        in (case splitEndpoint address of (host, port) \<Rightarrow> ReadyEndpoint host port))"

section \<open>Lemmas\<close>

lemma splitEndpoint_colon:
  "CHR '':'' \<notin> set port \<Longrightarrow> splitEndpoint (host @ CHR '':'' # port) =
     (host, if port = '''' then milvusPort else port)"
  by (simp add: splitEndpoint_def)

lemma splitEndpoint_no_colon:
  "CHR '':'' \<notin> set host \<Longrightarrow> splitEndpoint host = (host, milvusPort)"
  by (simp add: splitEndpoint_def cut_last_None [THEN iffD2] milvusPort_def)

lemma splitEndpoint_port: "snd (splitEndpoint e) \<noteq> '''' \<and> CHR '':'' \<notin> set (snd (splitEndpoint e))"
  by (auto simp: splitEndpoint_def milvusPort_def Let_def split: prod.splits option.splits
      dest: cut_last_Some)

lemma splitEndpoint_no_host:
  "fst (splitEndpoint e) = '''' \<Longrightarrow> e \<noteq> '''' \<Longrightarrow> \<exists>p. e = CHR '':'' # p \<and> CHR '':'' \<notin> set p"
  by (auto simp: splitEndpoint_def Let_def split: prod.splits option.splits dest!: cut_last_Some)

text \<open>The reported address is parsed back from how it was printed.\<close>

lemma splitEndpoint_inverse:
  assumes "splitEndpoint e = (host, port)" "CHR '':'' \<in> set e" "last e \<noteq> CHR '':''"
  shows "e = host @ CHR '':'' # port"
proof -
  obtain a b where ab: "cut_last (CHR '':'') e = Some (a, b)"
    using assms(2) cut_last_None [of "CHR '':''" e] by (cases "cut_last (CHR '':'') e") auto
  then have e: "e = a @ CHR '':'' # b" using cut_last_Some by blast
  with assms(3) have "b \<noteq> ''''" by auto
  with assms(1) ab e show ?thesis by (simp add: splitEndpoint_def)
qed

lemma scan_addresses_mem:
  "scan_addresses i xs = a \<Longrightarrow> a \<noteq> '''' \<Longrightarrow>
     a = i \<or> (''ExternalIP'', a) \<in> set xs \<or> (''InternalIP'', a) \<in> set xs"
  by (induction i xs rule: scan_addresses.induct) (auto split: if_splits)

lemma scan_addresses_external:
  "(''ExternalIP'', b) \<in> set xs \<Longrightarrow> b \<noteq> '''' \<Longrightarrow> (''ExternalIP'', scan_addresses i xs) \<in> set xs"
  by (induction i xs rule: scan_addresses.induct) auto

lemma nodePortEndpoint_Inr:
  assumes "nodePortEndpoint c w name = Inr (host, port)" "host \<noteq> ''''"
  shows "\<exists>ports p nodes. GetService (api c) w (name @ ''-milvus'') = Inr ports \<and> p \<in> set ports \<and>
    (sport_Name p = ''milvus'' \<or> sport_Port p = 19530) \<and> sport_NodePort p \<noteq> 0 \<and>
    port = itoa (sport_NodePort p) \<and> ListNodes (api c) w = Inr nodes \<and>
    host = scan_addresses '''' (concat nodes)"
proof -
  obtain ports where ports: "GetService (api c) w (name @ ''-milvus'') = Inr ports"
    using assms(1) by (auto simp: nodePortEndpoint_def split: sum.splits)
  obtain p where p: "List.find (\<lambda>p. sport_Name p = ''milvus'' \<or> sport_Port p = 19530) ports = Some p"
      "sport_NodePort p \<noteq> 0"
    using assms ports by (auto simp: nodePortEndpoint_def Let_def split: option.splits if_splits)
  obtain nodes where nodes: "ListNodes (api c) w = Inr nodes"
    using assms ports p
    by (auto simp: nodePortEndpoint_def firstNodeAddress_def Let_def split: sum.splits)
  have "host = scan_addresses '''' (concat nodes)" "port = itoa (sport_NodePort p)"
    using assms ports p nodes
    by (auto simp: nodePortEndpoint_def firstNodeAddress_def Let_def split: if_splits)
  moreover have "p \<in> set ports" "sport_Name p = ''milvus'' \<or> sport_Port p = 19530"
    using p(1) by (auto simp: find_Some_iff)
  ultimately show ?thesis using ports p(2) nodes by blast
qed

section \<open>Properties\<close>


definition nodeport_milvus :: Milvus where
  "nodeport_milvus = sample_milvus\<lparr>Spec := sample_spec\<lparr>Com := zero_MilvusComponents
     \<lparr>Standalone := Some (ComponentSpec.extend zero_ComponentSpec
        \<lparr>Replicas = Some 1, InitContainers = [], HPA = None, Port = 19530,
         ServiceType = ''NodePort'', ServiceAnnotations = []\<rparr>)\<rparr>\<rparr>\<rparr>"

definition nodeport_ctx :: "unit ctx" where
  "nodeport_ctx = sample_ctx\<lparr>api := sample_api
     \<lparr>GetService := \<lambda>_ _. Inr [\<lparr>sport_Name = ''milvus'', sport_Port = 19530, sport_NodePort = 30530\<rparr>],
      ListNodes := \<lambda>_. Inr [[(''InternalIP'', ''10.0.0.4'')],
                            [(''InternalIP'', ''10.0.0.5''), (''ExternalIP'', ''203.0.113.5'')]]\<rparr>\<rparr>"


end
