(* ===== verification/DeploymentGroups.thy ===== *)
theory DeploymentGroups
  imports PodSettings
begin

text \<open>
  \<open>internal/provider/groups.go\<close>: splitting a component into deployment groups. The
  component's own replicas become the groups' total, a 32-bit sum.
\<close>

definition groupableComponents :: "string list" where
  "groupableComponents = [ComponentProxy, ComponentDataNode, ComponentQueryNode, ComponentStreaming]"

text \<open>
  One rendered group. An affinity that does not decode, which \<open>validateDeploymentGroups\<close>
  rejects, leaves the empty one.
\<close>

definition render_group :: "lib \<Rightarrow> GroupParam \<Rightarrow> DeploymentGroup" where
  "render_group l g =
     \<lparr>GroupName = gp_Name g, GroupReplicas = Some (gp_Replicas g),
      GroupAnnotations = gp_Annotations g, ExtraEnv = withEnvDefaults (gp_Env g),
      GroupNodeSelector = gp_NodeSelector g,
      GroupAffinity = map_option (\<lambda>a. case DecodeAffinity l a of Inl _ \<Rightarrow> VMap [] | Inr x \<Rightarrow> x)
        (gp_Affinity g),
      GroupTolerations = gp_Tolerations g\<rparr>"

definition groups_total :: "GroupParam list \<Rightarrow> int" where
  "groups_total groups = fold (\<lambda>g acc. add32 acc (gp_Replicas g)) groups 0"

definition applyDeploymentGroups ::
  "'w ctx \<Rightarrow> string \<Rightarrow> 'a Component_scheme \<Rightarrow> 'a Component_scheme \<times> DeploymentGroup list" where
  "applyDeploymentGroups c name component =
     (let groups = mp_Groups (componentParameters c name) in
      if groups = [] then (component, [])
      else (component\<lparr>Replicas := Some (groups_total groups)\<rparr>, map (render_group (lib c)) groups))"

text \<open>
  The loop of \<open>validateDeploymentGroups\<close>: \<open>i\<close> is the index, \<open>seen\<close> the names so far; the
  result is the total, or the first error.
\<close>

definition group_error :: "lib \<Rightarrow> string \<Rightarrow> nat \<Rightarrow> string list \<Rightarrow> GroupParam \<Rightarrow> go_error option" where
  "group_error l name i seen g =
     (let this = ''component '' @ quote name @ '' group '' @ quote (gp_Name g) in
      first_error
        ([case IsDNS1123Label l (gp_Name g) of
            [] \<Rightarrow> None
          | msg # _ \<Rightarrow> Some (errorf (''component '' @ quote name @ '' groups['' @ itoa (int i) @ ''].name ''
              @ quote (gp_Name g) @ '' is invalid: '' @ msg)),
          if gp_Name g \<in> set seen
          then Some (errorf (''component '' @ quote name @ '' has duplicate group '' @ quote (gp_Name g)))
          else None,
          if gp_Replicas g < 0 then Some (errorf (this @ '' replicas must be >= 0'')) else None]
         @ map (\<lambda>(j, env). if env_Name env = ''''
              then Some (errorf (this @ '' env['' @ itoa (int j) @ ''].name is required'')) else None)
            (List.enumerate 0 (gp_Env g))
         @ [case gp_Affinity g of
              None \<Rightarrow> None
            | Some a \<Rightarrow> (case DecodeAffinity l a of
                Inl e \<Rightarrow> Some (Wrap (this @ '' affinity is invalid'') e) | Inr _ \<Rightarrow> None)]))"

fun groups_loop ::
  "lib \<Rightarrow> string \<Rightarrow> nat \<Rightarrow> string list \<Rightarrow> int \<Rightarrow> GroupParam list \<Rightarrow> int result" where
  "groups_loop l name i seen acc [] = Inr acc"
| "groups_loop l name i seen acc (g # gs) =
     (case group_error l name i seen g of
        Some e \<Rightarrow> Inl e
      | None \<Rightarrow> groups_loop l name (Suc i) (gp_Name g # seen) (add32 acc (gp_Replicas g)) gs)"

definition validateDeploymentGroups ::
  "lib \<Rightarrow> string \<Rightarrow> int option \<Rightarrow> GroupParam list \<Rightarrow> go_error option" where
  "validateDeploymentGroups l name componentReplicas groups =
     (if groups = [] then None
      else if name \<notin> set groupableComponents
      then Some (errorf (''component '' @ quote name
             @ '' does not support groups; use them on proxy, dataNode, queryNode or streamingNode''))
      else (case groups_loop l name 0 [] 0 groups of
              Inl e \<Rightarrow> Some e
            | Inr acc \<Rightarrow>
                (case componentReplicas of
                   None \<Rightarrow> None
                 | Some n \<Rightarrow>
                     if n \<noteq> acc
                     then Some (errorf (''component '' @ quote name @ '' replicas ('' @ itoa n
                            @ '') must equal the sum of its groups' replicas ('' @ itoa acc @ '')''))
                     else None)))"

section \<open>Lemmas\<close>

lemma groups_total_eq: "groups_total groups = wrap32 (sum_list (map gp_Replicas groups))"
proof -
  have "groups_total groups = fold (\<lambda>x acc. add32 acc x) (map gp_Replicas groups) 0"
    by (simp add: groups_total_def fold_map comp_def)
  then show ?thesis by (simp add: fold_add32_0)
qed

text \<open>What the loop guarantees of each group, and of the names together.\<close>

definition group_ok :: "lib \<Rightarrow> GroupParam \<Rightarrow> bool" where
  "group_ok l g \<longleftrightarrow> IsDNS1123Label l (gp_Name g) = [] \<and> 0 \<le> gp_Replicas g \<and>
     (\<forall>env\<in>set (gp_Env g). env_Name env \<noteq> '''') \<and>
     (\<forall>a. gp_Affinity g = Some a \<longrightarrow> (\<exists>x. DecodeAffinity l a = Inr x))"

lemma group_error_None:
  assumes "group_error l name i seen g = None"
  shows "group_ok l g \<and> gp_Name g \<notin> set seen"
proof -
  have "\<forall>(j, env)\<in>set (List.enumerate 0 (gp_Env g)). env_Name env \<noteq> ''''"
    using assms by (fastforce simp: group_error_def Let_def error_simps split: if_splits)
  then have "\<forall>env\<in>set (gp_Env g). env_Name env \<noteq> ''''"
    by (simp only: enumerate_all)
  moreover have "IsDNS1123Label l (gp_Name g) = []" "gp_Name g \<notin> set seen" "0 \<le> gp_Replicas g"
    using assms by (auto simp: group_error_def Let_def error_simps split: list.splits if_splits)
  moreover have "\<exists>x. DecodeAffinity l a = Inr x" if "gp_Affinity g = Some a" for a
    using assms that by (auto simp: group_error_def Let_def error_simps split: sum.splits)
  ultimately show ?thesis by (simp add: group_ok_def)
qed

lemma groups_loop_Inr:
  assumes "groups_loop l name i seen acc groups = Inr t"
  shows "t = fold (\<lambda>g acc. add32 acc (gp_Replicas g)) groups acc \<and>
    distinct (map gp_Name groups) \<and> set (map gp_Name groups) \<inter> set seen = {} \<and>
    (\<forall>g\<in>set groups. group_ok l g)"
  using assms
proof (induction groups arbitrary: i seen acc)
  case (Cons g gs)
  then have "group_error l name i seen g = None"
    and "groups_loop l name (Suc i) (gp_Name g # seen) (add32 acc (gp_Replicas g)) gs = Inr t"
    by (auto split: option.splits)
  with Cons.IH group_error_None show ?case by fastforce
qed simp

lemma wrap32_exact: "0 \<le> x \<Longrightarrow> wrap32 x = x \<longleftrightarrow> x < 2 ^ 31"
  using is_int32_wrap32 [of x] wrap32_id [of x] by (auto simp: is_int32_def)

section \<open>Properties\<close>

text \<open>
  C40: accepted groups describe the component, up to 32 bits. When \<open>validateDeploymentGroups\<close>
  accepts a component's groups, the component is one the operator can split, the rendered
  groups keep their distinct, valid names and non-negative replicas, and the rendered
  component's replicas are those the user set, if any, and the total of the groups modulo
  2^32: the total itself if and only if that is below 2^31.
\<close>

theorem accepted_groups_describe_component:
  assumes "mp_Groups (componentParameters c name) = groups" "groups \<noteq> []"
    and "validateDeploymentGroups (lib c) name replicas groups = None"
    and "applyDeploymentGroups c name component = (component', rendered)"
  shows "name \<in> set groupableComponents \<and>
    map GroupName rendered = map gp_Name groups \<and> distinct (map GroupName rendered) \<and>
    (\<forall>g\<in>set rendered. \<exists>n\<ge>0. GroupReplicas g = Some n) \<and>
    Replicas component' = Some (wrap32 (sum_list (map (\<lambda>g. the (GroupReplicas g)) rendered))) \<and>
    (Replicas component' = Some (sum_list (map (\<lambda>g. the (GroupReplicas g)) rendered)) \<longleftrightarrow>
       sum_list (map (\<lambda>g. the (GroupReplicas g)) rendered) < 2 ^ 31) \<and>
    (\<forall>n. replicas = Some n \<longrightarrow> Replicas component' = Some n)"
proof -
  obtain t where t: "groups_loop (lib c) name 0 [] 0 groups = Inr t"
    and n: "\<forall>n. replicas = Some n \<longrightarrow> n = t" and g: "name \<in> set groupableComponents"
    using assms(2,3) by (auto simp: validateDeploymentGroups_def split: if_splits sum.splits option.splits)
  have ok: "t = groups_total groups" "distinct (map gp_Name groups)" "\<forall>g\<in>set groups. group_ok (lib c) g"
    using groups_loop_Inr [OF t] by (simp_all add: groups_total_def)
  have r: "rendered = map (render_group (lib c)) groups" "Replicas component' = Some (groups_total groups)"
    using assms(1,2,4) by (auto simp: applyDeploymentGroups_def Let_def)
  have names: "map GroupName rendered = map gp_Name groups"
    "map (\<lambda>g. the (GroupReplicas g)) rendered = map gp_Replicas groups"
    by (simp_all add: r(1) render_group_def)
  have "\<forall>g\<in>set rendered. \<exists>n\<ge>0. GroupReplicas g = Some n"
    using ok(3) by (auto simp: r(1) render_group_def group_ok_def)
  moreover have "0 \<le> sum_list (map gp_Replicas groups)"
    by (rule sum_list_nonneg) (use ok(3) in \<open>auto simp: group_ok_def\<close>)
  ultimately show ?thesis
    using g names ok n r(2) by (simp add: groups_total_eq wrap32_exact)
qed

definition two_groups :: "GroupParam list" where
  "two_groups = map (\<lambda>(name, n). \<lparr>gp_Name = name, gp_Replicas = n, gp_NodeSelector = None,
     gp_Tolerations = None, gp_Affinity = None, gp_Annotations = [], gp_Env = []\<rparr>)
     [(''blue'', 2), (''green'', 3)]"

definition grouped_ctx :: "GroupParam list \<Rightarrow> unit ctx" where
  "grouped_ctx groups = sample_ctx\<lparr>TryDecodeComponentParameters :=
     \<lambda>_. (True, zero_MilvusParameters\<lparr>mp_Groups := groups\<rparr>)\<rparr>"

lemma grouped_ctx_simps [simp]:
  "mp_Groups (componentParameters (grouped_ctx groups) name) = groups"
  "lib (grouped_ctx groups) = sample_lib"
  by (simp_all add: grouped_ctx_def componentParameters_def sample_ctx_def)

lemma two_groups_accepted:
  "validateDeploymentGroups sample_lib ComponentProxy (Some 5) two_groups = None"
  by (simp add: validateDeploymentGroups_def two_groups_def group_error_def sample_lib_def
      groupableComponents_def add32_def wrap32_def)

theorem accepted_groups_describe_component_witness:
  "Replicas (fst (applyDeploymentGroups (grouped_ctx two_groups) ComponentProxy zero_Component)) = Some 5 \<and>
   distinct (map GroupName (snd (applyDeploymentGroups (grouped_ctx two_groups) ComponentProxy zero_Component)))"
proof -
  have ne: "two_groups \<noteq> []" by (simp add: two_groups_def)
  have ok: "validateDeploymentGroups (lib (grouped_ctx two_groups)) ComponentProxy (Some 5) two_groups = None"
    using two_groups_accepted by simp
  from accepted_groups_describe_component
    [OF grouped_ctx_simps(1) ne ok surjective_pairing, of "zero_Component :: Component"]
  show ?thesis by blast
qed

definition huge_groups :: "GroupParam list" where
  "huge_groups = map (\<lambda>(name, n). \<lparr>gp_Name = name, gp_Replicas = n, gp_NodeSelector = None,
     gp_Tolerations = None, gp_Affinity = None, gp_Annotations = [], gp_Env = []\<rparr>)
     [(''blue'', 2147483647), (''green'', 2147483647), (''red'', 2)]"

text \<open>
  The total is a 32-bit number. Groups whose replicas do not fit into an \<open>int32\<close> together
  pass validation with a component replica count of zero, and are rendered so: the sum in
  \<open>groups.go\<close> wraps around silently.
\<close>

theorem group_total_wraps_around:
  "validateDeploymentGroups sample_lib ComponentProxy (Some 0) huge_groups = None \<and>
   Replicas (fst (applyDeploymentGroups (grouped_ctx huge_groups) ComponentProxy zero_Component)) = Some 0 \<and>
   sum_list (map gp_Replicas huge_groups) = 2 ^ 32"
  by (simp add: validateDeploymentGroups_def applyDeploymentGroups_def groups_total_def huge_groups_def
      group_error_def sample_lib_def groupableComponents_def add32_def wrap32_def)

end
