(* ===== verification/Scaling.thy ===== *)
theory Scaling
  imports RestClient DeploymentGroups
begin

text \<open>
  \<open>internal/provider/scaling.go\<close>: autoscalers, and the check that scaling query or
  streaming nodes in leaves every loaded collection its replicas.
\<close>

section \<open>Autoscaling\<close>

definition autoscalableComponents :: "string list" where
  "autoscalableComponents = [ComponentProxy, ComponentDataNode, ComponentQueryNode]"

definition defaultTargetCPUUtilization :: int where "defaultTargetCPUUtilization = 80"

definition hpa_metrics :: "int option \<Rightarrow> int option \<Rightarrow> (string \<times> int) list" where
  "hpa_metrics cpu memory =
     concat (map (\<lambda>(resource, utilization). case utilization of None \<Rightarrow> [] | Some u \<Rightarrow> [(resource, u)])
       [(''cpu'', cpu), (''memory'', memory)])"

definition applyAutoscaling ::
  "'a Component_scheme \<Rightarrow> Autoscaling option \<Rightarrow> 'a Component_scheme" where
  "applyAutoscaling component autoscaling =
     (case autoscaling of
        None \<Rightarrow> component
      | Some a \<Rightarrow>
          let targetCPU = (if as_TargetCPUUtilization a = None \<and> as_TargetMemoryUtilization a = None
                           then Some defaultTargetCPUUtilization else as_TargetCPUUtilization a)
          in component\<lparr>HPA := Some
               \<lparr>MinReplicas = Replicas component, MaxReplicas = as_MaxReplicas a,
                Metrics = hpa_metrics targetCPU (as_TargetMemoryUtilization a)\<rparr>\<rparr>)"

definition autoscaledComponents :: "MilvusSpec \<Rightarrow> (string \<times> bool) list" where
  "autoscaledComponents spec =
     (let entry = (\<lambda>name hpa. case hpa of None \<Rightarrow> [] | Some h \<Rightarrow> [(name, h \<noteq> None)]) in
      entry ComponentProxy (map_option HPA (Proxy (Com spec)))
      @ entry ComponentDataNode (map_option HPA (DataNode (Com spec)))
      @ entry ComponentQueryNode (map_option HPA (QueryNode (Com spec))))"

definition is_autoscaled :: "MilvusSpec \<Rightarrow> string \<Rightarrow> bool" where
  "is_autoscaled spec name \<longleftrightarrow> deref (map_of (autoscaledComponents spec) name) False"

definition remove_hpa_op :: "string \<Rightarrow> (string \<times> string) list" where
  "remove_hpa_op name = [(''op'', ''remove''), (''path'', ''/spec/components/'' @ name @ ''/hpa'')]"

definition dropped_hpas :: "MilvusSpec \<Rightarrow> MilvusSpec \<Rightarrow> string list" where
  "dropped_hpas deployed wanted =
     filter (\<lambda>name. is_autoscaled deployed name \<and> \<not> is_autoscaled wanted name) autoscalableComponents"

definition clearDroppedAutoscaling :: "'w ctx \<Rightarrow> MilvusSpec \<Rightarrow> ('w, unit) step" where
  "clearDroppedAutoscaling c desired w =
     (case existing_milvus c w of
        Inl e \<Rightarrow> if IsNotFound e then (Inr (), w) else (Inl (Wrap ''get Milvus CR'' e), w)
      | Inr existing \<Rightarrow>
          let ops = map remove_hpa_op (dropped_hpas (Spec existing) desired) in
          if ops = [] then (Inr (), w)
          else wrap_error ''remove autoscaling from Milvus CR''
                 (PatchMilvus (api c) (MilvusName existing) ops w))"

definition hasResource :: "ResourceRequirements option \<Rightarrow> string \<Rightarrow> bool" where
  "hasResource resources name =
     (case resources of
        None \<Rightarrow> False
      | Some r \<Rightarrow> map_of (rr_Requests r) name \<noteq> None \<or> map_of (rr_Limits r) name \<noteq> None)"

definition target_error ::
  "string \<Rightarrow> InstanceComponent \<Rightarrow> string \<times> string \<times> int option \<Rightarrow> go_error option" where
  "target_error name component target =
     (case target of
        (field, resource, None) \<Rightarrow> None
      | (field, resource, Some u) \<Rightarrow>
          let prefix = ''component '' @ quote name @ '' autoscaling.'' @ field in
          if u < 1 then Some (errorf (prefix @ '' must be >= 1''))
          else if \<not> hasResource (ic_Resources component) resource
          then Some (errorf (prefix @ '' needs resources.requests.'' @ resource
                             @ '' or resources.limits.'' @ resource))
          else None)"

definition validateAutoscaling ::
  "string \<Rightarrow> InstanceComponent \<Rightarrow> MilvusParameters \<Rightarrow> go_error option" where
  "validateAutoscaling name component params =
     (case mp_Autoscaling params of
        None \<Rightarrow> None
      | Some a \<Rightarrow>
          let this = ''component '' @ quote name; minReplicas = deref (ic_Replicas component) 1 in
          first_error
            ([if name \<notin> set autoscalableComponents
              then Some (errorf (this @ '' does not support autoscaling; use it on proxy, dataNode or queryNode''))
              else None,
              if mp_Groups params \<noteq> []
              then Some (errorf (this @ '' cannot combine autoscaling with groups'')) else None,
              if as_MaxReplicas a < minReplicas
              then Some (errorf (this @ '' autoscaling.maxReplicas ('' @ itoa (as_MaxReplicas a)
                     @ '') must be at least its replicas ('' @ itoa minReplicas @ '')''))
              else None]
             @ map (target_error name component)
                 [(''targetCPUUtilization'', ''cpu'', as_TargetCPUUtilization a),
                  (''targetMemoryUtilization'', ''memory'', as_TargetMemoryUtilization a)]
             @ [if as_TargetCPUUtilization a = None \<and> as_TargetMemoryUtilization a = None
                   \<and> \<not> hasResource (ic_Resources component) ''cpu''
                then Some (errorf (this @ '' autoscaling targets CPU by default and needs resources.requests.cpu or resources.limits.cpu''))
                else None]))"

section \<open>Scaling in\<close>

definition replicaHosts :: "string list" where
  "replicaHosts = [ComponentQueryNode, ComponentStreaming]"

definition requestedNodes :: "'w ctx \<Rightarrow> string \<Rightarrow> int option" where
  "requestedNodes c name =
     (case map_of (in_Components (Inst c)) name of
        None \<Rightarrow> None
      | Some component \<Rightarrow>
          let groups = mp_Groups (componentParameters c name) in
          if groups \<noteq> [] then Some (groups_total groups)
          else Some (deref (ic_Replicas component) 1))"

definition deployed_component :: "Milvus \<Rightarrow> string \<Rightarrow> MilvusNode option" where
  "deployed_component cr name =
     (if name = ComponentQueryNode \<and> QueryNode (Com (Spec cr)) \<noteq> None then QueryNode (Com (Spec cr))
      else if name = ComponentStreaming then StreamingNode (Com (Spec cr))
      else None)"

definition deployedNodes :: "Milvus \<Rightarrow> string \<Rightarrow> int option" where
  "deployedNodes cr name =
     (case deployed_component cr name of
        None \<Rightarrow> None
      | Some component \<Rightarrow>
          (case Option.bind (HPA component) MinReplicas of
             Some n \<Rightarrow> Some n
           | None \<Rightarrow> Replicas component))"

text \<open>The components whose floor drops, with the nodes requested for them.\<close>

definition shrinking_hosts :: "'w ctx \<Rightarrow> Milvus \<Rightarrow> (string \<times> int) list" where
  "shrinking_hosts c cr =
     concat (map (\<lambda>name. case (requestedNodes c name, deployedNodes cr name) of
        (Some r, Some d) \<Rightarrow> if r < d then [(name, r)] else []
      | _ \<Rightarrow> []) replicaHosts)"

definition scale_in_error :: "string \<Rightarrow> int \<Rightarrow> string \<Rightarrow> int \<Rightarrow> go_error option" where
  "scale_in_error name requested collection n =
     (if n > requested
      then Some (errorf (name @ '' replicas cannot go below '' @ itoa n @ '': collection ''
             @ quote collection @ '' is loaded with '' @ itoa n
             @ '' replicas; release it or reload it with fewer replicas first''))
      else None)"

text \<open>The two nested loops: components in order, collections sorted by name.\<close>

definition scale_in_checks :: "(string \<times> int) list \<Rightarrow> (string \<times> int) list \<Rightarrow> go_error option list" where
  "scale_in_checks shrinking loaded =
     concat (map (\<lambda>(name, requested).
       map (\<lambda>collection. scale_in_error name requested collection (deref (map_of loaded collection) 0))
         (sort (keys loaded))) shrinking)"

definition validateReplicaHostsScaleIn :: "'w Provider \<Rightarrow> 'w ctx \<Rightarrow> ('w, unit) step" where
  "validateReplicaHostsScaleIn p c w =
     (case existing_milvus c w of
        Inl _ \<Rightarrow> (Inr (), w)
      | Inr cr \<Rightarrow>
          if Status (CRStatus cr) \<noteq> StatusHealthy then (Inr (), w)
          else let shrinking = shrinking_hosts c cr in
          if shrinking = [] then (Inr (), w)
          else (case GetSecret (api c) w (credentialsSecretName (Name c)) of
             Inl _ \<Rightarrow> (Inr (), w)
           | Inr credentials \<Rightarrow>
               (case loadedReplicas p (milvusInternalURL c)
                       (secret_value credentials secretKeyAppliedPassword) w of
                  (Inl _, w) \<Rightarrow> (Inr (), w)
                | (Inr loaded, w) \<Rightarrow>
                    (case first_error (scale_in_checks shrinking loaded) of
                       Some e \<Rightarrow> (Inl e, w)
                     | None \<Rightarrow> (Inr (), w)))))"

section \<open>Lemmas\<close>

lemma shrinking_hosts_mem:
  "(name, r) \<in> set (shrinking_hosts c cr) \<longleftrightarrow>
     name \<in> set replicaHosts \<and> requestedNodes c name = Some r \<and>
     (\<exists>d. deployedNodes cr name = Some d \<and> r < d)"
  by (force simp: shrinking_hosts_def split: option.splits if_splits)

subsection \<open>JSON Patch on a Milvus CR\<close>

text \<open>
  A part of RFC 6902 on the JSON form of a Milvus CR, whose keys are the tags of
  \<open>milvus_types.go\<close>: a \<open>remove\<close> whose JSON Pointer is the \<open>hpa\<close> of a component under
  \<open>/spec/components\<close>. The target must exist, operations apply in order, and the first that
  does not apply fails the whole patch. Any other operation or path is left out: \<open>None\<close> then
  says nothing of what the API server does.
\<close>

definition remove_hpa :: "string \<Rightarrow> MilvusComponents \<Rightarrow> MilvusComponents" where
  "remove_hpa key com =
     (if key = ''proxy'' then com\<lparr>Proxy := map_option (\<lambda>x. x\<lparr>HPA := None\<rparr>) (Proxy com)\<rparr>
      else if key = ''dataNode''
      then com\<lparr>DataNode := map_option (\<lambda>x. x\<lparr>HPA := None\<rparr>) (DataNode com)\<rparr>
      else if key = ''queryNode''
      then com\<lparr>QueryNode := map_option (\<lambda>x. x\<lparr>HPA := None\<rparr>) (QueryNode com)\<rparr>
      else com)"

definition hpa_pointer :: "string \<Rightarrow> string option" where
  "hpa_pointer path =
     (case split_on (CHR ''/'') path of
        [root, spec, components, key, field] \<Rightarrow>
          if root = '''' \<and> spec = ''spec'' \<and> components = ''components'' \<and> field = ''hpa''
          then Some key else None
      | _ \<Rightarrow> None)"

definition without_hpas :: "string list \<Rightarrow> Milvus \<Rightarrow> Milvus" where
  "without_hpas names m = m\<lparr>Spec := (Spec m)\<lparr>Com := fold remove_hpa names (Com (Spec m))\<rparr>\<rparr>"

definition component_hpa :: "MilvusComponents \<Rightarrow> string \<Rightarrow> HPASpec option" where
  "component_hpa com key =
     (if key = ''proxy'' then Option.bind (Proxy com) HPA
      else if key = ''dataNode'' then Option.bind (DataNode com) HPA
      else if key = ''queryNode'' then Option.bind (QueryNode com) HPA
      else None)"

definition patch_op :: "(string \<times> string) list \<Rightarrow> Milvus \<Rightarrow> Milvus option" where
  "patch_op op m =
     (if map_of op ''op'' \<noteq> Some ''remove'' then None
      else (case Option.bind (map_of op ''path'') hpa_pointer of
              None \<Rightarrow> None
            | Some key \<Rightarrow>
                if component_hpa (Com (Spec m)) key = None then None
                else Some (without_hpas [key] m)))"

fun json_patch :: "(string \<times> string) list list \<Rightarrow> Milvus \<Rightarrow> Milvus option" where
  "json_patch [] m = Some m"
| "json_patch (op # ops) m = Option.bind (patch_op op m) (json_patch ops)"

lemma is_autoscaled_iff: "is_autoscaled spec name \<longleftrightarrow> component_hpa (Com spec) name \<noteq> None"
  by (simp add: is_autoscaled_def autoscaledComponents_def component_hpa_def Let_def
      component_name_defs split: option.split)

lemma bind_without_hpa: "Option.bind (map_option (\<lambda>x. x\<lparr>HPA := None\<rparr>) c) HPA = None"
  by (cases c) simp_all

lemma component_hpa_remove:
  "component_hpa (remove_hpa name com) k = (if k = name then None else component_hpa com k)"
  by (simp add: component_hpa_def remove_hpa_def component_name_defs bind_without_hpa)

lemma is_autoscaled_remove_hpa:
  "is_autoscaled (s\<lparr>Com := remove_hpa name com\<rparr>) k \<longleftrightarrow> is_autoscaled (s\<lparr>Com := com\<rparr>) k \<and> k \<noteq> name"
  by (simp add: is_autoscaled_iff component_hpa_remove)

lemma is_autoscaled_remove_hpas:
  "is_autoscaled (s\<lparr>Com := fold remove_hpa names com\<rparr>) k \<longleftrightarrow>
     is_autoscaled (s\<lparr>Com := com\<rparr>) k \<and> k \<notin> set names"
  by (induction names arbitrary: com) (auto simp: is_autoscaled_remove_hpa)

lemma is_autoscaled_component: "is_autoscaled s k \<Longrightarrow> k \<in> set autoscalableComponents"
  by (simp add: is_autoscaled_iff component_hpa_def autoscalableComponents_def component_name_defs
      split: if_splits)

lemma is_autoscaled_without_hpas:
  "is_autoscaled (Spec (without_hpas (dropped_hpas (Spec m) desired) m)) k \<longleftrightarrow>
     is_autoscaled (Spec m) k \<and> is_autoscaled desired k"
  using is_autoscaled_component [of "Spec m" k]
    is_autoscaled_remove_hpas [where s = "Spec m" and names = "dropped_hpas (Spec m) desired"
      and com = "Com (Spec m)" and k = k]
  by (auto simp: without_hpas_def dropped_hpas_def)

text \<open>The pointers the provider sends address the \<open>hpa\<close> of the component they name.\<close>

lemma remove_hpa_op_applies:
  assumes "k \<in> set autoscalableComponents" "is_autoscaled (Spec m) k"
  shows "patch_op (remove_hpa_op k) m = Some (without_hpas [k] m)"
proof -
  have "hpa_pointer (''/spec/components/'' @ k @ ''/hpa'') = Some k"
    using assms(1) by (auto simp: hpa_pointer_def autoscalableComponents_def component_name_defs)
  with assms(2) show ?thesis by (simp add: patch_op_def remove_hpa_op_def is_autoscaled_iff)
qed

lemma remove_hpa_ops_apply:
  assumes "distinct ks" "\<forall>k\<in>set ks. k \<in> set autoscalableComponents \<and> is_autoscaled (Spec m) k"
  shows "json_patch (map remove_hpa_op ks) m = Some (without_hpas ks m)"
  using assms
proof (induction ks arbitrary: m)
  case (Cons k ks)
  let ?m = "without_hpas [k] m"
  have "\<forall>j\<in>set ks. j \<in> set autoscalableComponents \<and> is_autoscaled (Spec ?m) j"
    using Cons.prems is_autoscaled_remove_hpa [where s = "Spec m" and name = k and com = "Com (Spec m)"]
    by (auto simp: without_hpas_def)
  with Cons have "json_patch (map remove_hpa_op ks) ?m = Some (without_hpas ks ?m)" by simp
  with Cons.prems show ?case by (simp add: remove_hpa_op_applies) (simp add: without_hpas_def)
qed (simp add: without_hpas_def)

lemma dropped_hpas_apply:
  "json_patch (map remove_hpa_op (dropped_hpas (Spec m) desired)) m =
     Some (without_hpas (dropped_hpas (Spec m) desired) m)"
  by (rule remove_hpa_ops_apply) (auto simp: dropped_hpas_def autoscalableComponents_def component_name_defs)

text \<open>
  The API server's contract: a JSON patch it accepts leaves the CR that the operations
  describe.
\<close>

definition applies_json_patch :: "'w ctx \<Rightarrow> bool" where
  "applies_json_patch c \<longleftrightarrow>
     (\<forall>w m m' ops w'. existing_milvus c w = Inr m \<and> json_patch ops m = Some m' \<and>
        PatchMilvus (api c) (MilvusName m) ops w = (Inr (), w') \<longrightarrow>
        existing_milvus c w' = Inr m')"

lemma scale_in_checks_None:
  "first_error (scale_in_checks shrinking loaded) \<noteq> None \<longleftrightarrow>
     (\<exists>name requested collection n. (name, requested) \<in> set shrinking \<and>
        map_of loaded collection = Some n \<and> requested < n)"
proof -
  have inner: "(\<exists>collection\<in>set (keys loaded).
        scale_in_error name r collection (deref (map_of loaded collection) 0) \<noteq> None) \<longleftrightarrow>
      (\<exists>collection n. map_of loaded collection = Some n \<and> r < n)" for name r
  proof
    assume "\<exists>collection\<in>set (keys loaded).
        scale_in_error name r collection (deref (map_of loaded collection) 0) \<noteq> None"
    then obtain k where k: "k \<in> set (keys loaded)" "r < deref (map_of loaded k) 0"
      by (auto simp: scale_in_error_def split: if_splits)
    then obtain n where "map_of loaded k = Some n" using map_of_None_key [of loaded k] by auto
    with k show "\<exists>collection n. map_of loaded collection = Some n \<and> r < n" by auto
  next
    assume "\<exists>collection n. map_of loaded collection = Some n \<and> r < n"
    then obtain k n where k: "map_of loaded k = Some n" "r < n" by blast
    show "\<exists>collection\<in>set (keys loaded).
        scale_in_error name r collection (deref (map_of loaded collection) 0) \<noteq> None"
      by (rule bexI [OF _ map_of_Some_key [OF k(1)]]) (simp add: k scale_in_error_def)
  qed
  have "first_error (scale_in_checks shrinking loaded) = None \<longleftrightarrow>
      (\<forall>x\<in>set shrinking. \<forall>collection\<in>set (keys loaded).
        scale_in_error (fst x) (snd x) collection (deref (map_of loaded collection) 0) = None)"
    by (simp add: first_error_None scale_in_checks_def case_prod_unfold)
  then have "first_error (scale_in_checks shrinking loaded) \<noteq> None \<longleftrightarrow>
      (\<exists>x\<in>set shrinking. \<exists>collection\<in>set (keys loaded).
        scale_in_error (fst x) (snd x) collection (deref (map_of loaded collection) 0) \<noteq> None)"
    by (simp only: bex_simps not_all ball_simps simp_thms)
  then show ?thesis unfolding inner by (metis fst_conv snd_conv surjective_pairing)
qed

section \<open>Properties\<close>

text \<open>
  C31: a rendered autoscaler is one the cluster accepts and can act on. If
  \<open>validateAutoscaling\<close> accepts a component's parameters, the autoscaler \<open>applyAutoscaling\<close>
  gives a component with the replicas the provider renders has its minimum at most its
  maximum, at least one metric, only targets of at least one percent, and only targets for
  resources the component's pods request.
\<close>

theorem autoscaler_is_sound:
  assumes "validateAutoscaling name component params = None"
    and "mp_Autoscaling params = Some autoscaling"
    and "Replicas rendered = Some (deref (ic_Replicas component) 1)"
  shows "\<exists>h m. HPA (applyAutoscaling rendered (Some autoscaling)) = Some h \<and>
    MinReplicas h = Some m \<and> m = deref (ic_Replicas component) 1 \<and> m \<le> MaxReplicas h \<and>
    name \<in> set autoscalableComponents \<and> mp_Groups params = [] \<and> Metrics h \<noteq> [] \<and>
    (\<forall>(resource, target)\<in>set (Metrics h). 1 \<le> target \<and> hasResource (ic_Resources component) resource)"
  using assms
  by (auto simp: validateAutoscaling_def applyAutoscaling_def hpa_metrics_def target_error_def
      error_simps Let_def defaultTargetCPUUtilization_def split: option.splits if_splits)

definition scaled_component :: InstanceComponent where
  "scaled_component = zero_InstanceComponent\<lparr>ic_Replicas := Some 2,
     ic_Resources := Some \<lparr>rr_Limits = [(''cpu'', \<lparr>q_amount = 10 ^ 9, q_string = ''1''\<rparr>)],
                           rr_Requests = []\<rparr>\<rparr>"

definition scaled_params :: MilvusParameters where
  "scaled_params = zero_MilvusParameters\<lparr>mp_Autoscaling := Some
     \<lparr>as_MaxReplicas = 5, as_TargetCPUUtilization = None, as_TargetMemoryUtilization = None\<rparr>\<rparr>"

theorem autoscaler_is_sound_witness:
  "\<exists>h. HPA (applyAutoscaling (zero_Component\<lparr>Replicas := Some 2\<rparr>) (mp_Autoscaling scaled_params)) = Some h \<and>
     MinReplicas h = Some 2 \<and> 2 \<le> MaxReplicas h \<and> Metrics h \<noteq> []"
proof -
  have ok: "validateAutoscaling ComponentProxy scaled_component scaled_params = None"
    by (simp add: validateAutoscaling_def scaled_component_def scaled_params_def
        zero_MilvusParameters_def zero_InstanceComponent_def target_error_def hasResource_def
        autoscalableComponents_def Let_def)
  have a: "mp_Autoscaling scaled_params = Some
     \<lparr>as_MaxReplicas = 5, as_TargetCPUUtilization = None, as_TargetMemoryUtilization = None\<rparr>"
    by (simp add: scaled_params_def)
  have r: "Replicas ((zero_Component :: Component)\<lparr>Replicas := Some 2\<rparr>) =
      Some (deref (ic_Replicas scaled_component) 1)"
    by (simp add: scaled_component_def)
  from autoscaler_is_sound [OF ok a r] show ?thesis by (auto simp: a scaled_component_def)
qed

text \<open>
  C30: dropping autoscaling leaves no remnant. With an API server that applies JSON patches,
  after \<open>clearDroppedAutoscaling\<close> succeeds the Milvus CR in the cluster has an autoscaler on
  exactly the components that had one and keep it in the desired spec, so the partial \<open>hpa\<close>
  the CRD would reject cannot occur; and nothing is written when there is none to drop.
\<close>

theorem dropped_autoscaling_cleared:
  assumes "applies_json_patch c" "existing_milvus c w = Inr m"
    and "clearDroppedAutoscaling c desired w = (Inr (), w')"
  shows "\<exists>m'. existing_milvus c w' = Inr m' \<and>
    (\<forall>k. is_autoscaled (Spec m') k \<longleftrightarrow> is_autoscaled (Spec m) k \<and> is_autoscaled desired k) \<and>
    (dropped_hpas (Spec m) desired = [] \<longrightarrow> w' = w)"
proof (cases "dropped_hpas (Spec m) desired = []")
  case True
  with assms(2,3) have "w' = w" by (simp add: clearDroppedAutoscaling_def Let_def)
  moreover have "is_autoscaled (Spec m) k \<longleftrightarrow> is_autoscaled (Spec m) k \<and> is_autoscaled desired k" for k
    using True is_autoscaled_component [of "Spec m" k] by (auto simp: dropped_hpas_def filter_empty_conv)
  ultimately show ?thesis using assms(2) by blast
next
  case False
  with assms(2,3) have "PatchMilvus (api c) (MilvusName m)
      (map remove_hpa_op (dropped_hpas (Spec m) desired)) w = (Inr (), w')"
    by (simp add: clearDroppedAutoscaling_def Let_def error_simps)
  with assms(1,2) have "existing_milvus c w' = Inr (without_hpas (dropped_hpas (Spec m) desired) m)"
    using dropped_hpas_apply unfolding applies_json_patch_def by blast
  with False is_autoscaled_without_hpas show ?thesis by blast
qed

text \<open>A cluster that holds one Milvus CR and applies the provider's patches to it.\<close>

definition patching_ctx :: "Milvus ctx" where
  "patching_ctx = sample_ctx\<lparr>api := sample_api
     \<lparr>GetMilvus := \<lambda>w _. Inr w,
      PatchMilvus := \<lambda>_ ops w. (case json_patch ops w of
        None \<Rightarrow> (Inl (errorf ''the patch does not apply''), w) | Some m \<Rightarrow> (Inr (), m))\<rparr>\<rparr>"

lemma patching_ctx_patches: "applies_json_patch patching_ctx"
  by (auto simp: applies_json_patch_def patching_ctx_def existing_milvus_def sample_ctx_def)

definition scaled_milvus :: Milvus where
  "scaled_milvus = sample_milvus\<lparr>Spec := sample_spec\<lparr>Com := zero_MilvusComponents
     \<lparr>QueryNode := Some (ComponentSpec.extend zero_ComponentSpec
        \<lparr>Replicas = Some 1, InitContainers = [],
         HPA = Some \<lparr>MinReplicas = Some 1, MaxReplicas = 3, Metrics = []\<rparr>, NodeGroups = []\<rparr>)\<rparr>\<rparr>\<rparr>"

theorem dropped_autoscaling_cleared_witness:
  "\<exists>w' m'. clearDroppedAutoscaling patching_ctx sample_spec scaled_milvus = (Inr (), w') \<and>
     existing_milvus patching_ctx w' = Inr m' \<and> \<not> is_autoscaled (Spec m') ComponentQueryNode \<and>
     is_autoscaled (Spec scaled_milvus) ComponentQueryNode"
proof -
  have m: "existing_milvus patching_ctx scaled_milvus = Inr scaled_milvus"
    by (simp add: existing_milvus_def patching_ctx_def sample_ctx_def)
  have patch: "PatchMilvus (api patching_ctx) n ops w = (case json_patch ops w of
      None \<Rightarrow> (Inl (errorf ''the patch does not apply''), w) | Some m \<Rightarrow> (Inr (), m))" for n ops w
    by (simp add: patching_ctx_def)
  have as: "is_autoscaled (Spec scaled_milvus) ComponentQueryNode" "\<not> is_autoscaled sample_spec k" for k
    by (simp_all add: is_autoscaled_iff component_hpa_def component_name_defs scaled_milvus_def
        sample_spec_def ComponentSpec.defs)
  obtain w' where run: "clearDroppedAutoscaling patching_ctx sample_spec scaled_milvus = (Inr (), w')"
    by (cases "dropped_hpas (Spec scaled_milvus) sample_spec = []")
      (simp_all add: clearDroppedAutoscaling_def m Let_def patch dropped_hpas_apply)
  from dropped_autoscaling_cleared [OF patching_ctx_patches m run] run as show ?thesis by blast
qed

text \<open>
  C29: scaling in is refused exactly when it is known to strand a replica:
  \<open>validateReplicaHostsScaleIn\<close> rejects the Instance if and only if Milvus is healthy, the
  credentials can be read, Milvus answers which collections are loaded, and the floor of query
  or streaming nodes drops below the replicas of one of them. In every other case, a Milvus
  that does not answer included, the change goes through. Milvus is asked with the applied
  password.
\<close>

theorem scale_in_refused_exactly:
  "isl (fst (validateReplicaHostsScaleIn p c w)) \<longleftrightarrow>
    (\<exists>cr s loaded w'. existing_milvus c w = Inr cr \<and> Status (CRStatus cr) = StatusHealthy \<and>
       GetSecret (api c) w (credentialsSecretName (Name c)) = Inr s \<and>
       loadedReplicas p (milvusInternalURL c) (secret_value s secretKeyAppliedPassword) w = (Inr loaded, w') \<and>
       (\<exists>name\<in>set replicaHosts. \<exists>requested deployed collection n.
          requestedNodes c name = Some requested \<and> deployedNodes cr name = Some deployed \<and>
          requested < deployed \<and> map_of loaded collection = Some n \<and> requested < n))"
proof -
  have strands: "(\<exists>name\<in>set replicaHosts. \<exists>requested deployed collection n.
        requestedNodes c name = Some requested \<and> deployedNodes cr name = Some deployed \<and>
        requested < deployed \<and> map_of loaded collection = Some n \<and> requested < n) \<longleftrightarrow>
      first_error (scale_in_checks (shrinking_hosts c cr) loaded) \<noteq> None" for cr loaded
    unfolding scale_in_checks_None shrinking_hosts_mem by blast
  have none: "first_error (scale_in_checks [] loaded) = None" for loaded
    by (simp add: scale_in_checks_def)
  show ?thesis
    unfolding strands
    by (auto simp: validateReplicaHostsScaleIn_def none Let_def split: sum.splits prod.splits
        option.splits if_splits)
qed

definition shrink_ctx :: "unit ctx" where
  "shrink_ctx = sample_ctx
     \<lparr>Inst := sample_Instance\<lparr>in_Components :=
        [(ComponentQueryNode, zero_InstanceComponent\<lparr>ic_Replicas := Some 1\<rparr>)]\<rparr>,
      api := sample_api\<lparr>GetMilvus := \<lambda>_ _. Inr (scaled_milvus\<lparr>Spec := (Spec scaled_milvus)
          \<lparr>Com := (Com (Spec scaled_milvus))\<lparr>QueryNode := Some (ComponentSpec.extend zero_ComponentSpec
             \<lparr>Replicas = Some 3, InitContainers = [], HPA = None, NodeGroups = []\<rparr>)\<rparr>\<rparr>\<rparr>),
        GetSecret := \<lambda>_ _. Inr (storage_secret (sample_ctx :: unit ctx) ''inst-credentials'' '''' '''')\<rparr>\<rparr>"

definition loaded_provider :: "unit Provider" where
  "loaded_provider = (NewProvider sample_ctx)\<lparr>loadedReplicas := \<lambda>_ _ w. (Inr [(''books'', 2)], w)\<rparr>"

theorem scale_in_refused_exactly_witness:
  "isl (fst (validateReplicaHostsScaleIn loaded_provider shrink_ctx ()))"
proof -
  let ?cr = "scaled_milvus\<lparr>Spec := (Spec scaled_milvus)
      \<lparr>Com := (Com (Spec scaled_milvus))\<lparr>QueryNode := Some (ComponentSpec.extend zero_ComponentSpec
         \<lparr>Replicas = Some 3, InitContainers = [], HPA = None, NodeGroups = []\<rparr>)\<rparr>\<rparr>\<rparr>"
  let ?s = "storage_secret (sample_ctx :: unit ctx) ''inst-credentials'' '''' ''''"
  have cr: "existing_milvus shrink_ctx () = Inr ?cr" "Status (CRStatus ?cr) = StatusHealthy"
    by (simp_all add: existing_milvus_def shrink_ctx_def scaled_milvus_def sample_milvus_def)
  have s: "GetSecret (api shrink_ctx) () (credentialsSecretName (Name shrink_ctx)) = Inr ?s"
    by (simp add: shrink_ctx_def)
  have l: "loadedReplicas loaded_provider (milvusInternalURL shrink_ctx)
      (secret_value ?s secretKeyAppliedPassword) () = (Inr [(''books'', 2)], ())"
    by (simp add: loaded_provider_def)
  have r: "requestedNodes shrink_ctx ComponentQueryNode = Some 1"
    by (simp add: requestedNodes_def shrink_ctx_def componentParameters_def component_at_def
        sample_ctx_def zero_MilvusParameters_def sample_Instance_def)
  have d: "deployedNodes ?cr ComponentQueryNode = Some 3"
    by (simp add: deployedNodes_def deployed_component_def ComponentSpec.defs)
  have "\<exists>name\<in>set replicaHosts. \<exists>requested deployed collection n.
      requestedNodes shrink_ctx name = Some requested \<and> deployedNodes ?cr name = Some deployed \<and>
      requested < deployed \<and> map_of [(''books'', 2)] collection = Some n \<and> requested < n"
    by (rule bexI [of _ ComponentQueryNode], rule exI [of _ 1], rule exI [of _ 3],
        rule exI [of _ "''books''"], rule exI [of _ 2]) (simp_all add: r d replicaHosts_def)
  with cr s l show ?thesis unfolding scale_in_refused_exactly by blast
qed

end
