(* ===== verification/BuildSpec.thy ===== *)
theory BuildSpec
  imports Version Exposure Scaling
begin

text \<open>
  \<open>BuildMilvusSpec\<close> and its helpers in \<open>internal/provider/provider.go\<close>: the Milvus spec an
  Instance stands for, from its topology, its components, their images and configuration,
  and its dependencies.
\<close>

section \<open>Topology and components\<close>

definition normalizeTopologyName :: "string \<Rightarrow> string" where
  "normalizeTopologyName t =
     (let l = to_lower t in
      if l = '''' \<or> l = ''standalone'' then ''standalone''
      else if l = ''cluster'' then ''cluster'' else l)"

text \<open>The prologue of \<open>BuildMilvusSpec\<close> and of \<open>validateInstance\<close>.\<close>

definition topology_type :: "'w ctx \<Rightarrow> string" where
  "topology_type c =
     (case in_Topology (Inst c) of
        None \<Rightarrow> ''standalone''
      | Some t \<Rightarrow> if top_Type t \<noteq> '''' then normalizeTopologyName (top_Type t) else ''standalone'')"

definition componentReplicasOrDefault :: "instance_components \<Rightarrow> string \<Rightarrow> int \<Rightarrow> int option" where
  "componentReplicasOrDefault components name defaultReplicas =
     (case ic_Replicas (component_at components name) of
        Some n \<Rightarrow> Some n | None \<Rightarrow> Some defaultReplicas)"

definition componentResourcesOrNil ::
  "instance_components \<Rightarrow> string \<Rightarrow> ResourceRequirements option" where
  "componentResourcesOrNil components name =
     (case ic_Resources (component_at components name) of
        None \<Rightarrow> None
      | Some r \<Rightarrow> if rr_Limits r = [] \<and> rr_Requests r = [] then None else Some r)"

definition makeMilvusComponent :: "'w ctx \<Rightarrow> string \<Rightarrow> milvusImage \<Rightarrow> Component" where
  "makeMilvusComponent c name img =
     (let components = in_Components (Inst c);
          params = componentParameters c name;
          component = zero_Component
            \<lparr>Image := img_image img, Version := img_version img,
             Resources := componentResourcesOrNil components name,
             PodLabels := PodLabelsOf c name,
             Replicas := componentReplicasOrDefault components name 1\<rparr>;
          placed = applySchedulingPolicy (lib c) component
                     (ic_SchedulingPolicy (component_at components name));
          customized = applyPodCustomization (lib c) placed (mp_Pod params);
          scaled = applyAutoscaling customized (mp_Autoscaling params)
      in applyProbes scaled (mp_Probes params))"

section \<open>Images\<close>

record componentImageResolver =
  res_providerSpec :: "ProviderSpec option"
  res_bundle :: "VersionBundle option"
  res_components :: instance_components
  res_fallback :: milvusImage

definition operatorVersion :: "string \<Rightarrow> string" where
  "operatorVersion version = before_first (CHR ''-'') version"

definition resolve :: "lib \<Rightarrow> componentImageResolver \<Rightarrow> string \<Rightarrow> milvusImage" where
  "resolve l r name =
     (let component = component_at (res_components r) name;
          version = (if ic_Version component \<noteq> '''' then ic_Version component
                     else (case res_bundle r of
                             None \<Rightarrow> '''' | Some b \<Rightarrow> deref (map_of (vb_Components b) name) ''''));
          catalog = (if version = '''' then '''' else GetImageForVersion l (res_providerSpec r) name version);
          resolved = (if catalog = '''' then res_fallback r
                      else \<lparr>img_image = catalog, img_version = operatorVersion version\<rparr>)
      in if ic_Image component \<noteq> '''' then resolved\<lparr>img_image := ic_Image component\<rparr> else resolved)"

definition resolveMilvusImage :: "'w ctx \<Rightarrow> string \<Rightarrow> string \<Rightarrow> string" where
  "resolveMilvusImage c componentName version =
     (case ProviderSpecOf c of
        Inl _ \<Rightarrow> ''''
      | Inr None \<Rightarrow> ''''
      | Inr (Some spec) \<Rightarrow>
          let image = (if version = '''' then ''''
                       else GetImageForVersion (lib c) (Some spec) componentName version)
          in if image \<noteq> '''' then image
             else GetDefaultImageForComponent (lib c) (Some spec) componentName)"

section \<open>Engine configuration\<close>

text \<open>The loop of \<open>milvusEngineConfig\<close>, over the sorted component names.\<close>

fun merge_configurations ::
  "'w ctx \<Rightarrow> instance_components \<Rightarrow> string list \<Rightarrow> vmap \<Rightarrow> vmap result" where
  "merge_configurations c components [] merged = Inr merged"
| "merge_configurations c components (name # names) merged =
     (case TryDecodeComponentParameters c (component_at components name) of
        (decoded, params) \<Rightarrow>
          if \<not> decoded \<or> mp_Configuration params = ''''
          then merge_configurations c components names merged
          else (case YamlToMap (lib c) (mp_Configuration params) of
                  Inl e \<Rightarrow> Inl (Wrap (''component '' @ quote name @ '' has invalid configuration'') e)
                | Inr parsed \<Rightarrow>
                    merge_configurations c components names (deepMergeValues merged parsed)))"

definition engine_config :: "'w ctx \<Rightarrow> instance_components \<Rightarrow> vmap option result" where
  "engine_config c components =
     bind_result (merge_configurations c components (sort (keys components)) [])
       (\<lambda>merged. Inr (if merged = [] then None else Some merged))"

definition milvusEngineConfig :: "'w ctx \<Rightarrow> vmap option result" where
  "milvusEngineConfig c = engine_config c (in_Components (Inst c))"

definition coordinatorConfigSections :: "string list" where
  "coordinatorConfigSections = [''rootCoord'', ''dataCoord'', ''indexCoord'', ''queryCoord'']"

text \<open>Ranging over a nil map merges nothing.\<close>

definition withActiveStandbyDefaults :: "vmap option \<Rightarrow> vmap" where
  "withActiveStandbyDefaults userConfig =
     deepMergeValues
       (map (\<lambda>name. (name, VMap [(''enableActiveStandby'', VBool True)])) coordinatorConfigSections)
       (deref userConfig [])"

section \<open>The spec\<close>

definition merge_dependency_config :: "vmap option \<Rightarrow> vmap option \<Rightarrow> vmap option" where
  "merge_dependency_config conf dependencyConfig =
     (case dependencyConfig of
        None \<Rightarrow> conf | Some d \<Rightarrow> Some (deepMergeValues (deref conf []) d))"

definition service_component :: "Component \<Rightarrow> ServiceComponent" where
  "service_component component = Component.extend component (ServiceComponent.fields 19530 '''' [])"

definition build_node :: "'w ctx \<Rightarrow> (string \<Rightarrow> milvusImage) \<Rightarrow> string \<Rightarrow> MilvusNode" where
  "build_node c images name =
     (let (component, groups) =
            applyDeploymentGroups c name (makeMilvusComponent c name (images name))
      in Component.extend component (MilvusNode.fields groups))"

definition build_standalone :: "'w ctx \<Rightarrow> (string \<Rightarrow> milvusImage) \<Rightarrow> MilvusStandalone" where
  "build_standalone c images =
     applyServiceExposure
       (service_component (makeMilvusComponent c ComponentStandalone (images ComponentStandalone)))
       (ic_Service (component_at (in_Components (Inst c)) ComponentStandalone))"

definition build_proxy :: "'w ctx \<Rightarrow> (string \<Rightarrow> milvusImage) \<Rightarrow> MilvusProxy" where
  "build_proxy c images =
     (let exposed = applyServiceExposure
            (service_component (makeMilvusComponent c ComponentProxy (images ComponentProxy)))
            (ic_Service (component_at (in_Components (Inst c)) ComponentProxy));
          (component, groups) = applyDeploymentGroups c ComponentProxy exposed
      in ServiceComponent.extend component (MilvusProxy.fields groups))"

definition build_components ::
  "'w ctx \<Rightarrow> string \<Rightarrow> (string \<Rightarrow> milvusImage) \<Rightarrow> MilvusComponents \<Rightarrow> MilvusComponents" where
  "build_components c topologyType images com =
     (if topologyType = ''standalone''
      then com\<lparr>Standalone := Some (build_standalone c images)\<rparr>
      else com\<lparr>Proxy := Some (build_proxy c images),
               MixCoord := Some (makeMilvusComponent c ComponentMixCoord (images ComponentMixCoord)),
               DataNode := Some (build_node c images ComponentDataNode),
               QueryNode := Some (build_node c images ComponentQueryNode),
               StreamingNode := Some (build_node c images ComponentStreaming)\<rparr>)"

text \<open>The version, bundle and images of an Instance, from the catalog.\<close>

definition image_resolver :: "'w ctx \<Rightarrow> ProviderSpec option \<Rightarrow> componentImageResolver" where
  "image_resolver c providerSpec =
     (let named = EffectiveVersionBundleName (lib c) providerSpec (Inst c);
          bundle = (if named \<noteq> '''' then ResolveVersionBundle (lib c) providerSpec named else None);
          resolvedVersion = (if named = '''' then ''2.6.25'' else named);
          image = resolveMilvusImage c ComponentStandalone resolvedVersion;
          baseImage = (if image \<noteq> '''' then image else ''milvusdb/milvus:v2.6.25'')
      in \<lparr>res_providerSpec = providerSpec, res_bundle = bundle,
          res_components = in_Components (Inst c),
          res_fallback = \<lparr>img_image = baseImage, img_version = operatorVersion resolvedVersion\<rparr>\<rparr>)"

definition BuildMilvusSpec :: "'w ctx \<Rightarrow> 'w \<Rightarrow> MilvusSpec result" where
  "BuildMilvusSpec c w =
     (let topologyType = topology_type c in
      bind_result (ProviderSpecOf c) (\<lambda>providerSpec.
      let images = image_resolver c providerSpec;
          mode = (if topologyType = ''cluster'' then MilvusModeCluster else MilvusModeStandalone)
      in
      bind_result (milvusEngineConfig c) (\<lambda>userConfig.
      let engineConfig = (if mode = MilvusModeCluster then Some (withActiveStandbyDefaults userConfig)
                          else userConfig)
      in
      bind_result (resolveStorageLocation c w (storageDependencyParam c topologyType)) (\<lambda>storageParam.
      let conf = merge_dependency_config
                   (merge_dependency_config engineConfig (externalStorageConfig storageParam))
                   (externalEtcdConfig (etcdDependencyParam c topologyType));
          com = zero_MilvusComponents
                  \<lparr>Image := img_image (res_fallback images),
                   Version := img_version (res_fallback images),
                   DisableMetric := True,
                   ServiceAccountName := storageServiceAccount storageParam\<rparr>
      in Inr
           \<lparr>Mode = mode,
            Com = applyImageUpdateMode
                    (build_components c topologyType (resolve (lib c) images) com),
            Dep = Some (buildDependencies c w topologyType storageParam),
            Conf = conf\<rparr>))))"

section \<open>Lemmas\<close>

lemma component_steps_keep_image [simp]:
  "spec_image (applySchedulingPolicy l s policy) = spec_image s"
  "spec_image (applyPodCustomization l component pod) = spec_image component"
  "spec_image (applyAutoscaling component a) = spec_image component"
  "spec_image (applyProbes s probes) = spec_image s"
  "spec_image (applyServiceExposure sc service) = spec_image sc"
  "spec_image (fst (applyDeploymentGroups c name component)) = spec_image component"
  by (simp_all add: spec_image_def applySchedulingPolicy_def applyPodCustomization_def
      applyAutoscaling_def applyProbes_def applyServiceExposure_def applyDeploymentGroups_def Let_def
      split: option.split)

lemma component_steps_keep_replicas [simp]:
  "Replicas (applySchedulingPolicy l component policy) = Replicas component"
  "Replicas (applyPodCustomization l component pod) = Replicas component"
  "Replicas (applyAutoscaling component a) = Replicas component"
  "Replicas (applyProbes component probes) = Replicas component"
  by (simp_all add: applySchedulingPolicy_def applyPodCustomization_def
      applyAutoscaling_def applyProbes_def Let_def split: option.split)

lemma spec_image_make [simp]: "spec_image (makeMilvusComponent c name img) = img"
  by (simp add: makeMilvusComponent_def Let_def) (simp add: spec_image_def)

lemma make_replicas [simp]:
  "Replicas (makeMilvusComponent c name img) =
     Some (deref (ic_Replicas (component_at (in_Components (Inst c)) name)) 1)"
  by (simp add: makeMilvusComponent_def componentReplicasOrDefault_def Let_def split: option.split)

lemma spec_image_extend [simp]:
  "spec_image (Component.extend (base :: Component) ext) = spec_image base"
  "spec_image (ServiceComponent.extend (sc :: ServiceComponent) ext') = spec_image sc"
  "spec_image (ComponentSpec.truncate s) = spec_image s"
  by (simp_all add: spec_image_def Component.defs ServiceComponent.defs ComponentSpec.defs)

lemma applyDeploymentGroups_image:
  "applyDeploymentGroups c n s = (component, groups) \<Longrightarrow> spec_image component = spec_image s"
  using component_steps_keep_image(6) [of c n s] by simp

lemma spec_image_built [simp]:
  "spec_image (build_standalone c images) = images ComponentStandalone"
  "spec_image (build_proxy c images) = images ComponentProxy"
  "spec_image (build_node c images name) = images name"
proof -
  show "spec_image (build_standalone c images) = images ComponentStandalone"
    by (simp add: build_standalone_def service_component_def)
  show "spec_image (build_node c images name) = images name"
    by (auto simp: build_node_def split: prod.split dest: applyDeploymentGroups_image)
  show "spec_image (build_proxy c images) = images ComponentProxy"
    by (auto simp: build_proxy_def service_component_def Let_def split: prod.split
        dest: applyDeploymentGroups_image)
qed

text \<open>What a successful \<open>BuildMilvusSpec\<close> consists of.\<close>

lemma BuildMilvusSpec_Inr:
  assumes "BuildMilvusSpec c w = Inr spec"
  obtains providerSpec userConfig storageParam where
    "ProviderSpecOf c = Inr providerSpec" "milvusEngineConfig c = Inr userConfig"
    "resolveStorageLocation c w (storageDependencyParam c (topology_type c)) = Inr storageParam"
    "Mode spec = (if topology_type c = ''cluster'' then MilvusModeCluster else MilvusModeStandalone)"
    "Com spec = applyImageUpdateMode (build_components c (topology_type c)
       (resolve (lib c) (image_resolver c providerSpec))
       (zero_MilvusComponents
          \<lparr>Image := img_image (res_fallback (image_resolver c providerSpec)),
           Version := img_version (res_fallback (image_resolver c providerSpec)),
           DisableMetric := True, ServiceAccountName := storageServiceAccount storageParam\<rparr>))"
    "Dep spec = Some (buildDependencies c w (topology_type c) storageParam)"
    "Conf spec = merge_dependency_config
       (merge_dependency_config
          (if Mode spec = MilvusModeCluster then Some (withActiveStandbyDefaults userConfig)
           else userConfig) (externalStorageConfig storageParam))
       (externalEtcdConfig (etcdDependencyParam c (topology_type c)))"
  using assms by (auto simp: BuildMilvusSpec_def Let_def error_simps)

lemma applyImageUpdateMode_components [simp]:
  "Standalone (applyImageUpdateMode com) = Standalone com" "Proxy (applyImageUpdateMode com) = Proxy com"
  "MixCoord (applyImageUpdateMode com) = MixCoord com" "DataNode (applyImageUpdateMode com) = DataNode com"
  "QueryNode (applyImageUpdateMode com) = QueryNode com"
  "StreamingNode (applyImageUpdateMode com) = StreamingNode com"
  "DisableMetric (applyImageUpdateMode com) = DisableMetric com"
  "ServiceAccountName (applyImageUpdateMode com) = ServiceAccountName com"
  by (simp_all add: applyImageUpdateMode_def split: option.split)

lemma before_first_no_sep: "c \<notin> set (before_first c s)"
  by (auto simp: before_first_def split: option.splits dest: cut_first_Some)

lemma operatorVersion_plain [simp]: "CHR ''-'' \<notin> set (operatorVersion v)"
  by (simp add: operatorVersion_def before_first_no_sep)

lemma resolve_version_plain:
  assumes "CHR ''-'' \<notin> set (img_version (res_fallback r))"
  shows "CHR ''-'' \<notin> set (img_version (resolve l r name))"
  using assms by (simp add: resolve_def Let_def)

lemma image_resolver_plain: "CHR ''-'' \<notin> set (img_version (res_fallback (image_resolver c ps)))"
  by (simp add: image_resolver_def Let_def)

text \<open>The engine configuration does not depend on the order of the components.\<close>

lemma merge_configurations_lookup:
  "map_of comps = map_of comps' \<Longrightarrow>
     merge_configurations c comps names merged = merge_configurations c comps' names merged"
proof (induction names arbitrary: merged)
  case (Cons name names)
  then have "component_at comps name = component_at comps' name" by (simp add: component_at_def)
  with Cons show ?case
    by (cases "TryDecodeComponentParameters c (component_at comps' name)") (simp split: sum.split)
qed simp

interpretation engine_loop: order_free "engine_config c"
proof
  fix m m' :: instance_components
  assume m: "distinct (keys m)" "distinct (keys m')" "set m = set m'"
  show "engine_config c m = engine_config c m'"
    unfolding engine_config_def sorted_keys_same [OF m]
    by (simp only: merge_configurations_lookup [OF map_of_set_eq [OF m]])
qed


lemma built_component_images:
  assumes "com' = build_components c t images com"
    and "Standalone com = None" "Proxy com = None" "MixCoord com = None" "DataNode com = None"
      "QueryNode com = None" "StreamingNode com = None"
  shows "\<forall>(name, s)\<in>set (milvusComponentSpecs com'). spec_image s = images name"
  unfolding assms(1) using assms(2-)
  by (simp add: build_components_def milvusComponentSpecs_def entry_if_def)

lemma built_component_names:
  assumes "BuildMilvusSpec c w = Inr spec"
  shows "keys (milvusComponentSpecs (Com spec)) =
    (if topology_type c = ''standalone'' then [ComponentStandalone]
     else [ComponentProxy, ComponentMixCoord, ComponentDataNode, ComponentQueryNode, ComponentStreaming])"
  by (rule BuildMilvusSpec_Inr [OF assms])
    (simp add: milvusComponentSpecs_unchanged build_components_def milvusComponentSpecs_def entry_if_def)

lemma overlay_dependency:
  "merge_dependency_config conf (Some d) = Some (deepMergeValues (deref conf []) d)"
  by (simp add: merge_dependency_config_def)

section \<open>Properties\<close>

lemma sample_topology: "topology_type (sample_ctx :: unit ctx) = ''standalone''"
  by (simp add: topology_type_def sample_ctx_def sample_Instance_def)

lemma sample_builds: "\<exists>spec. BuildMilvusSpec (sample_ctx :: unit ctx) () = Inr spec"
proof -
  have "milvusEngineConfig (sample_ctx :: unit ctx) = Inr None"
    by (simp add: milvusEngineConfig_def engine_config_def sample_ctx_def sample_Instance_def)
  moreover have "storageDependencyParam (sample_ctx :: unit ctx) ''standalone'' = None"
    by (simp add: storageDependencyParam_def standaloneDependencyParams_def sample_ctx_def)
  moreover have "ProviderSpecOf (sample_ctx :: unit ctx) = Inr None" by (simp add: sample_ctx_def)
  ultimately show ?thesis
    by (simp add: BuildMilvusSpec_def sample_topology resolveStorageLocation_def Let_def)
qed

text \<open>
  C16: the rendered spec has the shape of its topology. A cluster renders proxy, MixCoord, data,
  query and streaming nodes and no standalone, a standalone instance only the standalone; the
  mode agrees, metrics are left to the provider's PodMonitor, and every component runs the
  image resolved for it at a version without a build suffix, which the operator could not
  parse.
\<close>

theorem spec_matches_topology:
  assumes "BuildMilvusSpec c w = Inr spec"
    and "topology_type c = ''standalone'' \<or> topology_type c = ''cluster''"
  shows "keys (milvusComponentSpecs (Com spec)) =
      (if topology_type c = ''standalone'' then [ComponentStandalone]
       else [ComponentProxy, ComponentMixCoord, ComponentDataNode, ComponentQueryNode, ComponentStreaming]) \<and>
    Mode spec = topology_type c \<and> DisableMetric (Com spec) \<and> Dep spec \<noteq> None \<and>
    (\<exists>providerSpec. ProviderSpecOf c = Inr providerSpec \<and>
       (\<forall>(name, s)\<in>set (milvusComponentSpecs (Com spec)).
          spec_image s = resolve (lib c) (image_resolver c providerSpec) name \<and>
          CHR ''-'' \<notin> set (Version s)))"
proof -
  obtain ps userConfig storageParam where ps: "ProviderSpecOf c = Inr ps"
    and mode: "Mode spec = (if topology_type c = ''cluster'' then MilvusModeCluster else MilvusModeStandalone)"
    and com: "Com spec = applyImageUpdateMode (build_components c (topology_type c)
       (resolve (lib c) (image_resolver c ps))
       (zero_MilvusComponents
          \<lparr>Image := img_image (res_fallback (image_resolver c ps)),
           Version := img_version (res_fallback (image_resolver c ps)),
           DisableMetric := True, ServiceAccountName := storageServiceAccount storageParam\<rparr>))"
    and dep: "Dep spec = Some (buildDependencies c w (topology_type c) storageParam)"
    by (rule BuildMilvusSpec_Inr [OF assms(1)])
  let ?images = "resolve (lib c) (image_resolver c ps)"
  have images: "\<forall>(name, s)\<in>set (milvusComponentSpecs (Com spec)). spec_image s = ?images name"
    unfolding com milvusComponentSpecs_unchanged by (rule built_component_images [OF refl]) simp_all
  have plain: "CHR ''-'' \<notin> set (Version s)" if "spec_image s = ?images name" for s :: ComponentSpec and name
    using that resolve_version_plain [OF image_resolver_plain, of "lib c" c ps name]
    by (metis milvusImage.select_convs(2) spec_image_def)
  have metric: "DisableMetric (Com spec)"
    unfolding com by (simp add: build_components_def)
  show ?thesis
    using built_component_names [OF assms(1)] mode assms(2) metric dep ps images plain
    by (auto simp: MilvusModeCluster_def MilvusModeStandalone_def)
qed

theorem spec_matches_topology_witness:
  "\<exists>spec. BuildMilvusSpec (sample_ctx :: unit ctx) () = Inr spec \<and> Mode spec = ''standalone'' \<and>
     keys (milvusComponentSpecs (Com spec)) = [ComponentStandalone]"
proof -
  obtain spec where spec: "BuildMilvusSpec (sample_ctx :: unit ctx) () = Inr spec"
    using sample_builds by blast
  from spec_matches_topology [OF spec] spec sample_topology show ?thesis by auto
qed

text \<open>
  C36: the engine configuration is a function of the Instance, not of Go's map order: two lists
  of the same components give the same merged configuration, or the same error.
\<close>

theorem engine_config_ignores_map_order:
  assumes "distinct (keys m)" "distinct (keys m')" "set m = set m'"
    and "in_Components (Inst c) = m" "in_Components (Inst c') = m'"
    and "TryDecodeComponentParameters c = TryDecodeComponentParameters c'" "lib c = lib c'"
  shows "milvusEngineConfig c = milvusEngineConfig c'"
proof -
  have "merge_configurations c comps names merged = merge_configurations c' comps names merged"
    for comps names merged
    using assms(6,7) by (induction names arbitrary: merged) (simp_all split: sum.split prod.split)
  then have "engine_config c m' = engine_config c' m'" by (simp add: engine_config_def)
  moreover have "engine_config c m = engine_config c m'"
    by (rule engine_loop.same_entries [OF assms(1-3)])
  ultimately show ?thesis using assms(4,5) by (simp add: milvusEngineConfig_def)
qed

theorem engine_config_ignores_map_order_witness:
  "let a = (ComponentProxy, zero_InstanceComponent); b = (ComponentDataNode, zero_InstanceComponent)
   in milvusEngineConfig ((sample_ctx :: unit ctx)\<lparr>Inst := sample_Instance\<lparr>in_Components := [a, b]\<rparr>\<rparr>) =
      milvusEngineConfig ((sample_ctx :: unit ctx)\<lparr>Inst := sample_Instance\<lparr>in_Components := [b, a]\<rparr>\<rparr>)"
  unfolding Let_def
  by (rule engine_config_ignores_map_order [OF _ _ _ refl refl]) (auto simp: component_name_defs)

text \<open>
  Coordinators may stand by for each other unless the user says otherwise. In the cluster
  configuration every coordinator section has \<open>enableActiveStandby\<close>: the user's value where
  the configuration sets one, true where it does not mention it; all other settings of the
  user are kept.
\<close>

theorem active_standby_defaults:
  assumes "wf_vmap user" "section \<in> set coordinatorConfigSections"
  shows "(untouched [section, ''enableActiveStandby''] user \<longrightarrow>
      at_path [section, ''enableActiveStandby''] (withActiveStandbyDefaults (Some user)) = Some (VBool True)) \<and>
    (\<forall>path v. at_path path user = Some v \<and> as_map v = None \<longrightarrow>
      at_path path (withActiveStandbyDefaults (Some user)) = Some v)"
proof (intro conjI impI allI)
  assume "untouched [section, ''enableActiveStandby''] user"
  from deepMerge_untouched [OF assms(1) this] assms(2)
  show "at_path [section, ''enableActiveStandby''] (withActiveStandbyDefaults (Some user)) = Some (VBool True)"
    by (auto simp: withActiveStandbyDefaults_def coordinatorConfigSections_def)
next
  fix path v assume "at_path path user = Some v \<and> as_map v = None"
  with deepMerge_leaf [OF assms(1)]
  show "at_path path (withActiveStandbyDefaults (Some user)) = Some v"
    by (simp add: withActiveStandbyDefaults_def)
qed

theorem active_standby_defaults_witness:
  "at_path [''dataCoord'', ''enableActiveStandby''] (withActiveStandbyDefaults
      (Some [(''rootCoord'', VMap [(''enableActiveStandby'', VBool False)])])) = Some (VBool True) \<and>
   at_path [''rootCoord'', ''enableActiveStandby''] (withActiveStandbyDefaults
      (Some [(''rootCoord'', VMap [(''enableActiveStandby'', VBool False)])])) = Some (VBool False)"
proof -
  let ?user = "[(''rootCoord'', VMap [(''enableActiveStandby'', VBool False)])]"
  have wf: "wf_vmap ?user" and s: "''dataCoord'' \<in> set coordinatorConfigSections"
    by (simp_all add: wf_vmap_def coordinatorConfigSections_def)
  have "untouched [''dataCoord'', ''enableActiveStandby''] ?user"
    and leaf: "at_path [''rootCoord'', ''enableActiveStandby''] ?user = Some (VBool False)"
      "as_map (VBool False) = None" by simp_all
  with active_standby_defaults [OF wf s] show ?thesis by blast
qed

lemma externalEtcdConfig_root:
  assumes "etcd_External e" "etcd_RootPath e \<noteq> ''''"
  obtains d where "externalEtcdConfig (Some e) = Some d" "wf_vmap d"
    "at_path [''etcd'', ''rootPath''] d = Some (VStr (etcd_RootPath e))"
    "at_path [''msgChannel'', ''chanNamePrefix'', ''cluster''] d = Some (VStr (etcd_RootPath e))"
  using assms by (simp add: externalEtcdConfig_def wf_vmap_def)

lemma externalStorageConfig_bucket:
  assumes "st_External p" "st_Bucket p \<noteq> ''''"
  obtains d where "externalStorageConfig (Some p) = Some d" "wf_vmap d"
    "at_path [''minio'', ''bucketName''] d = Some (VStr (st_Bucket p))"
  using assms by (simp add: externalStorageConfig_def str_entry_def wf_vmap_def Let_def)

lemma merge_etcd_keeps_minio:
  "at_path (''minio'' # ks) (deref (merge_dependency_config conf (externalEtcdConfig e)) []) =
   at_path (''minio'' # ks) (deref conf [])"
proof (cases "externalEtcdConfig e")
  case None
  then show ?thesis by (simp add: merge_dependency_config_def)
next
  case (Some d)
  then have "wf_vmap d" "untouched (''minio'' # ks) d"
    by (auto simp: externalEtcdConfig_def wf_vmap_def split: option.splits if_splits)
  then show ?thesis by (simp only: Some overlay_dependency deref_simps deepMerge_untouched)
qed

text \<open>
  An instance writes where its dependencies say. Whatever engine configuration the user
  passes, the rendered one has the prefix of an external etcd (and of the message channels)
  and the bucket of an external object store as the dependency parameters, or the storage
  location, give them.
\<close>

theorem dependency_settings_beat_configuration:
  assumes "BuildMilvusSpec c w = Inr spec"
    and "resolveStorageLocation c w (storageDependencyParam c (topology_type c)) = Inr storageParam"
  shows "(\<forall>e. etcdDependencyParam c (topology_type c) = Some e \<and> etcd_External e \<and> etcd_RootPath e \<noteq> '''' \<longrightarrow>
      at_path [''etcd'', ''rootPath''] (deref (Conf spec) []) = Some (VStr (etcd_RootPath e)) \<and>
      at_path [''msgChannel'', ''chanNamePrefix'', ''cluster''] (deref (Conf spec) []) =
        Some (VStr (etcd_RootPath e))) \<and>
    (\<forall>p. storageParam = Some p \<and> st_External p \<and> st_Bucket p \<noteq> '''' \<longrightarrow>
      at_path [''minio'', ''bucketName''] (deref (Conf spec) []) = Some (VStr (st_Bucket p)))"
proof -
  obtain conf1 where conf: "Conf spec = merge_dependency_config
       (merge_dependency_config conf1 (externalStorageConfig storageParam))
       (externalEtcdConfig (etcdDependencyParam c (topology_type c)))"
    using BuildMilvusSpec_Inr [OF assms(1)] assms(2) by (metis Inr_inject)
  have etcd: "at_path [''etcd'', ''rootPath''] (deref (Conf spec) []) = Some (VStr (etcd_RootPath e)) \<and>
      at_path [''msgChannel'', ''chanNamePrefix'', ''cluster''] (deref (Conf spec) []) =
        Some (VStr (etcd_RootPath e))"
    if e: "etcdDependencyParam c (topology_type c) = Some e" "etcd_External e" "etcd_RootPath e \<noteq> ''''" for e
  proof -
    obtain d where d: "externalEtcdConfig (Some e) = Some d" "wf_vmap d"
      "at_path [''etcd'', ''rootPath''] d = Some (VStr (etcd_RootPath e))"
      "at_path [''msgChannel'', ''chanNamePrefix'', ''cluster''] d = Some (VStr (etcd_RootPath e))"
      by (rule externalEtcdConfig_root [OF e(2,3)])
    have "deref (Conf spec) [] = deepMergeValues
        (deref (merge_dependency_config conf1 (externalStorageConfig storageParam)) []) d"
      by (simp add: conf e(1) d(1) overlay_dependency)
    then show ?thesis using deepMerge_leaf [OF d(2) d(3)] deepMerge_leaf [OF d(2) d(4)] by simp
  qed
  have bucket: "at_path [''minio'', ''bucketName''] (deref (Conf spec) []) = Some (VStr (st_Bucket p))"
    if p: "storageParam = Some p" "st_External p" "st_Bucket p \<noteq> ''''" for p
  proof -
    obtain d where d: "externalStorageConfig (Some p) = Some d" "wf_vmap d"
      "at_path [''minio'', ''bucketName''] d = Some (VStr (st_Bucket p))"
      by (rule externalStorageConfig_bucket [OF p(2,3)])
    have "at_path [''minio'', ''bucketName'']
        (deref (merge_dependency_config conf1 (externalStorageConfig storageParam)) []) =
        Some (VStr (st_Bucket p))"
      using deepMerge_leaf [OF d(2,3)] by (simp add: p(1) d(1) overlay_dependency)
    then show ?thesis unfolding conf merge_etcd_keeps_minio .
  qed
  from etcd bucket show ?thesis by blast
qed

definition external_etcd_ctx :: "unit ctx" where
  "external_etcd_ctx = sample_ctx\<lparr>TryDecodeStandalone := Some
     \<lparr>stp_Dependencies = Some \<lparr>sd_Etcd = Some
        \<lparr>etcd_External = True, etcd_Endpoints = [''etcd:2379''], etcd_RootPath = ''team-a'',
         etcd_Replicas = None, etcd_Resources = None, etcd_Persistence = None\<rparr>,
        sd_Storage = None, sd_StorageClassName = ''''\<rparr>, stp_Monitoring = None\<rparr>\<rparr>"

theorem dependency_settings_beat_configuration_witness:
  "\<exists>spec. BuildMilvusSpec external_etcd_ctx () = Inr spec \<and>
     at_path [''etcd'', ''rootPath''] (deref (Conf spec) []) = Some (VStr ''team-a'')"
proof -
  have t: "topology_type external_etcd_ctx = ''standalone''"
    by (simp add: topology_type_def external_etcd_ctx_def sample_ctx_def sample_Instance_def)
  have storage: "storageDependencyParam external_etcd_ctx ''standalone'' = None"
    by (simp add: storageDependencyParam_def standaloneDependencyParams_def external_etcd_ctx_def)
  have loc: "resolveStorageLocation external_etcd_ctx ()
      (storageDependencyParam external_etcd_ctx (topology_type external_etcd_ctx)) = Inr None"
    by (simp add: t storage resolveStorageLocation_def)
  have "milvusEngineConfig external_etcd_ctx = Inr None" "ProviderSpecOf external_etcd_ctx = Inr None"
    by (simp_all add: milvusEngineConfig_def engine_config_def external_etcd_ctx_def sample_ctx_def
        sample_Instance_def)
  then obtain spec where spec: "BuildMilvusSpec external_etcd_ctx () = Inr spec"
    by (simp add: BuildMilvusSpec_def t storage resolveStorageLocation_def Let_def)
  have "\<exists>e. etcdDependencyParam external_etcd_ctx (topology_type external_etcd_ctx) = Some e \<and>
      etcd_External e \<and> etcd_RootPath e = ''team-a''"
    unfolding t by (simp add: etcdDependencyParam_def standaloneDependencyParams_def external_etcd_ctx_def)
  with dependency_settings_beat_configuration [OF spec loc] spec show ?thesis by fastforce
qed

end
