(* ===== verification/Monitoring.thy ===== *)
theory Monitoring
  imports Samples
begin

text \<open>
  \<open>internal/provider/monitoring.go\<close>: the PodMonitor that lets Prometheus scrape an
  instance. The provider owns it; a PodMonitor of the same purpose that the operator once
  created is removed. \<open>decodeTopologyParametersIfPresent\<close> is from \<open>validate.go\<close>.
\<close>

definition milvusMetricsPortName :: string where "milvusMetricsPortName = ''metrics''"
definition milvusMetricsPath :: string where "milvusMetricsPath = ''/metrics''"

definition prometheusParams :: "'w ctx \<Rightarrow> Prometheus option" where
  "prometheusParams c =
     (case TryDecodeMonitoring c of
        None \<Rightarrow> None
      | Some params \<Rightarrow> Option.bind (tm_Monitoring params) mon_Prometheus)"

definition prometheusEnabled :: "Prometheus option \<Rightarrow> bool" where
  "prometheusEnabled params = (case params of None \<Rightarrow> False | Some p \<Rightarrow> prom_Enabled p)"

definition podMonitorName :: "string \<Rightarrow> string" where
  "podMonitorName instanceName = instanceName @ ''-metrics''"

text \<open>Malformed topology parameters are an error; absent ones leave the zero value.\<close>

definition decodeTopologyParametersIfPresent :: "'w ctx \<Rightarrow> 'a \<Rightarrow> 'a result \<Rightarrow> 'a result" where
  "decodeTopologyParametersIfPresent c zero decoded =
     (case Option.bind (in_Topology (Inst c)) top_Parameters of
        None \<Rightarrow> Inr zero
      | Some _ \<Rightarrow> wrap_result ''invalid topology parameters'' decoded)"

definition label_error :: "lib \<Rightarrow> string \<times> string \<Rightarrow> go_error option" where
  "label_error l kv =
     (case kv of (key, val) \<Rightarrow>
        (case IsQualifiedName l key of
           e # _ \<Rightarrow> Some (errorf (''monitoring.prometheus.podMonitorLabels key '' @ quote key @ '': '' @ e))
         | [] \<Rightarrow>
             (case IsValidLabelValue l val of
                e # _ \<Rightarrow> Some (errorf (''monitoring.prometheus.podMonitorLabels['' @ quote key
                     @ ''] value '' @ quote val @ '': '' @ e))
              | [] \<Rightarrow> None)))"

definition validateMonitoring :: "'w ctx \<Rightarrow> 'w \<Rightarrow> go_error option" where
  "validateMonitoring c w =
     (case decodeTopologyParametersIfPresent c zero_topologyMonitoring (DecodeMonitoring c) of
        Inl e \<Rightarrow> Some e
      | Inr params \<Rightarrow>
          let prometheus = Option.bind (tm_Monitoring params) mon_Prometheus in
          (case prometheus of
             None \<Rightarrow> None
           | Some p \<Rightarrow>
               if \<not> prometheusEnabled prometheus then None
               else first_error
                 ([if prom_Interval p = '''' then None
                   else (case ParseDuration (lib c) (prom_Interval p) of
                           None \<Rightarrow> None
                         | Some _ \<Rightarrow> Some (errorf (''monitoring.prometheus.interval ''
                             @ quote (prom_Interval p) @ '' is not a valid duration such as 30s or 1m'')))]
                  @ map (label_error (lib c)) (prom_PodMonitorLabels p)
                  @ [case PodMonitorMapping (api c) w of
                       None \<Rightarrow> None
                     | Some e \<Rightarrow>
                         if IsNoMatch e
                         then Some (errorf ''prometheus monitoring requires the Prometheus Operator: the PodMonitor CRD (monitoring.coreos.com/v1) is not installed'')
                         else Some (Wrap ''look up the PodMonitor CRD'' e)])))"

text \<open>\<open>maps.Copy(labels, objectMeta.Labels)\<close>: the managed labels overwrite the user's.\<close>

definition copy_labels :: "labels \<Rightarrow> labels \<Rightarrow> labels" where
  "copy_labels dst src = fold (\<lambda>(k, v) m. AList.update k v m) src dst"

definition milvusPodMonitor :: "lib \<Rightarrow> ObjectMeta \<Rightarrow> string \<Rightarrow> Prometheus \<Rightarrow> PodMonitor" where
  "milvusPodMonitor l objectMeta instanceName params =
     \<lparr>pm_Meta = objectMeta\<lparr>om_Labels := copy_labels (prom_PodMonitorLabels params) (om_Labels objectMeta)\<rparr>,
      pm_Owner = None, pm_UID = '''',
      pm_Selector = [(ProviderLabel l, ProviderName), (InstanceLabel l, instanceName)],
      pm_PodTargetLabels = [ComponentLabel l],
      pm_Port = milvusMetricsPortName, pm_Path = milvusMetricsPath,
      pm_Interval = prom_Interval params\<rparr>"

text \<open>
  \<open>pm_Owner\<close> is the API version and kind of the controlling owner; the UID is the
  precondition that keeps a stale cache from deleting a recreated object.
\<close>

definition deleteOperatorPodMonitor :: "'w ctx \<Rightarrow> ('w, unit) step" where
  "deleteOperatorPodMonitor c w =
     (case GetPodMonitor (api c) w (Name c) of
        Inl e \<Rightarrow> if IsNotFound e \<or> IsNoMatch e then (Inr (), w)
                 else (Inl (Wrap (''get PodMonitor '' @ quote (Name c)) e), w)
      | Inr legacy \<Rightarrow>
          if pm_Owner legacy \<noteq> Some (GroupVersion, ''Milvus'') then (Inr (), w)
          else (case DeletePodMonitor (api c) (Name c) (Some (pm_UID legacy)) w of
                  (Inr _, w) \<Rightarrow> (Inr (), w)
                | (Inl e, w) \<Rightarrow>
                    if IsNotFound e \<or> IsConflict e then (Inr (), w)
                    else (Inl (Wrap (''delete operator PodMonitor '' @ quote (Name c)) e), w)))"

definition syncPodMonitor :: "'w ctx \<Rightarrow> ('w, unit) step" where
  "syncPodMonitor c w =
     and_then (deleteOperatorPodMonitor c w) (\<lambda>_ w.
       let name = podMonitorName (Name c); params = prometheusParams c in
       (case (if prometheusEnabled params then params else None) of
          None \<Rightarrow>
            (case DeletePodMonitor (api c) name None w of
               (Inr _, w) \<Rightarrow> (Inr (), w)
             | (Inl e, w) \<Rightarrow>
                 if IsNoMatch e then (Inr (), w)
                 else (Inl (Wrap (''delete PodMonitor '' @ quote name) e), w))
        | Some p \<Rightarrow>
            (case ApplyPodMonitor (api c)
                    (milvusPodMonitor (lib c) (ObjectMetaOf c name) (Name c) p) w of
               (Inr _, w) \<Rightarrow> (Inr (), w)
             | (Inl e, w) \<Rightarrow>
                 if IsNoMatch e
                 then (Inl (Wrap ''prometheus monitoring requires the Prometheus Operator PodMonitor CRD (monitoring.coreos.com/v1)'' e), w)
                 else (Inl (Wrap (''apply PodMonitor '' @ quote name) e), w))))"

section \<open>Lemmas\<close>

lemma copy_labels_lookup:
  "map_of (copy_labels dst src) k = (case map_of (rev src) k of Some v \<Rightarrow> Some v | None \<Rightarrow> map_of dst k)"
proof (induction src arbitrary: dst)
  case (Cons e src)
  obtain k' v where e: "e = (k', v)" by (cases e)
  have "copy_labels dst (e # src) = copy_labels (AList.update k' v dst) src"
    by (simp add: copy_labels_def e)
  with Cons show ?case by (simp add: e alist_simps map_add_def split: option.split)
qed (simp add: copy_labels_def)

lemma copy_labels_distinct:
  assumes "distinct (keys src)"
  shows "map_of (copy_labels dst src) k = (case map_of src k of Some v \<Rightarrow> Some v | None \<Rightarrow> map_of dst k)"
proof -
  have "map_of (rev src) = map_of src"
    by (rule map_of_set_eq) (simp_all add: assms rev_map [symmetric])
  then show ?thesis by (simp add: copy_labels_lookup)
qed

section \<open>Properties\<close>

text \<open>
  The PodMonitor scrapes exactly the instance's pods and stays the provider's. Its
  selector names the provider and the instance, and every label the provider manages has the
  managed value whatever \<open>podMonitorLabels\<close> the user sets; the user's other labels are kept.
\<close>

theorem managed_labels_win:
  assumes "distinct (keys (om_Labels meta))"
    and "pm = milvusPodMonitor l meta instanceName params"
  shows "pm_Selector pm = [(ProviderLabel l, ProviderName), (InstanceLabel l, instanceName)] \<and>
    om_Name (pm_Meta pm) = om_Name meta \<and>
    (\<forall>k v. map_of (om_Labels meta) k = Some v \<longrightarrow> map_of (om_Labels (pm_Meta pm)) k = Some v) \<and>
    (\<forall>k. map_of (om_Labels meta) k = None \<longrightarrow>
       map_of (om_Labels (pm_Meta pm)) k = map_of (prom_PodMonitorLabels params) k)"
  by (simp add: assms(2) milvusPodMonitor_def copy_labels_distinct [OF assms(1)])

theorem managed_labels_win_witness:
  "map_of (om_Labels (pm_Meta (milvusPodMonitor sample_lib
       \<lparr>om_Name = ''inst-metrics'', om_Namespace = ''ns'', om_Labels = [(''managed-by'', ''everest'')]\<rparr>
       ''inst'' \<lparr>prom_Enabled = True, prom_Interval = '''',
                prom_PodMonitorLabels = [(''managed-by'', ''me''), (''release'', ''prom'')]\<rparr>))) ''managed-by''
   = Some ''everest''"
proof -
  let ?meta = "\<lparr>om_Name = ''inst-metrics'', om_Namespace = ''ns'', om_Labels = [(''managed-by'', ''everest'')]\<rparr>"
  have d: "distinct (keys (om_Labels ?meta))" by simp
  have v: "map_of (om_Labels ?meta) ''managed-by'' = Some ''everest''" by simp
  from managed_labels_win [OF d refl] v show ?thesis by blast
qed

text \<open>
  Only the operator's own PodMonitor is ever removed. \<open>deleteOperatorPodMonitor\<close> deletes
  nothing unless the object of the instance's name is controlled by the Milvus CR, and then
  exactly the object it read, by its UID; that it is gone or was recreated meanwhile is not
  an error.
\<close>

theorem only_operator_monitor_deleted:
  "(\<forall>legacy. GetPodMonitor (api c) w (Name c) = Inr legacy \<and>
      pm_Owner legacy = Some (''milvus.io/v1beta1'', ''Milvus'') \<longrightarrow>
      snd (deleteOperatorPodMonitor c w) = snd (DeletePodMonitor (api c) (Name c) (Some (pm_UID legacy)) w) \<and>
      (\<forall>e w'. DeletePodMonitor (api c) (Name c) (Some (pm_UID legacy)) w = (Inl e, w') \<longrightarrow>
         (fst (deleteOperatorPodMonitor c w) = Inr () \<longleftrightarrow> IsNotFound e \<or> IsConflict e))) \<and>
   ((\<forall>legacy. GetPodMonitor (api c) w (Name c) = Inr legacy \<longrightarrow>
      pm_Owner legacy \<noteq> Some (''milvus.io/v1beta1'', ''Milvus'')) \<longrightarrow>
      snd (deleteOperatorPodMonitor c w) = w)"
  by (auto simp: deleteOperatorPodMonitor_def GroupVersion_def split: sum.split prod.split)

definition legacy_monitor_ctx :: "bool ctx" where
  "legacy_monitor_ctx = sample_ctx\<lparr>api := sample_api
     \<lparr>GetPodMonitor := \<lambda>w _. if w then Inr \<lparr>pm_Meta = \<lparr>om_Name = ''inst'', om_Namespace = ''ns'', om_Labels = []\<rparr>,
         pm_Owner = Some (''milvus.io/v1beta1'', ''Milvus''), pm_UID = ''uid-1'', pm_Selector = [],
         pm_PodTargetLabels = [], pm_Port = '''', pm_Path = '''', pm_Interval = ''''\<rparr> else not_found,
      DeletePodMonitor := \<lambda>_ uid w. if uid = Some ''uid-1'' then (Inr (), False)
                                   else (Inl (GoError Conflict ''uid changed''), w)\<rparr>\<rparr>"

theorem only_operator_monitor_deleted_witness:
  "\<not> snd (deleteOperatorPodMonitor legacy_monitor_ctx True)"
proof -
  have "\<exists>legacy. GetPodMonitor (api legacy_monitor_ctx) True (Name legacy_monitor_ctx) = Inr legacy \<and>
      pm_Owner legacy = Some (''milvus.io/v1beta1'', ''Milvus'') \<and> pm_UID legacy = ''uid-1''"
    by (simp add: legacy_monitor_ctx_def)
  then have "snd (deleteOperatorPodMonitor legacy_monitor_ctx True) =
      snd (DeletePodMonitor (api legacy_monitor_ctx) (Name legacy_monitor_ctx) (Some ''uid-1'') True)"
    using only_operator_monitor_deleted [of legacy_monitor_ctx True] by metis
  then show ?thesis by (simp add: legacy_monitor_ctx_def)
qed

end
