(* ===== verification/Validate.thy ===== *)
theory Validate
  imports BuildSpec Monitoring
begin

text \<open>
  \<open>internal/provider/validate.go\<close>, with \<open>validateNoDowngrade\<close> of \<open>version.go\<close> and
  \<open>validateComponentParameters\<close> of \<open>pod.go\<close>: every check an Instance passes before anything
  is applied. The functions that accept a value return \<open>None\<close>.
\<close>

section \<open>Components and sizing\<close>

text \<open>The minimum sizes, as \<open>resource.MustParse\<close> reads them.\<close>

definition minComponentCPU :: quantity where
  "minComponentCPU = \<lparr>q_amount = 100 * 10 ^ 6, q_string = ''100m''\<rparr>"

definition minComponentMemory :: quantity where
  "minComponentMemory = \<lparr>q_amount = 512 * 2 ^ 20 * 10 ^ 9, q_string = ''512Mi''\<rparr>"

definition minStorageSize :: quantity where
  "minStorageSize = \<lparr>q_amount = 2 ^ 30 * 10 ^ 9, q_string = ''1Gi''\<rparr>"

definition clusterCoordinators :: "string list" where
  "clusterCoordinators = [ComponentMixCoord]"

definition allowedComponentsForTopology :: "string \<Rightarrow> string list" where
  "allowedComponentsForTopology topologyType =
     (if topologyType = ''cluster''
      then [ComponentProxy, ComponentMixCoord, ComponentDataNode, ComponentQueryNode, ComponentStreaming]
      else [ComponentStandalone])"

definition below_minimum :: "resource_list \<Rightarrow> string \<Rightarrow> quantity \<Rightarrow> bool" where
  "below_minimum limits resource minimum \<longleftrightarrow>
     (case map_of limits resource of None \<Rightarrow> False | Some q \<Rightarrow> Cmp q minimum < 0)"

definition validateRequestNotAboveLimit ::
  "string \<Rightarrow> string \<Rightarrow> resource_list \<Rightarrow> resource_list \<Rightarrow> go_error option" where
  "validateRequestNotAboveLimit name resourceName requests limits =
     (case (map_of requests resourceName, map_of limits resourceName) of
        (Some request, Some limit) \<Rightarrow>
          if Cmp request limit > 0
          then Some (errorf (''component '' @ quote name @ '' resources.requests.'' @ resourceName
                 @ '' ('' @ q_string request @ '') must not exceed resources.limits.'' @ resourceName
                 @ '' ('' @ q_string limit @ '')''))
          else None
      | _ \<Rightarrow> None)"

definition validateComponentResources :: "string \<Rightarrow> InstanceComponent \<Rightarrow> go_error option" where
  "validateComponentResources name component =
     (case ic_Resources component of
        None \<Rightarrow> None
      | Some r \<Rightarrow> first_error
          [if below_minimum (rr_Limits r) ''cpu'' minComponentCPU
           then Some (errorf (''component '' @ quote name @ '' resources.limits.cpu must be >= ''
                  @ q_string minComponentCPU)) else None,
           if below_minimum (rr_Limits r) ''memory'' minComponentMemory
           then Some (errorf (''component '' @ quote name @ '' resources.limits.memory must be >= ''
                  @ q_string minComponentMemory)) else None,
           validateRequestNotAboveLimit name ''cpu'' (rr_Requests r) (rr_Limits r),
           validateRequestNotAboveLimit name ''memory'' (rr_Requests r) (rr_Limits r)])"

definition allowed_component_error :: "instance_components \<Rightarrow> string \<Rightarrow> go_error option" where
  "allowed_component_error components name =
     (case map_of components name of
        None \<Rightarrow> None
      | Some component \<Rightarrow> first_error
          [case ic_Replicas component of
             None \<Rightarrow> None
           | Some n \<Rightarrow> if n < 1 then Some (errorf (''component '' @ quote name @ '' replicas must be >= 1''))
                      else None,
           if ic_Storage component \<noteq> None
           then Some (errorf (''component '' @ quote name
                  @ '' does not take storage; size the object storage with spec.topology.parameters.dependencies.storage.persistence.size''))
           else None,
           validateComponentResources name component])"

text \<open>The first loop ranges over the map: with several unknown components, any may be named.\<close>

definition validateComponentsForTopology :: "instance_components \<Rightarrow> string \<Rightarrow> go_error option" where
  "validateComponentsForTopology components topologyType =
     (let allowed = allowedComponentsForTopology topologyType in
      first_error
        (map (\<lambda>name. if name \<notin> set allowed
                then Some (errorf (''component '' @ quote name @ '' is not valid for '' @ topologyType @ '' topology''))
                else None) (keys components)
         @ map (allowed_component_error components) allowed))"

definition validateTopologyRules :: "instance_components \<Rightarrow> string \<Rightarrow> go_error option" where
  "validateTopologyRules components topologyType =
     (if topologyType \<noteq> ''cluster''
      then (case ic_Replicas (component_at components ComponentStandalone) of
              None \<Rightarrow> None
            | Some n \<Rightarrow>
                if n > 1
                then Some (errorf ''standalone runs a single replica; use the cluster topology to scale out'')
                else None)
      else first_error
        (map (\<lambda>name. case Option.bind (map_of components name) ic_Replicas of
                None \<Rightarrow> None
              | Some n \<Rightarrow>
                  if n < 1
                  then Some (errorf (''cluster mode requires at least 1 replica for coordinator '' @ quote name))
                  else None) clusterCoordinators))"

definition validateServiceExposure :: "instance_components \<Rightarrow> string \<Rightarrow> go_error option" where
  "validateServiceExposure components topologyType =
     (let name = exposedComponentName topologyType in
      case ic_Service (component_at components name) of
        None \<Rightarrow> None
      | Some service \<Rightarrow>
          if es_ServiceType service \<in> set ['''', ''ClusterIP'', ''LoadBalancer'', ''NodePort''] then None
          else Some (errorf (''component '' @ quote name
                 @ '' service.serviceType must be one of ClusterIP, LoadBalancer or NodePort'')))"

definition standby_disabled :: "vmap option \<Rightarrow> string \<Rightarrow> bool" where
  "standby_disabled userConfig section \<longleftrightarrow>
     map_of (sub_map (deref userConfig []) section) ''enableActiveStandby'' = Some (VBool False)"

definition validateMixCoordStandby :: "'w ctx \<Rightarrow> go_error option" where
  "validateMixCoordStandby c =
     (case ic_Replicas (component_at (in_Components (Inst c)) ComponentMixCoord) of
        None \<Rightarrow> None
      | Some n \<Rightarrow>
          if n \<le> 1 then None
          else (case milvusEngineConfig c of
                  Inl e \<Rightarrow> Some e
                | Inr userConfig \<Rightarrow> first_error
                    (map (\<lambda>section. if standby_disabled userConfig section
                       then Some (errorf (''mixCoord replicas > 1 requires active-standby; remove ''
                              @ section @ ''.enableActiveStandby: false from the configuration''))
                       else None) coordinatorConfigSections)))"

text \<open>\<open>validateComponentParameters\<close>, over the components in sorted order.\<close>

definition component_parameters_error :: "'w ctx \<Rightarrow> string \<Rightarrow> go_error option" where
  "component_parameters_error c name =
     (let component = component_at (in_Components (Inst c)) name in
      if ic_Parameters component = None then None
      else (case DecodeComponentParameters c component of
              Inl e \<Rightarrow> Some (Wrap (''component '' @ quote name @ '' has invalid parameters'') e)
            | Inr params \<Rightarrow> first_error
                [validatePodCustomization (lib c) name (mp_Pod params),
                 validateDeploymentGroups (lib c) name (ic_Replicas component) (mp_Groups params),
                 validateAutoscaling name component params,
                 validateProbes name (mp_Probes params)]))"

definition validateComponentParameters :: "'w ctx \<Rightarrow> go_error option" where
  "validateComponentParameters c =
     first_error (map (component_parameters_error c) (sort (keys (in_Components (Inst c)))))"

section \<open>Dependencies\<close>

definition validatePersistence :: "lib \<Rightarrow> string \<Rightarrow> Persistence option \<Rightarrow> go_error option" where
  "validatePersistence l name persistence =
     (case size_of persistence of
        None \<Rightarrow> None
      | Some text \<Rightarrow>
          (case ParseQuantity l text of
             Inl e \<Rightarrow> Some (Wrap (name @ ''.size '' @ quote text @ '' is invalid'') e)
           | Inr parsed \<Rightarrow>
               if Cmp parsed minStorageSize < 0
               then Some (errorf (name @ ''.size must be >= '' @ q_string minStorageSize)) else None))"

definition validateDependencyReplicas :: "string \<Rightarrow> int option \<Rightarrow> go_error option" where
  "validateDependencyReplicas name replicas =
     (case replicas of
        None \<Rightarrow> None
      | Some n \<Rightarrow> if n < 1 then Some (errorf (name @ ''.replicas must be >= 1'')) else None)"

definition parse_resource ::
  "lib \<Rightarrow> string \<Rightarrow> string \<Rightarrow> string \<Rightarrow> Quantity \<Rightarrow> resource_list result" where
  "parse_resource l name kind resource text =
     (if text = '''' then Inr []
      else (case ParseQuantity l text of
              Inl e \<Rightarrow> Inl (Wrap (name @ ''.resources.'' @ kind @ ''.'' @ resource @ '' '' @ quote text
                              @ '' is invalid'') e)
            | Inr q \<Rightarrow> Inr [(resource, q)]))"

definition parseResourceList ::
  "lib \<Rightarrow> string \<Rightarrow> string \<Rightarrow> ResourceList option \<Rightarrow> resource_list result" where
  "parseResourceList l name kind list =
     (case list of
        None \<Rightarrow> Inr []
      | Some r \<Rightarrow>
          bind_result (parse_resource l name kind ''cpu'' (CPU r)) (\<lambda>cpu.
          bind_result (parse_resource l name kind ''memory'' (Memory r)) (\<lambda>memory.
          Inr (cpu @ memory))))"

definition validateDependencyResources ::
  "lib \<Rightarrow> string \<Rightarrow> DepResources option \<Rightarrow> go_error option" where
  "validateDependencyResources l name resources =
     (case resources of
        None \<Rightarrow> None
      | Some r \<Rightarrow>
          (case parseResourceList l name ''requests'' (Requests r) of
             Inl e \<Rightarrow> Some e
           | Inr requests \<Rightarrow>
               (case parseResourceList l name ''limits'' (Limits r) of
                  Inl e \<Rightarrow> Some e
                | Inr limits \<Rightarrow> first_error
                    [validateRequestNotAboveLimit name ''cpu'' requests limits,
                     validateRequestNotAboveLimit name ''memory'' requests limits])))"

definition validateEtcdDependency :: "lib \<Rightarrow> Etcd option \<Rightarrow> go_error option" where
  "validateEtcdDependency l etcd =
     (case etcd of
        None \<Rightarrow> None
      | Some e \<Rightarrow>
          if etcd_External e
          then (if etcd_Endpoints e = []
                then Some (errorf ''etcd.endpoints is required when etcd.external is true'') else None)
          else first_error
            [validateDependencyReplicas ''etcd'' (etcd_Replicas e),
             validateDependencyResources l ''etcd'' (etcd_Resources e),
             validatePersistence l ''etcd.persistence'' (etcd_Persistence e)])"

definition validatePulsarComponent :: "lib \<Rightarrow> string \<Rightarrow> PulsarComponent option \<Rightarrow> go_error option" where
  "validatePulsarComponent l name component =
     (case component of
        None \<Rightarrow> None
      | Some p \<Rightarrow> first_error
          [validateDependencyReplicas name (pc_Replicas p),
           validateDependencyResources l name (pc_Resources p)])"

definition validatePulsarDependency :: "lib \<Rightarrow> Pulsar option \<Rightarrow> go_error option" where
  "validatePulsarDependency l pulsar =
     (case pulsar of
        None \<Rightarrow> None
      | Some p \<Rightarrow>
          if pl_External p
          then (if pl_Endpoint p = ''''
                then Some (errorf ''pulsar.endpoint is required when pulsar.external is true'') else None)
          else first_error
            ([validatePulsarComponent l ''pulsar.broker'' (pl_Broker p),
              validatePulsarComponent l ''pulsar.proxy'' (pl_Proxy p)]
             @ (case pl_BookKeeper p of
                  None \<Rightarrow> []
                | Some bk \<Rightarrow>
                    [validateDependencyReplicas ''pulsar.bookkeeper'' (bkp_Replicas bk),
                     validateDependencyResources l ''pulsar.bookkeeper'' (bkp_Resources bk),
                     validatePersistence l ''pulsar.bookkeeper.journal'' (bkp_Journal bk),
                     validatePersistence l ''pulsar.bookkeeper.ledgers'' (bkp_Ledgers bk)])
             @ (case pl_ZooKeeper p of
                  None \<Rightarrow> []
                | Some zk \<Rightarrow>
                    [validateDependencyReplicas ''pulsar.zookeeper'' (zk_Replicas zk),
                     validateDependencyResources l ''pulsar.zookeeper'' (zk_Resources zk),
                     validatePersistence l ''pulsar.zookeeper.data'' (zk_Data zk)])))"

definition validateStorageDependency :: "lib \<Rightarrow> Storage option \<Rightarrow> go_error option" where
  "validateStorageDependency l storage =
     (case storage of
        None \<Rightarrow> None
      | Some s \<Rightarrow>
          if st_BackupStorageName s \<noteq> ''''
          then (if st_External s \<or> st_Endpoint s \<noteq> '''' \<or> st_Type s \<noteq> '''' \<or> st_CredentialsSecret s \<noteq> ''''
                   \<or> st_UseIAM s \<or> st_Region s \<noteq> '''' \<or> st_Bucket s \<noteq> '''' \<or> st_UseSSL s
                then Some (errorf (''storage.backupStorageName takes the endpoint, bucket, region and credentials from the storage location; ''
                       @ ''remove storage.external, endpoint, type, credentialsSecret, useIAM, region, bucket and useSSL''))
                else None)
          else if st_External s
          then (if st_Endpoint s = ''''
                then Some (errorf ''storage.endpoint is required when storage.external is true'')
                else if st_CredentialsSecret s = '''' \<and> \<not> st_UseIAM s
                then Some (errorf ''storage.credentialsSecret is required when storage.external is true, unless storage.useIAM is set'')
                else if st_Type s \<in> set ['''', ''MinIO'', ''S3'', ''Azure''] then None
                else Some (errorf ''storage.type must be one of MinIO, S3 or Azure''))
          else first_error
            [validateDependencyReplicas ''storage'' (st_Replicas s),
             validateDependencyResources l ''storage'' (st_Resources s),
             validatePersistence l ''storage.persistence'' (st_Persistence s)])"

definition validateMessageStream :: "'w ctx \<Rightarrow> 'w \<Rightarrow> string \<Rightarrow> go_error option" where
  "validateMessageStream c w req =
     (if req \<notin> set ['''', MessageStreamWoodpecker, MessageStreamPulsar]
      then Some (errorf (''messageStreamType must be '' @ MessageStreamWoodpecker @ '' or '' @ MessageStreamPulsar))
      else if req = '''' then None
      else let existing = existingMessageStreamType c w in
        if existing \<noteq> '''' \<and> existing \<noteq> req
        then Some (errorf (''message stream cannot be changed from '' @ existing @ '' to '' @ req
               @ ''; set messageStreamType to '' @ existing))
        else None)"

text \<open>The etcd, Pulsar and storage parameters the second half of the check is about.\<close>

definition dependencies_to_validate ::
  "'w ctx \<Rightarrow> 'w \<Rightarrow> string \<Rightarrow> (Etcd option \<times> Pulsar option \<times> Storage option) result" where
  "dependencies_to_validate c w topologyType =
     (if topologyType = ''cluster''
      then bind_result (decodeTopologyParametersIfPresent c zero_ClusterTopologyParameters (DecodeCluster c))
        (\<lambda>params.
           let deps = ctp_Dependencies params;
               requestedStream = (case deps of None \<Rightarrow> '''' | Some d \<Rightarrow> cd_MessageStreamType d)
           in (case validateMessageStream c w requestedStream of
                 Some e \<Rightarrow> Inl e
               | None \<Rightarrow> Inr
                   (Option.bind deps cd_Etcd,
                    (if deps \<noteq> None \<and> messageStreamType c w requestedStream = MessageStreamPulsar
                     then Option.bind deps cd_Pulsar else None),
                    Option.bind deps cd_Storage)))
      else bind_result
        (decodeTopologyParametersIfPresent c zero_StandaloneTopologyParameters (DecodeStandalone c))
        (\<lambda>params. Inr (Option.bind (stp_Dependencies params) sd_Etcd, None,
                       Option.bind (stp_Dependencies params) sd_Storage)))"

definition validateDependencies :: "'w ctx \<Rightarrow> 'w \<Rightarrow> string \<Rightarrow> go_error option" where
  "validateDependencies c w topologyType =
     (case dependencies_to_validate c w topologyType of
        Inl e \<Rightarrow> Some e
      | Inr (etcd, pulsar, storage) \<Rightarrow>
          first_error
            [validateEtcdDependency (lib c) etcd, validatePulsarDependency (lib c) pulsar,
             validateStorageDependency (lib c) storage,
             (case storage of
                None \<Rightarrow> None
              | Some s \<Rightarrow>
                  if st_BackupStorageName s = '''' then None
                  else first_error
                    [err_of (resolveStorageLocation c w storage),
                     err_of (storageLocationKeys c w (st_BackupStorageName s))])])"

section \<open>What an existing instance may not change\<close>

definition validateTopologyUnchanged :: "'w ctx \<Rightarrow> 'w \<Rightarrow> string \<Rightarrow> go_error option" where
  "validateTopologyUnchanged c w topologyType =
     (case existing_milvus c w of
        Inl _ \<Rightarrow> None
      | Inr existing \<Rightarrow>
          let current = Mode (Spec existing) in
          if current = '''' \<or> current = topologyType then None
          else Some (errorf (''topology cannot be changed from '' @ current @ '' to '' @ topologyType)))"

definition requestedStorageSize :: "'w ctx \<Rightarrow> string \<Rightarrow> string" where
  "requestedStorageSize c topologyType =
     (case storageDependencyParam c topologyType of
        None \<Rightarrow> defaultStoragePersistence
      | Some p \<Rightarrow>
          if st_External p \<or> st_BackupStorageName p \<noteq> '''' then ''''
          else deref (size_of (st_Persistence p)) defaultStoragePersistence)"

definition currentStorageSize :: "Milvus \<Rightarrow> string" where
  "currentStorageSize m =
     (case Option.bind (Dep (Spec m)) (\<lambda>dep. StorageInCluster (DepStorage dep)) of
        None \<Rightarrow> ''''
      | Some inCluster \<Rightarrow> sub_str (sub_map (HelmValues inCluster) ''persistence'') ''size'')"

definition validateStorageNotDecreased :: "'w ctx \<Rightarrow> 'w \<Rightarrow> string \<Rightarrow> go_error option" where
  "validateStorageNotDecreased c w topologyType =
     (let req = requestedStorageSize c topologyType in
      if req = '''' then None
      else case ParseQuantity (lib c) req of
        Inl e \<Rightarrow> Some (Wrap (''invalid storage size '' @ quote req) e)
      | Inr requestedQty \<Rightarrow>
          (case existing_milvus c w of
             Inl _ \<Rightarrow> None
           | Inr existing \<Rightarrow>
               let currentSize = currentStorageSize existing in
               if currentSize = '''' then None
               else (case ParseQuantity (lib c) currentSize of
                       Inl _ \<Rightarrow> None
                     | Inr currentQty \<Rightarrow>
                         if Cmp requestedQty currentQty < 0
                         then Some (errorf (''storage size cannot be decreased from ''
                                @ q_string currentQty @ '' to '' @ q_string requestedQty))
                         else None)))"

definition defaultMinioRootPath :: string where "defaultMinioRootPath = ''files''"

definition objectStore :: "MilvusSpec \<Rightarrow> string" where
  "objectStore spec =
     (case Dep spec of
        None \<Rightarrow> ''the bundled MinIO''
      | Some dep \<Rightarrow>
          if \<not> StorageExternal (DepStorage dep) then ''the bundled MinIO''
          else StorageEndpoint (DepStorage dep) @ ''/''
               @ sub_str (sub_map (deref (Conf spec) []) ''minio'') ''bucketName'')"

definition rootPathOrDefault :: "vmap option \<Rightarrow> string \<Rightarrow> string \<Rightarrow> string" where
  "rootPathOrDefault config section defaultValue =
     (let rootPath = sub_str (sub_map (deref config []) section) ''rootPath'' in
      if rootPath \<noteq> '''' then rootPath else defaultValue)"

definition root_path_error :: "MilvusSpec \<Rightarrow> MilvusSpec \<Rightarrow> string \<times> string \<Rightarrow> go_error option" where
  "root_path_error existing desired prefix =
     (case prefix of (section, defaultValue) \<Rightarrow>
        let current = rootPathOrDefault (Conf existing) section defaultValue;
            req = rootPathOrDefault (Conf desired) section defaultValue
        in if current \<noteq> req
           then Some (errorf (section @ '' rootPath cannot be changed from '' @ quote current
                  @ '' to '' @ quote req))
           else None)"

definition validateDataLocationUnchanged :: "'w ctx \<Rightarrow> 'w \<Rightarrow> go_error option" where
  "validateDataLocationUnchanged c w =
     (case existing_milvus c w of
        Inl _ \<Rightarrow> None
      | Inr existing \<Rightarrow>
          if Mode (Spec existing) = '''' then None
          else (case BuildMilvusSpec c w of
                  Inl e \<Rightarrow> Some e
                | Inr desired \<Rightarrow> first_error
                    ((if objectStore (Spec existing) \<noteq> objectStore desired
                      then Some (errorf (''object storage cannot be changed from ''
                             @ objectStore (Spec existing) @ '' to '' @ objectStore desired))
                      else None)
                     # map (root_path_error (Spec existing) desired)
                         [(''etcd'', Name c), (''minio'', defaultMinioRootPath)])))"

definition in_cluster_storage_class :: "InClusterConfig option \<Rightarrow> string" where
  "in_cluster_storage_class inCluster =
     (case inCluster of
        None \<Rightarrow> ''''
      | Some ic \<Rightarrow> sub_str (sub_map (HelmValues ic) ''persistence'') ''storageClass'')"

definition dependencyStorageClass :: "MilvusDependencies option \<Rightarrow> string" where
  "dependencyStorageClass dep =
     (case dep of
        None \<Rightarrow> ''''
      | Some d \<Rightarrow>
          let etcd = in_cluster_storage_class (EtcdInCluster (DepEtcd d)) in
          if etcd \<noteq> '''' then etcd else in_cluster_storage_class (StorageInCluster (DepStorage d)))"

definition validateStorageClassUnchanged :: "'w ctx \<Rightarrow> 'w \<Rightarrow> go_error option" where
  "validateStorageClassUnchanged c w =
     (case existing_milvus c w of
        Inl _ \<Rightarrow> None
      | Inr existing \<Rightarrow>
          if Dep (Spec existing) = None then None
          else (case BuildMilvusSpec c w of
                  Inl e \<Rightarrow> Some e
                | Inr desired \<Rightarrow>
                    let current = dependencyStorageClass (Dep (Spec existing));
                        req = dependencyStorageClass (Dep desired)
                    in if current \<noteq> req
                       then Some (errorf (''dependencies storageClassName cannot be changed from ''
                              @ quote current @ '' to '' @ quote req))
                       else None))"

definition downgrade_error ::
  "lib \<Rightarrow> (string \<times> string) list \<Rightarrow> (string \<times> string) list \<Rightarrow> string \<Rightarrow> go_error option" where
  "downgrade_error l current req name =
     (let from = deref (map_of current name) ''''; to = deref (map_of req name) '''' in
      if \<not> SemverIsValid l (''v'' @ from) \<or> \<not> SemverIsValid l (''v'' @ to) then None
      else if SemverCompare l (''v'' @ to) (''v'' @ from) < 0
      then Some (errorf (''component '' @ quote name @ '' cannot be downgraded from '' @ from
             @ '' to '' @ to @ ''; choose '' @ from @ '' or newer''))
      else None)"

definition validateNoDowngrade :: "'w ctx \<Rightarrow> 'w \<Rightarrow> go_error option" where
  "validateNoDowngrade c w =
     (case existing_milvus c w of
        Inl _ \<Rightarrow> None
      | Inr existing \<Rightarrow>
          if Mode (Spec existing) = '''' then None
          else (case BuildMilvusSpec c w of
                  Inl e \<Rightarrow> Some e
                | Inr desired \<Rightarrow>
                    let current = componentVersions (Com (Spec existing));
                        req = componentVersions (Com desired)
                    in first_error (map (downgrade_error (lib c) current req) (sort (keys req)))))"

section \<open>The whole validation\<close>

definition validateInstance :: "'w ctx \<Rightarrow> 'w \<Rightarrow> go_error option" where
  "validateInstance c w =
     (let topologyType = topology_type c; components = in_Components (Inst c) in
      if topologyType \<noteq> ''standalone'' \<and> topologyType \<noteq> ''cluster''
      then Some (errorf (''unsupported topology ''
             @ quote (case in_Topology (Inst c) of None \<Rightarrow> '''' | Some t \<Rightarrow> top_Type t)
             @ ''; expected standalone or cluster''))
      else first_error
        [validateTopologyUnchanged c w topologyType,
         validateComponentsForTopology components topologyType,
         validateTopologyRules components topologyType,
         validateStorageNotDecreased c w topologyType,
         validateDependencies c w topologyType,
         validateDataLocationUnchanged c w,
         validateStorageClassUnchanged c w,
         validateNoDowngrade c w,
         validateServiceExposure components topologyType,
         err_of (milvusEngineConfig c),
         validateComponentParameters c,
         validateMonitoring c w,
         if topologyType = ''cluster'' then validateMixCoordStandby c else None])"

section \<open>Lemmas\<close>

lemma validateInstance_None:
  assumes "validateInstance c w = None"
  shows "topology_type c = ''standalone'' \<or> topology_type c = ''cluster''"
    "validateTopologyUnchanged c w (topology_type c) = None"
    "validateComponentsForTopology (in_Components (Inst c)) (topology_type c) = None"
    "validateTopologyRules (in_Components (Inst c)) (topology_type c) = None"
    "validateStorageNotDecreased c w (topology_type c) = None"
    "validateDependencies c w (topology_type c) = None"
    "validateDataLocationUnchanged c w = None"
    "validateStorageClassUnchanged c w = None"
    "validateNoDowngrade c w = None"
    "validateServiceExposure (in_Components (Inst c)) (topology_type c) = None"
    "err_of (milvusEngineConfig c) = None"
    "validateComponentParameters c = None"
    "validateMonitoring c w = None"
    "topology_type c = ''cluster'' \<Longrightarrow> validateMixCoordStandby c = None"
proof -
  show t: "topology_type c = ''standalone'' \<or> topology_type c = ''cluster''"
    using assms by (auto simp: validateInstance_def Let_def split: if_splits)
  show "validateTopologyUnchanged c w (topology_type c) = None"
    "validateComponentsForTopology (in_Components (Inst c)) (topology_type c) = None"
    "validateTopologyRules (in_Components (Inst c)) (topology_type c) = None"
    "validateStorageNotDecreased c w (topology_type c) = None"
    "validateDependencies c w (topology_type c) = None"
    "validateDataLocationUnchanged c w = None"
    "validateStorageClassUnchanged c w = None"
    "validateNoDowngrade c w = None"
    "validateServiceExposure (in_Components (Inst c)) (topology_type c) = None"
    "err_of (milvusEngineConfig c) = None"
    "validateComponentParameters c = None"
    "validateMonitoring c w = None"
    "topology_type c = ''cluster'' \<Longrightarrow> validateMixCoordStandby c = None"
    using assms t by (auto simp: validateInstance_def Let_def first_error_None split: if_splits)
qed

lemma validateInstance_intro:
  assumes "topology_type c = ''standalone'' \<or> topology_type c = ''cluster''"
    and "validateTopologyUnchanged c w (topology_type c) = None"
    and "validateComponentsForTopology (in_Components (Inst c)) (topology_type c) = None"
    and "validateTopologyRules (in_Components (Inst c)) (topology_type c) = None"
    and "validateStorageNotDecreased c w (topology_type c) = None"
    and "validateDependencies c w (topology_type c) = None"
    and "validateDataLocationUnchanged c w = None"
    and "validateStorageClassUnchanged c w = None"
    and "validateNoDowngrade c w = None"
    and "validateServiceExposure (in_Components (Inst c)) (topology_type c) = None"
    and "err_of (milvusEngineConfig c) = None"
    and "validateComponentParameters c = None"
    and "validateMonitoring c w = None"
    and "topology_type c = ''cluster'' \<Longrightarrow> validateMixCoordStandby c = None"
  shows "validateInstance c w = None"
  using assms unfolding validateInstance_def Let_def first_error_None by auto

text \<open>A request within its limit, and the minimum sizes.\<close>

definition sized_ok :: "ResourceRequirements \<Rightarrow> bool" where
  "sized_ok r \<longleftrightarrow>
     (\<forall>q. map_of (rr_Limits r) ''cpu'' = Some q \<longrightarrow> q_amount minComponentCPU \<le> q_amount q) \<and>
     (\<forall>q. map_of (rr_Limits r) ''memory'' = Some q \<longrightarrow> q_amount minComponentMemory \<le> q_amount q) \<and>
     (\<forall>k\<in>{''cpu'', ''memory''}. \<forall>a b. map_of (rr_Requests r) k = Some a \<and> map_of (rr_Limits r) k = Some b \<longrightarrow>
        q_amount a \<le> q_amount b)"

lemma validateRequestNotAboveLimit_None:
  "validateRequestNotAboveLimit name k requests limits = None \<longleftrightarrow>
     (\<forall>a b. map_of requests k = Some a \<and> map_of limits k = Some b \<longrightarrow> q_amount a \<le> q_amount b)"
  by (auto simp: validateRequestNotAboveLimit_def split: option.splits)

lemma validateComponentResources_None:
  "validateComponentResources name component = None \<longleftrightarrow>
     (\<forall>r. ic_Resources component = Some r \<longrightarrow> sized_ok r)"
  by (auto simp: validateComponentResources_def error_simps sized_ok_def below_minimum_def
      validateRequestNotAboveLimit_None not_less split: option.splits)

lemma allowed_component_None:
  "allowed_component_error components name = None \<longleftrightarrow>
     (\<forall>x. map_of components name = Some x \<longrightarrow>
        (\<forall>n. ic_Replicas x = Some n \<longrightarrow> 1 \<le> n) \<and> ic_Storage x = None \<and>
        (\<forall>r. ic_Resources x = Some r \<longrightarrow> sized_ok r))"
  by (auto simp: allowed_component_error_def error_simps validateComponentResources_None
      split: option.splits if_splits)

lemma validateComponentsForTopology_None:
  "validateComponentsForTopology components t = None \<longleftrightarrow>
     set (keys components) \<subseteq> set (allowedComponentsForTopology t) \<and>
     (\<forall>name\<in>set (allowedComponentsForTopology t). allowed_component_error components name = None)"
  by (auto simp: validateComponentsForTopology_def Let_def error_simps)

section \<open>Properties\<close>

text \<open>
  C11: an accepted Instance is well-formed. If \<open>validateInstance\<close> accepts, the topology is
  standalone or cluster, every component belongs to it, asks for at least one replica (at
  most one when standalone), takes no storage of its own, has limits of at least the minimum
  sizes and requests within its limits, and the exposed service has a type the provider
  supports.
\<close>

theorem accepted_instance_is_sound:
  assumes "validateInstance c w = None"
  shows "(topology_type c = ''standalone'' \<or> topology_type c = ''cluster'') \<and>
    set (keys (in_Components (Inst c))) \<subseteq> set (allowedComponentsForTopology (topology_type c)) \<and>
    (\<forall>name x. map_of (in_Components (Inst c)) name = Some x \<longrightarrow>
       (\<forall>n. ic_Replicas x = Some n \<longrightarrow> 1 \<le> n \<and> (topology_type c = ''standalone'' \<longrightarrow> n = 1)) \<and>
       ic_Storage x = None \<and> (\<forall>r. ic_Resources x = Some r \<longrightarrow> sized_ok r) \<and>
       (\<forall>s. ic_Service x = Some s \<and> name = exposedComponentName (topology_type c) \<longrightarrow>
          es_ServiceType s \<in> {'''', ''ClusterIP'', ''LoadBalancer'', ''NodePort''}))"
proof -
  let ?t = "topology_type c" and ?cs = "in_Components (Inst c)"
  note v = validateInstance_None [OF assms]
  have sub: "set (keys ?cs) \<subseteq> set (allowedComponentsForTopology ?t)"
    and each: "\<forall>name\<in>set (allowedComponentsForTopology ?t). allowed_component_error ?cs name = None"
    using v(3) by (simp_all add: validateComponentsForTopology_None)
  have comp: "(\<forall>n. ic_Replicas x = Some n \<longrightarrow> 1 \<le> n \<and> (?t = ''standalone'' \<longrightarrow> n = 1)) \<and>
       ic_Storage x = None \<and> (\<forall>r. ic_Resources x = Some r \<longrightarrow> sized_ok r) \<and>
       (\<forall>s. ic_Service x = Some s \<and> name = exposedComponentName ?t \<longrightarrow>
          es_ServiceType s \<in> {'''', ''ClusterIP'', ''LoadBalancer'', ''NodePort''})"
    if x: "map_of ?cs name = Some x" for name x
  proof -
    have at: "component_at ?cs name = x" using x by (simp add: component_at_def)
    have name: "name \<in> set (allowedComponentsForTopology ?t)" using sub map_of_Some_key [OF x] by blast
    with each x have one: "(\<forall>n. ic_Replicas x = Some n \<longrightarrow> 1 \<le> n) \<and> ic_Storage x = None \<and>
        (\<forall>r. ic_Resources x = Some r \<longrightarrow> sized_ok r)"
      using allowed_component_None by blast
    have single: "n = 1" if "ic_Replicas x = Some n" "?t = ''standalone''" for n
    proof -
      have "name = ComponentStandalone" using name that(2) by (simp add: allowedComponentsForTopology_def)
      with v(4) at that one show ?thesis
        by (auto simp: validateTopologyRules_def split: if_splits)
    qed
    have "es_ServiceType s \<in> {'''', ''ClusterIP'', ''LoadBalancer'', ''NodePort''}"
      if "ic_Service x = Some s" "name = exposedComponentName ?t" for s
      using v(10) that at by (auto simp: validateServiceExposure_def Let_def split: if_splits)
    with one single show ?thesis by blast
  qed
  from v(1) sub comp show ?thesis by blast
qed

text \<open>A standalone Instance of one sized component, in a cluster that holds at most its CR.\<close>

definition standalone_component :: InstanceComponent where
  "standalone_component = zero_InstanceComponent\<lparr>ic_Replicas := Some 1,
     ic_Resources := Some \<lparr>rr_Limits = [(''cpu'', \<lparr>q_amount = 2 * 10 ^ 9, q_string = ''2''\<rparr>)],
                           rr_Requests = [(''cpu'', \<lparr>q_amount = 10 ^ 9, q_string = ''1''\<rparr>)]\<rparr>\<rparr>"

definition accept_ctx :: "Milvus option ctx" where
  "accept_ctx = milvus_store_ctx
     \<lparr>Inst := sample_Instance\<lparr>in_Components := [(ComponentStandalone, standalone_component)]\<rparr>\<rparr>"

lemma accept_ctx_simps [simp]:
  "in_Components (Inst accept_ctx) = [(ComponentStandalone, standalone_component)]"
  "in_Topology (Inst accept_ctx) = None"
  "topology_type accept_ctx = ''standalone''"
  "existing_milvus accept_ctx None = Inl (GoError NotFound ''not found'')"
  "existing_milvus accept_ctx (Some m) = Inr m"
  "lib accept_ctx = sample_lib" "Name accept_ctx = ''inst''" "ProviderSpecOf accept_ctx = Inr None"
  "TryDecodeCluster accept_ctx = None" "TryDecodeStandalone accept_ctx = None"
  "milvusEngineConfig accept_ctx = Inr None"
  "storageDependencyParam accept_ctx ''standalone'' = None"
  by (simp_all add: accept_ctx_def milvus_store_ctx_def sample_ctx_def sample_Instance_def
      topology_type_def existing_milvus_def milvusEngineConfig_def engine_config_def
      storageDependencyParam_def standaloneDependencyParams_def)

lemma sample_parse_10Gi:
  "sample_ParseQuantity ''10Gi'' = Inr \<lparr>q_amount = 10 * (2 ^ 30 * 10 ^ 9), q_string = ''10Gi''\<rparr>"
  by (simp add: sample_ParseQuantity_def sample_quantity_def cut_suffix_def atoi_def
      atoi_unbounded_def atoi_digits_def char_digit_def is_int64_def Let_def)

lemma accept_ctx_accepted: "validateInstance accept_ctx None = None"
proof (rule validateInstance_intro)
  show "validateStorageNotDecreased accept_ctx None (topology_type accept_ctx) = None"
    by (simp add: validateStorageNotDecreased_def requestedStorageSize_def
        defaultStoragePersistence_def sample_lib_def sample_parse_10Gi Let_def)
  show "validateDependencies accept_ctx None (topology_type accept_ctx) = None"
    by (simp add: validateDependencies_def dependencies_to_validate_def
        decodeTopologyParametersIfPresent_def zero_StandaloneTopologyParameters_def
        validateEtcdDependency_def validatePulsarDependency_def validateStorageDependency_def)
  show "validateComponentsForTopology (in_Components (Inst accept_ctx)) (topology_type accept_ctx) = None"
    by (simp add: validateComponentsForTopology_None allowedComponentsForTopology_def
        allowed_component_None standalone_component_def zero_InstanceComponent_def sized_ok_def
        minComponentCPU_def)
  show "validateTopologyRules (in_Components (Inst accept_ctx)) (topology_type accept_ctx) = None"
    by (simp add: validateTopologyRules_def component_at_def standalone_component_def)
  show "validateServiceExposure (in_Components (Inst accept_ctx)) (topology_type accept_ctx) = None"
    by (simp add: validateServiceExposure_def exposedComponentName_def component_at_def
        standalone_component_def zero_InstanceComponent_def)
  show "validateComponentParameters accept_ctx = None"
    by (simp add: validateComponentParameters_def component_parameters_error_def component_at_def
        standalone_component_def zero_InstanceComponent_def Let_def)
  show "validateMonitoring accept_ctx None = None"
    by (simp add: validateMonitoring_def decodeTopologyParametersIfPresent_def
        zero_topologyMonitoring_def Let_def)
qed (simp_all add: validateTopologyUnchanged_def validateDataLocationUnchanged_def
    validateStorageClassUnchanged_def validateNoDowngrade_def)

theorem accepted_instance_is_sound_witness:
  "validateInstance accept_ctx None = None \<and> sized_ok (the (ic_Resources standalone_component))"
proof -
  have x: "map_of (in_Components (Inst accept_ctx)) ComponentStandalone = Some standalone_component"
    by simp
  obtain r where r: "ic_Resources standalone_component = Some r"
    by (simp add: standalone_component_def)
  with x accepted_instance_is_sound [OF accept_ctx_accepted] have "sized_ok r" by blast
  with r accept_ctx_accepted show ?thesis by simp
qed

text \<open>What acceptance means for an Instance whose CR exists already.\<close>

lemma accepted_update:
  assumes "validateInstance c w = None" "existing_milvus c w = Inr m" "Mode (Spec m) \<noteq> ''''"
  obtains spec where "BuildMilvusSpec c w = Inr spec" "Mode (Spec m) = topology_type c"
    "objectStore spec = objectStore (Spec m)"
    "rootPathOrDefault (Conf spec) ''etcd'' (Name c) = rootPathOrDefault (Conf (Spec m)) ''etcd'' (Name c)"
    "rootPathOrDefault (Conf spec) ''minio'' defaultMinioRootPath =
       rootPathOrDefault (Conf (Spec m)) ''minio'' defaultMinioRootPath"
    "Dep (Spec m) \<noteq> None \<Longrightarrow> dependencyStorageClass (Dep spec) = dependencyStorageClass (Dep (Spec m))"
    "\<And>name. name \<in> set (keys (componentVersions (Com spec))) \<Longrightarrow>
       downgrade_error (lib c) (componentVersions (Com (Spec m))) (componentVersions (Com spec)) name = None"
proof -
  note v = validateInstance_None [OF assms(1)]
  obtain spec where spec: "BuildMilvusSpec c w = Inr spec"
    using v(7) assms(2,3) by (auto simp: validateDataLocationUnchanged_def split: sum.splits)
  have "Mode (Spec m) = topology_type c"
    using v(2) assms(2,3) by (auto simp: validateTopologyUnchanged_def Let_def split: if_splits)
  moreover have "objectStore spec = objectStore (Spec m)"
    "rootPathOrDefault (Conf spec) ''etcd'' (Name c) = rootPathOrDefault (Conf (Spec m)) ''etcd'' (Name c)"
    "rootPathOrDefault (Conf spec) ''minio'' defaultMinioRootPath =
       rootPathOrDefault (Conf (Spec m)) ''minio'' defaultMinioRootPath"
    using v(7) assms(2,3) spec
    by (auto simp: validateDataLocationUnchanged_def root_path_error_def error_simps Let_def split: if_splits)
  moreover have "Dep (Spec m) \<noteq> None \<Longrightarrow>
      dependencyStorageClass (Dep spec) = dependencyStorageClass (Dep (Spec m))"
    using v(8) assms(2,3) spec by (auto simp: validateStorageClassUnchanged_def Let_def split: if_splits)
  moreover have "downgrade_error (lib c) (componentVersions (Com (Spec m)))
      (componentVersions (Com spec)) name = None"
    if "name \<in> set (keys (componentVersions (Com spec)))" for name
    using v(9) assms(2,3) spec that by (auto simp: validateNoDowngrade_def first_error_None Let_def)
  ultimately show thesis using that spec by blast
qed

text \<open>What \<open>validateInstance\<close> looks at in the spec of the existing Milvus CR.\<close>

record spec_view =
  v_mode :: string
  v_store :: string
  v_etcd_root :: string
  v_minio_root :: string
  v_class :: string
  v_size :: string
  v_versions :: "(string \<times> string) list"
  v_stream :: string
  v_has_deps :: bool

definition stream_of :: "MilvusDependencies option \<Rightarrow> string" where
  "stream_of dep =
     (case dep of
        None \<Rightarrow> ''''
      | Some d \<Rightarrow>
          if MsgStreamType d \<noteq> '''' then MsgStreamType d
          else if PulsarInCluster (DepPulsar d) \<noteq> None \<or> PulsarExternal (DepPulsar d)
          then MessageStreamPulsar else '''')"

definition view_of :: "string \<Rightarrow> MilvusSpec \<Rightarrow> spec_view" where
  "view_of name spec =
     \<lparr>v_mode = Mode spec, v_store = objectStore spec,
      v_etcd_root = rootPathOrDefault (Conf spec) ''etcd'' name,
      v_minio_root = rootPathOrDefault (Conf spec) ''minio'' defaultMinioRootPath,
      v_class = dependencyStorageClass (Dep spec),
      v_size = currentStorageSize (sample_milvus\<lparr>Spec := spec\<rparr>),
      v_versions = componentVersions (Com spec), v_stream = stream_of (Dep spec),
      v_has_deps = (Dep spec \<noteq> None)\<rparr>"

lemma currentStorageSize_spec: "Spec m = Spec m' \<Longrightarrow> currentStorageSize m = currentStorageSize m'"
  by (simp add: currentStorageSize_def)

lemma view_of_eqD:
  assumes "view_of name (Spec m) = view_of name spec"
  shows "Mode (Spec m) = Mode spec" "objectStore (Spec m) = objectStore spec"
    "rootPathOrDefault (Conf (Spec m)) ''etcd'' name = rootPathOrDefault (Conf spec) ''etcd'' name"
    "rootPathOrDefault (Conf (Spec m)) ''minio'' defaultMinioRootPath =
       rootPathOrDefault (Conf spec) ''minio'' defaultMinioRootPath"
    "dependencyStorageClass (Dep (Spec m)) = dependencyStorageClass (Dep spec)"
    "currentStorageSize m = currentStorageSize (sample_milvus\<lparr>Spec := spec\<rparr>)"
    "componentVersions (Com (Spec m)) = componentVersions (Com spec)"
    "stream_of (Dep (Spec m)) = stream_of (Dep spec)"
  using assms currentStorageSize_spec [of m "sample_milvus\<lparr>Spec := Spec m\<rparr>"]
  by (simp_all add: view_of_def)

lemma existing_stream:
  "existing_milvus c w = Inr m \<Longrightarrow> existingMessageStreamType c w = stream_of (Dep (Spec m))"
  by (simp add: existingMessageStreamType_def stream_of_def)

text \<open>The reads validation makes apart from the CR.\<close>

definition same_reads :: "'w ctx \<Rightarrow> 'w \<Rightarrow> 'w \<Rightarrow> bool" where
  "same_reads c w w' \<longleftrightarrow>
     GetBackupStorage (api c) w = GetBackupStorage (api c) w' \<and>
     GetBackupStorageCredentials (api c) w = GetBackupStorageCredentials (api c) w' \<and>
     PodMonitorMapping (api c) w = PodMonitorMapping (api c) w'"

text \<open>
  The runtime's contract for its two decoders: where the strict one accepts the topology
  parameters, the other has the same value, or none where there are no parameters.
\<close>

definition decoders_agree :: "'w ctx \<Rightarrow> bool" where
  "decoders_agree c \<longleftrightarrow>
     (\<forall>p. decodeTopologyParametersIfPresent c zero_ClusterTopologyParameters (DecodeCluster c) = Inr p \<longrightarrow>
        TryDecodeCluster c = Some p \<or> TryDecodeCluster c = None \<and> p = zero_ClusterTopologyParameters) \<and>
     (\<forall>p. decodeTopologyParametersIfPresent c zero_StandaloneTopologyParameters (DecodeStandalone c) = Inr p \<longrightarrow>
        TryDecodeStandalone c = Some p \<or>
        TryDecodeStandalone c = None \<and> p = zero_StandaloneTopologyParameters)"

lemma same_reads_storage:
  assumes "same_reads c w w'"
  shows "resolveStorageLocation c w p = resolveStorageLocation c w' p"
    "storageLocationKeys c w n = storageLocationKeys c w' n"
    "validateMonitoring c w = validateMonitoring c w'"
  using assms
  by (auto simp: same_reads_def resolveStorageLocation_def storageLocationKeys_def validateMonitoring_def
      split: option.split sum.split)

lemma requested_stream:
  assumes "decoders_agree c"
    and "decodeTopologyParametersIfPresent c zero_ClusterTopologyParameters (DecodeCluster c) = Inr p"
  shows "(case ctp_Dependencies p of None \<Rightarrow> '''' | Some d \<Rightarrow> cd_MessageStreamType d) =
    cd_MessageStreamType (clusterDependencyParams c)"
  using assms
  by (auto simp: decoders_agree_def clusterDependencyParams_def zero_ClusterTopologyParameters_def
      zero_ClusterDependencies_def deref_def split: option.split)

lemma stream_built:
  "topology_type c = ''cluster'' \<Longrightarrow> BuildMilvusSpec c w = Inr spec \<Longrightarrow>
     stream_of (Dep spec) = messageStreamType c w (cd_MessageStreamType (clusterDependencyParams c))"
  using messageStreamType_not_empty [of c w "cd_MessageStreamType (clusterDependencyParams c)"]
  by (auto simp: BuildMilvusSpec_def Let_def error_simps stream_of_def buildDependencies_def)

text \<open>Once the stream rendering chose is the one the CR has, the choice is settled.\<close>

lemma stream_settled:
  assumes "existingMessageStreamType c w' = messageStreamType c w req"
  shows "messageStreamType c w' req = messageStreamType c w req"
  using assms messageStreamType_not_empty [of c w req]
  by (cases "req = ''''") (simp_all add: messageStreamType_def [of c w'], simp add: messageStreamType_def)

lemma stream_settled_accepted:
  assumes "existingMessageStreamType c w' = messageStreamType c w req"
    and "validateMessageStream c w req = None"
  shows "validateMessageStream c w' req = None"
proof (cases "req = ''''")
  case False
  then have "existingMessageStreamType c w' = req" using assms(1) by (simp add: messageStreamType_def)
  with assms(2) show ?thesis by (auto simp: validateMessageStream_def Let_def split: if_splits)
qed (simp add: validateMessageStream_def)

text \<open>Rendering again, over the CR that was rendered, gives the same spec.\<close>

lemma rebuild_same:
  assumes build: "BuildMilvusSpec c w = Inr spec" and reads: "same_reads c w w'"
    and m: "existing_milvus c w' = Inr m" and stream: "stream_of (Dep (Spec m)) = stream_of (Dep spec)"
  shows "BuildMilvusSpec c w' = Inr spec"
proof -
  have "buildDependencies c w' (topology_type c) p = buildDependencies c w (topology_type c) p" for p
  proof (cases "topology_type c = ''cluster''")
    case False
    then show ?thesis by (simp add: buildDependencies_def)
  next
    case True
    let ?req = "cd_MessageStreamType (clusterDependencyParams c)"
    have "messageStreamType c w' ?req = messageStreamType c w ?req"
      by (rule stream_settled) (simp add: existing_stream [OF m] stream stream_built [OF True build])
    then show ?thesis by (simp add: buildDependencies_def Let_def)
  qed
  with build show ?thesis
    by (simp add: BuildMilvusSpec_def same_reads_storage(1) [OF reads])
qed

lemma buildStorage_size:
  "currentStorageSize (m\<lparr>Spec := spec\<lparr>Dep := Some (buildDependencies c w t p)\<rparr>\<rparr>) =
    (case p of None \<Rightarrow> defaultStoragePersistence
     | Some s \<Rightarrow> if st_External s then '''' else deref (size_of (st_Persistence s)) defaultStoragePersistence)"
proof -
  have size: "sub_str (sub_map (bundledStorageValues q sc) ''persistence'') ''size'' = storage_size q" for q sc
    by (simp add: sub_map_persistence sub_str_def size_entry)
  show ?thesis
    by (cases p)
      (simp_all add: currentStorageSize_def buildDependencies_def buildStorage_def zero_MilvusStorage_def
        bundledInCluster_def size storage_size_def size_of_def deref_def Let_def split: option.split)
qed

lemma resolved_storage:
  assumes "resolveStorageLocation c w p = Inr q"
  shows "(p = None \<and> q = None) \<or>
    (\<exists>s s'. p = Some s \<and> q = Some s' \<and> (st_BackupStorageName s = '''' \<longrightarrow> s' = s) \<and>
       (st_BackupStorageName s \<noteq> '''' \<longrightarrow> st_External s'))"
  using assms
  by (auto simp: resolveStorageLocation_def split: option.splits sum.splits if_splits)

text \<open>The size validation compares with is the size rendering applies.\<close>

lemma rendered_storage_size:
  assumes "BuildMilvusSpec c w = Inr spec" "Spec m = spec"
  shows "currentStorageSize m = requestedStorageSize c (topology_type c)"
proof -
  obtain q where q: "resolveStorageLocation c w (storageDependencyParam c (topology_type c)) = Inr q"
    and dep: "Dep spec = Some (buildDependencies c w (topology_type c) q)"
    using BuildMilvusSpec_Inr [OF assms(1)] by metis
  have "spec = spec\<lparr>Dep := Some (buildDependencies c w (topology_type c) q)\<rparr>" using dep by simp
  then have "currentStorageSize m = currentStorageSize
      (m\<lparr>Spec := spec\<lparr>Dep := Some (buildDependencies c w (topology_type c) q)\<rparr>\<rparr>)"
    using assms(2) by (intro currentStorageSize_spec) simp
  then show ?thesis
    unfolding buildStorage_size
    using resolved_storage [OF q] by (auto simp: requestedStorageSize_def)
qed

lemma mode_is_topology:
  assumes "BuildMilvusSpec c w = Inr spec" "topology_type c = ''standalone'' \<or> topology_type c = ''cluster''"
  shows "Mode spec = topology_type c"
  by (rule BuildMilvusSpec_Inr [OF assms(1)])
    (use assms(2) in \<open>auto simp: MilvusModeCluster_def MilvusModeStandalone_def\<close>)

text \<open>Validation accepts again what it accepted once the rendered spec is applied.\<close>

lemma revalidation:
  assumes ok: "validateInstance c w = None" and build: "BuildMilvusSpec c w = Inr spec"
    and m: "existing_milvus c w' = Inr m" and view: "view_of (Name c) (Spec m) = view_of (Name c) spec"
    and reads: "same_reads c w w'" and dec: "decoders_agree c"
    and irrefl: "\<And>v. \<not> SemverCompare (lib c) v v < 0"
  shows "validateInstance c w' = None" "BuildMilvusSpec c w' = Inr spec"
proof -
  note v = validateInstance_None [OF ok] and eqs = view_of_eqD [OF view]
  let ?t = "topology_type c"
  show again: "BuildMilvusSpec c w' = Inr spec"
    by (rule rebuild_same [OF build reads m eqs(8)])
  have mode: "Mode spec = ?t" by (rule mode_is_topology [OF build v(1)])
  have size: "currentStorageSize m = requestedStorageSize c ?t"
    using eqs(6) rendered_storage_size [OF build, of "sample_milvus\<lparr>Spec := spec\<rparr>"] by simp
  have deps: "validateDependencies c w' ?t = validateDependencies c w ?t"
  proof -
    have "dependencies_to_validate c w' ?t = dependencies_to_validate c w ?t"
    proof (cases "?t = ''cluster'' \<and> (\<exists>p. decodeTopologyParametersIfPresent c
        zero_ClusterTopologyParameters (DecodeCluster c) = Inr p)")
      case False
      then show ?thesis
        by (cases "decodeTopologyParametersIfPresent c zero_ClusterTopologyParameters (DecodeCluster c)")
          (auto simp: dependencies_to_validate_def)
    next
      case True
      then obtain p where cl: "?t = ''cluster''"
        and p: "decodeTopologyParametersIfPresent c zero_ClusterTopologyParameters (DecodeCluster c) = Inr p"
        by blast
      let ?req = "case ctp_Dependencies p of None \<Rightarrow> '''' | Some d \<Rightarrow> cd_MessageStreamType d"
      have req: "?req = cd_MessageStreamType (clusterDependencyParams c)"
        by (rule requested_stream [OF dec p])
      have ok_stream: "validateMessageStream c w ?req = None"
        using v(6) by (auto simp: validateDependencies_def dependencies_to_validate_def cl p Let_def
            split: option.splits)
      have ex: "existingMessageStreamType c w' = messageStreamType c w ?req"
        using stream_built [OF cl build] eqs(8) req by (simp add: existing_stream [OF m])
      have same: "messageStreamType c w' ?req = messageStreamType c w ?req"
        by (rule stream_settled [OF ex])
      have "validateMessageStream c w' ?req = None"
        by (rule stream_settled_accepted [OF ex ok_stream])
      with ok_stream same show ?thesis by (simp add: dependencies_to_validate_def cl p Let_def)
    qed
    then show ?thesis
      by (simp add: validateDependencies_def same_reads_storage(1,2) [OF reads]
          split: sum.split prod.split option.split)
  qed
  show "validateInstance c w' = None"
  proof (rule validateInstance_intro [OF v(1) _ v(3,4) _ _ _ _ _ v(10-12) _ v(14)])
    show "validateTopologyUnchanged c w' ?t = None"
      using m eqs(1) mode by (simp add: validateTopologyUnchanged_def)
    show "validateStorageNotDecreased c w' ?t = None"
      using v(5) by (auto simp: validateStorageNotDecreased_def m size Let_def split: sum.splits if_splits)
    show "validateDependencies c w' ?t = None" using deps v(6) by simp
    show "validateDataLocationUnchanged c w' = None"
      using m again eqs(2-4)
      by (simp add: validateDataLocationUnchanged_def root_path_error_def Let_def)
    show "validateStorageClassUnchanged c w' = None"
      using m again eqs(5) by (simp add: validateStorageClassUnchanged_def)
    show "validateNoDowngrade c w' = None"
      using m again eqs(7) irrefl
      by (auto simp: validateNoDowngrade_def error_simps downgrade_error_def Let_def)
    show "validateMonitoring c w' = None" using v(13) same_reads_storage(3) [OF reads] by simp
  qed
qed

text \<open>The spec rendered for the sample Instance, and the cluster once it is applied.\<close>

lemma accept_ctx_applied:
  "\<exists>spec. BuildMilvusSpec accept_ctx None = Inr spec \<and>
     validateInstance accept_ctx (Some (sample_milvus\<lparr>Spec := spec\<rparr>)) = None \<and> Mode spec = ''standalone'' \<and>
     Dep spec = Some (buildDependencies accept_ctx None ''standalone'' None)"
proof -
  obtain spec where spec: "BuildMilvusSpec accept_ctx None = Inr spec"
    and dep: "Dep spec = Some (buildDependencies accept_ctx None ''standalone'' None)"
    by (simp add: BuildMilvusSpec_def resolveStorageLocation_def Let_def)
  have "same_reads accept_ctx None (Some (sample_milvus\<lparr>Spec := spec\<rparr>))"
    by (simp add: same_reads_def accept_ctx_def milvus_store_ctx_def sample_api_def)
  moreover have "decoders_agree accept_ctx"
    by (simp add: decoders_agree_def decodeTopologyParametersIfPresent_def)
  moreover have "\<not> SemverCompare (lib accept_ctx) v v < 0" for v
    by (simp add: sample_lib_def sample_compare_def split: option.split)
  ultimately have "validateInstance accept_ctx (Some (sample_milvus\<lparr>Spec := spec\<rparr>)) = None"
    by (intro revalidation(1) [OF accept_ctx_accepted spec accept_ctx_simps(5)]) simp_all
  with spec dep mode_is_topology [OF spec] show ?thesis by auto
qed

text \<open>
  What \<open>objectStore\<close> tells apart: whether the object storage is external, and then its endpoint
  and its bucket.
\<close>

definition external_storage :: "MilvusSpec \<Rightarrow> bool" where
  "external_storage spec \<longleftrightarrow> (\<exists>dep. Dep spec = Some dep \<and> StorageExternal (DepStorage dep))"

definition storage_endpoint :: "MilvusSpec \<Rightarrow> string" where
  "storage_endpoint spec = (case Dep spec of None \<Rightarrow> '''' | Some dep \<Rightarrow> StorageEndpoint (DepStorage dep))"

definition storage_bucket :: "MilvusSpec \<Rightarrow> string" where
  "storage_bucket spec = sub_str (sub_map (deref (Conf spec) []) ''minio'') ''bucketName''"

definition same_object_store :: "MilvusSpec \<Rightarrow> MilvusSpec \<Rightarrow> bool" where
  "same_object_store s s' \<longleftrightarrow>
     (external_storage s \<longleftrightarrow> external_storage s') \<and>
     (external_storage s \<and> CHR ''/'' \<notin> set (storage_bucket s) \<and> CHR ''/'' \<notin> set (storage_bucket s') \<longrightarrow>
        storage_endpoint s = storage_endpoint s' \<and> storage_bucket s = storage_bucket s')"

lemma objectStore_cases:
  "objectStore s = (if external_storage s then storage_endpoint s @ CHR ''/'' # storage_bucket s
     else ''the bundled MinIO'')"
  by (simp add: objectStore_def external_storage_def storage_endpoint_def storage_bucket_def split: option.split)

lemma same_object_storeI:
  assumes "objectStore s = objectStore s'" shows "same_object_store s s'"
proof -
  have slash: "CHR ''/'' \<in> set (objectStore t) \<longleftrightarrow> external_storage t" for t
    by (simp add: objectStore_cases)
  have ext: "external_storage s \<longleftrightarrow> external_storage s'" using assms slash by metis
  have "storage_endpoint s = storage_endpoint s' \<and> storage_bucket s = storage_bucket s'"
    if "external_storage s" "CHR ''/'' \<notin> set (storage_bucket s)" "CHR ''/'' \<notin> set (storage_bucket s')"
  proof -
    have "cut_last (CHR ''/'') (storage_endpoint s @ CHR ''/'' # storage_bucket s) =
        cut_last (CHR ''/'') (storage_endpoint s' @ CHR ''/'' # storage_bucket s')"
      using assms that(1) ext by (simp only: objectStore_cases if_True)
    then show ?thesis unfolding cut_last_append [OF that(2)] cut_last_append [OF that(3)] by simp
  qed
  with ext show ?thesis by (simp add: same_object_store_def)
qed

text \<open>The bucket of a bundled storage is not compared: a configuration that changes it is accepted.\<close>

lemma bundled_bucket_not_compared:
  "\<not> external_storage s \<Longrightarrow> objectStore (s\<lparr>Conf := config\<rparr>) = objectStore s"
  by (auto simp: objectStore_def external_storage_def split: option.split)

text \<open>
  C3: an accepted update keeps what the code compares of the instance's data location. With a
  Milvus CR in the cluster, an accepted Instance renders, and the rendered spec has the
  topology the CR has, the same bundled or external object storage (if external, its endpoint
  and bucket), the same etcd and object-storage root paths, and the same class of the etcd and
  object-storage volumes. Neither the bucket of a bundled storage, nor the class of Pulsar's
  volumes, nor which etcd is used is compared.
\<close>

theorem accepted_update_keeps_data_location:
  assumes "validateInstance c w = None" "existing_milvus c w = Inr m"
    and "Mode (Spec m) \<noteq> ''''" "Dep (Spec m) \<noteq> None"
  shows "\<exists>spec. BuildMilvusSpec c w = Inr spec \<and> Mode spec = Mode (Spec m) \<and>
    objectStore spec = objectStore (Spec m) \<and> same_object_store spec (Spec m) \<and>
    rootPathOrDefault (Conf spec) ''etcd'' (Name c) = rootPathOrDefault (Conf (Spec m)) ''etcd'' (Name c) \<and>
    rootPathOrDefault (Conf spec) ''minio'' defaultMinioRootPath =
      rootPathOrDefault (Conf (Spec m)) ''minio'' defaultMinioRootPath \<and>
    dependencyStorageClass (Dep spec) = dependencyStorageClass (Dep (Spec m))"
  by (rule accepted_update [OF assms(1-3)])
    (use assms(4) mode_is_topology [OF _ validateInstance_None(1) [OF assms(1)]] same_object_storeI in auto)

theorem accepted_update_keeps_data_location_witness:
  "\<exists>m spec. validateInstance accept_ctx (Some m) = None \<and> Mode (Spec m) = ''standalone'' \<and>
     BuildMilvusSpec accept_ctx (Some m) = Inr spec \<and> objectStore spec = objectStore (Spec m)"
proof -
  obtain spec where s: "validateInstance accept_ctx (Some (sample_milvus\<lparr>Spec := spec\<rparr>)) = None"
    "Mode spec = ''standalone''" "Dep spec = Some (buildDependencies accept_ctx None ''standalone'' None)"
    using accept_ctx_applied by blast
  from accepted_update_keeps_data_location [OF s(1), of "sample_milvus\<lparr>Spec := spec\<rparr>"] s(2,3)
  obtain spec' where "BuildMilvusSpec accept_ctx (Some (sample_milvus\<lparr>Spec := spec\<rparr>)) = Inr spec'"
    "objectStore spec' = objectStore spec" by auto
  with s(1,2) show ?thesis by (intro exI [of _ "sample_milvus\<lparr>Spec := spec\<rparr>"]) auto
qed

text \<open>
  C12: an accepted update never shrinks storage and never downgrades. The bundled object
  storage keeps at least the size the CR has, and every Milvus component whose old and new
  versions are semantic versions moves to an equal or newer one, whatever order
  \<open>rank\<close> the version library realises.
\<close>

theorem accepted_update_never_goes_back:
  assumes "validateInstance c w = None" "existing_milvus c w = Inr m"
    and "Mode (Spec m) \<noteq> ''''" "semver_ranks (lib c) rank"
  shows "\<exists>spec. BuildMilvusSpec c w = Inr spec \<and>
    (\<forall>old new. currentStorageSize m \<noteq> '''' \<and> requestedStorageSize c (topology_type c) \<noteq> '''' \<and>
       ParseQuantity (lib c) (currentStorageSize m) = Inr old \<and>
       ParseQuantity (lib c) (currentStorageSize (m\<lparr>Spec := spec\<rparr>)) = Inr new \<longrightarrow>
       q_amount old \<le> q_amount new) \<and>
    (\<forall>name old new. map_of (componentVersions (Com (Spec m))) name = Some old \<and>
       map_of (componentVersions (Com spec)) name = Some new \<and>
       valid_version (lib c) old \<and> valid_version (lib c) new \<longrightarrow> rank (''v'' @ old) \<le> rank (''v'' @ new))"
proof (rule accepted_update [OF assms(1-3)])
  fix spec
  assume spec: "BuildMilvusSpec c w = Inr spec"
    and versions: "\<And>name. name \<in> set (keys (componentVersions (Com spec))) \<Longrightarrow> downgrade_error (lib c)
      (componentVersions (Com (Spec m))) (componentVersions (Com spec)) name = None"
  have size: "currentStorageSize (m\<lparr>Spec := spec\<rparr>) = requestedStorageSize c (topology_type c)"
    by (rule rendered_storage_size [OF spec]) simp
  have "q_amount old \<le> q_amount new"
    if "currentStorageSize m \<noteq> ''''" "requestedStorageSize c (topology_type c) \<noteq> ''''"
      "ParseQuantity (lib c) (currentStorageSize m) = Inr old"
      "ParseQuantity (lib c) (currentStorageSize (m\<lparr>Spec := spec\<rparr>)) = Inr new" for old new
    using validateInstance_None(5) [OF assms(1)] that assms(2)
    by (auto simp: validateStorageNotDecreased_def size Let_def split: if_splits)
  moreover have "rank (''v'' @ old) \<le> rank (''v'' @ new)"
    if "map_of (componentVersions (Com (Spec m))) name = Some old"
      "map_of (componentVersions (Com spec)) name = Some new"
      "valid_version (lib c) old" "valid_version (lib c) new" for name old new
  proof -
    have "\<not> SemverCompare (lib c) (''v'' @ new) (''v'' @ old) < 0"
      using versions [OF map_of_Some_key [OF that(2)]] that
      by (auto simp: downgrade_error_def valid_version_def deref_def split: if_splits)
    moreover have "SemverCompare (lib c) (''v'' @ new) (''v'' @ old) < 0 \<longleftrightarrow>
        rank (''v'' @ new) < rank (''v'' @ old)"
      using assms(4) that(3,4) unfolding semver_ranks_def valid_version_def by blast
    ultimately show ?thesis by simp
  qed
  ultimately show ?thesis using spec by blast
qed

theorem accepted_update_never_goes_back_witness:
  "\<exists>m spec new. validateInstance accept_ctx (Some m) = None \<and>
     BuildMilvusSpec accept_ctx (Some m) = Inr spec \<and> currentStorageSize m = ''10Gi'' \<and>
     ParseQuantity sample_lib (currentStorageSize (m\<lparr>Spec := spec\<rparr>)) = Inr new \<and>
     10 * (2 ^ 30 * 10 ^ 9) \<le> q_amount new"
proof -
  obtain spec where b: "BuildMilvusSpec accept_ctx None = Inr spec"
    and s: "validateInstance accept_ctx (Some (sample_milvus\<lparr>Spec := spec\<rparr>)) = None"
    "Mode spec = ''standalone''" using accept_ctx_applied by blast
  let ?m = "sample_milvus\<lparr>Spec := spec\<rparr>"
  have req: "requestedStorageSize accept_ctx ''standalone'' = ''10Gi''"
    by (simp add: requestedStorageSize_def defaultStoragePersistence_def)
  have cur: "currentStorageSize ?m = ''10Gi''"
    using rendered_storage_size [OF b, of ?m] req by simp
  have parse: "ParseQuantity sample_lib ''10Gi'' = Inr \<lparr>q_amount = 10 * (2 ^ 30 * 10 ^ 9), q_string = ''10Gi''\<rparr>"
    by (simp add: sample_lib_def sample_parse_10Gi)
  have ranks: "semver_ranks (lib accept_ctx) (\<lambda>v. deref (sample_version v) (-1))"
    using sample_semver_ranks by simp
  obtain spec' where spec': "BuildMilvusSpec accept_ctx (Some ?m) = Inr spec'"
    and le: "\<forall>old new. currentStorageSize ?m \<noteq> '''' \<and>
       requestedStorageSize accept_ctx (topology_type accept_ctx) \<noteq> '''' \<and>
       ParseQuantity (lib accept_ctx) (currentStorageSize ?m) = Inr old \<and>
       ParseQuantity (lib accept_ctx) (currentStorageSize (?m\<lparr>Spec := spec'\<rparr>)) = Inr new \<longrightarrow>
       q_amount old \<le> q_amount new"
    using accepted_update_never_goes_back [OF s(1) accept_ctx_simps(5) _ ranks] s(2) by auto
  have new: "currentStorageSize (?m\<lparr>Spec := spec'\<rparr>) = ''10Gi''"
    using rendered_storage_size [OF spec', of "?m\<lparr>Spec := spec'\<rparr>"] req by simp
  from le have "q_amount \<lparr>q_amount = 10 * (2 ^ 30 * 10 ^ 9), q_string = ''10Gi''\<rparr> \<le>
      q_amount \<lparr>q_amount = 10 * (2 ^ 30 * 10 ^ 9), q_string = ''10Gi''\<rparr>"
    using cur new req parse by auto
  then show ?thesis using s(1) spec' cur new parse
    by (intro exI [of _ ?m] exI [of _ spec'] exI) auto
qed

end
