(* ===== verification/Health.thy ===== *)
theory Health
  imports Samples "HOL-Library.Multiset"
begin

text \<open>
  \<open>internal/provider/health.go\<close>, and the readings of the operator's conditions in
  \<open>internal/provider/provider.go\<close>: which dependency keeps an instance from being ready, and
  which of its workloads run fewer ready pods than they want.
\<close>

section \<open>Conditions\<close>

definition dependencyConditions :: "string list" where
  "dependencyConditions = [''EtcdReady'', ''StorageReady'', ''MsgStreamReady'']"

definition notReadyConditions :: "string list" where
  "notReadyConditions = [''EtcdReady'', ''StorageReady'', ''MsgStreamReady'', ''MilvusReady'']"

text \<open>
  The nested loop both readings have: the condition types in order, for each the first
  condition of that type that is false, with its message or, without one, its reason.
\<close>

definition condition_detail :: "MilvusCondition \<Rightarrow> string" where
  "condition_detail cond = (if CondMessage cond = '''' then CondReason cond else CondMessage cond)"

definition first_failing :: "string list \<Rightarrow> MilvusCondition list \<Rightarrow> (string \<times> string) option" where
  "first_failing types conditions =
     first_some (concat (map (\<lambda>conditionType. map (\<lambda>cond.
       if CondType cond \<noteq> conditionType \<or> CondStatus cond \<noteq> CondFalse then None
       else Some (conditionType, condition_detail cond)) conditions) types))"

definition failingDependency :: "Milvus \<Rightarrow> string option" where
  "failingDependency cr =
     map_option (\<lambda>(conditionType, detail). conditionType @ '': '' @ detail)
       (first_failing dependencyConditions (Conditions (CRStatus cr)))"

definition notReadyMessage :: "Milvus \<Rightarrow> string \<Rightarrow> string" where
  "notReadyMessage cr fallback =
     (case first_failing notReadyConditions (Conditions (CRStatus cr)) of
        None \<Rightarrow> fallback
      | Some (conditionType, detail) \<Rightarrow> fallback @ '': '' @ conditionType @ '': '' @ detail)"

definition rolloutMessage :: "Milvus \<Rightarrow> string option" where
  "rolloutMessage cr =
     (if ObservedGeneration (CRStatus cr) < Generation cr
      then Some ''Milvus is applying the latest changes''
      else first_some (map (\<lambda>cond.
        if CondType cond \<noteq> ConditionMilvusUpdated \<or> CondStatus cond \<noteq> CondFalse then None
        else if CondMessage cond \<noteq> '''' then Some (CondMessage cond)
        else Some (''Milvus is updating: '' @ CondReason cond)) (Conditions (CRStatus cr))))"

section \<open>Workloads\<close>

definition milvusInstanceLabel :: string where "milvusInstanceLabel = ''app.kubernetes.io/instance''"
definition milvusNameLabel :: string where "milvusNameLabel = ''app.kubernetes.io/name''"
definition milvusComponentLabel :: string where "milvusComponentLabel = ''app.kubernetes.io/component''"
definition helmReleaseAnnotation :: string where "helmReleaseAnnotation = ''meta.helm.sh/release-name''"

definition dependencyReleaseSuffixes :: "string list" where
  "dependencyReleaseSuffixes = [''etcd'', ''minio'', ''pulsar'', ''kafka'']"

definition dependencyInstance :: "string \<Rightarrow> string" where
  "dependencyInstance release =
     deref (first_some (map (\<lambda>suffix. cut_suffix release (''-'' @ suffix)) dependencyReleaseSuffixes)) ''''"

definition instanceComponentName :: "string \<Rightarrow> string" where
  "instanceComponentName operatorName =
     (case filter (\<lambda>name. equal_fold name operatorName)
        [ComponentStandalone, ComponentProxy, ComponentMixCoord, ComponentDataNode,
         ComponentQueryNode, ComponentStreaming] of
        [] \<Rightarrow> operatorName
      | name # _ \<Rightarrow> name)"

text \<open>Reading a missing key of a Go map of strings.\<close>

definition label_at :: "labels \<Rightarrow> string \<Rightarrow> string" where
  "label_at m key = deref (map_of m key) ''''"

definition workloadName :: "string \<Rightarrow> Workload \<Rightarrow> string" where
  "workloadName inst workload =
     (let labels = wl_Labels workload in
      if label_at labels milvusInstanceLabel = inst \<and> label_at labels milvusNameLabel = ''milvus''
      then instanceComponentName (label_at labels milvusComponentLabel)
      else if dependencyInstance (label_at (wl_Annotations workload) helmReleaseAnnotation) = inst
      then trim_prefix (wl_Name workload) (inst @ ''-'')
      else '''')"

text \<open>The counts of one workload name: the pods it wants and the ready ones.\<close>

record workloadReplicas =
  w_desired :: int
  w_ready :: int

type_synonym replica_counts = "(string \<times> workloadReplicas) list"

definition count_workload ::
  "string \<Rightarrow> int option \<Rightarrow> int \<Rightarrow> replica_counts \<Rightarrow> replica_counts" where
  "count_workload name desired ready replicas =
     (let want = deref desired 1 in
      if name = '''' \<or> want = 0 then replicas
      else let r = deref (map_of replicas name) \<lparr>w_desired = 0, w_ready = 0\<rparr> in
           AList.update name
             \<lparr>w_desired = add32 (w_desired r) want, w_ready = add32 (w_ready r) ready\<rparr> replicas)"

definition count_workloads :: "string \<Rightarrow> Workload list \<Rightarrow> replica_counts \<Rightarrow> replica_counts" where
  "count_workloads inst workloads replicas =
     fold (\<lambda>w. count_workload (workloadName inst w) (wl_Replicas w) (wl_ReadyReplicas w))
       workloads replicas"

text \<open>The loop over the Go map of counts, and the sorted report.\<close>

definition short_line :: "string \<times> workloadReplicas \<Rightarrow> string" where
  "short_line e = fst e @ '' '' @ itoa (w_ready (snd e)) @ ''/'' @ itoa (w_desired (snd e)) @ '' ready''"

definition short_report :: "replica_counts \<Rightarrow> string list \<times> bool" where
  "short_report replicas =
     (let (short, down) = fold (\<lambda>e (short, down).
            if w_ready (snd e) < w_desired (snd e)
            then (short @ [short_line e], down \<or> w_ready (snd e) = 0) else (short, down))
          replicas ([], False)
      in (sort short, down))"

definition shortWorkloads :: "'w ctx \<Rightarrow> 'w \<Rightarrow> (string list \<times> bool) result" where
  "shortWorkloads c w =
     bind_result (ListDeployments (api c) w) (\<lambda>deployments.
     let replicas = count_workloads (Name c) deployments [] in
     bind_result (ListStatefulSets (api c) w) (\<lambda>statefulSets.
     Inr (short_report (count_workloads (Name c) statefulSets replicas))))"

text \<open>A reconcile request is the namespace and the name of the object to look at again.\<close>

definition enqueueDependencyInstance :: "string \<Rightarrow> labels \<Rightarrow> (string \<times> string) list" where
  "enqueueDependencyInstance namespace annotations =
     (let inst = dependencyInstance (label_at annotations helmReleaseAnnotation) in
      if inst = '''' then [] else [(namespace, inst)])"

section \<open>Lemmas\<close>

lemma first_failing_Some:
  "first_failing types conditions = Some (t, d) \<longleftrightarrow>
     (\<exists>before after cond. types = before @ t # after \<and>
        (\<forall>t'\<in>set before. \<forall>x\<in>set conditions. CondType x = t' \<longrightarrow> CondStatus x \<noteq> CondFalse) \<and>
        find (\<lambda>x. CondType x = t \<and> CondStatus x = CondFalse) conditions = Some cond \<and>
        d = condition_detail cond)" (is "_ \<longleftrightarrow> (\<exists>before after cond. ?P types before after cond)")
proof (induction types)
  case Nil
  then show ?case by (simp add: first_failing_def)
next
  case (Cons t0 ts)
  let ?f = "\<lambda>t. first_some (map (\<lambda>cond. if CondType cond \<noteq> t \<or> CondStatus cond \<noteq> CondFalse then None
      else Some (t, condition_detail cond)) conditions)"
  have one: "?f t = map_option (\<lambda>cond. (t, condition_detail cond))
      (find (\<lambda>x. CondType x = t \<and> CondStatus x = CondFalse) conditions)" for t
    by (induction conditions) auto
  have none: "find (\<lambda>x. CondType x = t0 \<and> CondStatus x = CondFalse) conditions = None \<longleftrightarrow>
      (\<forall>x\<in>set conditions. CondType x = t0 \<longrightarrow> CondStatus x \<noteq> CondFalse)"
    by (auto simp: find_None_iff)
  have app: "first_some (xs @ ys) = (case first_some xs of None \<Rightarrow> first_some ys | Some r \<Rightarrow> Some r)"
    for xs ys :: "(string \<times> string) option list"
    by (induction xs rule: first_some.induct) auto
  have step: "first_failing (t0 # ts) conditions =
      (case ?f t0 of None \<Rightarrow> first_failing ts conditions | Some r \<Rightarrow> Some r)"
    by (simp add: first_failing_def app split: option.split)
  show ?case
  proof (cases "find (\<lambda>x. CondType x = t0 \<and> CondStatus x = CondFalse) conditions")
    case None
    have "(\<exists>before after cond. ?P (t0 # ts) before after cond) \<longleftrightarrow>
        (\<exists>before after cond. ?P ts before after cond)"
    proof
      assume "\<exists>before after cond. ?P (t0 # ts) before after cond"
      then obtain before after cond where p: "?P (t0 # ts) before after cond" by blast
      with None obtain b where "before = t0 # b" by (cases before) auto
      with p show "\<exists>before after cond. ?P ts before after cond" by auto
    next
      assume "\<exists>before after cond. ?P ts before after cond"
      then obtain before after cond where "?P ts before after cond" by blast
      with None none have "?P (t0 # ts) (t0 # before) after cond" by auto
      then show "\<exists>before after cond. ?P (t0 # ts) before after cond" by blast
    qed
    with None Cons.IH step one [of t0] show ?thesis by simp
  next
    case (Some x)
    have "(\<exists>before after cond. ?P (t0 # ts) before after cond) \<longleftrightarrow> t = t0 \<and> d = condition_detail x"
    proof
      assume "\<exists>before after cond. ?P (t0 # ts) before after cond"
      then obtain before after cond where p: "?P (t0 # ts) before after cond" by blast
      have "before = []"
      proof (cases before)
        case (Cons b bs)
        with p have "\<forall>x\<in>set conditions. CondType x = t0 \<longrightarrow> CondStatus x \<noteq> CondFalse" by auto
        with Some show ?thesis by (auto simp: find_Some_iff)
      qed simp
      with p Some show "t = t0 \<and> d = condition_detail x" by auto
    next
      assume "t = t0 \<and> d = condition_detail x"
      with Some have "?P (t0 # ts) [] ts x" by simp
      then show "\<exists>before after cond. ?P (t0 # ts) before after cond" by blast
    qed
    with Some step one [of t0] show ?thesis by auto
  qed
qed

lemma first_failing_None:
  "first_failing types conditions = None \<longleftrightarrow>
     (\<forall>x\<in>set conditions. CondType x \<in> set types \<longrightarrow> CondStatus x \<noteq> CondFalse)"
  by (auto simp: first_failing_def first_some_None)

lemma short_report_eq:
  "short_report m =
     (let short = filter (\<lambda>e. w_ready (snd e) < w_desired (snd e)) m in
      (sort (map short_line short), \<exists>e\<in>set short. w_ready (snd e) = 0))"
proof -
  have "fold (\<lambda>e (short, down). if w_ready (snd e) < w_desired (snd e)
            then (short @ [short_line e], down \<or> w_ready (snd e) = 0) else (short, down)) m (short0, down0) =
      (short0 @ map short_line (filter (\<lambda>e. w_ready (snd e) < w_desired (snd e)) m),
       down0 \<or> (\<exists>e\<in>set (filter (\<lambda>e. w_ready (snd e) < w_desired (snd e)) m). w_ready (snd e) = 0))"
    for short0 down0
    by (induction m arbitrary: short0 down0) auto
  then show ?thesis by (simp add: short_report_def Let_def)
qed

text \<open>The loop over the counts does not depend on the order in which Go visits them.\<close>

interpretation short_loop: order_free short_report
proof
  fix m m' :: replica_counts
  assume d: "distinct (keys m)" "distinct (keys m')" "set m = set m'"
  let ?p = "\<lambda>e :: string \<times> workloadReplicas. w_ready (snd e) < w_desired (snd e)"
  have "mset m = mset m'"
    using d set_eq_iff_mset_eq_distinct [of m m'] by (simp add: distinct_map)
  then have "mset (map short_line (filter ?p m)) = mset (map short_line (filter ?p m'))" by simp
  then have "sort (map short_line (filter ?p m)) = sort (map short_line (filter ?p m'))"
    by (intro properties_for_sort) simp_all
  then show "short_report m = short_report m'" by (simp add: short_report_eq Let_def d(3))
qed

text \<open>The workloads that count towards a name, and their totals as \<open>int32\<close>.\<close>

definition named_workloads :: "string \<Rightarrow> Workload list \<Rightarrow> string \<Rightarrow> Workload list" where
  "named_workloads inst ws name =
     filter (\<lambda>w. workloadName inst w = name \<and> deref (wl_Replicas w) 1 \<noteq> 0) ws"

definition totals :: "string \<Rightarrow> Workload list \<Rightarrow> string \<Rightarrow> workloadReplicas" where
  "totals inst ws name =
     \<lparr>w_desired = wrap32 (sum_list (map (\<lambda>w. deref (wl_Replicas w) 1) (named_workloads inst ws name))),
      w_ready = wrap32 (sum_list (map wl_ReadyReplicas (named_workloads inst ws name)))\<rparr>"

lemma count_workloads_map:
  "map_of (count_workloads inst ws []) name =
     (if name = '''' \<or> named_workloads inst ws name = [] then None else Some (totals inst ws name))"
proof (induction ws rule: rev_induct)
  case Nil
  then show ?case by (simp add: count_workloads_def named_workloads_def)
next
  case (snoc w ws)
  have step: "count_workloads inst (ws @ [w]) [] = count_workload (workloadName inst w) (wl_Replicas w)
      (wl_ReadyReplicas w) (count_workloads inst ws [])"
    by (simp add: count_workloads_def)
  have named: "named_workloads inst (ws @ [w]) name = named_workloads inst ws name @
      (if workloadName inst w = name \<and> deref (wl_Replicas w) 1 \<noteq> 0 then [w] else [])"
    by (simp add: named_workloads_def)
  show ?case
  proof (cases "name \<noteq> '''' \<and> workloadName inst w = name \<and> deref (wl_Replicas w) 1 \<noteq> 0")
    case False
    then have "map_of (count_workloads inst (ws @ [w]) []) name = map_of (count_workloads inst ws []) name"
      by (auto simp: step count_workload_def Let_def update_conv')
    with False snoc.IH named show ?thesis by (auto simp: totals_def)
  next
    case True
    then have at: "map_of (count_workloads inst (ws @ [w]) []) name =
        (let r = deref (map_of (count_workloads inst ws []) name) \<lparr>w_desired = 0, w_ready = 0\<rparr> in
         Some \<lparr>w_desired = add32 (w_desired r) (deref (wl_Replicas w) 1),
               w_ready = add32 (w_ready r) (wl_ReadyReplicas w)\<rparr>)"
      by (simp add: step count_workload_def Let_def update_conv')
    show ?thesis
    proof (cases "named_workloads inst ws name = []")
      case empty: True
      with True snoc.IH at named show ?thesis by (simp add: totals_def add32_def)
    next
      case False
      with True snoc.IH at named show ?thesis
        by (simp add: totals_def add32_def wrap32_add_wrap32)
    qed
  qed
qed

lemma count_workloads_distinct: "distinct (keys (count_workloads inst ws []))"
proof (induction ws rule: rev_induct)
  case (snoc w ws)
  then show ?case by (simp add: count_workloads_def count_workload_def Let_def distinct_update)
qed (simp add: count_workloads_def)

lemma cut_suffix_self: "cut_suffix (s @ suf) suf = Some s"
  by (simp add: cut_suffix_Some)

lemma cut_suffix_other:
  assumes "last suf \<noteq> last suf'" "suf \<noteq> []" "suf' \<noteq> []"
  shows "cut_suffix (s @ suf) suf' = None"
proof (cases "cut_suffix (s @ suf) suf'")
  case (Some a)
  then have "s @ suf = a @ suf'" by (simp add: cut_suffix_Some)
  then have "last (s @ suf) = last (a @ suf')" by simp
  with assms show ?thesis by simp
qed simp

lemma dependencyInstance_release:
  assumes "suffix \<in> set dependencyReleaseSuffixes"
  shows "dependencyInstance (inst @ ''-'' @ suffix) = inst"
proof -
  consider "suffix = ''etcd''" | "suffix = ''minio''" | "suffix = ''pulsar''" | "suffix = ''kafka''"
    using assms by (auto simp: dependencyReleaseSuffixes_def)
  then show ?thesis
    by cases (simp_all add: dependencyInstance_def dependencyReleaseSuffixes_def
        cut_suffix_self cut_suffix_other)
qed

lemma instanceComponentName_lower:
  "instanceComponentName (to_lower ComponentStandalone) = ComponentStandalone"
  "instanceComponentName (to_lower ComponentProxy) = ComponentProxy"
  "instanceComponentName (to_lower ComponentMixCoord) = ComponentMixCoord"
  "instanceComponentName (to_lower ComponentDataNode) = ComponentDataNode"
  "instanceComponentName (to_lower ComponentQueryNode) = ComponentQueryNode"
  "instanceComponentName (to_lower ComponentStreaming) = ComponentStreaming"
  by code_simp+

text \<open>The first type with a false condition, and what it says.\<close>

definition root_cause :: "string list \<Rightarrow> MilvusCondition list \<Rightarrow> string \<Rightarrow> string \<Rightarrow> bool" where
  "root_cause types conditions t d \<longleftrightarrow>
     (\<exists>before after cond. types = before @ t # after \<and>
        (\<forall>t'\<in>set before. \<forall>x\<in>set conditions. CondType x = t' \<longrightarrow> CondStatus x \<noteq> CondFalse) \<and>
        find (\<lambda>x. CondType x = t \<and> CondStatus x = CondFalse) conditions = Some cond \<and>
        d = condition_detail cond)"

lemma first_failing_root_cause: "first_failing types conditions = Some (t, d) \<longleftrightarrow> root_cause types conditions t d"
  unfolding root_cause_def by (rule first_failing_Some)

section \<open>Properties\<close>

text \<open>
  C28: the reported failure is the root cause. Both readings of the operator's conditions name
  the first condition type, in dependency order, that has a false condition, with that
  condition's message (or reason): no earlier type has a false condition. When none has one,
  there is no failing dependency, and the message is the fallback alone.
\<close>

theorem root_cause_is_reported:
  "(failingDependency cr = Some msg \<longleftrightarrow>
     (\<exists>t d. root_cause dependencyConditions (Conditions (CRStatus cr)) t d \<and> msg = t @ '': '' @ d)) \<and>
   (notReadyMessage cr fallback = text \<longleftrightarrow>
     (if \<exists>t d. root_cause notReadyConditions (Conditions (CRStatus cr)) t d
      then \<exists>t d. root_cause notReadyConditions (Conditions (CRStatus cr)) t d \<and>
        text = fallback @ '': '' @ t @ '': '' @ d
      else text = fallback))"
  unfolding first_failing_root_cause [symmetric] failingDependency_def notReadyMessage_def
  by (cases "first_failing notReadyConditions (Conditions (CRStatus cr))") auto

text \<open>
  C27: the redundancy report is exact. It lists, sorted, one line for each workload name of the
  instance whose pods are fewer than wanted, over all its Deployments and StatefulSets
  together (a workload scaled to zero does not count), and \<open>down\<close> holds exactly when one of
  those has no ready pod. Totals are \<open>int32\<close>.
\<close>

theorem redundancy_report_is_exact:
  assumes "shortWorkloads c w = Inr (short, down)"
    and "ListDeployments (api c) w = Inr ds" "ListStatefulSets (api c) w = Inr ss"
  shows "sorted short \<and>
    set short = {short_line (name, t) | name t. name \<noteq> '''' \<and> named_workloads (Name c) (ds @ ss) name \<noteq> [] \<and>
       t = totals (Name c) (ds @ ss) name \<and> w_ready t < w_desired t} \<and>
    (down \<longleftrightarrow> (\<exists>name t. name \<noteq> '''' \<and> named_workloads (Name c) (ds @ ss) name \<noteq> [] \<and>
       t = totals (Name c) (ds @ ss) name \<and> w_ready t < w_desired t \<and> w_ready t = 0))"
proof -
  let ?m = "count_workloads (Name c) (ds @ ss) []"
  have "count_workloads (Name c) ss (count_workloads (Name c) ds []) = ?m"
    by (simp add: count_workloads_def)
  with assms have report: "short_report ?m = (short, down)" by (simp add: shortWorkloads_def)
  have mem: "(name, t) \<in> set ?m \<longleftrightarrow> name \<noteq> '''' \<and> named_workloads (Name c) (ds @ ss) name \<noteq> [] \<and>
      t = totals (Name c) (ds @ ss) name" for name t
    using count_workloads_map [of "Name c" "ds @ ss" name]
      map_of_eq_Some_iff [OF count_workloads_distinct, of "Name c" "ds @ ss" name t]
    by (auto split: if_splits)
  have "set short = short_line ` {e \<in> set ?m. w_ready (snd e) < w_desired (snd e)}"
    and "down \<longleftrightarrow> (\<exists>e\<in>set ?m. w_ready (snd e) < w_desired (snd e) \<and> w_ready (snd e) = 0)"
    and "sorted short"
    using arg_cong [OF report, of fst, symmetric] arg_cong [OF report, of snd, symmetric]
    by (simp_all add: short_report_eq Let_def Bex_def conj_ac)
  moreover have "short_line ` {e \<in> set ?m. w_ready (snd e) < w_desired (snd e)} =
      {short_line (name, t) | name t. (name, t) \<in> set ?m \<and> w_ready t < w_desired t}"
    by force
  moreover have "(\<exists>e\<in>set ?m. w_ready (snd e) < w_desired (snd e) \<and> w_ready (snd e) = 0) \<longleftrightarrow>
      (\<exists>name t. (name, t) \<in> set ?m \<and> w_ready t < w_desired t \<and> w_ready t = 0)"
    by force
  ultimately show ?thesis unfolding mem by simp
qed

text \<open>An instance whose two etcd Pods are spread over a Deployment and a StatefulSet.\<close>

definition etcd_workload :: "int \<Rightarrow> int \<Rightarrow> Workload" where
  "etcd_workload desired ready =
     \<lparr>wl_Name = ''inst-etcd'', wl_Labels = [],
      wl_Annotations = [(''meta.helm.sh/release-name'', ''inst-etcd'')],
      wl_Replicas = Some desired, wl_ReadyReplicas = ready\<rparr>"

theorem redundancy_report_is_exact_witness:
  "shortWorkloads (sample_ctx\<lparr>api := sample_api\<lparr>ListDeployments := \<lambda>_. Inr [etcd_workload 1 1],
       ListStatefulSets := \<lambda>_. Inr [etcd_workload 1 0]\<rparr>\<rparr> :: unit ctx) () =
     Inr ([''etcd 1/2 ready''], False) \<and> sorted [''etcd 1/2 ready'']"
proof -
  let ?c = "sample_ctx\<lparr>api := sample_api\<lparr>ListDeployments := \<lambda>_. Inr [etcd_workload 1 1],
       ListStatefulSets := \<lambda>_. Inr [etcd_workload 1 0]\<rparr>\<rparr> :: unit ctx"
  have name: "Name ?c = ''inst''" by (simp add: sample_ctx_def)
  have "short_report (count_workloads ''inst'' [etcd_workload 1 0]
      (count_workloads ''inst'' [etcd_workload 1 1] [])) = ([''etcd 1/2 ready''], False)"
    by code_simp
  then have run: "shortWorkloads ?c () = Inr ([''etcd 1/2 ready''], False)"
    by (simp add: shortWorkloads_def name)
  from redundancy_report_is_exact [OF run, of "[etcd_workload 1 1]" "[etcd_workload 1 0]"] run
  show ?thesis by simp
qed

text \<open>
  A workload is attributed to the instance it belongs to. The workload of a bundled
  dependency (release \<open>inst-etcd\<close>, \<open>inst-minio\<close>, \<open>inst-pulsar\<close>, \<open>inst-kafka\<close>) is
  reported under its name without the instance prefix, and its changes re-evaluate exactly
  that instance, in its own namespace.
\<close>

theorem dependency_workload_attributed:
  assumes "suffix \<in> set dependencyReleaseSuffixes" "inst \<noteq> ''''"
    and "label_at (wl_Annotations wl) helmReleaseAnnotation = inst @ ''-'' @ suffix"
    and "label_at (wl_Labels wl) milvusNameLabel \<noteq> ''milvus''"
  shows "workloadName inst wl = trim_prefix (wl_Name wl) (inst @ ''-'') \<and>
    (other \<noteq> inst \<longrightarrow> workloadName other wl = '''') \<and>
    enqueueDependencyInstance ns (wl_Annotations wl) = [(ns, inst)]"
  using assms dependencyInstance_release [OF assms(1), of inst]
  by (simp add: workloadName_def enqueueDependencyInstance_def Let_def)

theorem dependency_workload_attributed_witness:
  "workloadName ''inst'' (etcd_workload 1 1) = ''etcd'' \<and>
   enqueueDependencyInstance ''ns'' (wl_Annotations (etcd_workload 1 1)) = [(''ns'', ''inst'')]"
  using dependency_workload_attributed [of "''etcd''" "''inst''" "etcd_workload 1 1" "''x''" "''ns''"]
  by (simp add: dependencyReleaseSuffixes_def etcd_workload_def label_at_def
      helmReleaseAnnotation_def milvusNameLabel_def trim_prefix_def has_prefix_def)

end
