(* ===== verification/Sha256.thy ===== *)
theory Sha256
  imports GoFormat "HOL-Library.Word"
begin

text \<open>
  \<open>crypto/sha256\<close> and \<open>encoding/hex\<close>, as far as the provider uses them: the first
  eight hex digits of a digest, which shorten long object names. The function is the one of
  FIPS 180-4: padding to 64-byte blocks, the 64-word message schedule, and 64 rounds on
  eight 32-bit words per block.
\<close>

unbundle bit_operations_syntax

type_synonym u32 = "32 word"

definition round_constants :: "u32 list" where
  "round_constants = [
    1116352408, 1899447441, 3049323471, 3921009573, 961987163, 1508970993, 2453635748,
    2870763221, 3624381080, 310598401, 607225278, 1426881987, 1925078388, 2162078206,
    2614888103, 3248222580, 3835390401, 4022224774, 264347078, 604807628, 770255983,
    1249150122, 1555081692, 1996064986, 2554220882, 2821834349, 2952996808, 3210313671,
    3336571891, 3584528711, 113926993, 338241895, 666307205, 773529912, 1294757372, 1396182291,
    1695183700, 1986661051, 2177026350, 2456956037, 2730485921, 2820302411, 3259730800,
    3345764771, 3516065817, 3600352804, 4094571909, 275423344, 430227734, 506948616, 659060556,
    883997877, 958139571, 1322822218, 1537002063, 1747873779, 1955562222, 2024104815,
    2227730452, 2361852424, 2428436474, 2756734187, 3204031479, 3329325298]"

definition initial_hash :: "u32 list" where
  "initial_hash = [
    1779033703, 3144134277, 1013904242, 2773480762, 1359893119, 2600822924, 528734635,
    1541459225]"

definition big_sigma0 :: "u32 \<Rightarrow> u32" where
  "big_sigma0 x = word_rotr 2 x XOR word_rotr 13 x XOR word_rotr 22 x"

definition big_sigma1 :: "u32 \<Rightarrow> u32" where
  "big_sigma1 x = word_rotr 6 x XOR word_rotr 11 x XOR word_rotr 25 x"

definition small_sigma0 :: "u32 \<Rightarrow> u32" where
  "small_sigma0 x = word_rotr 7 x XOR word_rotr 18 x XOR drop_bit 3 x"

definition small_sigma1 :: "u32 \<Rightarrow> u32" where
  "small_sigma1 x = word_rotr 17 x XOR word_rotr 19 x XOR drop_bit 10 x"

definition sha_choose :: "u32 \<Rightarrow> u32 \<Rightarrow> u32 \<Rightarrow> u32" where
  "sha_choose x y z = (x AND y) XOR (NOT x AND z)"

definition sha_majority :: "u32 \<Rightarrow> u32 \<Rightarrow> u32 \<Rightarrow> u32" where
  "sha_majority x y z = (x AND y) XOR (x AND z) XOR (y AND z)"

text \<open>The message schedule, kept in reverse: the newest word comes first.\<close>

fun extend_schedule :: "nat \<Rightarrow> u32 list \<Rightarrow> u32 list" where
  "extend_schedule 0 ws = ws"
| "extend_schedule (Suc n) ws =
     extend_schedule n
       ((small_sigma1 (ws ! 1) + ws ! 6 + small_sigma0 (ws ! 14) + ws ! 15) # ws)"

fun sha_round :: "u32 \<times> u32 \<Rightarrow> u32 list \<Rightarrow> u32 list" where
  "sha_round (k, w) [a, b, c, d, e, f, g, h] =
     (let t1 = h + big_sigma1 e + sha_choose e f g + k + w;
          t2 = big_sigma0 a + sha_majority a b c
      in [t1 + t2, a, b, c, d + t1, e, f, g])"
| "sha_round _ hs = hs"

definition compress :: "u32 list \<Rightarrow> u32 list \<Rightarrow> u32 list" where
  "compress block hs =
     map2 (+) hs
       (fold sha_round (zip round_constants (rev (extend_schedule 48 (rev block)))) hs)"

text \<open>Padding, bytes to words, and the digest as hex digits.\<close>

definition pad_bytes :: "nat list \<Rightarrow> nat list" where
  "pad_bytes m =
     (let n = length m; bits = 8 * n
      in m @ [128] @ replicate ((119 - n mod 64) mod 64) 0
           @ map (\<lambda>i. bits div 256 ^ i mod 256) [7, 6, 5, 4, 3, 2, 1, 0])"

fun words_of_bytes :: "nat list \<Rightarrow> u32 list" where
  "words_of_bytes (a # b # c # d # xs) =
     of_nat (((a * 256 + b) * 256 + c) * 256 + d) # words_of_bytes xs"
| "words_of_bytes _ = []"

function blocks_fold :: "u32 list \<Rightarrow> u32 list \<Rightarrow> u32 list" where
  "blocks_fold ws hs =
     (if ws = [] then hs else blocks_fold (drop 16 ws) (compress (take 16 ws) hs))"
  by pat_completeness auto
termination
  by (relation "measure (\<lambda>(ws, hs). length ws)") auto

declare blocks_fold.simps [simp del]

definition hex_word :: "u32 \<Rightarrow> string" where
  "hex_word w = map (\<lambda>i. hex_digit (unat w div 16 ^ i mod 16)) [7, 6, 5, 4, 3, 2, 1, 0]"

definition sha256_hex :: "string \<Rightarrow> string" where
  "sha256_hex s =
     concat (map hex_word (blocks_fold (words_of_bytes (pad_bytes (map of_char s))) initial_hash))"

text \<open>\<open>hex.EncodeToString(sum[:])[:8]\<close>.\<close>

definition short_hash :: "string \<Rightarrow> string" where
  "short_hash s = take 8 (sha256_hex s)"

lemma sha_round_length: "length (sha_round kw hs) = length hs"
  by (cases "(kw, hs)" rule: sha_round.cases) (simp_all add: Let_def)

lemma compress_length: "length (compress b hs) = length hs"
proof -
  have "length (fold sha_round xs hs) = length hs" for xs
    by (induction xs arbitrary: hs) (simp_all add: sha_round_length)
  then show ?thesis by (simp add: compress_def)
qed

lemma blocks_fold_length: "length (blocks_fold ws hs) = length hs"
  by (induction ws hs rule: blocks_fold.induct)
     (simp add: compress_length blocks_fold.simps)

lemma hex_word_length [simp]: "length (hex_word w) = 8"
  by (simp add: hex_word_def)

lemma short_hash_eq:
  "short_hash s =
     hex_word (hd (blocks_fold (words_of_bytes (pad_bytes (map of_char s))) initial_hash))"
proof -
  let ?hs = "blocks_fold (words_of_bytes (pad_bytes (map of_char s))) initial_hash"
  have "length ?hs = 8" by (simp add: blocks_fold_length initial_hash_def)
  then obtain h hs where "?hs = h # hs" by (cases ?hs) auto
  then show ?thesis by (simp add: short_hash_def sha256_hex_def)
qed

lemma short_hash_length [simp]: "length (short_hash s) = 8"
  by (simp add: short_hash_eq)

definition is_hex :: "char \<Rightarrow> bool" where
  "is_hex c \<longleftrightarrow> c \<in> set ''0123456789abcdef''"

lemma hex_digit_is_hex: "d < 16 \<Longrightarrow> is_hex (hex_digit d)"
  unfolding is_hex_def hex_digit_def by (rule nth_mem) simp

lemma short_hash_hex: "c \<in> set (short_hash s) \<Longrightarrow> is_hex c"
  by (auto simp: short_hash_eq hex_word_def intro!: hex_digit_is_hex)

end
