(* ===== verification/BackupJob.thy ===== *)
theory BackupJob
  imports BackupConfig Credentials Sha256
begin

text \<open>
  \<open>internal/provider/backup_job.go\<close>: where a Backup's data lives, the milvus-backup Job of
  each operation, and how the outcome of such a Job is read. Also the schedule-independent
  job names of \<open>internal/provider/backup_schedule.go\<close> (\<open>createJobName\<close>).
\<close>

section \<open>Names\<close>

datatype backupOperation = operationCreate | operationRestore | operationDelete

fun operation_text :: "backupOperation \<Rightarrow> string" where
  "operation_text operationCreate = ''create''"
| "operation_text operationRestore = ''restore''"
| "operation_text operationDelete = ''delete''"

fun operationSuffix :: "backupOperation \<Rightarrow> string" where
  "operationSuffix operationCreate = ''-mb''"
| "operationSuffix operationRestore = ''-mr''"
| "operationSuffix operationDelete = ''-md''"

definition maxNameLength :: nat where "maxNameLength = 63"

definition backupJobName :: "string \<Rightarrow> backupOperation \<Rightarrow> string" where
  "backupJobName owner op =
     (let name = owner @ operationSuffix op in
      if length name \<le> maxNameLength then name
      else let hash = short_hash name;
               keep = maxNameLength - length (operationSuffix op) - length hash - 1
           in trim_right (\<lambda>c. c \<in> set ''-.'') (take keep owner) @ ''-'' @ hash @ operationSuffix op)"

definition milvusBackupName :: "string \<Rightarrow> string" where
  "milvusBackupName backupName =
     map (\<lambda>c. if c = CHR ''-'' \<or> c = CHR ''.'' then CHR ''_'' else c) backupName"

definition createJobName :: "Backup \<Rightarrow> string" where
  "createJobName backup =
     (if bk_ScheduleName backup \<noteq> '''' then bk_Name backup
      else backupJobName (bk_Name backup) operationCreate)"

section \<open>Locations\<close>

record backupLocation =
  loc_storage :: BackupStorage
  loc_rootPath :: string
  loc_name :: string

definition resolveBackupLocation :: "'w ctx \<Rightarrow> 'w \<Rightarrow> Backup \<Rightarrow> backupLocation result" where
  "resolveBackupLocation c w backup =
     bind_result (GetBackupStorage (api c) w (bk_StorageRef backup)) (\<lambda>bs.
       case bk_OriginType backup of
         OriginExternal \<Rightarrow>
           (case bk_ExternalPath backup of
              None \<Rightarrow> Inl (errorf (''external Backup '' @ quote (bk_Name backup) @ '' has no origin.external.path''))
            | Some externalPath \<Rightarrow>
                let path = trim_both (\<lambda>ch. ch = CHR ''/'') externalPath in
                (case cut_last (CHR ''/'') path of
                   None \<Rightarrow> Inl (errorf (''external Backup '' @ quote (bk_Name backup) @ '' path '' @ quote path
                            @ '' must be <rootPath>/<backup name>''))
                 | Some (root, name) \<Rightarrow>
                     if root = '''' then Inl (errorf (''external Backup '' @ quote (bk_Name backup) @ '' path ''
                            @ quote path @ '' must be <rootPath>/<backup name>''))
                     else Inr \<lparr>loc_storage = bs, loc_rootPath = root, loc_name = name\<rparr>))
       | OriginInstance \<Rightarrow>
           (case bk_InstanceRef backup of
              None \<Rightarrow> Inl (errorf (''backup '' @ quote (bk_Name backup) @ '' has no origin instance''))
            | Some inst \<Rightarrow> Inr
                \<lparr>loc_storage = bs, loc_rootPath = backupRootPath (bk_Namespace backup) inst,
                 loc_name = milvusBackupName (bk_Name backup)\<rparr>))"

section \<open>The Job of an operation\<close>

definition backupJobInstanceLabel :: string where
  "backupJobInstanceLabel = ''backup.milvus.openeverest.io/instance''"

definition backupJobOperationLabel :: string where
  "backupJobOperationLabel = ''backup.milvus.openeverest.io/operation''"

text \<open>The owner is the object's name; a scheduled run has none.\<close>

record backupJobSpec =
  js_owner :: "string option"
  js_op :: backupOperation
  js_instance :: string
  js_args :: "string list"
  js_config :: string
  js_env :: "EnvVar list"
  js_saName :: string
  js_namespace :: string

definition secretEnv :: "string \<Rightarrow> string \<Rightarrow> string \<Rightarrow> EnvVar" where
  "secretEnv name secret key =
     \<lparr>env_Name = name, env_Value = '''',
      env_ValueFrom = Some \<lparr>evs_FieldRef = None,
        evs_SecretKeyRef = Some \<lparr>sks_Name = secret, sks_Key = key\<rparr>, evs_Other = VNull\<rparr>\<rparr>"

text \<open>
  Both callers have read the object store of the BackupStorage first, which fails unless its
  S3 section is set; a nil section would be a panic here.
\<close>

definition backupStorageEnv :: "BackupStorage \<Rightarrow> EnvVar list" where
  "backupStorageEnv bs =
     (let secret = s3_CredentialsSecret (the (bs_S3 bs)) in
      [secretEnv ''BACKUP_STORAGE_AUTH_ACCESS_KEY_ID'' secret ''AWS_ACCESS_KEY_ID'',
       secretEnv ''BACKUP_STORAGE_AUTH_SECRET_ACCESS_KEY'' secret ''AWS_SECRET_ACCESS_KEY''])"

definition milvusEnv :: "string \<Rightarrow> string \<Rightarrow> EnvVar list" where
  "milvusEnv inst storageSecret =
     secretEnv ''MILVUS_PASSWORD'' (credentialsSecretName inst) secretKeyAppliedPassword
     # (if storageSecret \<noteq> '''' then
          [secretEnv ''MILVUS_STORAGE_AUTH_ACCESS_KEY_ID'' storageSecret storageSecretKeyUser,
           secretEnv ''MILVUS_STORAGE_AUTH_SECRET_ACCESS_KEY'' storageSecret storageSecretKeyPassword]
        else [])"

text \<open>
  \<open>UnmarshalResources\<close> is \<open>json.Unmarshal\<close> into empty requirements, whatever it reports.
\<close>

definition backupJobResources :: "lib \<Rightarrow> val" where
  "backupJobResources l =
     (let raw = Getenv l ''MILVUS_BACKUP_RESOURCES'' in
      if raw \<noteq> '''' then UnmarshalResources l raw else VMap [])"

definition defaultMilvusBackupImage :: string where
  "defaultMilvusBackupImage = ''docker.io/milvusdb/milvus-backup:v0.6.0''"

definition backupJobImage :: "lib \<Rightarrow> string" where
  "backupJobImage l =
     (let img = Getenv l ''MILVUS_BACKUP_IMAGE'' in
      if img \<noteq> '''' then img else defaultMilvusBackupImage)"

definition backupJobLabels :: "string \<Rightarrow> backupOperation \<Rightarrow> labels" where
  "backupJobLabels inst op =
     [(''app.kubernetes.io/name'', ''milvus-backup''),
      (''app.kubernetes.io/managed-by'', ''provider-milvus''),
      (backupJobInstanceLabel, inst),
      (backupJobOperationLabel, operation_text op)]"

definition backupJobTemplate :: "lib \<Rightarrow> backupJobSpec \<Rightarrow> string \<Rightarrow> labels \<Rightarrow> JobSpec" where
  "backupJobTemplate l spec configName labels =
     \<lparr>js_BackoffLimit = 0, js_PodLabels = labels, js_RestartPolicy = ''Never'',
      js_ServiceAccountName = js_saName spec,
      js_AutomountServiceAccountToken = (js_saName spec \<noteq> ''''),
      js_SecurityContext = \<lparr>sc_RunAsNonRoot = True, sc_RunAsUser = 65532, sc_RunAsGroup = 65532,
        sc_SeccompProfile = ''RuntimeDefault'', sc_AllowPrivilegeEscalation = False,
        sc_ReadOnlyRootFilesystem = True, sc_DropCapabilities = [''ALL'']\<rparr>,
      js_ContainerName = ''milvus-backup'', js_Image = backupJobImage l,
      js_Command = [''/app/milvus-backup''],
      js_Args = js_args spec @ [''--config'', ''/etc/milvus-backup/backup.yaml''],
      js_Env = js_env spec, js_Resources = backupJobResources l,
      js_TerminationMessagePolicy = ''FallbackToLogsOnError'',
      js_VolumeMounts =
        [\<lparr>vm_Name = ''config'', vm_MountPath = ''/etc/milvus-backup'', vm_ReadOnly = True\<rparr>,
         \<lparr>vm_Name = ''tmp'', vm_MountPath = ''/tmp'', vm_ReadOnly = False\<rparr>],
      js_Volumes = [ConfigMapVolume ''config'' configName, EmptyDirVolume ''tmp'']\<rparr>"

text \<open>
  \<open>controllerutil.CreateOrUpdate\<close> sets the labels, the data and the owner of the ConfigMap.
  The object it is given only has a name and a namespace.
\<close>

definition ensureBackupJob :: "'w ctx \<Rightarrow> backupJobSpec \<Rightarrow> ('w, Job) step" where
  "ensureBackupJob c spec w =
     (let owner = deref (js_owner spec) '''';
          name = backupJobName owner (js_op spec);
          labels = backupJobLabels (js_instance spec) (js_op spec);
          cm = \<lparr>cm_Meta = \<lparr>om_Name = name, om_Namespace = js_namespace spec, om_Labels = labels\<rparr>,
                cm_Data = [(''backup.yaml'', js_config spec)]\<rparr>
      in
      and_then (wrap_error ''ensure milvus-backup config'' (CreateOrUpdateConfigMap (api c) owner cm w))
        (\<lambda>_ w1.
           case GetJob (api c) w1 (js_namespace spec) name of
             Inr job \<Rightarrow> (Inr job, w1)
           | Inl e \<Rightarrow>
               if \<not> IsNotFound e then (Inl (Wrap ''get milvus-backup job'' e), w1)
               else
                 (case SetControllerReference (lib c) owner name of
                    Some e' \<Rightarrow> (Inl e', w1)
                  | None \<Rightarrow>
                      wrap_error ''create milvus-backup job''
                        (CreateJob (api c)
                           \<lparr>job_Name = name, job_Namespace = js_namespace spec, job_Labels = labels,
                            job_Owner = js_owner spec, job_Deleting = False,
                            job_Spec = backupJobTemplate (lib c) spec name labels,
                            job_Conditions = [], job_StartTime = None, job_CompletionTime = None\<rparr> w1))))"

section \<open>The outcome of a Job\<close>

definition JobComplete :: string where "JobComplete = ''Complete''"
definition JobFailed :: string where "JobFailed = ''Failed''"

fun terminal_condition :: "JobCondition list \<Rightarrow> bool \<times> bool" where
  "terminal_condition [] = (False, False)"
| "terminal_condition (cond # conditions) =
     (if jc_Status cond \<noteq> ConditionTrue then terminal_condition conditions
      else if jc_Type cond = JobComplete then (True, True)
      else if jc_Type cond = JobFailed then (False, True)
      else terminal_condition conditions)"

text \<open>The pair is (succeeded, finished).\<close>

definition jobFinished :: "Job \<Rightarrow> bool \<times> bool" where
  "jobFinished job = terminal_condition (job_Conditions job)"

definition jobFinishedAt :: "Job \<Rightarrow> time option" where
  "jobFinishedAt job =
     (case job_CompletionTime job of
        Some t \<Rightarrow> Some t
      | None \<Rightarrow> map_option jc_LastTransitionTime
          (find (\<lambda>cond. jc_Status cond = ConditionTrue \<and>
             (jc_Type cond = JobComplete \<or> jc_Type cond = JobFailed)) (job_Conditions job)))"

definition activeBackupJob :: "'w ctx \<Rightarrow> 'w \<Rightarrow> string \<Rightarrow> string \<Rightarrow> string \<Rightarrow> string result" where
  "activeBackupJob c w namespace inst except =
     (case ListJobs (api c) w namespace inst of
        Inl e \<Rightarrow> Inl (Wrap ''list milvus-backup jobs'' e)
      | Inr jobs \<Rightarrow>
          let names = map job_Name
                (filter (\<lambda>job. \<not> (job_Name job = except \<or> job_Deleting job) \<and> \<not> snd (jobFinished job)) jobs)
          in Inr (case sort names of [] \<Rightarrow> '''' | name # _ \<Rightarrow> name))"

definition lastLines :: "string \<Rightarrow> nat \<Rightarrow> string" where
  "lastLines txt n =
     (let lines = split_on (CHR 0x0A) (trim_space txt) in
      join [CHR 0x0A] (if length lines > n then drop (length lines - n) lines else lines))"

definition failureSummary :: "string \<Rightarrow> string" where
  "failureSummary output =
     (let output = trim_space output in
      case tail_at_last (CHR 0x0A # ''Error:'') output of
        Some tail \<Rightarrow> trim_space (drop 1 tail)
      | None \<Rightarrow> lastLines output 3)"

text \<open>A pod is the termination messages of its containers; \<open>None\<close> has not terminated.\<close>

definition jobFailureMessage :: "'w ctx \<Rightarrow> 'w \<Rightarrow> Job \<Rightarrow> string" where
  "jobFailureMessage c w job =
     (case ListPods (api c) w (job_Namespace job) (job_Name job) of
        Inl _ \<Rightarrow> ''milvus-backup failed''
      | Inr pods \<Rightarrow>
          (case first_some (map (\<lambda>m. if m = Some '''' then None else m) (concat pods)) of
             Some msg \<Rightarrow> failureSummary msg
           | None \<Rightarrow> ''milvus-backup failed''))"

record backupJobState =
  bjs_running :: bool
  bjs_succeeded :: bool
  bjs_failed :: bool
  bjs_message :: string
  bjs_startedAt :: "time option"
  bjs_completedAt :: "time option"

definition readBackupJobState :: "'w ctx \<Rightarrow> 'w \<Rightarrow> Job \<Rightarrow> backupJobState" where
  "readBackupJobState c w job =
     (let state = \<lparr>bjs_running = False, bjs_succeeded = False, bjs_failed = False,
                   bjs_message = '''', bjs_startedAt = job_StartTime job, bjs_completedAt = None\<rparr>;
          (succeeded, finished) = jobFinished job
      in if finished \<and> succeeded
         then state\<lparr>bjs_succeeded := True, bjs_completedAt := jobFinishedAt job\<rparr>
         else if finished
         then state\<lparr>bjs_failed := True, bjs_completedAt := jobFinishedAt job,
                    bjs_message := jobFailureMessage c w job\<rparr>
         else state\<lparr>bjs_running := (job_StartTime job \<noteq> None)\<rparr>)"

text \<open>The collections of \<open>--filter\<close>; Go returns nil when none is named.\<close>

definition filterArg :: "string \<Rightarrow> string list" where
  "filterArg collections =
     (let parts = filter (\<lambda>part. part \<noteq> '''') (map trim_space (split_on (CHR '','') collections)) in
      if parts = [] then [] else [''--filter'', join '','' parts])"

section \<open>Bounded names\<close>

text \<open>
  The contract of a generated name: the full name when it may be used, else a shortened one
  that ends with a tail of its own (a hash, and what the kind of object needs), and never
  more than \<open>limit\<close> characters.
\<close>

locale bounded_name =
  fixes full :: "'a \<Rightarrow> string" and plain :: "'a \<Rightarrow> bool" and tail :: "'a \<Rightarrow> string"
    and name :: "'a \<Rightarrow> string" and limit :: nat and tail_length :: nat
  assumes plain_name: "plain x \<Longrightarrow> name x = full x \<and> length (full x) \<le> limit"
    and short_name: "\<not> plain x \<Longrightarrow> \<exists>start. name x = start @ tail x \<and> length start + tail_length \<le> limit"
    and tails: "length (tail x) = tail_length"
begin

lemma bounded: "length (name x) \<le> limit"
proof (cases "plain x")
  case False
  with short_name [of x] tails [of x] show ?thesis by auto
qed (use plain_name in simp)

lemma same_name:
  assumes "name x = name y" "plain x = plain y"
  shows "if plain x then full x = full y else tail x = tail y"
proof (cases "plain x")
  case True
  with assms plain_name [of x] plain_name [of y] show ?thesis by simp
next
  case False
  then obtain s t where "name x = s @ tail x" "name y = t @ tail y"
    using assms(2) short_name by metis
  with assms(1) tails [of x] tails [of y] have "tail x = tail y" by (metis append_eq_append_conv)
  with False show ?thesis by simp
qed

lemma same_name_mixed: "name x = name y \<Longrightarrow> plain x \<Longrightarrow> \<not> plain y \<Longrightarrow> has_suffix (full x) (tail y)"
  using plain_name [of x] short_name [of y] by (auto simp: has_suffix_iff)

text \<open>Two objects share a name in three ways only.\<close>

lemma shared_name:
  assumes "name x = name y"
  shows "if plain x = plain y then (if plain x then full x = full y else tail x = tail y)
    else if plain x then has_suffix (full x) (tail y) else has_suffix (full y) (tail x)"
proof (cases "plain x = plain y")
  case True
  with same_name [OF assms] show ?thesis by simp
next
  case False
  with same_name_mixed [OF assms] same_name_mixed [OF assms [symmetric]] show ?thesis by auto
qed

end

lemma operationSuffix_length [simp]: "length (operationSuffix op) = 3"
  by (cases op) simp_all

text \<open>The name of the Job of an owner and an operation; the tail is the hash and the suffix.\<close>

definition job_plain :: "string \<times> backupOperation \<Rightarrow> bool" where
  "job_plain x = (length (fst x @ operationSuffix (snd x)) \<le> maxNameLength)"

definition job_tail :: "string \<times> backupOperation \<Rightarrow> string" where
  "job_tail x = ''-'' @ short_hash (fst x @ operationSuffix (snd x)) @ operationSuffix (snd x)"

lemma job_name_short:
  "\<not> job_plain (owner, op) \<Longrightarrow>
     backupJobName owner op =
       trim_right (\<lambda>c. c \<in> set ''-.'') (take 51 owner) @ job_tail (owner, op)"
  by (simp add: backupJobName_def job_plain_def job_tail_def maxNameLength_def Let_def)

interpretation job_name: bounded_name "\<lambda>x. fst x @ operationSuffix (snd x)" job_plain job_tail
  "\<lambda>x. backupJobName (fst x) (snd x)" 63 12
proof
  fix x :: "string \<times> backupOperation"
  show "job_plain x \<Longrightarrow> backupJobName (fst x) (snd x) = fst x @ operationSuffix (snd x) \<and>
      length (fst x @ operationSuffix (snd x)) \<le> 63"
    by (simp add: job_plain_def backupJobName_def maxNameLength_def)
  show "\<exists>start. backupJobName (fst x) (snd x) = start @ job_tail x \<and> length start + 12 \<le> 63"
    if "\<not> job_plain x"
  proof -
    have "length (trim_right (\<lambda>c. c \<in> set ''-.'') (take 51 (fst x))) \<le> 51"
      by (rule order_trans [OF trim_right_length]) simp
    with job_name_short [of "fst x" "snd x"] that show ?thesis by auto
  qed
  show "length (job_tail x) = 12" by (simp add: job_tail_def)
qed

lemma backupJobName_suffix: "\<exists>start. backupJobName owner op = start @ operationSuffix op"
  using job_name_short [of owner op] by (cases "job_plain (owner, op)")
    (auto simp: job_plain_def backupJobName_def job_tail_def)

section \<open>Lemmas\<close>

lemma terminal_condition_finished:
  "snd (terminal_condition cs) \<longleftrightarrow>
     (\<exists>x\<in>set cs. jc_Status x = ConditionTrue \<and> (jc_Type x = JobComplete \<or> jc_Type x = JobFailed))"
  by (induction cs) auto

lemma terminal_condition_succeeded: "fst (terminal_condition cs) \<Longrightarrow> snd (terminal_condition cs)"
  by (induction cs) (auto split: if_splits)

lemma trim_space_ends:
  "trim_space s \<noteq> '''' \<Longrightarrow> \<not> is_space (hd (trim_space s)) \<and> \<not> is_space (last (trim_space s))"
  unfolding trim_space_def by (rule trim_both_ends)

lemma trim_left_id: "s \<noteq> [] \<Longrightarrow> \<not> p (hd s) \<Longrightarrow> trim_left p s = s"
  by (cases s) (simp_all add: trim_left_def)

lemma trim_right_id: "s \<noteq> [] \<Longrightarrow> \<not> p (last s) \<Longrightarrow> trim_right p s = s"
  by (cases s rule: rev_cases) (simp_all add: trim_right_def)

lemma trim_both_id: "s = [] \<or> \<not> p (hd s) \<and> \<not> p (last s) \<Longrightarrow> trim_both p s = s"
  by (cases "s = []") (simp_all add: trim_both_def trim_left_id trim_right_id, simp add: trim_left_def trim_right_def)

lemma split_on_join:
  assumes "ps \<noteq> []" "\<forall>p\<in>set ps. c \<notin> set p"
  shows "split_on c (join [c] ps) = ps"
  using assms
proof (induction ps rule: induct_list012)
  case (2 p)
  then have "c \<notin> set p" by simp
  then show ?case by (induction p) auto
next
  case (3 p q ps)
  have one: "split_on c (p @ c # rest) = p # split_on c rest" if "c \<notin> set p" for p rest
    using that by (induction p) auto
  from 3 show ?case by (simp add: one)
qed simp

lemma activeBackupJob_Inr:
  assumes "ListJobs (api c) w ns inst = Inr jobs" "\<forall>j\<in>set jobs. job_Name j \<noteq> ''''"
    and "activeBackupJob c w ns inst except = Inr other"
  shows "other = '''' \<longleftrightarrow>
    (\<forall>j\<in>set jobs. job_Name j = except \<or> job_Deleting j \<or> snd (jobFinished j))"
proof -
  let ?names = "map job_Name
      (filter (\<lambda>job. \<not> (job_Name job = except \<or> job_Deleting job) \<and> \<not> snd (jobFinished job)) jobs)"
  have other: "other = (case sort ?names of [] \<Rightarrow> '''' | name # _ \<Rightarrow> name)"
    using assms(1,3) by (simp add: activeBackupJob_def)
  show ?thesis
  proof (cases "sort ?names")
    case Nil
    have "set ?names = {}" using arg_cong [OF Nil, of set] by (simp only: set_sort list.set)
    then have "?names = []" by (simp only: set_empty)
    then have "filter (\<lambda>job. \<not> (job_Name job = except \<or> job_Deleting job) \<and> \<not> snd (jobFinished job)) jobs = []"
      by simp
    with Nil other show ?thesis by (auto simp: filter_empty_conv)
  next
    case (Cons n ns')
    have "n \<in> set ?names" using arg_cong [OF Cons, of set] by (simp only: set_sort list.set insertI1)
    with Cons other assms(2) show ?thesis by auto
  qed
qed

lemma milvusBackupName_eq:
  "milvusBackupName n = milvusBackupName n' \<longleftrightarrow>
     list_all2 (\<lambda>a b. a = b \<or> a \<in> set ''-._'' \<and> b \<in> set ''-._'') n n'"
proof -
  have "milvusBackupName n = milvusBackupName n' \<longleftrightarrow>
      list_all2 (\<lambda>a b. (if a = CHR ''-'' \<or> a = CHR ''.'' then CHR ''_'' else a) =
        (if b = CHR ''-'' \<or> b = CHR ''.'' then CHR ''_'' else b)) n n'"
    by (simp add: milvusBackupName_def list_all2_map1 list_all2_map2 flip: list.rel_eq)
  also have "\<dots> \<longleftrightarrow> list_all2 (\<lambda>a b. a = b \<or> a \<in> set ''-._'' \<and> b \<in> set ''-._'') n n'"
    by (intro arg_cong3 [where f = list_all2] ext) auto
  finally show ?thesis .
qed

lemma only_dashes:
  assumes "list_all2 (\<lambda>a b. a = b \<or> a \<in> set ''-._'' \<and> b \<in> set ''-._'') n n'"
    and "set n \<inter> {CHR ''.'', CHR ''_''} = {}" "set n' \<inter> {CHR ''.'', CHR ''_''} = {}"
  shows "n = n'"
  using assms by (induction rule: list_all2_induct) auto

section \<open>Properties\<close>

text \<open>
  C18: generated Job names are valid and tell operations and owners apart. A Job name never has
  more than 63 characters, and two operations on objects of any names never share one. Two
  owners share the Job of an operation only if they have the same name, or both names were
  shortened and their hashes collide, or the name of one, kept as it is, ends with the very
  hash the other's was shortened to.
\<close>

theorem job_names_apart:
  "length (backupJobName owner op) \<le> 63 \<and>
   (backupJobName owner op = backupJobName owner' op' \<longrightarrow> op = op' \<and>
     (if job_plain (owner, op) = job_plain (owner', op')
      then (if job_plain (owner, op) then owner = owner'
            else short_hash (owner @ operationSuffix op) = short_hash (owner' @ operationSuffix op'))
      else if job_plain (owner, op) then has_suffix (owner @ operationSuffix op) (job_tail (owner', op'))
      else has_suffix (owner' @ operationSuffix op') (job_tail (owner, op))))"
proof -
  have op: "op = op'" if eq: "backupJobName owner op = backupJobName owner' op'"
  proof -
    obtain s t where "s @ operationSuffix op = t @ operationSuffix op'"
      using backupJobName_suffix [of owner op] backupJobName_suffix [of owner' op'] eq by metis
    then have "operationSuffix op = operationSuffix op'"
      by (metis append_eq_append_conv operationSuffix_length)
    then show ?thesis by (cases op; cases op') simp_all
  qed
  have tail: "job_tail (owner, op) = job_tail (owner', op) \<longleftrightarrow>
      short_hash (owner @ operationSuffix op) = short_hash (owner' @ operationSuffix op)"
    by (simp add: job_tail_def)
  show ?thesis
    using job_name.bounded [of "(owner, op)"] job_name.shared_name [of "(owner, op)" "(owner', op')"]
      op tail by auto
qed

theorem job_names_apart_witness:
  "length (backupJobName ''nightly'' operationCreate) \<le> 63 \<and>
   backupJobName ''nightly'' operationCreate \<noteq> backupJobName ''nightly'' operationDelete"
  using job_names_apart [of "''nightly''" operationCreate "''nightly''" operationDelete] by auto

text \<open>
  C20: which Backups share their data. Two Backups of instances in one bucket have the same
  location if and only if they have the same namespace and instance, and names that are equal
  up to dashes, dots and underscores; so Backups whose names have no dot or underscore share a
  location only if they are the same. The milvus-backup name has no dash or dot, which the tool
  does not accept.
\<close>

theorem backup_locations_apart:
  assumes "resolveBackupLocation c w b = Inr l" "resolveBackupLocation c' w' b' = Inr l'"
    and "bk_OriginType b = OriginInstance" "bk_OriginType b' = OriginInstance"
    and "CHR ''/'' \<notin> set (bk_Namespace b)" "CHR ''/'' \<notin> set (bk_Namespace b')"
  shows "CHR ''-'' \<notin> set (loc_name l) \<and> CHR ''.'' \<notin> set (loc_name l) \<and>
    (loc_rootPath l = loc_rootPath l' \<and> loc_name l = loc_name l' \<longleftrightarrow>
       bk_Namespace b = bk_Namespace b' \<and> bk_InstanceRef b = bk_InstanceRef b' \<and>
       list_all2 (\<lambda>x y. x = y \<or> x \<in> set ''-._'' \<and> y \<in> set ''-._'') (bk_Name b) (bk_Name b')) \<and>
    (loc_rootPath l = loc_rootPath l' \<and> loc_name l = loc_name l' \<and>
       set (bk_Name b) \<inter> {CHR ''.'', CHR ''_''} = {} \<and> set (bk_Name b') \<inter> {CHR ''.'', CHR ''_''} = {} \<longrightarrow>
       bk_Name b = bk_Name b')"
proof -
  obtain i where i: "bk_InstanceRef b = Some i" "loc_rootPath l = backupRootPath (bk_Namespace b) i"
    "loc_name l = milvusBackupName (bk_Name b)"
    using assms(1,3) by (auto simp: resolveBackupLocation_def error_simps split: option.splits)
  obtain i' where i': "bk_InstanceRef b' = Some i'" "loc_rootPath l' = backupRootPath (bk_Namespace b') i'"
    "loc_name l' = milvusBackupName (bk_Name b')"
    using assms(2,4) by (auto simp: resolveBackupLocation_def error_simps split: option.splits)
  have chars: "CHR ''-'' \<notin> set (loc_name l) \<and> CHR ''.'' \<notin> set (loc_name l)"
    by (auto simp: i(3) milvusBackupName_def)
  have root: "loc_rootPath l = loc_rootPath l' \<longleftrightarrow> bk_Namespace b = bk_Namespace b' \<and> i = i'"
  proof
    assume "loc_rootPath l = loc_rootPath l'"
    with i(2) i'(2) have "cut_first (CHR ''/'') (bk_Namespace b @ CHR ''/'' # i) =
        cut_first (CHR ''/'') (bk_Namespace b' @ CHR ''/'' # i')"
      by (simp add: backupRootPath_def)
    with assms(5,6) show "bk_Namespace b = bk_Namespace b' \<and> i = i'" by simp
  qed (simp add: i(2) i'(2))
  have name: "loc_name l = loc_name l' \<longleftrightarrow>
      list_all2 (\<lambda>x y. x = y \<or> x \<in> set ''-._'' \<and> y \<in> set ''-._'') (bk_Name b) (bk_Name b')"
    unfolding i(3) i'(3) by (rule milvusBackupName_eq)
  show ?thesis
    unfolding root name using chars only_dashes [of "bk_Name b" "bk_Name b'"] i(1) i'(1) by auto
qed

definition backup_bucket :: BackupStorage where
  "backup_bucket = \<lparr>bs_Name = ''s3'', bs_Type = ''s3'',
     bs_S3 = Some \<lparr>s3_EndpointURL = ''https://s3.example.com'', s3_Bucket = ''bucket'', s3_Region = '''',
                   s3_VerifyTLS = None, s3_CredentialsSecret = ''keys''\<rparr>\<rparr>"

definition sample_backup :: "string \<Rightarrow> Backup" where
  "sample_backup name =
     \<lparr>bk_Name = name, bk_Namespace = ''ns'', bk_Deleting = False, bk_CreationTimestamp = 0,
      bk_OriginType = OriginInstance, bk_InstanceRef = Some ''inst'', bk_ExternalPath = None,
      bk_ClassRef = ''milvus-backup'', bk_StorageRef = ''s3'', bk_ScheduleName = '''',
      bk_Parameters = None, bk_DeletionPolicy = PolicyDelete, bk_State = StateNone,
      bk_Message = '''', bk_OperatorRef = None, bk_StartedAt = None, bk_CompletedAt = None,
      bk_Size = ''''\<rparr>"

definition storage_ctx :: "'w ctx" where
  "storage_ctx = sample_ctx\<lparr>api := sample_api\<lparr>GetBackupStorage := \<lambda>_ _. Inr backup_bucket\<rparr>\<rparr>"

lemma storage_ctx_simps [simp]:
  "GetBackupStorage (api storage_ctx) w n = Inr backup_bucket" "Name storage_ctx = ''inst''"
  "Namespace storage_ctx = ''ns''" "lib storage_ctx = sample_lib"
  by (simp_all add: storage_ctx_def sample_ctx_def)

lemma sample_backup_location:
  "resolveBackupLocation storage_ctx w (sample_backup name) =
     Inr \<lparr>loc_storage = backup_bucket, loc_rootPath = ''everest/milvus/ns/inst'',
          loc_name = milvusBackupName name\<rparr>"
  by (simp add: resolveBackupLocation_def sample_backup_def backupRootPath_def)

theorem backup_locations_apart_witness:
  "milvusBackupName ''nightly-1'' \<noteq> milvusBackupName ''nightly-2'' \<and>
   CHR ''-'' \<notin> set (milvusBackupName ''nightly-1'')"
  using backup_locations_apart [OF sample_backup_location [of "()" "''nightly-1''"]
      sample_backup_location [of "()" "''nightly-2''"]]
  by (auto simp: sample_backup_def)



text \<open>
  Two Backups of an instance whose names differ only in a dash for a dot have the same
  location, so each overwrites or deletes the data of the other.
\<close>

theorem dash_and_dot_backups_collide:
  "resolveBackupLocation c w (b\<lparr>bk_Name := ''daily-1'', bk_OriginType := OriginInstance, bk_InstanceRef := Some i\<rparr>) =
   resolveBackupLocation c w (b\<lparr>bk_Name := ''daily.1'', bk_OriginType := OriginInstance, bk_InstanceRef := Some i\<rparr>)"
  by (simp add: resolveBackupLocation_def milvusBackupName_def)

text \<open>
  An external Backup that names the path of an instance's backup reaches the same data:
  resolving it gives back the location the path was built from, slashes around it included.
\<close>

theorem external_backup_roundtrip:
  assumes "resolveBackupLocation c w b = Inr l" "bk_OriginType b = OriginInstance"
    and "CHR ''/'' \<notin> set (bk_Name b)" "bk_Name b \<noteq> ''''"
    and "bk_OriginType e = OriginExternal" "bk_StorageRef e = bk_StorageRef b"
    and "bk_ExternalPath e = Some (''/'' @ loc_rootPath l @ ''/'' @ loc_name l @ ''/'')"
  shows "resolveBackupLocation c w e = Inr l"
proof -
  obtain i bs where i: "GetBackupStorage (api c) w (bk_StorageRef b) = Inr bs"
    "l = \<lparr>loc_storage = bs, loc_rootPath = backupRootPath (bk_Namespace b) i,
          loc_name = milvusBackupName (bk_Name b)\<rparr>"
    using assms(1,2) by (auto simp: resolveBackupLocation_def error_simps split: option.splits)
  let ?path = "loc_rootPath l @ ''/'' @ loc_name l" and ?slash = "\<lambda>ch. ch = CHR ''/''"
  have name: "CHR ''/'' \<notin> set (loc_name l)" "loc_name l \<noteq> ''''"
    using assms(3,4) by (auto simp: i(2) milvusBackupName_def)
  have hd: "hd ?path \<noteq> CHR ''/''" "loc_rootPath l \<noteq> ''''" by (simp_all add: i(2) backupRootPath_def)
  have last: "last ?path \<noteq> CHR ''/''" 
  proof -
    have "last ?path = last (loc_name l)" using name(2) by simp
    with name(1) last_in_set [OF name(2)] show ?thesis by metis
  qed
  have right: "trim_right ?slash (''/'' @ ?path @ ''/'') = ''/'' @ ?path"
  proof -
    have "trim_right ?slash ((''/'' @ ?path) @ ''/'') = trim_right ?slash (''/'' @ ?path)"
      by (simp only: trim_right_def rev_append) simp
    also have "\<dots> = ''/'' @ ?path" by (rule trim_right_id) (use last in simp_all)
    finally show ?thesis by simp
  qed
  have "trim_left ?slash (''/'' @ ?path) = trim_left ?slash ?path" by (simp add: trim_left_def)
  also have "\<dots> = ?path" by (rule trim_left_id) (use hd in simp_all)
  finally have trim: "trim_both ?slash (''/'' @ ?path @ ''/'') = ?path"
    using right by (simp only: trim_both_def)
  have cut: "cut_last (CHR ''/'') ?path = Some (loc_rootPath l, loc_name l)"
    using cut_last_append [OF name(1), of "loc_rootPath l"] by simp
  have "trim_both ?slash (''/'' @ loc_rootPath l @ ''/'' @ loc_name l @ ''/'') = ?path"
    using trim by simp
  with cut hd(2) assms(5-7) i show ?thesis
    by (simp add: resolveBackupLocation_def Let_def del: cut_last.simps)
qed

theorem external_backup_roundtrip_witness:
  "resolveBackupLocation (storage_ctx :: unit ctx) ()
     ((sample_backup ''imported'')\<lparr>bk_OriginType := OriginExternal,
        bk_ExternalPath := Some ''/everest/milvus/ns/inst/nightly_1/''\<rparr>) =
   Inr \<lparr>loc_storage = backup_bucket, loc_rootPath = ''everest/milvus/ns/inst'', loc_name = ''nightly_1''\<rparr>"
proof -
  have name: "milvusBackupName ''nightly-1'' = ''nightly_1''" by (simp add: milvusBackupName_def)
  show ?thesis
    by (rule external_backup_roundtrip [OF sample_backup_location [of "()" "''nightly-1''", unfolded name]])
      (simp_all add: sample_backup_def)
qed

text \<open>
  A Job has one outcome. It is never both succeeded and failed, nor running once it is
  either; it has an outcome, and a completion time, exactly when one of its terminal
  conditions is true; and only a failed one has a message.
\<close>

theorem job_outcome_is_exclusive:
  "let s = readBackupJobState c w job in
     \<not> (bjs_succeeded s \<and> bjs_failed s) \<and> \<not> (bjs_running s \<and> (bjs_succeeded s \<or> bjs_failed s)) \<and>
     (bjs_completedAt s \<noteq> None) = (bjs_succeeded s \<or> bjs_failed s) \<and>
     (bjs_succeeded s \<or> bjs_failed s) =
       (\<exists>x\<in>set (job_Conditions job). jc_Status x = ConditionTrue \<and> jc_Type x \<in> {JobComplete, JobFailed}) \<and>
     \<not> (bjs_message s \<noteq> '''' \<and> \<not> bjs_failed s)"
proof -
  let ?t = "terminal_condition (job_Conditions job)"
  have at: "jobFinishedAt job \<noteq> None" if "snd ?t"
  proof -
    let ?P = "\<lambda>x. jc_Status x = ConditionTrue \<and> (jc_Type x = JobComplete \<or> jc_Type x = JobFailed)"
    have "\<exists>x. x \<in> set (job_Conditions job) \<and> ?P x"
      using that terminal_condition_finished [of "job_Conditions job"] by blast
    then have "find ?P (job_Conditions job) \<noteq> None" by (simp only: find_None_iff not_not)
    then show ?thesis by (simp only: jobFinishedAt_def) (simp split: option.split)
  qed
  show ?thesis
    using at terminal_condition_finished [of "job_Conditions job"]
    by (cases ?t) (auto simp: readBackupJobState_def jobFinished_def Let_def)
qed

end
