(* ===== verification/Backup.thy ===== *)
theory Backup
  imports BackupJob Version
begin

text \<open>
  \<open>internal/provider/backup.go\<close>: taking a backup, deleting its data and restoring it, each in
  a Job, and seeding a new instance. Reading and deciding comes first and changes nothing;
  \<open>ensureBackupJob\<close> is the only write.
\<close>

section \<open>Shared steps\<close>

definition minRestoreVersion :: string where "minRestoreVersion = ''2.6.12''"

text \<open>The pattern is anchored: letters, digits and underscores only.\<close>

definition collectionSuffixPattern :: "string \<Rightarrow> bool" where
  "collectionSuffixPattern s =
     list_all (\<lambda>ch. ch \<in> set ''ABCDEFGHIJKLMNOPQRSTUVWXYZabcdefghijklmnopqrstuvwxyz0123456789_'') s"

text \<open>The reference to a Job is its name; group and kind are constant.\<close>

definition jobRef :: "string \<Rightarrow> string option" where
  "jobRef name = Some name"

text \<open>The Milvus CR, or the reason to wait for it.\<close>

definition healthyMilvus :: "'w ctx \<Rightarrow> 'w \<Rightarrow> (string + Milvus) result" where
  "healthyMilvus c w =
     (case existing_milvus c w of
        Inl e \<Rightarrow> if IsNotFound e then Inr (Inl ''waiting for Milvus to be created'')
                 else Inl (Wrap ''get Milvus'' e)
      | Inr cr \<Rightarrow>
          if Status (CRStatus cr) \<noteq> StatusHealthy then Inr (Inl ''waiting for Milvus to be healthy'')
          else Inr (Inr cr))"

definition decodeParameters :: "(string \<Rightarrow> 'p result) \<Rightarrow> 'p \<Rightarrow> string option \<Rightarrow> 'p result" where
  "decodeParameters unmarshal params raw =
     (case raw of None \<Rightarrow> Inr params | Some r \<Rightarrow> if r = '''' then Inr params else unmarshal r)"

definition existingJob :: "'w ctx \<Rightarrow> 'w \<Rightarrow> string \<Rightarrow> string \<Rightarrow> Job option result" where
  "existingJob c w namespace name =
     (case GetJob (api c) w namespace name of
        Inr job \<Rightarrow> Inr (Some job)
      | Inl e \<Rightarrow> if IsNotFound e then Inr None else Inl (Wrap (''get job '' @ quote name) e))"

definition operationJobSpec ::
  "'w ctx \<Rightarrow> 'w \<Rightarrow> Milvus \<Rightarrow> backupLocation \<Rightarrow> string option \<Rightarrow> backupJobSpec result" where
  "operationJobSpec c w cr location owner =
     bind_result (milvusObjectStore c w (Name c)) (\<lambda>milvusStore.
     bind_result (backupStorageObjectStore (lib c) (loc_storage location) (loc_rootPath location)) (\<lambda>backupStore.
     bind_result (milvusBackupConfig (lib c) (Name c) (Namespace c) milvusStore backupStore) (\<lambda>config.
     Inr \<lparr>js_owner = owner, js_op = operationCreate, js_instance = Name c, js_args = [],
          js_config = config,
          js_env = milvusEnv (Name c) (milvusStorageSecret cr milvusStore)
                   @ backupStorageEnv (loc_storage location),
          js_saName = (if os_UseIAM milvusStore then ServiceAccountName (Com (Spec cr)) else ''''),
          js_namespace = Namespace c\<rparr>)))"

section \<open>Early returns\<close>

text \<open>
  What a Sync function returns before it reaches its Job (\<open>Inl\<close>): an error, or a status
  that is pending or failed.
\<close>

type_synonym 'a or_return = "ExecutionStatus result + 'a"

definition zero_ExecutionStatus :: ExecutionStatus where
  "zero_ExecutionStatus =
     \<lparr>xs_State = StateNone, xs_Message = '''', xs_OperatorRef = None, xs_StartedAt = None,
      xs_CompletedAt = None, xs_Size = ''''\<rparr>"

definition pending :: "string \<Rightarrow> 'a or_return" where
  "pending message = Inl (Inr (zero_ExecutionStatus\<lparr>xs_State := StatePending, xs_Message := message\<rparr>))"

definition failed :: "string \<Rightarrow> 'a or_return" where
  "failed message = Inl (Inr (zero_ExecutionStatus\<lparr>xs_State := StateFailed, xs_Message := message\<rparr>))"

definition or_error :: "'a result \<Rightarrow> 'a or_return" where
  "or_error r = (case r of Inl e \<Rightarrow> Inl (Inl e) | Inr x \<Rightarrow> Inr x)"

definition or_failed :: "string \<Rightarrow> 'a result \<Rightarrow> 'a or_return" where
  "or_failed prefix r = (case r of Inl e \<Rightarrow> failed (prefix @ error_text e) | Inr x \<Rightarrow> Inr x)"

text \<open>The checks both operations make: a healthy Milvus, and no other run on the instance.\<close>

definition require_healthy :: "'w ctx \<Rightarrow> 'w \<Rightarrow> Milvus or_return" where
  "require_healthy c w =
     bind_result (or_error (healthyMilvus c w))
       (\<lambda>r. case r of Inl wait \<Rightarrow> pending wait | Inr cr \<Rightarrow> Inr cr)"

definition require_idle :: "'w ctx \<Rightarrow> 'w \<Rightarrow> string \<Rightarrow> string \<Rightarrow> unit or_return" where
  "require_idle c w namespace name =
     bind_result (or_error (activeBackupJob c w namespace (Name c) name))
       (\<lambda>other. if other \<noteq> '''' then pending (''waiting for '' @ other @ '' to finish'') else Inr ())"

definition require_location :: "'w ctx \<Rightarrow> 'w \<Rightarrow> Backup \<Rightarrow> backupLocation or_return" where
  "require_location c w backup =
     (case resolveBackupLocation c w backup of
        Inl e \<Rightarrow> if IsNotFound e then pending (''waiting for BackupStorage '' @ quote (bk_StorageRef backup))
                 else failed (error_text e)
      | Inr location \<Rightarrow> Inr location)"

text \<open>The status read off a Job.\<close>

definition job_status :: "'w ctx \<Rightarrow> 'w \<Rightarrow> Job \<Rightarrow> ExecutionStatus" where
  "job_status c w job =
     (let state = readBackupJobState c w job in
      \<lparr>xs_State = (if bjs_succeeded state then StateSucceeded
                   else if bjs_failed state then StateFailed
                   else if bjs_running state then StateRunning else StatePending),
       xs_Message = bjs_message state, xs_OperatorRef = jobRef (job_Name job),
       xs_StartedAt = bjs_startedAt state, xs_CompletedAt = bjs_completedAt state, xs_Size = ''''\<rparr>)"

text \<open>The frame both operations share: an existing Job is only read; else it is requested.\<close>

definition sync_operation ::
  "'w ctx \<Rightarrow> string \<Rightarrow> string \<Rightarrow> ('w \<Rightarrow> backupJobSpec or_return) \<Rightarrow> ('w, ExecutionStatus) step" where
  "sync_operation c namespace name job_request w =
     (case existingJob c w namespace name of
        Inl e \<Rightarrow> (Inl e, w)
      | Inr (Some job) \<Rightarrow> (Inr (job_status c w job), w)
      | Inr None \<Rightarrow>
          (case job_request w of
             Inl returned \<Rightarrow> (returned, w)
           | Inr spec \<Rightarrow> and_then (ensureBackupJob c spec w) (\<lambda>job w'. (Inr (job_status c w' job), w'))))"

section \<open>Backups\<close>

definition scheduledRunWithoutJob :: "Backup \<Rightarrow> ExecutionStatus" where
  "scheduledRunWithoutJob backup =
     (if bk_State backup = StateSucceeded \<or> bk_State backup = StateFailed
      then \<lparr>xs_State = bk_State backup, xs_Message = bk_Message backup,
            xs_OperatorRef = bk_OperatorRef backup, xs_StartedAt = bk_StartedAt backup,
            xs_CompletedAt = bk_CompletedAt backup, xs_Size = bk_Size backup\<rparr>
      else zero_ExecutionStatus
            \<lparr>xs_State := StateFailed, xs_Message := ''the scheduled backup's Job was removed before it finished''\<rparr>)"

definition backup_request :: "'w ctx \<Rightarrow> Backup \<Rightarrow> 'w \<Rightarrow> backupJobSpec or_return" where
  "backup_request c backup w =
     (if bk_ScheduleName backup \<noteq> '''' then Inl (Inr (scheduledRunWithoutJob backup))
      else
        bind_result (or_failed ''invalid parameters: ''
          (decodeParameters (DecodeBackupParameters (lib c)) zero_MilvusBackupParameters (bk_Parameters backup)))
        (\<lambda>params.
        bind_result (require_healthy c w) (\<lambda>cr.
        bind_result (require_idle c w (bk_Namespace backup) (createJobName backup)) (\<lambda>_.
        bind_result (require_location c w backup) (\<lambda>location.
        bind_result (or_failed '''' (operationJobSpec c w cr location (Some (bk_Name backup)))) (\<lambda>spec.
        Inr (spec\<lparr>js_op := operationCreate,
          js_args := [''create'', ''-n'', loc_name location] @ filterArg (bp_Collections params)
                     @ (if bp_IncludeRBAC params then [''--rbac''] else [])\<rparr>)))))))"

definition SyncBackup :: "'w ctx \<Rightarrow> Backup \<Rightarrow> ('w, ExecutionStatus) step" where
  "SyncBackup c backup =
     sync_operation c (bk_Namespace backup) (createJobName backup) (backup_request c backup)"

text \<open>\<open>strings.Replace(s, from, to, 1)\<close> for a non-empty \<open>from\<close>.\<close>

fun replace_first :: "string \<Rightarrow> string \<Rightarrow> string \<Rightarrow> string" where
  "replace_first from to [] = []"
| "replace_first from to (x # xs) =
     (if has_prefix (x # xs) from then to @ drop (length from) (x # xs)
      else x # replace_first from to xs)"

definition backupProducedData :: "'w ctx \<Rightarrow> 'w \<Rightarrow> Backup \<Rightarrow> bool result" where
  "backupProducedData c w backup =
     bind_result (existingJob c w (bk_Namespace backup) (createJobName backup))
       (\<lambda>job. case job of
          None \<Rightarrow> Inr (bk_CompletedAt backup \<noteq> None)
        | Some j \<Rightarrow> Inr (fst (jobFinished j)))"

text \<open>A failed delete counts as done, so that it cannot block the deletion forever.\<close>

definition delete_done :: "'w ctx \<Rightarrow> 'w \<Rightarrow> Job \<Rightarrow> bool" where
  "delete_done c w job =
     (let state = readBackupJobState c w job in bjs_failed state \<or> bjs_succeeded state)"

text \<open>The delete Job to create, or what \<open>CleanupBackup\<close> returns without one.\<close>

definition delete_request :: "'w ctx \<Rightarrow> Backup \<Rightarrow> 'w \<Rightarrow> bool result + backupJobSpec" where
  "delete_request c backup w =
     (case resolveBackupLocation c w backup of
        Inl e \<Rightarrow> if IsNotFound e then Inl (Inr True) else Inl (Inl e)
      | Inr location \<Rightarrow>
          (case backupStorageObjectStore (lib c) (loc_storage location) (loc_rootPath location) of
             Inl _ \<Rightarrow> Inl (Inr True)
           | Inr store \<Rightarrow>
               (case milvusBackupConfig (lib c) (Name c) (bk_Namespace backup) store store of
                  Inl e \<Rightarrow> Inl (Inl e)
                | Inr config \<Rightarrow>
                    let storageEnv = backupStorageEnv (loc_storage location) in
                    Inr \<lparr>js_owner = Some (bk_Name backup), js_op = operationDelete,
                         js_instance = Name c, js_args = [''delete'', ''-n'', loc_name location],
                         js_config = config,
                         js_env = storageEnv @ map (\<lambda>ev. ev\<lparr>env_Name :=
                           replace_first ''BACKUP_'' ''MILVUS_'' (env_Name ev)\<rparr>) storageEnv,
                         js_saName = '''', js_namespace = bk_Namespace backup\<rparr>)))"

definition CleanupBackup :: "'w ctx \<Rightarrow> Backup \<Rightarrow> ('w, bool) step" where
  "CleanupBackup c backup w =
     (if bk_DeletionPolicy backup = PolicyRetain then (Inr True, w)
      else
        (case backupProducedData c w backup of
           Inl e \<Rightarrow> (Inl e, w)
         | Inr produced \<Rightarrow>
             if \<not> produced then (Inr True, w)
             else
               (case existingJob c w (bk_Namespace backup) (backupJobName (bk_Name backup) operationDelete) of
                  Inl e \<Rightarrow> (Inl e, w)
                | Inr (Some job) \<Rightarrow> (Inr (delete_done c w job), w)
                | Inr None \<Rightarrow>
                    (case delete_request c backup w of
                       Inl returned \<Rightarrow> (returned, w)
                     | Inr spec \<Rightarrow> and_then (ensureBackupJob c spec w)
                         (\<lambda>job w'. (Inr (delete_done c w' job), w'))))))"

section \<open>Restores\<close>

definition require_source :: "'w ctx \<Rightarrow> 'w \<Rightarrow> string \<Rightarrow> Backup or_return" where
  "require_source c w name =
     (case GetBackup (api c) w name of
        Inl e \<Rightarrow> if IsNotFound e then pending ''waiting for the source Backup''
                 else Inl (Inl (Wrap ''get source Backup'' e))
      | Inr source \<Rightarrow>
          if bk_State source = StateSucceeded then Inr source
          else if bk_State source = StateFailed \<or> bk_State source = StateError
          then failed (''source Backup '' @ quote (bk_Name source) @ '' failed'')
          else pending (''waiting for source Backup '' @ quote (bk_Name source) @ '' to succeed''))"

definition require_version :: "lib \<Rightarrow> Milvus \<Rightarrow> unit or_return" where
  "require_version l cr =
     (let lowest = lowestComponentVersion l (Com (Spec cr)) in
      if lowest \<noteq> '''' \<and> SemverCompare l (''v'' @ lowest) (''v'' @ minRestoreVersion) < 0
      then failed (''restoring needs Milvus '' @ minRestoreVersion @ '' or newer; this instance runs '' @ lowest)
      else Inr ())"

definition restore_request :: "'w ctx \<Rightarrow> Restore \<Rightarrow> 'w \<Rightarrow> backupJobSpec or_return" where
  "restore_request c restore w =
     (case rs_BackupRef restore of
        None \<Rightarrow> failed ''only restores from a Backup are supported''
      | Some ref \<Rightarrow>
        if \<not> rs_FromBackup restore then failed ''only restores from a Backup are supported''
        else
        bind_result (or_failed ''invalid parameters: ''
          (decodeParameters (DecodeRestoreParameters (lib c)) zero_MilvusRestoreParameters (rs_Parameters restore)))
        (\<lambda>params.
        if \<not> collectionSuffixPattern (rp_CollectionSuffix params)
        then failed ''collectionSuffix may only contain letters, digits and underscores''
        else
        bind_result (require_source c w ref) (\<lambda>source.
        bind_result (require_healthy c w) (\<lambda>cr.
        bind_result (require_version (lib c) cr) (\<lambda>_.
        bind_result (require_idle c w (rs_Namespace restore) (backupJobName (rs_Name restore) operationRestore)) (\<lambda>_.
        bind_result (require_location c w source) (\<lambda>location.
        bind_result (or_failed '''' (operationJobSpec c w cr location (Some (rs_Name restore)))) (\<lambda>spec.
        Inr (spec\<lparr>js_op := operationRestore,
          js_args := [''restore'', ''-n'', loc_name location, ''--rebuild_index'']
                     @ filterArg (rp_Collections params)
                     @ (if rp_KeepExistingCollections params then [] else [''--drop_exist_collection''])
                     @ (if rp_CollectionSuffix params \<noteq> '''' then [''--suffix'', rp_CollectionSuffix params] else [])
                     @ (if rp_IncludeRBAC params then [''--rbac''] else [])\<rparr>)))))))))"

definition SyncRestore :: "'w ctx \<Rightarrow> Restore \<Rightarrow> ('w, ExecutionStatus) step" where
  "SyncRestore c restore =
     sync_operation c (rs_Namespace restore) (backupJobName (rs_Name restore) operationRestore)
       (restore_request c restore)"

definition CleanupRestore :: "Restore \<Rightarrow> ('w, bool) step" where
  "CleanupRestore restore w = (Inr True, w)"

text \<open>\<open>ListRestores\<close> lists those of the namespace that target the instance.\<close>

definition activeRestore :: "'w ctx \<Rightarrow> 'w \<Rightarrow> bool result" where
  "activeRestore c w =
     (case ListRestores (api c) w of
        Inl e \<Rightarrow> Inl (Wrap ''list restores'' e)
      | Inr restores \<Rightarrow> Inr (list_ex (\<lambda>restore. \<not> rs_Deleting restore \<and>
          \<not> (rs_State restore = StateSucceeded \<or> rs_State restore = StateFailed)) restores))"

definition syncDataSource :: "'w ctx \<Rightarrow> ('w, unit) step" where
  "syncDataSource c w =
     (if \<not> in_HasDataSource (Inst c) then (Inr (), w)
      else
        (case healthyMilvus c w of
           Inl e \<Rightarrow> (Inl e, w)
         | Inr (Inl wait) \<Rightarrow>
             (Inr (), SetDataSourceStatus (api c)
                \<lparr>ds_State = DataSourceStateWaiting (lib c),
                 ds_Reason = ReasonDataSourceWaitingForCluster (lib c),
                 ds_Message = wait, ds_Done = False\<rparr> w)
         | Inr (Inr _) \<Rightarrow> wrap_error ''reconcile data source'' (ReconcileDataSource (api c) w)))"

definition enqueueRestoreInstance :: "Restore option \<Rightarrow> (string \<times> string) list" where
  "enqueueRestoreInstance obj =
     (case obj of
        None \<Rightarrow> []
      | Some restore \<Rightarrow>
          if rs_InstanceRef restore = '''' then [] else [(rs_Namespace restore, rs_InstanceRef restore)])"

section \<open>The contract of a Job-backed operation\<close>

text \<open>The API server gives back the Job that was created.\<close>

definition jobs_read_back :: "'w ctx \<Rightarrow> bool" where
  "jobs_read_back c \<longleftrightarrow>
     (\<forall>j w j' w'. CreateJob (api c) j w = (Inr j', w') \<longrightarrow>
        GetJob (api c) w' (job_Namespace j) (job_Name j) = Inr j')"

lemma existingJob_read: "GetJob (api c) w ns name = Inr job \<Longrightarrow> existingJob c w ns name = Inr (Some job)"
  by (simp add: existingJob_def)

text \<open>A Job that was ensured is one that is there, or one that was just created.\<close>

lemma ensureBackupJob_Inr:
  assumes "ensureBackupJob c spec w = (Inr job, w')"
    and "name = backupJobName (deref (js_owner spec) '''') (js_op spec)"
  shows "GetJob (api c) w' (js_namespace spec) name = Inr job \<or>
    (\<exists>j w1. CreateJob (api c) j w1 = (Inr job, w') \<and> job_Namespace j = js_namespace spec \<and> job_Name j = name)"
proof -
  obtain w1 where step: "(case GetJob (api c) w1 (js_namespace spec) name of
      Inr job \<Rightarrow> (Inr job, w1)
    | Inl e \<Rightarrow> if \<not> IsNotFound e then (Inl (Wrap ''get milvus-backup job'' e), w1)
        else (case SetControllerReference (lib c) (deref (js_owner spec) '''') name of
            Some e' \<Rightarrow> (Inl e', w1)
          | None \<Rightarrow> wrap_error ''create milvus-backup job'' (CreateJob (api c)
              \<lparr>job_Name = name, job_Namespace = js_namespace spec,
               job_Labels = backupJobLabels (js_instance spec) (js_op spec),
               job_Owner = js_owner spec, job_Deleting = False,
               job_Spec = backupJobTemplate (lib c) spec name (backupJobLabels (js_instance spec) (js_op spec)),
               job_Conditions = [], job_StartTime = None, job_CompletionTime = None\<rparr> w1))) = (Inr job, w')"
    using assms by (auto simp: ensureBackupJob_def Let_def and_then_Inr)
  show ?thesis
  proof (cases "GetJob (api c) w1 (js_namespace spec) name")
    case (Inr j)
    with step show ?thesis by simp
  next
    case (Inl e)
    with step obtain j where "CreateJob (api c) j w1 = (Inr job, w')"
      "job_Namespace j = js_namespace spec" "job_Name j = name"
      by (auto simp: wrap_error_Inr split: if_splits option.splits)
    then show ?thesis by blast
  qed
qed

text \<open>
  Backups and restores share it: an operation only reads the Job it already has, and starts
  one, under the name it looks for, only when its request succeeds.
\<close>

locale job_operation =
  fixes c :: "'w ctx" and namespace :: "'o \<Rightarrow> string" and job_name :: "'o \<Rightarrow> string"
    and job_request :: "'o \<Rightarrow> 'w \<Rightarrow> backupJobSpec or_return" and sync :: "'o \<Rightarrow> ('w, ExecutionStatus) step"
  assumes sync: "sync x w = sync_operation c (namespace x) (job_name x) (job_request x) w"
    and own_name: "job_request x w = Inr spec \<Longrightarrow>
      js_namespace spec = Namespace c \<and> backupJobName (deref (js_owner spec) '''') (js_op spec) = job_name x"
begin

lemma reads_existing:
  "existingJob c w (namespace x) (job_name x) = Inr (Some job) \<Longrightarrow> sync x w = (Inr (job_status c w job), w)"
  by (simp add: sync sync_operation_def)

lemma starts_only_on_request:
  assumes "snd (sync x w) \<noteq> w"
  shows "existingJob c w (namespace x) (job_name x) = Inr None \<and> (\<exists>spec. job_request x w = Inr spec)"
  using assms by (auto simp: sync sync_operation_def split: sum.splits option.splits)

lemma settles:
  assumes readback: "jobs_read_back c"
    and ns: "namespace x = Namespace c" and run: "sync x w = (Inr st, w')" and moved: "w' \<noteq> w"
  shows "sync x w' = (Inr st, w')"
proof -
  from starts_only_on_request [of x w] run moved obtain spec where
    none: "existingJob c w (namespace x) (job_name x) = Inr None" and spec: "job_request x w = Inr spec"
    by auto
  from run none spec obtain job where job: "ensureBackupJob c spec w = (Inr job, w')"
    and st: "st = job_status c w' job"
    by (auto simp: sync sync_operation_def error_simps)
  have "GetJob (api c) w' (Namespace c) (job_name x) = Inr job"
    using ensureBackupJob_Inr [OF job refl] own_name [OF spec] readback
    unfolding jobs_read_back_def by metis
  then show ?thesis using st by (intro reads_existing [THEN trans]) (simp_all add: existingJob_def ns)
qed

end

lemma operationJobSpec_fields:
  "operationJobSpec c w cr location owner = Inr spec \<Longrightarrow>
     js_owner spec = owner \<and> js_namespace spec = Namespace c"
  by (auto simp: operationJobSpec_def error_simps)

lemmas early_simps = pending_def failed_def or_error_def or_failed_def require_healthy_def
  require_idle_def require_location_def require_source_def require_version_def

lemma or_error_Inr [error_simps]: "or_error r = Inr x \<longleftrightarrow> r = Inr x"
  by (cases r) (simp_all add: or_error_def)

lemma or_failed_Inr [error_simps]: "or_failed p r = Inr x \<longleftrightarrow> r = Inr x"
  by (cases r) (simp_all add: or_failed_def failed_def)

lemma require_healthy_Inr:
  "require_healthy c w = Inr cr \<longleftrightarrow> existing_milvus c w = Inr cr \<and> Status (CRStatus cr) = StatusHealthy"
  by (auto simp: require_healthy_def healthyMilvus_def or_error_def pending_def split: sum.splits if_splits)

lemma require_idle_Inr:
  "require_idle c w ns name = Inr u \<longleftrightarrow> activeBackupJob c w ns (Name c) name = Inr ''''"
  by (auto simp: require_idle_def error_simps pending_def)

lemma require_location_Inr: "require_location c w b = Inr l \<longleftrightarrow> resolveBackupLocation c w b = Inr l"
  by (auto simp: require_location_def pending_def failed_def split: sum.splits if_splits)

lemma require_source_Inr:
  "require_source c w ref = Inr b \<longleftrightarrow> GetBackup (api c) w ref = Inr b \<and> bk_State b = StateSucceeded"
  by (auto simp: require_source_def pending_def failed_def split: sum.splits if_splits)

lemma require_version_Inr:
  "require_version l cr = Inr u \<longleftrightarrow>
     \<not> (lowestComponentVersion l (Com (Spec cr)) \<noteq> '''' \<and>
        SemverCompare l (''v'' @ lowestComponentVersion l (Com (Spec cr))) (''v'' @ minRestoreVersion) < 0)"
  by (simp add: require_version_def failed_def Let_def)

lemmas require_Inr = require_healthy_Inr require_idle_Inr require_location_Inr require_source_Inr
  require_version_Inr

lemma backup_request_Inr:
  assumes "backup_request c b w = Inr spec"
  shows "bk_ScheduleName b = ''''"
    "\<exists>m. existing_milvus c w = Inr m \<and> Status (CRStatus m) = StatusHealthy"
    "activeBackupJob c w (bk_Namespace b) (Name c) (createJobName b) = Inr ''''"
    "\<exists>l. resolveBackupLocation c w b = Inr l"
    "js_owner spec = Some (bk_Name b)" "js_op spec = operationCreate" "js_namespace spec = Namespace c"
    "\<exists>params. decodeParameters (DecodeBackupParameters (lib c)) zero_MilvusBackupParameters (bk_Parameters b) = Inr params"
  using assms
  by (auto simp: backup_request_def error_simps require_Inr dest!: operationJobSpec_fields split: if_splits)

interpretation backup_op: job_operation c bk_Namespace createJobName "backup_request c" "SyncBackup c"
  for c :: "'w ctx"
proof
  fix b :: Backup and w :: 'w and spec
  show "SyncBackup c b w = sync_operation c (bk_Namespace b) (createJobName b) (backup_request c b) w"
    by (simp add: SyncBackup_def)
  assume "backup_request c b w = Inr spec"
  from backup_request_Inr [OF this]
  show "js_namespace spec = Namespace c \<and> backupJobName (deref (js_owner spec) '''') (js_op spec) = createJobName b"
    by (simp add: createJobName_def)
qed

lemma restore_request_Inr:
  assumes "restore_request c r w = Inr spec"
  shows "\<exists>m. existing_milvus c w = Inr m \<and> Status (CRStatus m) = StatusHealthy \<and>
      \<not> (lowestComponentVersion (lib c) (Com (Spec m)) \<noteq> '''' \<and>
         SemverCompare (lib c) (''v'' @ lowestComponentVersion (lib c) (Com (Spec m)))
           (''v'' @ minRestoreVersion) < 0)"
    "activeBackupJob c w (rs_Namespace r) (Name c) (backupJobName (rs_Name r) operationRestore) = Inr ''''"
    "\<exists>ref b l. rs_BackupRef r = Some ref \<and> GetBackup (api c) w ref = Inr b \<and> bk_State b = StateSucceeded \<and>
       resolveBackupLocation c w b = Inr l"
    "js_owner spec = Some (rs_Name r)" "js_op spec = operationRestore" "js_namespace spec = Namespace c"
proof -
  obtain ref params b m l spec0 where
    ref: "rs_BackupRef r = Some ref" "require_source c w ref = Inr b"
      "require_healthy c w = Inr m" "require_version (lib c) m = Inr ()"
      "require_idle c w (rs_Namespace r) (backupJobName (rs_Name r) operationRestore) = Inr ()"
      "require_location c w b = Inr l"
    and spec0: "operationJobSpec c w m l (Some (rs_Name r)) = Inr spec0"
    and spec: "js_owner spec = js_owner spec0" "js_op spec = operationRestore"
      "js_namespace spec = js_namespace spec0"
    using assms
    by (auto simp: restore_request_def error_simps failed_def split: option.splits if_splits)
  note facts = ref(2-6) [unfolded require_Inr] and fields = operationJobSpec_fields [OF spec0]
  show "\<exists>m. existing_milvus c w = Inr m \<and> Status (CRStatus m) = StatusHealthy \<and>
      \<not> (lowestComponentVersion (lib c) (Com (Spec m)) \<noteq> '''' \<and>
         SemverCompare (lib c) (''v'' @ lowestComponentVersion (lib c) (Com (Spec m)))
           (''v'' @ minRestoreVersion) < 0)"
    using facts(2,3) by blast
  show "activeBackupJob c w (rs_Namespace r) (Name c) (backupJobName (rs_Name r) operationRestore) = Inr ''''"
    by (rule facts(4))
  show "\<exists>ref b l. rs_BackupRef r = Some ref \<and> GetBackup (api c) w ref = Inr b \<and> bk_State b = StateSucceeded \<and>
       resolveBackupLocation c w b = Inr l"
    using ref(1) facts(1,5) by blast
  show "js_owner spec = Some (rs_Name r)" "js_op spec = operationRestore" "js_namespace spec = Namespace c"
    using fields spec by simp_all
qed

interpretation restore_op: job_operation c rs_Namespace "\<lambda>r. backupJobName (rs_Name r) operationRestore"
  "restore_request c" "SyncRestore c" for c :: "'w ctx"
proof
  fix r :: Restore and w :: 'w and spec
  show "SyncRestore c r w =
      sync_operation c (rs_Namespace r) (backupJobName (rs_Name r) operationRestore) (restore_request c r) w"
    by (simp add: SyncRestore_def)
  assume "restore_request c r w = Inr spec"
  from restore_request_Inr(4-6) [OF this]
  show "js_namespace spec = Namespace c \<and>
      backupJobName (deref (js_owner spec) '''') (js_op spec) = backupJobName (rs_Name r) operationRestore"
    by simp
qed

text \<open>
  A cluster with a healthy Milvus, its rendered config and a bucket; its state is the Job that
  was created, if any.
\<close>

definition held_jobs :: "Job option \<Rightarrow> Job list" where
  "held_jobs w = (case w of None \<Rightarrow> [] | Some j \<Rightarrow> if job_Name j = '''' then [] else [j])"

definition backup_ctx :: "Job option ctx" where
  "backup_ctx = storage_ctx\<lparr>api := (api storage_ctx)
     \<lparr>GetMilvus := \<lambda>_ _. Inr sample_milvus,
      GetConfigMap := \<lambda>_ n. Inr \<lparr>cm_Meta = \<lparr>om_Name = n, om_Namespace = ''ns'', om_Labels = []\<rparr>, cm_Data = []\<rparr>,
      GetJob := \<lambda>w _ n. (case w of None \<Rightarrow> not_found | Some j \<Rightarrow> if job_Name j = n then Inr j else not_found),
      GetBackup := \<lambda>_ n. Inr ((sample_backup n)\<lparr>bk_State := StateSucceeded\<rparr>),
      ListJobs := \<lambda>w ns inst. Inr (filter (\<lambda>j. job_Namespace j = ns \<and>
        map_of (job_Labels j) backupJobInstanceLabel = Some inst) (held_jobs w)),
      CreateJob := \<lambda>j _. (Inr j, Some j)\<rparr>\<rparr>"

definition sample_restore :: Restore where
  "sample_restore = \<lparr>rs_Name = ''undo'', rs_Namespace = ''ns'', rs_Deleting = False,
     rs_InstanceRef = ''inst'', rs_FromBackup = True, rs_BackupRef = Some ''nightly'',
     rs_Parameters = None, rs_State = StateNone\<rparr>"

lemma backup_ctx_simps [simp]:
  "existing_milvus backup_ctx w = Inr sample_milvus" "Name backup_ctx = ''inst''"
  "Namespace backup_ctx = ''ns''" "lib backup_ctx = sample_lib"
  "GetBackupStorage (api backup_ctx) w n = Inr backup_bucket"
  "GetJob (api backup_ctx) w ns n =
     (case w of None \<Rightarrow> not_found | Some j \<Rightarrow> if job_Name j = n then Inr j else not_found)"
  "CreateJob (api backup_ctx) j w = (Inr j, Some j)"
  "CreateOrUpdateConfigMap (api backup_ctx) ow cm w = (Inr (), w)"
  "ListJobs (api backup_ctx) w ns i = Inr (filter (\<lambda>j. job_Namespace j = ns \<and>
     map_of (job_Labels j) backupJobInstanceLabel = Some i) (held_jobs w))"
  "GetBackup (api backup_ctx) w n = Inr ((sample_backup n)\<lparr>bk_State := StateSucceeded\<rparr>)"
  by (simp_all add: backup_ctx_def storage_ctx_def sample_ctx_def existing_milvus_def sample_api_def)

lemma backup_ctx_location:
  "resolveBackupLocation backup_ctx w (sample_backup name) =
     Inr \<lparr>loc_storage = backup_bucket, loc_rootPath = ''everest/milvus/ns/inst'',
          loc_name = milvusBackupName name\<rparr>"
  by (simp add: resolveBackupLocation_def sample_backup_def backupRootPath_def)

lemma backup_bucket_config:
  "\<exists>store. backupStorageObjectStore sample_lib backup_bucket root = Inr store"
  "\<exists>out. milvusBackupConfig sample_lib i ns a b = Inr out"
proof -
  have "backupStorageObjectStore sample_lib backup_bucket root = Inr
      \<lparr>os_Provider = ''minio'', os_Address = ''s3.example.com'', os_Port = 443, os_UseSSL = True,
       os_Region = '''', os_Bucket = ''bucket'', os_RootPath = root, os_UseIAM = False\<rparr>"
    by code_simp
  then show "\<exists>store. backupStorageObjectStore sample_lib backup_bucket root = Inr store" ..
qed (simp add: milvusBackupConfig_def sample_lib_def)

lemma backup_ctx_spec:
  "\<exists>spec. operationJobSpec backup_ctx w sample_milvus
     \<lparr>loc_storage = backup_bucket, loc_rootPath = root, loc_name = n\<rparr> owner = Inr spec"
proof -
  have "\<exists>store. milvusObjectStore backup_ctx w ''inst'' = Inr store"
    by (simp add: milvusObjectStore_def backup_ctx_def storage_ctx_def sample_ctx_def
        parseMilvusObjectStore_def sample_lib_def)
  then show ?thesis using backup_bucket_config by (fastforce simp: operationJobSpec_def error_simps)
qed

lemma backup_ctx_creates: "\<exists>j. ensureBackupJob backup_ctx spec None = (Inr j, Some j)"
  by (simp add: ensureBackupJob_def Let_def sample_lib_def)

lemma backup_ctx_starts:
  "\<exists>st j. SyncBackup backup_ctx (sample_backup ''nightly'') None = (Inr st, Some j)"
  "\<exists>st j. SyncRestore backup_ctx sample_restore None = (Inr st, Some j)"
proof -
  have healthy: "require_healthy backup_ctx None = Inr sample_milvus"
    by (simp add: require_healthy_Inr) (simp add: sample_milvus_def)
  have idle: "require_idle backup_ctx None ns n = Inr ()" for ns n
    by (simp add: require_idle_Inr activeBackupJob_def held_jobs_def)
  have loc: "require_location backup_ctx None (sample_backup n) =
      Inr \<lparr>loc_storage = backup_bucket, loc_rootPath = ''everest/milvus/ns/inst'',
           loc_name = milvusBackupName n\<rparr>" for n
    by (simp add: require_location_Inr backup_ctx_location)
  have start: "\<exists>st j. sync_operation backup_ctx ns n req None = (Inr st, Some j)"
    if "req None = Inr spec" for ns n req spec
    using backup_ctx_creates [of spec] that by (auto simp: sync_operation_def existingJob_def)
  have "\<exists>spec. backup_request backup_ctx (sample_backup ''nightly'') None = Inr spec"
    using backup_ctx_spec [of None "''everest/milvus/ns/inst''"
        "milvusBackupName ''nightly''" "Some ''nightly''"]
    by (auto simp: backup_request_def healthy idle loc error_simps decodeParameters_def or_failed_def)
       (auto simp: sample_backup_def)
  then show "\<exists>st j. SyncBackup backup_ctx (sample_backup ''nightly'') None = (Inr st, Some j)"
    using start by (auto simp: SyncBackup_def)
  let ?b = "(sample_backup ''nightly'')\<lparr>bk_State := StateSucceeded\<rparr>"
  have loc': "require_location backup_ctx None ?b =
      Inr \<lparr>loc_storage = backup_bucket, loc_rootPath = ''everest/milvus/ns/inst'',
           loc_name = milvusBackupName ''nightly''\<rparr>"
    by (simp add: require_location_Inr resolveBackupLocation_def sample_backup_def backupRootPath_def)
  have source: "require_source backup_ctx None ''nightly'' = Inr ?b" by (simp add: require_source_Inr)
  have version: "require_version sample_lib sample_milvus = Inr ()"
    by (simp add: require_version_Inr) code_simp
  obtain spec0 where "operationJobSpec backup_ctx None sample_milvus
      \<lparr>loc_storage = backup_bucket, loc_rootPath = ''everest/milvus/ns/inst'',
           loc_name = milvusBackupName ''nightly''\<rparr> (Some ''undo'') = Inr spec0"
    using backup_ctx_spec by blast
  then have "\<exists>spec. restore_request backup_ctx sample_restore None = Inr spec"
    by (simp add: restore_request_def sample_restore_def decodeParameters_def or_failed_def
        zero_MilvusRestoreParameters_def collectionSuffixPattern_def source healthy version idle loc')
  then show "\<exists>st j. SyncRestore backup_ctx sample_restore None = (Inr st, Some j)"
    using start by (auto simp: SyncRestore_def)
qed

section \<open>Properties\<close>

text \<open>
  C6: a backup starts only when it is safe. \<open>SyncBackup\<close> changes anything only for an on-demand
  Backup without a Job, whose parameters decode, on a healthy Milvus, with a location, and when
  every other Job of the instance has finished or is being deleted.
\<close>

theorem backup_starts_only_when_safe:
  assumes "snd (SyncBackup c b w) \<noteq> w"
    and "ListJobs (api c) w (bk_Namespace b) (Name c) = Inr jobs" "\<forall>j\<in>set jobs. job_Name j \<noteq> ''''"
  shows "bk_ScheduleName b = '''' \<and> existingJob c w (bk_Namespace b) (createJobName b) = Inr None \<and>
    (\<exists>params. decodeParameters (DecodeBackupParameters (lib c)) zero_MilvusBackupParameters
       (bk_Parameters b) = Inr params) \<and>
    (\<exists>m. existing_milvus c w = Inr m \<and> Status (CRStatus m) = StatusHealthy) \<and>
    (\<exists>l. resolveBackupLocation c w b = Inr l) \<and>
    (\<forall>j\<in>set jobs. job_Name j = createJobName b \<or> job_Deleting j \<or> snd (jobFinished j))"
proof -
  from backup_op.starts_only_on_request [OF assms(1)] obtain spec where
    none: "existingJob c w (bk_Namespace b) (createJobName b) = Inr None"
    and spec: "backup_request c b w = Inr spec" by blast
  note req = backup_request_Inr [OF spec]
  show ?thesis using req(1,2,4,8) none activeBackupJob_Inr [OF assms(2,3) req(3)] by blast
qed

theorem backup_starts_only_when_safe_witness:
  "snd (SyncBackup backup_ctx (sample_backup ''nightly'') None) \<noteq> None \<and>
   bk_ScheduleName (sample_backup ''nightly'') = ''''"
proof -
  have "snd (SyncBackup backup_ctx (sample_backup ''nightly'') None) \<noteq> None"
    using backup_ctx_starts(1) by force
  with backup_starts_only_when_safe [OF this backup_ctx_simps(9)] show ?thesis by (simp add: held_jobs_def)
qed

text \<open>
  C7: a restore never runs into an instance that is not ready for it. \<open>SyncRestore\<close> changes
  anything only when it restores from a Backup that succeeded and has a location, into a
  healthy Milvus none of whose component versions is known to be older than 2.6.12, and when
  every other Job of the instance has finished or is being deleted.
\<close>

theorem restore_starts_only_when_safe:
  assumes "snd (SyncRestore c r w) \<noteq> w"
    and "ListJobs (api c) w (rs_Namespace r) (Name c) = Inr jobs" "\<forall>j\<in>set jobs. job_Name j \<noteq> ''''"
    and "semver_ranks (lib c) rank" "SemverIsValid (lib c) ''v2.6.12''"
  shows "(\<exists>ref b l. rs_BackupRef r = Some ref \<and> GetBackup (api c) w ref = Inr b \<and>
       bk_State b = StateSucceeded \<and> resolveBackupLocation c w b = Inr l) \<and>
    (\<exists>m. existing_milvus c w = Inr m \<and> Status (CRStatus m) = StatusHealthy \<and>
       (\<forall>e\<in>set (componentVersions (Com (Spec m))). valid_version (lib c) (snd e) \<longrightarrow>
          rank ''v2.6.12'' \<le> rank (''v'' @ snd e))) \<and>
    (\<forall>j\<in>set jobs. job_Name j = backupJobName (rs_Name r) operationRestore \<or> job_Deleting j \<or>
       snd (jobFinished j))"
proof -
  from restore_op.starts_only_on_request [OF assms(1)] obtain spec where
    spec: "restore_request c r w = Inr spec" by blast
  note req = restore_request_Inr [OF spec]
  obtain m where m: "existing_milvus c w = Inr m" "Status (CRStatus m) = StatusHealthy"
    and low: "\<not> (lowestComponentVersion (lib c) (Com (Spec m)) \<noteq> '''' \<and>
       SemverCompare (lib c) (''v'' @ lowestComponentVersion (lib c) (Com (Spec m)))
         (''v'' @ minRestoreVersion) < 0)" using req(1) by blast
  let ?low = "lowestComponentVersion (lib c) (Com (Spec m))" and ?vs = "componentVersions (Com (Spec m))"
  have fold: "?low = fold (\<lambda>(_, version) lowest. lower_version (lib c) version lowest) ?vs ''''"
    by (simp add: lowestComponentVersion_def)
  note lowest = lowest_fold [OF assms(4) disjI1 [OF refl] fold]
  have "rank ''v2.6.12'' \<le> rank (''v'' @ snd e)"
    if e: "e \<in> set ?vs" "valid_version (lib c) (snd e)" for e
  proof -
    have ne: "?low \<noteq> ''''" and valid: "SemverIsValid (lib c) (''v'' @ ?low)"
      using lowest e by (auto simp: valid_version_def)
    have "SemverCompare (lib c) (''v'' @ ?low) ''v2.6.12'' < 0 \<longleftrightarrow> rank (''v'' @ ?low) < rank ''v2.6.12''"
      using assms(4,5) valid unfolding semver_ranks_def by blast
    then have "rank ''v2.6.12'' \<le> rank (''v'' @ ?low)" using low ne by (simp add: minRestoreVersion_def)
    also have "\<dots> \<le> rank (''v'' @ snd e)" using lowest ne e by blast
    finally show ?thesis .
  qed
  with m req(3) activeBackupJob_Inr [OF assms(2,3) req(2)] show ?thesis by blast
qed

theorem restore_starts_only_when_safe_witness:
  "snd (SyncRestore backup_ctx sample_restore None) \<noteq> None \<and>
   (\<exists>b. GetBackup (api backup_ctx) None ''nightly'' = Inr b \<and> bk_State b = StateSucceeded)"
proof -
  have "snd (SyncRestore backup_ctx sample_restore None) \<noteq> None"
    using backup_ctx_starts(2) by force
  moreover have "SemverIsValid (lib backup_ctx) ''v2.6.12''" by (simp, code_simp)
  ultimately show ?thesis
    using restore_starts_only_when_safe [OF _ backup_ctx_simps(9), of sample_restore None
        "\<lambda>v. deref (sample_version v) (-1)"] sample_semver_ranks
    by (auto simp: sample_restore_def held_jobs_def)
qed

text \<open>
  C17: an operation starts one Job. Once \<open>SyncBackup\<close> (or \<open>SyncRestore\<close>) has started it, and
  provided a created Job can be read back, syncing again changes nothing and reports the
  same status. In any later state of the cluster, whatever happened in between, as long as the
  Job can be read a pass changes nothing and reports the state of that Job.
\<close>

theorem started_operation_is_stable:
  assumes "jobs_read_back c"
  shows "(bk_Namespace b = Namespace c \<and> SyncBackup c b w = (Inr st, w') \<and> w' \<noteq> w \<longrightarrow>
      SyncBackup c b w' = (Inr st, w')) \<and>
    (rs_Namespace r = Namespace c \<and> SyncRestore c r w = (Inr st, w') \<and> w' \<noteq> w \<longrightarrow>
      SyncRestore c r w' = (Inr st, w')) \<and>
    (\<forall>v job. GetJob (api c) v (bk_Namespace b) (createJobName b) = Inr job \<longrightarrow>
      SyncBackup c b v = (Inr (job_status c v job), v)) \<and>
    (\<forall>v job. GetJob (api c) v (rs_Namespace r) (backupJobName (rs_Name r) operationRestore) = Inr job \<longrightarrow>
      SyncRestore c r v = (Inr (job_status c v job), v))"
proof (intro conjI)
  show "bk_Namespace b = Namespace c \<and> SyncBackup c b w = (Inr st, w') \<and> w' \<noteq> w \<longrightarrow>
      SyncBackup c b w' = (Inr st, w')"
    and "rs_Namespace r = Namespace c \<and> SyncRestore c r w = (Inr st, w') \<and> w' \<noteq> w \<longrightarrow>
      SyncRestore c r w' = (Inr st, w')"
    using backup_op.settles [OF assms] restore_op.settles [OF assms] by blast+
qed (intro allI impI backup_op.reads_existing restore_op.reads_existing existingJob_read; assumption)+

theorem started_operation_is_stable_witness:
  "\<exists>st j. SyncBackup backup_ctx (sample_backup ''nightly'') None = (Inr st, Some j) \<and>
     SyncBackup backup_ctx (sample_backup ''nightly'') (Some j) = (Inr st, Some j)"
proof -
  obtain st j where run: "SyncBackup backup_ctx (sample_backup ''nightly'') None = (Inr st, Some j)"
    using backup_ctx_starts(1) by blast
  have "jobs_read_back backup_ctx" by (auto simp: jobs_read_back_def)
  from started_operation_is_stable [OF this, of "sample_backup ''nightly''" None st "Some j"] run
  show ?thesis by (auto simp: sample_backup_def)
qed

text \<open>
  C9: cleaning up a Backup deletes only data it may delete, and does not wait forever. It
  changes anything only for a Backup that is not retained and that produced data; a Backup
  that is retained, or never produced any, is done at once; and a delete Job that has
  finished, even one that failed, is done.
\<close>

theorem cleanup_deletes_only_produced_data:
  "(snd (CleanupBackup c b w) \<noteq> w \<longrightarrow>
      bk_DeletionPolicy b = PolicyDelete \<and> backupProducedData c w b = Inr True \<and>
      existingJob c w (bk_Namespace b) (backupJobName (bk_Name b) operationDelete) = Inr None) \<and>
   (bk_DeletionPolicy b = PolicyRetain \<or> backupProducedData c w b = Inr False \<longrightarrow>
      CleanupBackup c b w = (Inr True, w)) \<and>
   (backupProducedData c w b = Inr True \<and> snd (jobFinished job) \<and>
    existingJob c w (bk_Namespace b) (backupJobName (bk_Name b) operationDelete) = Inr (Some job) \<longrightarrow>
      CleanupBackup c b w = (Inr True, w))"
proof (intro conjI impI)
  assume moved: "snd (CleanupBackup c b w) \<noteq> w"
  then have "bk_DeletionPolicy b \<noteq> PolicyRetain" by (auto simp: CleanupBackup_def)
  then show "bk_DeletionPolicy b = PolicyDelete" by (cases "bk_DeletionPolicy b") simp_all
  show "backupProducedData c w b = Inr True"
    "existingJob c w (bk_Namespace b) (backupJobName (bk_Name b) operationDelete) = Inr None"
    using moved by (auto simp: CleanupBackup_def split: if_splits sum.splits option.splits)
next
  assume "bk_DeletionPolicy b = PolicyRetain \<or> backupProducedData c w b = Inr False"
  then show "CleanupBackup c b w = (Inr True, w)" by (auto simp: CleanupBackup_def)
next
  assume j: "backupProducedData c w b = Inr True \<and> snd (jobFinished job) \<and>
    existingJob c w (bk_Namespace b) (backupJobName (bk_Name b) operationDelete) = Inr (Some job)"
  then have "delete_done c w job"
    by (cases "jobFinished job") (auto simp: delete_done_def readBackupJobState_def Let_def)
  with j show "CleanupBackup c b w = (Inr True, w)" by (simp add: CleanupBackup_def)
qed

text \<open>A Backup that produced data, whose clean-up starts the delete Job.\<close>

lemma backup_ctx_cleans:
  "\<exists>j. snd (CleanupBackup backup_ctx ((sample_backup ''nightly'')\<lparr>bk_CompletedAt := Some 1\<rparr>) None) = Some j"
proof -
  let ?b = "(sample_backup ''nightly'')\<lparr>bk_CompletedAt := Some 1\<rparr>"
  obtain store where store: "backupStorageObjectStore sample_lib backup_bucket (backupRootPath ''ns'' ''inst'') = Inr store"
    using backup_bucket_config(1) by blast
  obtain out where "milvusBackupConfig sample_lib ''inst'' ''ns'' store store = Inr out"
    using backup_bucket_config(2) by blast
  with store obtain spec where "delete_request backup_ctx ?b None = Inr spec"
    by (simp add: delete_request_def resolveBackupLocation_def sample_backup_def Let_def)
  then show ?thesis
    using backup_ctx_creates [of spec]
    by (auto simp: CleanupBackup_def backupProducedData_def existingJob_def)
      (auto simp: sample_backup_def)
qed

theorem cleanup_deletes_only_produced_data_witness:
  "CleanupBackup backup_ctx ((sample_backup ''nightly'')\<lparr>bk_DeletionPolicy := PolicyRetain\<rparr>) None = (Inr True, None) \<and>
   snd (CleanupBackup backup_ctx ((sample_backup ''nightly'')\<lparr>bk_CompletedAt := Some 1\<rparr>) None) \<noteq> None \<and>
   backupProducedData backup_ctx None ((sample_backup ''nightly'')\<lparr>bk_CompletedAt := Some 1\<rparr>) = Inr True"
proof -
  let ?b = "(sample_backup ''nightly'')\<lparr>bk_CompletedAt := Some 1\<rparr>"
  have moved: "snd (CleanupBackup backup_ctx ?b None) \<noteq> None" using backup_ctx_cleans by force
  show ?thesis
    using cleanup_deletes_only_produced_data [of backup_ctx ?b None] moved
      cleanup_deletes_only_produced_data
        [of backup_ctx "(sample_backup ''nightly'')\<lparr>bk_DeletionPolicy := PolicyRetain\<rparr>" None]
    by simp
qed

end
