(* ===== verification/BackupSchedule.thy ===== *)
theory BackupSchedule
  imports Backup "HOL-Library.Multiset"
begin

text \<open>
  \<open>internal/provider/backup_schedule.go\<close>: one CronJob per enabled schedule, the removal of
  the others, retention, and the mirroring of the Jobs the CronJobs start into Backups.
\<close>

section \<open>Errors and loops\<close>

text \<open>
  \<open>controller.BackupConfigError\<close>, a configuration error with a reason, any other error, or a
  panic of the Go runtime.
\<close>

datatype sync_error = PlainError go_error | BackupConfigError string string | Panic string

definition plain_step :: "'a result \<times> 'w \<Rightarrow> (sync_error + 'a) \<times> 'w" where
  "plain_step r = (map_sum PlainError id (fst r), snd r)"

text \<open>A loop of calls that ends at the first error.\<close>

fun for_each :: "('a \<Rightarrow> 'w \<Rightarrow> ('e + unit) \<times> 'w) \<Rightarrow> 'a list \<Rightarrow> 'w \<Rightarrow> ('e + unit) \<times> 'w" where
  "for_each f [] w = (Inr (), w)"
| "for_each f (x # xs) w = and_then (f x w) (\<lambda>_. for_each f xs)"

section \<open>Names and labels\<close>

definition backupScheduleLabel :: string where
  "backupScheduleLabel = ''backup.milvus.openeverest.io/schedule''"

definition backupStorageLabel :: string where
  "backupStorageLabel = ''backup.milvus.openeverest.io/storage''"

definition maxCronJobNameLength :: nat where "maxCronJobNameLength = 52"

definition keptFailedRuns :: nat where "keptFailedRuns = 3"

definition JobNameLabel :: string where "JobNameLabel = ''batch.kubernetes.io/job-name''"

definition scheduledCreateScript :: string where
  "scheduledCreateScript =
     ''exec /app/milvus-backup create -n '' @ [CHR 0x22] @ ''$(printf %s '' @ [CHR 0x22] @ ''$JOB_NAME''
     @ [CHR 0x22] @ '' | tr .- __)'' @ [CHR 0x22] @ '' '' @ [CHR 0x22] @ ''$@'' @ [CHR 0x22]"

text \<open>\<open>dnsLabelInvalid.ReplaceAllString(s, "-")\<close>: every maximal run of other characters.\<close>

definition dns_char :: "char \<Rightarrow> bool" where
  "dns_char ch = (ch \<in> set ''abcdefghijklmnopqrstuvwxyz0123456789-'')"

fun replace_invalid_runs :: "string \<Rightarrow> string" where
  "replace_invalid_runs [] = []"
| "replace_invalid_runs [x] = (if dns_char x then [x] else ''-'')"
| "replace_invalid_runs (x # y # xs) =
     (if dns_char x then x # replace_invalid_runs (y # xs)
      else if dns_char y then CHR ''-'' # replace_invalid_runs (y # xs)
      else replace_invalid_runs (y # xs))"

definition scheduleCronJobName :: "string \<Rightarrow> string \<Rightarrow> string" where
  "scheduleCronJobName inst schedule =
     (let name = inst @ ''-'' @ trim_both (\<lambda>ch. ch = CHR ''-'') (replace_invalid_runs (to_lower schedule)) in
      if name = inst @ ''-'' @ schedule \<and> length name \<le> maxCronJobNameLength then name
      else let hash = short_hash (inst @ ''/'' @ schedule);
               keep = maxCronJobNameLength - length hash - 1;
               name = (if length name > keep then take keep name else name)
           in trim_right (\<lambda>ch. ch = CHR ''-'') name @ ''-'' @ hash)"

definition withLabels :: "ObjectMeta \<Rightarrow> labels \<Rightarrow> ObjectMeta" where
  "withLabels meta labels =
     meta\<lparr>om_Labels := fold (\<lambda>(key, value) m. AList.update key value m) labels (om_Labels meta)\<rparr>"

text \<open>The labels of a schedule's CronJob, and of every Job it starts.\<close>

definition schedule_labels :: "string \<Rightarrow> string \<Rightarrow> string \<Rightarrow> labels" where
  "schedule_labels inst schedule storageName =
     AList.update backupStorageLabel storageName
       (AList.update backupScheduleLabel schedule (backupJobLabels inst operationCreate))"

section \<open>One schedule\<close>

definition schedule_error :: "BackupSchedule \<Rightarrow> string \<Rightarrow> string \<Rightarrow> sync_error" where
  "schedule_error schedule why message =
     BackupConfigError why (''schedule '' @ quote (sch_Name schedule) @ '': '' @ message)"

text \<open>Everything before the first write: the Job of the schedule and the labels.\<close>

definition schedule_job ::
  "'w ctx \<Rightarrow> 'w \<Rightarrow> Milvus \<Rightarrow> string \<Rightarrow> BackupSchedule \<Rightarrow> sync_error + backupJobSpec" where
  "schedule_job c w cr storageName schedule =
     (if CronParseStandard (lib c) (sch_Cron schedule) \<noteq> None \<or> has_prefix (sch_Cron schedule) ''TZ=''
         \<or> has_prefix (sch_Cron schedule) ''CRON_TZ=''
      then Inl (schedule_error schedule ''InvalidSchedule''
                 (quote (sch_Cron schedule) @ '' is not a standard 5-field cron expression''))
      else
        (case decodeParameters (DecodeBackupParameters (lib c)) zero_MilvusBackupParameters
                (sch_Parameters schedule) of
           Inl e \<Rightarrow> Inl (schedule_error schedule ''InvalidSchedule'' (''invalid parameters: '' @ error_text e))
         | Inr params \<Rightarrow>
             (case GetBackupStorage (api c) w storageName of
                Inl e \<Rightarrow>
                  if IsNotFound e
                  then Inl (schedule_error schedule ''StorageNotFound''
                             (''BackupStorage '' @ quote storageName @ '' not found''))
                  else Inl (PlainError e)
              | Inr bs \<Rightarrow>
                  (case operationJobSpec c w cr
                          \<lparr>loc_storage = bs, loc_rootPath = backupRootPath (Namespace c) (Name c), loc_name = ''''\<rparr>
                          None of
                     Inl e \<Rightarrow> Inl (schedule_error schedule ''InvalidStorage'' (error_text e))
                   | Inr spec \<Rightarrow> Inr (spec\<lparr>js_args := filterArg (bp_Collections params)
                       @ (if bp_IncludeRBAC params then [''--rbac''] else [])\<rparr>)))))"

definition scheduled_job_template :: "lib \<Rightarrow> backupJobSpec \<Rightarrow> string \<Rightarrow> labels \<Rightarrow> JobSpec" where
  "scheduled_job_template l spec name labels =
     (let job = backupJobTemplate l spec name labels in
      job\<lparr>js_Command := [''/bin/sh'', ''-c'', scheduledCreateScript, ''milvus-backup''],
          js_Env := js_Env job @
            [\<lparr>env_Name = ''JOB_NAME'', env_Value = '''',
              env_ValueFrom = Some \<lparr>evs_FieldRef = Some \<lparr>ofs_APIVersion = ''v1'',
                  ofs_FieldPath = ''metadata.labels['' @ [CHR 0x27] @ JobNameLabel @ [CHR 0x27] @ '']''\<rparr>,
                evs_SecretKeyRef = None, evs_Other = VNull\<rparr>\<rparr>]\<rparr>)"

definition schedule_cronjob ::
  "'w ctx \<Rightarrow> backupJobSpec \<Rightarrow> string \<Rightarrow> labels \<Rightarrow> BackupSchedule \<Rightarrow> bool \<Rightarrow> CronJob" where
  "schedule_cronjob c spec name labels schedule suspend =
     \<lparr>cj_Meta = withLabels (ObjectMetaOf c name) labels, cj_Schedule = sch_Cron schedule,
      cj_TimeZone = ''Etc/UTC'', cj_Suspend = suspend, cj_ConcurrencyPolicy = ''Forbid'',
      cj_StartingDeadlineSeconds = 300, cj_SuccessfulJobsHistoryLimit = 3,
      cj_FailedJobsHistoryLimit = 3, cj_JobLabels = labels,
      cj_JobSpec = scheduled_job_template (lib c) spec name labels\<rparr>"

definition applyBackupSchedule ::
  "'w ctx \<Rightarrow> Milvus \<Rightarrow> string \<Rightarrow> string \<Rightarrow> BackupSchedule \<Rightarrow> bool \<Rightarrow> 'w \<Rightarrow> (sync_error + unit) \<times> 'w" where
  "applyBackupSchedule c cr name storageName schedule suspend w =
     (case schedule_job c w cr storageName schedule of
        Inl e \<Rightarrow> (Inl e, w)
      | Inr spec \<Rightarrow>
          let labels = schedule_labels (Name c) (sch_Name schedule) storageName;
              configMap = \<lparr>cm_Meta = withLabels (ObjectMetaOf c name) labels,
                           cm_Data = [(''backup.yaml'', js_config spec)]\<rparr>
          in and_then (plain_step (wrap_error ''apply schedule config'' (ApplyConfigMap (api c) configMap w)))
               (\<lambda>_ w1.
                  case ApplyCronJob (api c) (schedule_cronjob c spec name labels schedule suspend) w1 of
                    (Inl e, w2) \<Rightarrow> (Inl (schedule_error schedule ''ScheduleNotApplied'' (error_text e)), w2)
                  | (Inr _, w2) \<Rightarrow> (Inr (), w2)))"

section \<open>All schedules\<close>

text \<open>The enabled schedules with their storages, in the order of the two loops.\<close>

definition enabled_schedules :: "InstanceBackup \<Rightarrow> (string \<times> BackupSchedule) list" where
  "enabled_schedules backup =
     concat (map (\<lambda>storage. map (Pair (ibs_StorageRef storage)) (filter sch_Enabled (ibs_Schedules storage)))
       (ib_Storages backup))"

definition schedulesSuspended :: "'w ctx \<Rightarrow> 'w \<Rightarrow> bool result" where
  "schedulesSuspended c w =
     (case GetDataSourceStatus (api c) w of
        Some ds \<Rightarrow> if \<not> ds_Done ds then Inr True else activeRestore c w
      | None \<Rightarrow> activeRestore c w)"

text \<open>\<open>ListCronJobs\<close> lists those with the instance's label and a schedule label.\<close>

definition pruneBackupSchedules :: "'w ctx \<Rightarrow> string list \<Rightarrow> ('w, unit) step" where
  "pruneBackupSchedules c desired w =
     (case ListCronJobs (api c) w of
        Inl e \<Rightarrow> (Inl (Wrap ''list backup schedules'' e), w)
      | Inr cronJobs \<Rightarrow>
          for_each (\<lambda>name w.
              if name \<in> set desired then (Inr (), w)
              else and_then
                (wrap_error (''delete backup schedule '' @ quote name) (DeleteCronJob (api c) name w))
                (\<lambda>_ w1. wrap_error (''delete backup schedule config '' @ quote name)
                  (DeleteConfigMap (api c) name w1)))
            (map (om_Name \<circ> cj_Meta) cronJobs) w)"

section \<open>Retention\<close>

text \<open>
  The calendar of \<open>time.Time.AddDate\<close> in UTC: days since 1970-01-01, and months counted from
  year 0. A month past its end runs over into the next, as in Go. A \<open>Time\<close> counts its seconds
  from the year 1 in 64 bits, so a date too many days away wraps around. Dates so many months
  away that their year is out of the 292 billion years either side of it are outside the model.
\<close>

definition day_ns :: int where "day_ns = 86400 * 10 ^ 9"

definition is_leap :: "int \<Rightarrow> bool" where
  "is_leap y \<longleftrightarrow> y mod 4 = 0 \<and> (y mod 100 \<noteq> 0 \<or> y mod 400 = 0)"

definition days_before_year :: "int \<Rightarrow> int" where
  "days_before_year y = 365 * (y - 1) + (y - 1) div 4 - (y - 1) div 100 + (y - 1) div 400 - 719162"

definition days_before_month :: "int \<Rightarrow> int" where
  "days_before_month m = [0, 31, 59, 90, 120, 151, 181, 212, 243, 273, 304, 334] ! nat m"

definition first_day :: "int \<Rightarrow> int" where
  "first_day month =
     (let y = month div 12; m = month mod 12 in
      days_before_year y + days_before_month m + (if is_leap y \<and> 2 \<le> m then 1 else 0))"

text \<open>The month of a day: the average month is close enough to be off by one at most.\<close>

definition month_of :: "int \<Rightarrow> int" where
  "month_of day =
     (let guess = day * 4800 div 146097 + 1970 * 12 in
      if day < first_day guess then guess - 1
      else if first_day (guess + 1) \<le> day then guess + 1 else guess)"

definition wrap_time :: "time \<Rightarrow> time" where
  "wrap_time t =
     (wrap64 (t div 10 ^ 9 + 62135596800) - 62135596800) * 10 ^ 9 + t mod 10 ^ 9"

definition add_days :: "time \<Rightarrow> int \<Rightarrow> time" where
  "add_days t days = wrap_time (t + days * day_ns)"

definition add_months :: "time \<Rightarrow> int \<Rightarrow> time" where
  "add_months t months =
     (let day = t div day_ns; month = month_of day
      in (first_day (month + months) + (day - first_day month)) * day_ns + t mod day_ns)"

definition retentionCutoff :: "string \<Rightarrow> time \<Rightarrow> time option" where
  "retentionCutoff duration now =
     (if length duration < 2 then None
      else case atoi (butlast duration) of
        None \<Rightarrow> None
      | Some n \<Rightarrow>
          if n < 1 then None
          else if last duration = CHR ''d'' then Some (add_days now (wrap64 (- n)))
          else if last duration = CHR ''w'' then Some (add_days now (wrap64 (- 7 * n)))
          else if last duration = CHR ''m'' then Some (add_months now (wrap64 (- n)))
          else None)"

type_synonym retention_map = "(string \<times> Retention option) list"

definition completed_at :: "Backup \<Rightarrow> time" where
  "completed_at b = deref (bk_CompletedAt b) 0"

definition succeeded_runs :: "Backup list \<Rightarrow> string \<Rightarrow> Backup list" where
  "succeeded_runs backups schedule =
     filter (\<lambda>b. bk_ScheduleName b = schedule \<and> \<not> bk_Deleting b \<and>
       bk_State b = StateSucceeded \<and> bk_CompletedAt b \<noteq> None) backups"

definition failed_runs :: "Backup list \<Rightarrow> string \<Rightarrow> Backup list" where
  "failed_runs backups schedule =
     filter (\<lambda>b. bk_ScheduleName b = schedule \<and> \<not> bk_Deleting b \<and> bk_State b = StateFailed) backups"

text \<open>The API's schema asks for a positive count; Go would panic on a negative one.\<close>

definition schedule_expired ::
  "lib \<Rightarrow> Backup list \<Rightarrow> time \<Rightarrow> string \<times> Retention option \<Rightarrow> Backup list" where
  "schedule_expired l backups now entry =
     (case entry of (schedule, policy) \<Rightarrow>
        (let runs = failed_runs backups schedule in
         if length runs > keptFailedRuns
         then drop keptFailedRuns (SortNewestFirst l bk_CreationTimestamp runs) else [])
        @ (case policy of
             None \<Rightarrow> []
           | Some p \<Rightarrow>
               let runs = SortNewestFirst l completed_at (succeeded_runs backups schedule) in
               (case ret_Type p of
                  RetentionCount \<Rightarrow>
                    (case ret_Count p of
                       None \<Rightarrow> []
                     | Some n \<Rightarrow> if int (length runs) > n then drop (nat n) runs else [])
                | RetentionTime \<Rightarrow>
                    (case retentionCutoff (ret_Duration p) now of
                       None \<Rightarrow> []
                     | Some cutoff \<Rightarrow> filter (\<lambda>run. completed_at run < cutoff) runs)
                | RetentionOther \<Rightarrow> [])))"

definition expiredBackups :: "lib \<Rightarrow> Backup list \<Rightarrow> retention_map \<Rightarrow> time \<Rightarrow> Backup list" where
  "expiredBackups l backups retention now = concat (map (schedule_expired l backups now) retention)"

definition retention_of :: "InstanceBackup \<Rightarrow> retention_map" where
  "retention_of backup =
     fold (\<lambda>schedule m. AList.update (sch_Name schedule) (sch_Retention schedule) m)
       (concat (map ibs_Schedules (ib_Storages backup))) []"

text \<open>
  \<open>expiredBackups\<close> slices the runs of a schedule that keeps \<open>count\<close> of them from index \<open>count\<close> on,
  whenever there are more: a negative count, which only the API's schema refuses, panics,
  before anything is deleted and whichever order the map is ranged over.
\<close>

definition retention_panics :: "retention_map \<Rightarrow> bool" where
  "retention_panics retention \<longleftrightarrow>
     list_ex (\<lambda>(_, policy). case policy of
        None \<Rightarrow> False
      | Some p \<Rightarrow> ret_Type p = RetentionCount \<and> (case ret_Count p of None \<Rightarrow> False | Some n \<Rightarrow> n < 0))
       retention"

definition enforceRetention :: "'w ctx \<Rightarrow> time \<Rightarrow> 'w \<Rightarrow> (sync_error + unit) \<times> 'w" where
  "enforceRetention c now w =
     (case in_Backup (Inst c) of
        None \<Rightarrow> (Inr (), w)
      | Some backup \<Rightarrow>
          let retention = retention_of backup in
          if retention = [] then (Inr (), w)
          else (case BackupsForInstance (api c) w of
                  Inl e \<Rightarrow> (Inl (PlainError e), w)
                | Inr backups \<Rightarrow>
                    if retention_panics retention
                    then (Inl (Panic ''slice bounds out of range''), w)
                    else plain_step (for_each (\<lambda>b w. wrap_error (''delete expired backup '' @ quote (bk_Name b))
                        (DeleteBackup (api c) b w))
                      (expiredBackups (lib c) backups retention now) w)))"

section \<open>The pass over schedules and retention\<close>

text \<open>The names of the wanted CronJobs; with a CR at hand, each is applied on the way.\<close>

fun apply_schedules ::
  "'w ctx \<Rightarrow> Milvus option \<Rightarrow> bool \<Rightarrow> (string \<times> BackupSchedule) list \<Rightarrow> string list \<Rightarrow> 'w
     \<Rightarrow> (sync_error + string list) \<times> 'w" where
  "apply_schedules c cr suspend [] desired w = (Inr desired, w)"
| "apply_schedules c cr suspend ((storageName, schedule) # schedules) desired w =
     (let name = scheduleCronJobName (Name c) (sch_Name schedule) in
      case cr of
        None \<Rightarrow> apply_schedules c cr suspend schedules (name # desired) w
      | Some m \<Rightarrow> and_then (applyBackupSchedule c m name storageName schedule suspend w)
          (\<lambda>_. apply_schedules c cr suspend schedules (name # desired)))"

definition desired_schedules :: "'w ctx \<Rightarrow> 'w \<Rightarrow> (sync_error + string list) \<times> 'w" where
  "desired_schedules c w =
     (case in_Backup (Inst c) of
        None \<Rightarrow> (Inr [], w)
      | Some backup \<Rightarrow>
          if \<not> ib_Enabled backup then (Inr [], w)
          else (case healthyMilvus c w of
                  Inl e \<Rightarrow> (Inl (PlainError e), w)
                | Inr r \<Rightarrow>
                    (case schedulesSuspended c w of
                       Inl e \<Rightarrow> (Inl (PlainError e), w)
                     | Inr suspend \<Rightarrow>
                         apply_schedules c (case r of Inl _ \<Rightarrow> None | Inr cr \<Rightarrow> Some cr) suspend
                           (enabled_schedules backup) [] w)))"

definition syncBackupSchedules :: "'w ctx \<Rightarrow> 'w \<Rightarrow> (sync_error + unit) \<times> 'w" where
  "syncBackupSchedules c w =
     and_then (desired_schedules c w) (\<lambda>desired w1.
     and_then (plain_step (pruneBackupSchedules c desired w1)) (\<lambda>_ w2.
     enforceRetention c (Now (api c) w2) w2))"

section \<open>Mirroring\<close>

text \<open>The parameters of the last schedule of that name.\<close>

definition schedule_parameters :: "InstanceBackup \<Rightarrow> string \<Rightarrow> string option" where
  "schedule_parameters backup name =
     fold (\<lambda>schedule params. if sch_Name schedule = name then sch_Parameters schedule else params)
       (concat (map ibs_Schedules (ib_Storages backup))) None"

definition job_label :: "Job \<Rightarrow> string \<Rightarrow> string" where
  "job_label job key = deref (map_of (job_Labels job) key) ''''"

text \<open>The object is \<open>None\<close> when it is not a Job.\<close>

definition Mirror :: "'w ctx \<Rightarrow> Job option \<Rightarrow> 'w \<Rightarrow> Backup option result" where
  "Mirror c obj w =
     (case obj of
        None \<Rightarrow> Inr None
      | Some job \<Rightarrow>
          if job_label job backupScheduleLabel = '''' \<or> job_label job backupJobInstanceLabel = ''''
          then Inr None
          else
            (case GetInstance (api c) w (job_Namespace job) (job_label job backupJobInstanceLabel) of
               Inl e \<Rightarrow>
                 if IsNotFound e then Inr None
                 else Inl (Wrap (''get Instance of scheduled backup '' @ quote (job_Name job)) e)
             | Inr inst \<Rightarrow>
                 if in_ProviderRef inst \<noteq> ProviderName then Inr None
                 else
                   (case in_Backup inst of
                      None \<Rightarrow> Inr None
                    | Some backup \<Rightarrow> Inr (Some
                        \<lparr>bk_Name = job_Name job, bk_Namespace = job_Namespace job, bk_Deleting = False,
                         bk_CreationTimestamp = 0, bk_OriginType = OriginInstance,
                         bk_InstanceRef = Some (job_label job backupJobInstanceLabel),
                         bk_ExternalPath = None, bk_ClassRef = ib_ClassRef backup,
                         bk_StorageRef = job_label job backupStorageLabel,
                         bk_ScheduleName = job_label job backupScheduleLabel,
                         bk_Parameters = schedule_parameters backup (job_label job backupScheduleLabel),
                         bk_DeletionPolicy = PolicyDelete, bk_State = StateNone, bk_Message = '''',
                         bk_OperatorRef = None, bk_StartedAt = None, bk_CompletedAt = None,
                         bk_Size = ''''\<rparr>))))"

definition enqueueScheduledBackup :: "Job \<Rightarrow> (string \<times> string) list" where
  "enqueueScheduledBackup job =
     (if job_label job backupScheduleLabel = '''' then [] else [(job_Namespace job, job_Name job)])"

definition enqueueScheduledBackupInstance :: "Backup option \<Rightarrow> (string \<times> string) list" where
  "enqueueScheduledBackupInstance obj =
     (case obj of
        None \<Rightarrow> []
      | Some backup \<Rightarrow>
          if bk_ScheduleName backup = '''' then []
          else (case bk_InstanceRef backup of None \<Rightarrow> [] | Some inst \<Rightarrow> [(bk_Namespace backup, inst)]))"

section \<open>Lemmas\<close>

lemma for_each_append:
  "for_each f (xs @ ys) w = and_then (for_each f xs w) (\<lambda>_. for_each f ys)"
proof (induction xs arbitrary: w)
  case (Cons x xs)
  then show ?case by (cases "f x w"; cases "fst (f x w)") auto
qed simp

subsection \<open>CronJob names\<close>

definition cron_full :: "string \<times> string \<Rightarrow> string" where
  "cron_full x = fst x @ ''-'' @ snd x"

definition cron_base :: "string \<times> string \<Rightarrow> string" where
  "cron_base x = fst x @ ''-'' @ trim_both (\<lambda>ch. ch = CHR ''-'') (replace_invalid_runs (to_lower (snd x)))"

definition cron_plain :: "string \<times> string \<Rightarrow> bool" where
  "cron_plain x \<longleftrightarrow> cron_base x = cron_full x \<and> length (cron_full x) \<le> maxCronJobNameLength"

definition cron_tail :: "string \<times> string \<Rightarrow> string" where
  "cron_tail x = ''-'' @ short_hash (fst x @ ''/'' @ snd x)"

lemma cron_name_cases:
  "scheduleCronJobName inst schedule =
     (if cron_plain (inst, schedule) then cron_full (inst, schedule)
      else trim_right (\<lambda>ch. ch = CHR ''-'') (take 43 (cron_base (inst, schedule))) @ cron_tail (inst, schedule))"
proof -
  have take: "(if length n > 43 then take 43 n else n) = take 43 n" for n :: string by simp
  show ?thesis
    unfolding scheduleCronJobName_def cron_plain_def cron_base_def [symmetric] cron_full_def
      cron_tail_def Let_def maxCronJobNameLength_def
    using take by (auto simp: cron_base_def)
qed

interpretation cron_name: bounded_name cron_full cron_plain cron_tail
  "\<lambda>x. scheduleCronJobName (fst x) (snd x)" 52 9
proof
  fix x :: "string \<times> string"
  show "cron_plain x \<Longrightarrow> scheduleCronJobName (fst x) (snd x) = cron_full x \<and> length (cron_full x) \<le> 52"
    by (simp add: cron_name_cases cron_plain_def maxCronJobNameLength_def)
  show "\<exists>start. scheduleCronJobName (fst x) (snd x) = start @ cron_tail x \<and> length start + 9 \<le> 52"
    if "\<not> cron_plain x"
  proof -
    have "length (trim_right (\<lambda>ch. ch = CHR ''-'') (take 43 (cron_base x))) \<le> 43"
      by (rule order_trans [OF trim_right_length]) simp
    with that show ?thesis by (auto simp: cron_name_cases)
  qed
  show "length (cron_tail x) = 9" by (simp add: cron_tail_def)
qed

subsection \<open>The calendar\<close>

lemma first_day_of:
  assumes "0 \<le> m" "m < 12"
  shows "first_day (12 * y + m) =
    days_before_year y + days_before_month m + (if is_leap y \<and> 2 \<le> m then 1 else 0)"
proof -
  have "(12 * y + m) div 12 = y" "(12 * y + m) mod 12 = m" using assms by simp_all
  then show ?thesis by (simp add: first_day_def Let_def)
qed

lemma div_before:
  assumes "0 < k" shows "y div k = (y - 1) div k + (if y mod k = 0 then 1 else (0 :: int))"
proof (cases "y mod k = 0")
  case True
  then have "y - 1 = k * (y div k - 1) + (k - 1)"
    using mult_div_mod_eq [of k y] by (simp add: algebra_simps)
  then have "(y - 1) div k = y div k - 1" by (rule int_div_pos_eq) (use assms in simp_all)
  with True show ?thesis by simp
next
  case False
  have "0 \<le> y mod k" "y mod k < k" using assms by simp_all
  moreover have "y - 1 = k * (y div k) + (y mod k - 1)"
    using mult_div_mod_eq [of k y] by simp
  then have "(y - 1) div k = y div k" by (rule int_div_pos_eq) (use False calculation in simp_all)
  with False show ?thesis by simp
qed

lemma days_before_year_next: "days_before_year (y + 1) = days_before_year y + (if is_leap y then 366 else 365)"
proof -
  have m: "y mod 400 = 0 \<Longrightarrow> y mod 100 = 0" "y mod 100 = 0 \<Longrightarrow> y mod 4 = 0"
    unfolding mod_eq_0_iff_dvd by (erule dvd_trans [rotated], simp)+
  have "365 * y + a - b + c - 719162 =
      365 * (y - 1) + a' - b' + c' - 719162 + (if p4 \<and> (\<not> p100 \<or> p400) then 366 else 365)"
    if "a = a' + (if p4 then 1 else 0)" "b = b' + (if p100 then 1 else 0)" "c = c' + (if p400 then 1 else 0)"
      "p400 \<Longrightarrow> p100" "p100 \<Longrightarrow> p4" for a a' b b' c c' p4 p100 p400
    using that(4,5) by (cases p4; cases p100; cases p400) (simp_all add: that(1-3))
  from this [OF div_before div_before div_before m] show ?thesis
    unfolding days_before_year_def is_leap_def by (simp only: add_diff_cancel_right')
qed

lemma days_before_month_span:
  assumes "0 \<le> m" "m < 11"
  shows "days_before_month m + 28 \<le> days_before_month (m + 1)"
    "days_before_month (m + 1) \<le> days_before_month m + (if m = 1 then 28 else 31)"
proof -
  have "\<forall>m\<in>set [0..10]. days_before_month m + 28 \<le> days_before_month (m + 1) \<and>
      days_before_month (m + 1) \<le> days_before_month m + (if m = 1 then 28 else 31)"
    by code_simp
  moreover have "m \<in> set [0..10]" using assms by simp
  ultimately show "days_before_month m + 28 \<le> days_before_month (m + 1)"
    "days_before_month (m + 1) \<le> days_before_month m + (if m = 1 then 28 else 31)" by blast+
qed

text \<open>A month has from 28 to 31 days.\<close>

lemma first_day_next: "first_day month + 28 \<le> first_day (month + 1) \<and> first_day (month + 1) \<le> first_day month + 31"
proof -
  obtain y m where month: "month = 12 * y + m" and m: "0 \<le> m" "m < 12"
    using mult_div_mod_eq [of 12 month] by (metis pos_mod_sign pos_mod_bound zero_less_numeral)
  show ?thesis
  proof (cases "m = 11")
    case True
    have "first_day (12 * y + 11) = days_before_year y + 334 + (if is_leap y then 1 else 0)"
      by (simp add: first_day_of days_before_month_def eval_nat_numeral)
    moreover have "first_day (12 * (y + 1) + 0) = days_before_year (y + 1)"
      by (subst first_day_of) (simp_all add: days_before_month_def)
    moreover have "month + 1 = 12 * (y + 1) + 0" using True month by simp
    ultimately show ?thesis using days_before_year_next [of y] True month by (simp add: add.commute)
  next
    case False
    then have lt: "m < 11" "0 \<le> m + 1" "m + 1 < 12" using m by simp_all
    define leap :: "int \<Rightarrow> int" where "leap k = (if is_leap y \<and> 2 \<le> k then 1 else 0)" for k
    have "leap m \<le> leap (m + 1)" "leap (m + 1) \<le> leap m + (if m = 1 then 1 else 0)"
      by (simp_all add: leap_def)
    moreover have "first_day month = days_before_year y + days_before_month m + leap m"
      "first_day (month + 1) = days_before_year y + days_before_month (m + 1) + leap (m + 1)"
      using first_day_of [OF m, of y] first_day_of [OF lt(2,3), of y] by (simp_all add: month leap_def add.assoc)
    ultimately show ?thesis
      using days_before_month_span [OF m(1) lt(1)] by (cases "m = 1") simp_all
  qed
qed

lemma first_day_before:
  "first_day (month - int n) + 28 * int n \<le> first_day month \<and> first_day month \<le> first_day (month - int n) + 31 * int n"
proof (induction n)
  case (Suc n)
  then show ?case using first_day_next [of "month - int (Suc n)"] by (simp add: algebra_simps)
qed simp

lemma add_months_before:
  assumes "0 < n"
  shows "t - 31 * n * day_ns \<le> add_months t (- n)" "add_months t (- n) \<le> t - 28 * n * day_ns"
proof -
  let ?M = "month_of (t div day_ns)"
  define span where "span = first_day ?M - first_day (?M - n)"
  have span: "28 * n \<le> span" "span \<le> 31 * n"
    using first_day_before [of ?M "nat n"] assms by (simp_all add: span_def)
  have "add_months t (- n) = (t div day_ns - span) * day_ns + t mod day_ns"
    by (simp add: add_months_def span_def Let_def)
  then have t: "add_months t (- n) = t - span * day_ns"
    using div_mult_mod_eq [of t day_ns] by (simp add: algebra_simps)
  have "28 * n * day_ns \<le> span * day_ns" "span * day_ns \<le> 31 * n * day_ns"
    using span by (intro mult_right_mono; simp add: day_ns_def)+
  with t show "t - 31 * n * day_ns \<le> add_months t (- n)" "add_months t (- n) \<le> t - 28 * n * day_ns"
    by simp_all
qed

lemma add_days_exact:
  assumes "0 \<le> t" "t < 2 ^ 63" "- (2 ^ 40) \<le> days" "days \<le> 0"
  shows "add_days t days = t + days * day_ns"
proof -
  let ?x = "t + days * day_ns"
  have "- (2 ^ 40 * 86400) * 10 ^ 9 \<le> ?x" using assms by (simp add: day_ns_def)
  then have "(- (2 ^ 40 * 86400) * 10 ^ 9) div 10 ^ 9 \<le> ?x div 10 ^ 9" by (rule zdiv_mono1) simp
  moreover have "?x \<le> 2 ^ 63" using assms by (simp add: day_ns_def)
  then have "?x div 10 ^ 9 \<le> 2 ^ 63 div 10 ^ 9" by (rule zdiv_mono1) simp
  ultimately have "is_int64 (?x div 10 ^ 9 + 62135596800)" by (simp add: is_int64_def)
  then have "wrap_time ?x = ?x div 10 ^ 9 * 10 ^ 9 + ?x mod 10 ^ 9"
    by (simp add: wrap_time_def wrap64_id)
  also have "\<dots> = ?x" by (rule div_mult_mod_eq)
  finally show ?thesis by (simp add: add_days_def)
qed

text \<open>What a window of fewer than 2^31 units comes to.\<close>

lemma retentionCutoff_window:
  assumes "atoi digits = Some n" "1 \<le> n" "n < 2 ^ 31" "u \<in> set ''dwm''" "0 \<le> now" "now < 2 ^ 63"
  shows "\<exists>cutoff. retentionCutoff (digits @ [u]) now = Some cutoff \<and>
    (u = CHR ''d'' \<longrightarrow> cutoff = now - n * day_ns) \<and> (u = CHR ''w'' \<longrightarrow> cutoff = now - 7 * n * day_ns) \<and>
    (u = CHR ''m'' \<longrightarrow> now - 31 * n * day_ns \<le> cutoff \<and> cutoff \<le> now - 28 * n * day_ns) \<and> cutoff < now"
proof -
  have "digits \<noteq> ''''" using assms(1) by (auto simp: atoi_def atoi_unbounded_def)
  then have len: "\<not> length (digits @ [u]) < 2" by (cases digits) simp_all
  have wraps: "wrap64 (- n) = - n" "wrap64 (- (7 * n)) = - (7 * n)"
    using assms(2,3) by (simp_all add: wrap64_id is_int64_def)
  have days: "add_days now (- n) = now - n * day_ns" "add_days now (- (7 * n)) = now - 7 * n * day_ns"
    using add_days_exact [OF assms(5,6), of "- n"] add_days_exact [OF assms(5,6), of "- (7 * n)"] assms(2,3)
    by simp_all
  have ns: "0 < day_ns * n" "0 < n * day_ns" using assms(2) by (simp_all add: day_ns_def)
  note months = add_months_before [of n now]
  show ?thesis
    using assms(1,2,4) len ns months by (auto simp: retentionCutoff_def wraps days)
qed

text \<open>
  Beyond that, the product wraps around: a window of 2635249153387078802 weeks has its cutoff
  two days in the future, so every successful run of the schedule expires.
\<close>

lemma week_count_wraps:
  assumes "0 \<le> now" "now < 2 ^ 62"
  shows "retentionCutoff ''2635249153387078802w'' now = Some (now + 2 * day_ns)"
proof -
  have atoi: "atoi ''2635249153387078802'' = Some 2635249153387078802" "wrap64 (- (7 * 2635249153387078802)) = 2"
    by (simp_all add: atoi_def atoi_unbounded_def atoi_digits_def char_digit_def is_int64_def wrap64_def)
  have "is_int64 ((now + 2 * day_ns) div 10 ^ 9 + 62135596800)"
    using assms zdiv_mono1 [of "now + 2 * day_ns" "2 ^ 63" "10 ^ 9"]
      pos_imp_zdiv_nonneg_iff [of "10 ^ 9" "now + 2 * day_ns"]
    by (simp add: is_int64_def day_ns_def)
  then have "add_days now 2 = now + 2 * day_ns"
    using div_mult_mod_eq [of "now + 2 * day_ns" "10 ^ 9"]
    by (simp add: add_days_def wrap_time_def wrap64_id)
  with atoi show ?thesis by (simp add: retentionCutoff_def)
qed

text \<open>One month before March 31 is February 31, which Go reads as March 3.\<close>

lemma month_runs_over: "add_months (20543 * day_ns) (- 1) = 20515 * day_ns"
  by code_simp

subsection \<open>Retention\<close>

text \<open>What \<open>sort.Slice\<close> promises: the same elements, newest first; ties in any order.\<close>

definition sorts_newest_first :: "lib \<Rightarrow> bool" where
  "sorts_newest_first l \<longleftrightarrow>
     (\<forall>key xs. mset (SortNewestFirst l key xs) = mset xs \<and>
        sorted_wrt (\<lambda>a b. key b \<le> key a) (SortNewestFirst l key xs))"

lemma newest_kept:
  assumes "sorts_newest_first l" "distinct runs"
  shows "card (set runs - set (drop n (SortNewestFirst l key runs))) = min n (length runs)"
    "b \<in> set (drop n (SortNewestFirst l key runs)) \<Longrightarrow>
       k \<in> set runs - set (drop n (SortNewestFirst l key runs)) \<Longrightarrow> key b \<le> key k"
    "set (SortNewestFirst l key runs) = set runs" "length (SortNewestFirst l key runs) = length runs"
proof -
  let ?s = "SortNewestFirst l key runs"
  have m: "mset ?s = mset runs" and sorted: "sorted_wrt (\<lambda>a b. key b \<le> key a) ?s"
    using assms(1) by (simp_all add: sorts_newest_first_def)
  show set: "set ?s = set runs" and len: "length ?s = length runs"
    using m by (metis set_mset_mset, metis size_mset)
  have "distinct ?s" using m assms(2) by (metis mset_eq_imp_distinct_iff)
  then have d: "distinct (take n ?s @ drop n ?s)" by simp
  have "set (take n ?s) \<inter> set (drop n ?s) = {}"
    by (rule set_take_disj_set_drop_if_distinct [OF \<open>distinct ?s\<close> order_refl])
  moreover have "set runs = set (take n ?s) \<union> set (drop n ?s)"
    unfolding set [symmetric] by (metis append_take_drop_id set_append)
  ultimately have kept: "set runs - set (drop n ?s) = set (take n ?s)" by blast
  then show "card (set runs - set (drop n ?s)) = min n (length runs)"
    using d len by (simp add: distinct_card)
  have "sorted_wrt (\<lambda>a b. key b \<le> key a) (take n ?s @ drop n ?s)" using sorted by simp
  then show "b \<in> set (drop n ?s) \<Longrightarrow> k \<in> set runs - set (drop n ?s) \<Longrightarrow> key b \<le> key k"
    unfolding kept sorted_wrt_append by blast
qed

lemma run_sets:
  "b \<in> set (failed_runs bs s) \<longleftrightarrow> b \<in> set bs \<and> bk_ScheduleName b = s \<and> \<not> bk_Deleting b \<and> bk_State b = StateFailed"
  "b \<in> set (succeeded_runs bs s) \<longleftrightarrow> b \<in> set bs \<and> bk_ScheduleName b = s \<and> \<not> bk_Deleting b \<and>
     bk_State b = StateSucceeded \<and> bk_CompletedAt b \<noteq> None"
  by (auto simp: failed_runs_def succeeded_runs_def)

definition policy_expired :: "lib \<Rightarrow> Backup list \<Rightarrow> time \<Rightarrow> string \<Rightarrow> Retention option \<Rightarrow> Backup list" where
  "policy_expired l backups now schedule policy =
     (let runs = SortNewestFirst l completed_at (succeeded_runs backups schedule) in
      case policy of
        None \<Rightarrow> []
      | Some p \<Rightarrow>
          (case ret_Type p of
             RetentionCount \<Rightarrow>
               (case ret_Count p of
                  None \<Rightarrow> []
                | Some n \<Rightarrow> if int (length runs) > n then drop (nat n) runs else [])
           | RetentionTime \<Rightarrow>
               (case retentionCutoff (ret_Duration p) now of
                  None \<Rightarrow> []
                | Some cutoff \<Rightarrow> filter (\<lambda>run. completed_at run < cutoff) runs)
           | RetentionOther \<Rightarrow> []))"

lemma sorted_runs_set: "sorts_newest_first l \<Longrightarrow> set (SortNewestFirst l key runs) = set runs"
  unfolding sorts_newest_first_def by (metis set_mset_mset)

lemma policy_subset:
  assumes "sorts_newest_first l"
  shows "set (policy_expired l bs now s policy) \<subseteq> set (succeeded_runs bs s)"
proof (cases policy)
  case (Some p)
  have "set (policy_expired l bs now s policy) \<subseteq>
      set (SortNewestFirst l completed_at (succeeded_runs bs s))"
    by (cases "ret_Type p")
      (auto simp: Some policy_expired_def Let_def dest: in_set_dropD split: option.split)
  then show ?thesis by (simp add: sorted_runs_set [OF assms])
qed (simp add: policy_expired_def)

lemma schedule_expired_set:
  assumes "sorts_newest_first l"
  shows "set (schedule_expired l bs now (s, policy)) =
    set (drop keptFailedRuns (SortNewestFirst l bk_CreationTimestamp (failed_runs bs s))) \<union>
    set (policy_expired l bs now s policy)"
proof -
  have "length (SortNewestFirst l bk_CreationTimestamp (failed_runs bs s)) = length (failed_runs bs s)"
    using assms unfolding sorts_newest_first_def by (metis size_mset)
  then show ?thesis
    by (auto simp: schedule_expired_def policy_expired_def Let_def split: option.splits)
qed

lemma expired_of_schedule:
  assumes "sorts_newest_first l" "distinct (keys retention)" "map_of retention s = Some policy"
  shows "set (expiredBackups l bs retention now) \<inter> set (succeeded_runs bs s) =
      set (policy_expired l bs now s policy)"
    "set (expiredBackups l bs retention now) \<inter> set (failed_runs bs s) =
      set (drop keptFailedRuns (SortNewestFirst l bk_CreationTimestamp (failed_runs bs s)))"
proof -
  let ?E = "set (expiredBackups l bs retention now)"
  let ?F = "\<lambda>s. set (drop keptFailedRuns (SortNewestFirst l bk_CreationTimestamp (failed_runs bs s)))"
  have failed: "?F s' \<subseteq> set (failed_runs bs s')" for s'
    using sorted_runs_set [OF assms(1), of bk_CreationTimestamp "failed_runs bs s'"]
    by (auto dest: in_set_dropD)
  have named: "bk_ScheduleName b = s'" if "b \<in> set (schedule_expired l bs now (s', policy'))" for b s' policy'
  proof -
    have "b \<in> set (failed_runs bs s') \<or> b \<in> set (succeeded_runs bs s')"
      using that failed [of s'] policy_subset [OF assms(1), of bs now s' policy']
      unfolding schedule_expired_set [OF assms(1)] by blast
    then show ?thesis by (auto simp: run_sets)
  qed
  have at: "b \<in> ?E \<longleftrightarrow> b \<in> set (schedule_expired l bs now (s, policy))" if b: "bk_ScheduleName b = s" for b
  proof
    assume "b \<in> ?E"
    then obtain s' policy' where e: "(s', policy') \<in> set retention"
      "b \<in> set (schedule_expired l bs now (s', policy'))" by (auto simp: expiredBackups_def)
    with named b have "s' = s" by blast
    with e(1) assms(2,3) have "policy' = policy" by simp
    with e(2) \<open>s' = s\<close> show "b \<in> set (schedule_expired l bs now (s, policy))" by simp
  next
    assume "b \<in> set (schedule_expired l bs now (s, policy))"
    with map_of_SomeD [OF assms(3)] show "b \<in> ?E" by (auto simp: expiredBackups_def)
  qed
  have runs: "bk_ScheduleName b = s" if "b \<in> set (succeeded_runs bs s) \<or> b \<in> set (failed_runs bs s)" for b
    using that by (auto simp: run_sets)
  have disjoint: "set (succeeded_runs bs s) \<inter> set (failed_runs bs s) = {}" by (auto simp: run_sets)
  note facts = at runs disjoint failed [of s] policy_subset [OF assms(1), of bs now s policy]
    schedule_expired_set [OF assms(1), of bs now s policy]
  show "?E \<inter> set (succeeded_runs bs s) = set (policy_expired l bs now s policy)"
    using facts by blast
  show "?E \<inter> set (failed_runs bs s) = ?F s"
    using facts by blast
qed

text \<open>Only finished runs of the Instance's own schedules expire.\<close>

lemma expired_runs:
  assumes "sorts_newest_first l" "b \<in> set (expiredBackups l bs retention now)"
  shows "bk_ScheduleName b \<in> set (keys retention) \<and>
    (b \<in> set (failed_runs bs (bk_ScheduleName b)) \<or> b \<in> set (succeeded_runs bs (bk_ScheduleName b)))"
proof -
  from assms(2) obtain s policy where e: "(s, policy) \<in> set retention"
    and b: "b \<in> set (schedule_expired l bs now (s, policy))" by (auto simp: expiredBackups_def)
  then have run: "b \<in> set (failed_runs bs s) \<or> b \<in> set (succeeded_runs bs s)"
    unfolding schedule_expired_set [OF assms(1)]
    using policy_subset [OF assms(1), of bs now s policy]
      sorted_runs_set [OF assms(1), of bk_CreationTimestamp "failed_runs bs s"]
    by (auto dest: in_set_dropD)
  then have "bk_ScheduleName b = s" by (auto simp: run_sets)
  with run e show ?thesis by force
qed

text \<open>What expires does not depend on the order in which Go visits the retention map.\<close>

interpretation retention_loop: order_free "\<lambda>retention. set (expiredBackups l bs retention now)"
  for l bs now
  by unfold_locales (simp add: expiredBackups_def)

subsection \<open>Pruning\<close>

text \<open>
  What the API server does with CronJobs: a delete removes the one of that name, and deleting
  a ConfigMap leaves them alone.
\<close>

definition cron_store :: "'w ctx \<Rightarrow> bool" where
  "cron_store c \<longleftrightarrow>
     (\<forall>w cronJobs name. ListCronJobs (api c) w = Inr cronJobs \<longrightarrow>
        (\<exists>w'. DeleteCronJob (api c) name w = (Inr (), w') \<and>
           ListCronJobs (api c) w' = Inr (filter (\<lambda>j. om_Name (cj_Meta j) \<noteq> name) cronJobs))) \<and>
     (\<forall>name w. ListCronJobs (api c) (snd (DeleteConfigMap (api c) name w)) = ListCronJobs (api c) w)"

lemma prune_step:
  assumes "cron_store c" "ListCronJobs (api c) w = Inr cronJobs"
    and "and_then (wrap_error p (DeleteCronJob (api c) name w))
      (\<lambda>_ w1. wrap_error q (DeleteConfigMap (api c) name w1)) = (Inr (), w')"
  shows "ListCronJobs (api c) w' = Inr (filter (\<lambda>j. om_Name (cj_Meta j) \<noteq> name) cronJobs)"
proof -
  from assms(1,2) obtain w1 where del: "DeleteCronJob (api c) name w = (Inr (), w1)"
    and left: "ListCronJobs (api c) w1 = Inr (filter (\<lambda>j. om_Name (cj_Meta j) \<noteq> name) cronJobs)"
    unfolding cron_store_def by blast
  from assms(3) del have "w' = snd (DeleteConfigMap (api c) name w1)" by (simp add: error_simps)
  with assms(1) left show ?thesis by (simp add: cron_store_def)
qed

section \<open>Properties\<close>

text \<open>
  C19: CronJob names are short enough and tell the schedules of an instance apart. A CronJob's
  name has at most 52 characters, which leaves room for the suffix of its Jobs, and two
  schedules of one instance share a CronJob only if they have the same name, or both names
  were shortened and their hashes collide, or the name of one, kept as it is, ends with the
  very hash the other's was shortened to.
\<close>

theorem cron_names_apart:
  "length (scheduleCronJobName inst schedule) \<le> 52 \<and>
   (scheduleCronJobName inst schedule = scheduleCronJobName inst schedule' \<longrightarrow>
     (if cron_plain (inst, schedule) = cron_plain (inst, schedule')
      then (if cron_plain (inst, schedule) then schedule = schedule'
            else short_hash (inst @ ''/'' @ schedule) = short_hash (inst @ ''/'' @ schedule'))
      else if cron_plain (inst, schedule)
      then has_suffix (inst @ ''-'' @ schedule) (''-'' @ short_hash (inst @ ''/'' @ schedule'))
      else has_suffix (inst @ ''-'' @ schedule') (''-'' @ short_hash (inst @ ''/'' @ schedule))))"
  using cron_name.bounded [of "(inst, schedule)"] cron_name.shared_name [of "(inst, schedule)" "(inst, schedule')"]
  by (auto simp: cron_full_def cron_tail_def split: if_splits)

theorem cron_names_apart_witness:
  "scheduleCronJobName ''inst'' ''daily'' \<noteq> scheduleCronJobName ''inst'' ''weekly'' \<and>
   length (scheduleCronJobName ''inst'' ''daily'') \<le> 52"
proof -
  have "cron_plain (''inst'', ''daily'')" "cron_plain (''inst'', ''weekly'')" by code_simp+
  with cron_names_apart [of "''inst''" "''daily''" "''weekly''"] show ?thesis by auto
qed

text \<open>
  Across instances the name does not tell where the instance ends and the schedule begins:
  the schedule \<open>b-c\<close> of \<open>a\<close> and the schedule \<open>c\<close> of \<open>a-b\<close> share a CronJob.
\<close>

lemma cron_names_of_instances_coincide:
  "scheduleCronJobName ''a'' ''b-c'' = scheduleCronJobName ''a-b'' ''c''"
  by code_simp

text \<open>
  The run of a CronJob: a Job that has the labels and the spec of its template, under a name
  of the controller's choosing. In its pod the label the code reads \<open>JOB_NAME\<close> from is that name.
\<close>

definition started_by :: "CronJob \<Rightarrow> Job \<Rightarrow> bool" where
  "started_by cj job \<longleftrightarrow>
     job_Labels job = cj_JobLabels cj \<and> job_Spec job = cj_JobSpec cj \<and>
     job_Namespace job = om_Namespace (cj_Meta cj)"

text \<open>
  POSIX \<open>tr\<close> for operands without ranges: each character of the first is replaced by the one at
  its place in the second. The script names the backup after the Job this way.
\<close>

definition tr :: "string \<Rightarrow> string \<Rightarrow> string \<Rightarrow> string" where
  "tr from to s = map (\<lambda>ch. case map_of (zip from to) ch of None \<Rightarrow> ch | Some d \<Rightarrow> d) s"

definition create_script :: "string \<Rightarrow> string \<Rightarrow> string" where
  "create_script from to =
     ''exec /app/milvus-backup create -n '' @ [CHR 0x22] @ ''$(printf %s '' @ [CHR 0x22] @ ''$JOB_NAME''
     @ [CHR 0x22] @ '' | tr '' @ from @ '' '' @ to @ '')'' @ [CHR 0x22] @ '' '' @ [CHR 0x22] @ ''$@'' @ [CHR 0x22]"

lemma milvusBackupName_tr: "milvusBackupName s = tr ''.-'' ''__'' s"
  by (simp add: milvusBackupName_def tr_def)

lemma schedule_labels_read:
  assumes "job_Labels job = schedule_labels inst schedule storageName"
  shows "job_label job backupScheduleLabel = schedule" "job_label job backupStorageLabel = storageName"
    "job_label job backupJobInstanceLabel = inst"
  using assms by (simp_all add: job_label_def schedule_labels_def map_of_update backupJobLabels_def
      backupScheduleLabel_def backupStorageLabel_def backupJobInstanceLabel_def backupJobOperationLabel_def)

text \<open>What a successful \<open>applyBackupSchedule\<close> wrote.\<close>

lemma applyBackupSchedule_Inr:
  assumes "applyBackupSchedule c cr name storageName schedule suspend w0 = (Inr (), w1)"
  obtains spec v cm where "schedule_job c w0 cr storageName schedule = Inr spec"
    "cm = \<lparr>cm_Meta = withLabels (ObjectMetaOf c name) (schedule_labels (Name c) (sch_Name schedule) storageName),
       cm_Data = [(''backup.yaml'', js_config spec)]\<rparr>"
    "ApplyConfigMap (api c) cm w0 = (Inr (), v)"
    "ApplyCronJob (api c) (schedule_cronjob c spec name
       (schedule_labels (Name c) (sch_Name schedule) storageName) schedule suspend) v = (Inr (), w1)"
proof -
  let ?labels = "schedule_labels (Name c) (sch_Name schedule) storageName"
  obtain spec where spec: "schedule_job c w0 cr storageName schedule = Inr spec"
    using assms by (auto simp: applyBackupSchedule_def split: sum.splits)
  let ?cm = "\<lparr>cm_Meta = withLabels (ObjectMetaOf c name) ?labels, cm_Data = [(''backup.yaml'', js_config spec)]\<rparr>"
  obtain r v where config: "ApplyConfigMap (api c) ?cm w0 = (r, v)" by fastforce
  have "r = Inr () \<and> ApplyCronJob (api c) (schedule_cronjob c spec name ?labels schedule suspend) v = (Inr (), w1)"
    using assms spec config
    by (cases r) (auto simp: applyBackupSchedule_def Let_def plain_step_def wrap_error_def
        split: prod.splits sum.splits)
  with that [OF spec refl] config show thesis by blast
qed

lemma schedule_job_Inr:
  assumes "schedule_job c w cr storageName schedule = Inr spec"
  obtains bs milvus store where "GetBackupStorage (api c) w storageName = Inr bs"
    "backupStorageObjectStore (lib c) bs (backupRootPath (Namespace c) (Name c)) = Inr store"
    "milvusBackupConfig (lib c) (Name c) (Namespace c) milvus store = Inr (js_config spec)"
  using assms
  by (auto simp: schedule_job_def operationJobSpec_def error_simps Let_def split: if_splits sum.splits)


definition scheduled_job :: Job where
  "scheduled_job = \<lparr>job_Name = ''inst-daily-29'', job_Namespace = ''ns'',
     job_Labels = schedule_labels ''inst'' ''daily'' ''s3'', job_Owner = None, job_Deleting = False,
     job_Spec = backupJobTemplate sample_lib
       \<lparr>js_owner = None, js_op = operationCreate, js_instance = ''inst'', js_args = [], js_config = '''',
        js_env = [], js_saName = '''', js_namespace = ''ns''\<rparr> ''inst-daily'' [],
     job_Conditions = [], job_StartTime = None, job_CompletionTime = None\<rparr>"

definition schedule_ctx :: "Job option ctx" where
  "schedule_ctx = backup_ctx\<lparr>api := (api backup_ctx)
     \<lparr>GetInstance := \<lambda>_ _ _. Inr (sample_Instance
        \<lparr>in_Backup := Some \<lparr>ib_Enabled = True, ib_ClassRef = ''milvus-backup'', ib_Storages = []\<rparr>\<rparr>)\<rparr>\<rparr>"

lemma schedule_ctx_simps [simp]:
  "Name schedule_ctx = ''inst''" "Namespace schedule_ctx = ''ns''"
  "GetBackupStorage (api schedule_ctx) w n = Inr backup_bucket"
  "GetInstance (api schedule_ctx) w ns n = Inr (sample_Instance
     \<lparr>in_Backup := Some \<lparr>ib_Enabled = True, ib_ClassRef = ''milvus-backup'', ib_Storages = []\<rparr>\<rparr>)"
  "GetJob (api schedule_ctx) = GetJob (api backup_ctx)"
  "ObjectMetaOf schedule_ctx n = \<lparr>om_Name = n, om_Namespace = ''ns'', om_Labels = []\<rparr>"
  "ApplyConfigMap (api schedule_ctx) cm w = (Inr (), w)" "ApplyCronJob (api schedule_ctx) cj w = (Inr (), w)"
  by (simp_all add: schedule_ctx_def) (simp_all add: backup_ctx_def storage_ctx_def sample_ctx_def sample_api_def)

definition daily_schedule :: BackupSchedule where
  "daily_schedule = \<lparr>sch_Name = ''daily'', sch_Enabled = True, sch_Cron = ''0 2 * * *'',
     sch_Parameters = None, sch_Retention = None\<rparr>"

lemma schedule_ctx_applies:
  "applyBackupSchedule schedule_ctx sample_milvus ''inst-daily'' ''s3'' daily_schedule False w = (Inr (), w)"
proof -
  have same: "lib schedule_ctx = lib backup_ctx" "GetConfigMap (api schedule_ctx) = GetConfigMap (api backup_ctx)"
    by (simp_all add: schedule_ctx_def)
  have "operationJobSpec schedule_ctx w sample_milvus = operationJobSpec backup_ctx w sample_milvus"
    unfolding operationJobSpec_def milvusObjectStore_def same by simp
  then have "\<exists>spec. schedule_job schedule_ctx w sample_milvus ''s3'' daily_schedule = Inr spec"
    using backup_ctx_spec [of w "backupRootPath ''ns'' ''inst''" "''''" None]
    by (auto simp: schedule_job_def daily_schedule_def decodeParameters_def has_prefix_def schedule_ctx_def sample_lib_def)
  then show ?thesis
    by (auto simp: applyBackupSchedule_def plain_step_def wrap_error_def Let_def)
qed


text \<open>
  C22: pruning removes exactly the CronJobs of schedules that are gone. After a successful prune,
  the CronJobs left are those that were there and whose names are wanted.
\<close>

theorem prune_keeps_exactly_desired:
  assumes "cron_store c" "ListCronJobs (api c) w = Inr cronJobs"
    and "pruneBackupSchedules c desired w = (Inr (), w')"
  shows "ListCronJobs (api c) w' = Inr (filter (\<lambda>j. om_Name (cj_Meta j) \<in> set desired) cronJobs)"
proof -
  let ?f = "\<lambda>name w. if name \<in> set desired then (Inr (), w)
      else and_then (wrap_error (''delete backup schedule '' @ quote name) (DeleteCronJob (api c) name w))
        (\<lambda>_ w1. wrap_error (''delete backup schedule config '' @ quote name) (DeleteConfigMap (api c) name w1))"
  have "ListCronJobs (api c) w' =
      Inr (filter (\<lambda>j. om_Name (cj_Meta j) \<in> set desired \<or> om_Name (cj_Meta j) \<notin> set names) jobs)"
    if "for_each ?f names w = (Inr (), w')" "ListCronJobs (api c) w = Inr jobs" for names w jobs
    using that
  proof (induction names arbitrary: w jobs)
    case (Cons name names)
    show ?case
    proof (cases "name \<in> set desired")
      case True
      with Cons.prems have "for_each ?f names w = (Inr (), w')" by simp
      note ih = Cons.IH [OF this Cons.prems(2)]
      have same: "filter (\<lambda>j. om_Name (cj_Meta j) \<in> set desired \<or> om_Name (cj_Meta j) \<notin> set names) jobs =
          filter (\<lambda>j. om_Name (cj_Meta j) \<in> set desired \<or> om_Name (cj_Meta j) \<notin> set (name # names)) jobs"
        by (rule filter_cong) (use True in auto)
      show ?thesis using ih unfolding same .
    next
      case False
      with Cons.prems(1) obtain w1 where
        del: "and_then (wrap_error (''delete backup schedule '' @ quote name) (DeleteCronJob (api c) name w))
          (\<lambda>_ w1. wrap_error (''delete backup schedule config '' @ quote name) (DeleteConfigMap (api c) name w1))
          = (Inr (), w1)" and rest: "for_each ?f names w1 = (Inr (), w')"
        by (auto simp: and_then_Inr)
      from Cons.IH [OF rest prune_step [OF assms(1) Cons.prems(2) del]] show ?thesis
        by (simp add: conj_commute) (rule filter_cong [OF refl], use False in auto)
    qed
  qed simp
  from this [of "map (om_Name \<circ> cj_Meta) cronJobs" w cronJobs] assms(2,3)
  show ?thesis by (auto simp: pruneBackupSchedules_def intro!: filter_cong)
qed

definition one_cronjob :: "string \<Rightarrow> CronJob" where
  "one_cronjob name = \<lparr>cj_Meta = \<lparr>om_Name = name, om_Namespace = ''ns'', om_Labels = []\<rparr>,
     cj_Schedule = ''0 2 * * *'', cj_TimeZone = ''Etc/UTC'', cj_Suspend = False,
     cj_ConcurrencyPolicy = ''Forbid'', cj_StartingDeadlineSeconds = 300,
     cj_SuccessfulJobsHistoryLimit = 3, cj_FailedJobsHistoryLimit = 3, cj_JobLabels = [],
     cj_JobSpec = job_Spec scheduled_job\<rparr>"

text \<open>A cluster that is the list of its CronJobs.\<close>

definition cron_ctx :: "CronJob list ctx" where
  "cron_ctx = sample_ctx\<lparr>api := sample_api
     \<lparr>ListCronJobs := Inr,
      DeleteCronJob := \<lambda>name w. (Inr (), filter (\<lambda>j. om_Name (cj_Meta j) \<noteq> name) w)\<rparr>\<rparr>"

lemma cron_ctx_store: "cron_store cron_ctx" "ListCronJobs (api cron_ctx) w = Inr w"
  by (simp_all add: cron_store_def cron_ctx_def sample_ctx_def sample_api_def)

theorem prune_keeps_exactly_desired_witness:
  "ListCronJobs (api cron_ctx) (snd (pruneBackupSchedules cron_ctx [''inst-daily'']
     [one_cronjob ''inst-daily'', one_cronjob ''inst-old''])) = Inr [one_cronjob ''inst-daily'']"
proof -
  let ?w = "[one_cronjob ''inst-daily'', one_cronjob ''inst-old'']"
  obtain w' where run: "pruneBackupSchedules cron_ctx [''inst-daily''] ?w = (Inr (), w')"
    by (simp add: pruneBackupSchedules_def cron_ctx_def sample_ctx_def sample_api_def one_cronjob_def)
  from prune_keeps_exactly_desired [OF cron_ctx_store(1) cron_ctx_store(2) run] run show ?thesis
    by (simp add: one_cronjob_def)
qed

text \<open>
  C10: retention by count keeps the newest. Of the successful runs of a schedule that keeps
  \<open>n\<close>, exactly \<open>n\<close> (or all, when there are fewer) stay, none of them completed before one that
  expires; of its failed runs the newest three stay; and nothing else of the schedule expires,
  nor anything of a schedule the Instance does not have.
\<close>

theorem retention_keeps_the_newest:
  assumes "sorts_newest_first (lib c)" "distinct bs" "distinct (keys retention)"
    and "map_of retention s = Some (Some p)" "ret_Type p = RetentionCount" "ret_Count p = Some (int n)"
  shows "let expired = set (expiredBackups (lib c) bs retention now); runs = succeeded_runs bs s;
      failures = failed_runs bs s in
    card (set runs - expired) = min n (length runs) \<and>
    (\<forall>b\<in>set runs \<inter> expired. \<forall>k\<in>set runs - expired. completed_at b \<le> completed_at k) \<and>
    card (set failures - expired) = min 3 (length failures) \<and>
    (\<forall>b\<in>set failures \<inter> expired. \<forall>k\<in>set failures - expired.
       bk_CreationTimestamp b \<le> bk_CreationTimestamp k) \<and>
    (\<forall>b\<in>expired. bk_ScheduleName b = s \<longrightarrow> b \<in> set runs \<union> set failures) \<and>
    (\<forall>b\<in>expired. bk_ScheduleName b \<in> set (keys retention) \<and> b \<in> set bs \<and> \<not> bk_Deleting b \<and>
       bk_State b \<in> {StateSucceeded, StateFailed})"
proof -
  let ?l = "lib c" and ?E = "set (expiredBackups (lib c) bs retention now)"
  let ?runs = "succeeded_runs bs s" and ?failures = "failed_runs bs s"
  have d: "distinct ?runs" "distinct ?failures"
    using assms(2) by (simp_all add: succeeded_runs_def failed_runs_def)
  note by_count = newest_kept(1,2) [OF assms(1) d(1), where n = n and key = completed_at]
    and failed = newest_kept(1,2) [OF assms(1) d(2), where n = keptFailedRuns and key = bk_CreationTimestamp]
  have "set (policy_expired ?l bs now s (Some p)) = set (drop n (SortNewestFirst ?l completed_at ?runs))"
    using assms(5,6)
    by (cases "n < length (SortNewestFirst ?l completed_at ?runs)") (simp_all add: policy_expired_def Let_def)
  then have runs: "?E \<inter> set ?runs = set (drop n (SortNewestFirst ?l completed_at ?runs))"
    and failures: "?E \<inter> set ?failures = set (drop keptFailedRuns (SortNewestFirst ?l bk_CreationTimestamp ?failures))"
    using expired_of_schedule [OF assms(1,3,4), of bs now] by simp_all
  have kept: "set ?runs - ?E = set ?runs - set (drop n (SortNewestFirst ?l completed_at ?runs))"
    "set ?failures - ?E =
       set ?failures - set (drop keptFailedRuns (SortNewestFirst ?l bk_CreationTimestamp ?failures))"
    using runs failures by blast+
  have "card (set ?runs - ?E) = min n (length ?runs)"
    unfolding kept(1) by (rule by_count(1))
  moreover have "\<forall>b\<in>set ?runs \<inter> ?E. \<forall>k\<in>set ?runs - ?E. completed_at b \<le> completed_at k"
    unfolding kept(1) using by_count(2) runs by blast
  moreover have "card (set ?failures - ?E) = min 3 (length ?failures)"
    unfolding kept(2) using failed(1) by (simp add: keptFailedRuns_def)
  moreover have "\<forall>b\<in>set ?failures \<inter> ?E. \<forall>k\<in>set ?failures - ?E.
      bk_CreationTimestamp b \<le> bk_CreationTimestamp k"
    unfolding kept(2) using failed(2) failures by blast
  moreover have "\<forall>b\<in>?E. bk_ScheduleName b = s \<longrightarrow> b \<in> set ?runs \<union> set ?failures"
    using expired_runs [OF assms(1)] by blast
  moreover have "\<forall>b\<in>?E. bk_ScheduleName b \<in> set (keys retention) \<and> b \<in> set bs \<and> \<not> bk_Deleting b \<and>
       bk_State b \<in> {StateSucceeded, StateFailed}"
    using expired_runs [OF assms(1)] by (auto simp: run_sets)
  ultimately show ?thesis unfolding Let_def by blast
qed

definition daily_run :: "string \<Rightarrow> time \<Rightarrow> Backup" where
  "daily_run name t = (sample_backup name)\<lparr>bk_ScheduleName := ''daily'', bk_State := StateSucceeded,
     bk_CompletedAt := Some t, bk_CreationTimestamp := t\<rparr>"

lemma sample_sorts: "sorts_newest_first sample_lib"
proof -
  have "sorted_wrt (\<lambda>a b. key b \<le> key a) (sort_key (\<lambda>b. - key b) xs)" for key :: "Backup \<Rightarrow> time" and xs
    using sorted_sort_key [of "\<lambda>b. - key b" xs] by (simp add: sorted_wrt_map)
  then show ?thesis by (simp add: sorts_newest_first_def sample_lib_def)
qed

lemma daily_runs_distinct: "distinct [daily_run ''a'' 1, daily_run ''b'' 3, daily_run ''c'' 2]"
  by (simp add: daily_run_def sample_backup_def)

lemma daily_runs_succeeded:
  "succeeded_runs [daily_run ''a'' 1, daily_run ''b'' 3, daily_run ''c'' 2] ''daily'' =
     [daily_run ''a'' 1, daily_run ''b'' 3, daily_run ''c'' 2]"
  by (simp add: succeeded_runs_def daily_run_def sample_backup_def)

theorem retention_keeps_the_newest_witness:
  "card (set [daily_run ''a'' 1, daily_run ''b'' 3, daily_run ''c'' 2] -
     set (expiredBackups sample_lib [daily_run ''a'' 1, daily_run ''b'' 3, daily_run ''c'' 2]
       [(''daily'', Some \<lparr>ret_Type = RetentionCount, ret_Count = Some 2, ret_Duration = ''''\<rparr>)] 0)) = 2"
proof -
  have lib: "lib (sample_ctx :: unit ctx) = sample_lib" by (simp add: sample_ctx_def)
  show ?thesis
    using retention_keeps_the_newest [of "sample_ctx :: unit ctx"
        "[daily_run ''a'' 1, daily_run ''b'' 3, daily_run ''c'' 2]"
        "[(''daily'', Some \<lparr>ret_Type = RetentionCount, ret_Count = Some 2, ret_Duration = ''''\<rparr>)]" "''daily''"
        "\<lparr>ret_Type = RetentionCount, ret_Count = Some 2, ret_Duration = ''''\<rparr>" 2 0]
      sample_sorts daily_runs_distinct
    unfolding lib daily_runs_succeeded by (simp add: Let_def)
qed



text \<open>The same cluster, in which applying an unsuspended CronJob does anything else.\<close>

definition only_suspended :: "'w ctx \<Rightarrow> (CronJob \<Rightarrow> ('w, unit) step) \<Rightarrow> 'w ctx" where
  "only_suspended c other = c\<lparr>api := (api c)
     \<lparr>ApplyCronJob := \<lambda>j. if cj_Suspend j then ApplyCronJob (api c) j else other j\<rparr>\<rparr>"

lemma only_suspended_simps [simp]:
  "existing_milvus (only_suspended c other) = existing_milvus c" "Name (only_suspended c other) = Name c"
  "Namespace (only_suspended c other) = Namespace c" "Inst (only_suspended c other) = Inst c"
  "lib (only_suspended c other) = lib c" "ObjectMetaOf (only_suspended c other) = ObjectMetaOf c"
  "GetBackupStorage (api (only_suspended c other)) = GetBackupStorage (api c)"
  "GetConfigMap (api (only_suspended c other)) = GetConfigMap (api c)"
  "ListRestores (api (only_suspended c other)) = ListRestores (api c)"
  "ListCronJobs (api (only_suspended c other)) = ListCronJobs (api c)"
  "GetDataSourceStatus (api (only_suspended c other)) = GetDataSourceStatus (api c)"
  "ApplyConfigMap (api (only_suspended c other)) = ApplyConfigMap (api c)"
  "DeleteCronJob (api (only_suspended c other)) = DeleteCronJob (api c)"
  "DeleteConfigMap (api (only_suspended c other)) = DeleteConfigMap (api c)"
  "BackupsForInstance (api (only_suspended c other)) = BackupsForInstance (api c)"
  "DeleteBackup (api (only_suspended c other)) = DeleteBackup (api c)"
  "Now (api (only_suspended c other)) = Now (api c)"
  by (auto simp: only_suspended_def existing_milvus_def)

lemma apply_suspended:
  "applyBackupSchedule (only_suspended c other) cr name storage schedule True =
     applyBackupSchedule c cr name storage schedule True"
proof
  fix w
  have job: "schedule_job (only_suspended c other) w cr storage schedule = schedule_job c w cr storage schedule"
    unfolding schedule_job_def operationJobSpec_def milvusObjectStore_def only_suspended_simps ..
  have cron: "schedule_cronjob (only_suspended c other) spec name labels schedule True =
      schedule_cronjob c spec name labels schedule True" for spec labels
    by (simp add: schedule_cronjob_def)
  have run: "ApplyCronJob (api (only_suspended c other)) (schedule_cronjob c spec name labels schedule True) =
      ApplyCronJob (api c) (schedule_cronjob c spec name labels schedule True)" for spec labels
    by (simp add: only_suspended_def schedule_cronjob_def)
  show "applyBackupSchedule (only_suspended c other) cr name storage schedule True w =
     applyBackupSchedule c cr name storage schedule True w"
    unfolding applyBackupSchedule_def job cron only_suspended_simps run ..
qed

lemma apply_all_suspended:
  "apply_schedules (only_suspended c other) cr True schedules desired =
     apply_schedules c cr True schedules desired"
proof (induction schedules arbitrary: desired)
  case (Cons x schedules)
  obtain storage schedule where x: "x = (storage, schedule)" by (cases x)
  show ?case
  proof
    fix w
    show "apply_schedules (only_suspended c other) cr True (x # schedules) desired w =
        apply_schedules c cr True (x # schedules) desired w"
      unfolding x apply_schedules.simps only_suspended_simps apply_suspended Cons.IH ..
  qed
qed (simp add: fun_eq_iff)

text \<open>
  C23: no scheduled backup starts while data is restored into the instance. While the seeding
  of the instance is not done, or one of its Restores is neither finished nor being deleted,
  the CronJobs that are applied are all suspended: the pass is the same whatever applying an
  unsuspended one would do.
\<close>

theorem schedules_suspended_during_restore:
  assumes "(\<exists>ds. GetDataSourceStatus (api c) w = Some ds \<and> \<not> ds_Done ds) \<or>
    (\<exists>restores r. ListRestores (api c) w = Inr restores \<and> r \<in> set restores \<and> \<not> rs_Deleting r \<and>
       rs_State r \<noteq> StateSucceeded \<and> rs_State r \<noteq> StateFailed)"
  shows "syncBackupSchedules (only_suspended c other) w = syncBackupSchedules c w"
proof -
  have suspend: "schedulesSuspended c w = Inr True"
    using assms by (auto simp: schedulesSuspended_def activeRestore_def list_ex_iff split: option.split)
  then have suspended: "schedulesSuspended (only_suspended c other) w = Inr True"
    unfolding schedulesSuspended_def activeRestore_def only_suspended_simps .
  have "desired_schedules (only_suspended c other) w = desired_schedules c w"
    unfolding desired_schedules_def healthyMilvus_def suspended suspend only_suspended_simps
    by (simp add: apply_all_suspended split: option.split sum.split)
  moreover have "pruneBackupSchedules (only_suspended c other) = pruneBackupSchedules c"
    by (rule ext, rule ext) (unfold pruneBackupSchedules_def only_suspended_simps, rule refl)
  moreover have "enforceRetention (only_suspended c other) = enforceRetention c"
    by (rule ext, rule ext) (unfold enforceRetention_def only_suspended_simps, rule refl)
  ultimately show ?thesis by (simp add: syncBackupSchedules_def)
qed

theorem schedules_suspended_during_restore_witness:
  "syncBackupSchedules (only_suspended (sample_ctx\<lparr>api := sample_api
     \<lparr>ListRestores := \<lambda>_. Inr [sample_restore]\<rparr>\<rparr> :: unit ctx) (\<lambda>_ w. (not_found, w))) () =
   syncBackupSchedules (sample_ctx\<lparr>api := sample_api\<lparr>ListRestores := \<lambda>_. Inr [sample_restore]\<rparr>\<rparr>) ()"
  by (rule schedules_suspended_during_restore)
    (simp add: sample_ctx_def sample_api_def sample_restore_def)

end
