(* ===== verification/Reconcile.thy ===== *)
theory Reconcile
  imports PodSettings RootPassword Validate Monitoring Exposure Scaling Health BackupSchedule
begin

text \<open>
  The entry points of \<open>internal/provider/provider.go\<close>, which call everything else: \<open>Validate\<close>,
  \<open>Sync\<close>, \<open>Status\<close> and \<open>Cleanup\<close>, here \<open>ProviderValidate\<close> and so on. Logging is left out.
\<close>

section \<open>Validate and Cleanup\<close>

definition ProviderValidate :: "'w Provider \<Rightarrow> 'w ctx \<Rightarrow> ('w, unit) step" where
  "ProviderValidate p c w =
     (case validateInstance c w of
        Some e \<Rightarrow> (Inl e, w)
      | None \<Rightarrow> validateReplicaHostsScaleIn p c w)"

definition ProviderCleanup :: "'w ctx \<Rightarrow> ('w, unit) step" where
  "ProviderCleanup c w = (Inr (), w)"

section \<open>Sync\<close>

text \<open>The spec that is applied: rendered, with authorization and with the storage's keys.\<close>

definition sync_spec :: "'w ctx \<Rightarrow> ('w, MilvusSpec) step" where
  "sync_spec c w =
     (case BuildMilvusSpec c w of
        Inl e \<Rightarrow> (Inl e, w)
      | Inr spec \<Rightarrow> applyStorageCredentials c (applyAuthConfig spec (credentialsSecretName (Name c))) w)"

text \<open>Everything before the Milvus CR is applied.\<close>

definition sync_prepare :: "'w ctx \<Rightarrow> ('w, rootCredentials \<times> MilvusSpec) step" where
  "sync_prepare c w =
     and_then (ensureCredentials c w) (\<lambda>creds w.
     and_then (sync_spec c w) (\<lambda>spec w.
     let topologyType = (if Mode spec = MilvusModeCluster then ''cluster'' else ''standalone'') in
     and_then (syncStorageLocationSecret c (storageDependencyParam c topologyType) w) (\<lambda>_ w.
     and_then (clearDroppedAutoscaling c spec w) (\<lambda>_ w.
     (Inr (creds, spec), w)))))"

text \<open>The CR gets the metadata of the Instance; it is applied under the Instance's name.\<close>

definition ProviderSync :: "'w Provider \<Rightarrow> 'w ctx \<Rightarrow> 'w \<Rightarrow> (sync_error + unit) \<times> 'w" where
  "ProviderSync p c w =
     and_then (plain_step (sync_prepare c w)) (\<lambda>(creds, spec) w.
     and_then (plain_step (ApplyMilvus (api c) (Name c) spec w)) (\<lambda>_ w.
     and_then (plain_step (syncPodMonitor c w)) (\<lambda>_ w.
     and_then (plain_step (syncDataSource c w)) (\<lambda>_ w.
     and_then (plain_step (syncRootPassword p c creds w)) (\<lambda>_ w.
     syncBackupSchedules c w)))))"

section \<open>Status\<close>

datatype phase = PhasePending | PhaseProvisioning | PhaseUpdating | PhaseRestoring | PhaseReady

record ConnectionDetails =
  conn_Type :: string
  conn_Provider :: string
  conn_Host :: string
  conn_Port :: string
  conn_Username :: string
  conn_Password :: string
  conn_URI :: string
  conn_AdditionalProperties :: "(string \<times> string) list"

text \<open>\<open>controller.Status\<close>, and the runtime's constructors of it.\<close>

record InstanceStatus =
  is_Phase :: phase
  is_Message :: string
  is_Details :: "ConnectionDetails option"

definition status_of :: "phase \<Rightarrow> string \<Rightarrow> InstanceStatus" where
  "status_of phase message = \<lparr>is_Phase = phase, is_Message = message, is_Details = None\<rparr>"

definition connection_details :: "string \<Rightarrow> string \<Rightarrow> string \<Rightarrow> ConnectionDetails" where
  "connection_details host port password =
     \<lparr>conn_Type = ''milvus'', conn_Provider = ProviderName, conn_Host = host, conn_Port = port,
      conn_Username = rootUsername, conn_Password = password,
      conn_URI = ''http://'' @ host @ '':'' @ port,
      conn_AdditionalProperties = [(''token'', rootUsername @ '':'' @ password)]\<rparr>"

text \<open>The status of a healthy Milvus with an address and its credentials.\<close>

definition serving_status :: "'w ctx \<Rightarrow> 'w \<Rightarrow> Milvus \<Rightarrow> ConnectionDetails \<Rightarrow> InstanceStatus result" where
  "serving_status c w cr details =
     (case rolloutMessage cr of
        Some message \<Rightarrow> Inr ((status_of PhaseUpdating message)\<lparr>is_Details := Some details\<rparr>)
      | None \<Rightarrow>
          (case shortWorkloads c w of
             Inl e \<Rightarrow> Inl e
           | Inr (short, down) \<Rightarrow>
               if down
               then Inr (status_of PhaseProvisioning (''Milvus is unavailable: '' @ join '', '' short))
               else Inr \<lparr>is_Phase = PhaseReady,
                         is_Message = (if short = [] then ''''
                           else ''serving with reduced redundancy: '' @ join '', '' short),
                         is_Details = Some details\<rparr>))"

definition healthy_status :: "'w ctx \<Rightarrow> Milvus \<Rightarrow> ('w, InstanceStatus) step" where
  "healthy_status c cr w =
     (case failingDependency cr of
        Some failure \<Rightarrow>
          (Inr (status_of PhaseProvisioning (''a Milvus dependency is not ready: '' @ failure)), w)
      | None \<Rightarrow>
          (case resolveEndpoint c w cr of
             WaitingFor message \<Rightarrow> (Inr (status_of PhaseProvisioning message), w)
           | ReadyEndpoint host port \<Rightarrow>
               and_then (ensureCredentials c w) (\<lambda>creds w.
                 (serving_status c w cr (connection_details host port (cred_appliedPassword creds)), w))))"

definition cr_status :: "'w ctx \<Rightarrow> Milvus \<Rightarrow> ('w, InstanceStatus) step" where
  "cr_status c cr w =
     (case Status (CRStatus cr) of
        StatusHealthy \<Rightarrow> healthy_status c cr w
      | StatusPending \<Rightarrow>
          (Inr (status_of PhaseProvisioning (notReadyMessage cr ''Milvus is being initialized or updated'')), w)
      | StatusDeleting \<Rightarrow>
          (Inr (status_of PhaseProvisioning (notReadyMessage cr ''Milvus is being initialized or updated'')), w)
      | StatusStopped \<Rightarrow> (Inr (status_of PhasePending ''Milvus is stopped''), w)
      | StatusUnhealthy \<Rightarrow>
          (case rolloutMessage cr of
             Some message \<Rightarrow> (Inr (status_of PhaseUpdating (notReadyMessage cr message)), w)
           | None \<Rightarrow> (Inr (status_of PhaseProvisioning (notReadyMessage cr ''Milvus is unhealthy'')), w))
      | StatusOther _ \<Rightarrow> (Inr (status_of PhaseProvisioning ''Milvus is initializing''), w))"

text \<open>The seeding or the restore that hides the instance, if any.\<close>

definition restoring_message :: "'w ctx \<Rightarrow> 'w \<Rightarrow> string option result" where
  "restoring_message c w =
     (case GetDataSourceStatus (api c) w of
        Some ds \<Rightarrow>
          if \<not> ds_Done ds then Inr (Some (ds_Message ds))
          else bind_result (activeRestore c w)
            (\<lambda>restoring. Inr (if restoring then Some ''a restore is running'' else None))
      | None \<Rightarrow> bind_result (activeRestore c w)
            (\<lambda>restoring. Inr (if restoring then Some ''a restore is running'' else None)))"

definition ProviderStatus :: "'w ctx \<Rightarrow> ('w, InstanceStatus) step" where
  "ProviderStatus c w =
     (case existing_milvus c w of
        Inl _ \<Rightarrow> (Inr (status_of PhaseProvisioning ''waiting for Milvus CR to be created''), w)
      | Inr cr \<Rightarrow>
          (case restoring_message c w of
             Inl e \<Rightarrow> (Inl e, w)
           | Inr (Some message) \<Rightarrow> (Inr (status_of PhaseRestoring message), w)
           | Inr None \<Rightarrow> cr_status c cr w))"

section \<open>Lemmas\<close>

lemma status_of_simps [simp]:
  "is_Phase (status_of ph m) = ph" "is_Message (status_of ph m) = m" "is_Details (status_of ph m) = None"
  by (simp_all add: status_of_def)

lemma plain_step_Inr [error_simps]: "plain_step r = (Inr x, w) \<longleftrightarrow> r = (Inr x, w)"
  by (cases r; cases "fst r") (auto simp: plain_step_def)

lemma restoring_message_None:
  "restoring_message c w = Inr None \<longleftrightarrow>
     (case GetDataSourceStatus (api c) w of None \<Rightarrow> True | Some ds \<Rightarrow> ds_Done ds) \<and>
     activeRestore c w = Inr False"
  by (auto simp: restoring_message_def error_simps split: option.splits if_splits)

lemma serving_status_details:
  assumes "serving_status c w cr details = Inr st"
  shows "is_Details st = None \<and> is_Phase st = PhaseProvisioning \<or>
    is_Details st = Some details \<and>
      (if rolloutMessage cr = None then is_Phase st = PhaseReady \<and> (\<exists>short. shortWorkloads c w = Inr (short, False))
       else is_Phase st = PhaseUpdating)"
  using assms
  by (auto simp: serving_status_def status_of_def split: option.splits sum.splits prod.splits if_splits)

lemma cr_status_details:
  assumes "cr_status c cr w = (Inr st, w')"
    and "is_Details st \<noteq> None \<or> is_Phase st = PhaseReady"
  obtains host port creds where "Status (CRStatus cr) = StatusHealthy" "failingDependency cr = None"
    "resolveEndpoint c w cr = ReadyEndpoint host port" "ensureCredentials c w = (Inr creds, w')"
    "serving_status c w' cr (connection_details host port (cred_appliedPassword creds)) = Inr st"
proof -
  have healthy: "Status (CRStatus cr) = StatusHealthy"
    using assms by (auto simp: cr_status_def split: health_status.splits option.splits)
  with assms(1) have run: "healthy_status c cr w = (Inr st, w')" by (simp add: cr_status_def)
  then have dep: "failingDependency cr = None"
    using assms(2) by (auto simp: healthy_status_def split: option.splits)
  then obtain host port where ep: "resolveEndpoint c w cr = ReadyEndpoint host port"
    using run assms(2) by (auto simp: healthy_status_def split: endpoint.splits)
  with run dep obtain creds where "ensureCredentials c w = (Inr creds, w')"
    "serving_status c w' cr (connection_details host port (cred_appliedPassword creds)) = Inr st"
    by (auto simp: healthy_status_def error_simps)
  with healthy dep ep that show thesis by blast
qed

section \<open>Properties\<close>

text \<open>
  C8: connection details are published only for an instance that serves. When \<open>Status\<close> has
  details, the Milvus CR is healthy, no dependency fails, nothing is being restored, the
  details hold the resolved address and the password Milvus has applied, and the phase is
  Ready, or Updating during a rollout. Ready always comes with details, and never while a
  workload has no ready pod.
\<close>

theorem published_only_when_serving:
  assumes "ProviderStatus c w = (Inr st, w')" "is_Details st \<noteq> None \<or> is_Phase st = PhaseReady"
  shows "\<exists>cr host port creds. existing_milvus c w = Inr cr \<and> Status (CRStatus cr) = StatusHealthy \<and>
    failingDependency cr = None \<and> activeRestore c w = Inr False \<and>
    (case GetDataSourceStatus (api c) w of None \<Rightarrow> True | Some ds \<Rightarrow> ds_Done ds) \<and>
    resolveEndpoint c w cr = ReadyEndpoint host port \<and> ensureCredentials c w = (Inr creds, w') \<and>
    is_Details st = Some (connection_details host port (cred_appliedPassword creds)) \<and>
    (if rolloutMessage cr = None
     then is_Phase st = PhaseReady \<and> (\<exists>short. shortWorkloads c w' = Inr (short, False))
     else is_Phase st = PhaseUpdating)"
proof -
  obtain cr where cr: "existing_milvus c w = Inr cr" and rest: "restoring_message c w = Inr None"
    and run: "cr_status c cr w = (Inr st, w')"
    using assms by (auto simp: ProviderStatus_def split: sum.splits option.splits)
  show ?thesis
  proof (rule cr_status_details [OF run assms(2)])
    fix host port creds
    assume healthy: "Status (CRStatus cr) = StatusHealthy" "failingDependency cr = None"
      "resolveEndpoint c w cr = ReadyEndpoint host port" "ensureCredentials c w = (Inr creds, w')"
      and st: "serving_status c w' cr (connection_details host port (cred_appliedPassword creds)) = Inr st"
    from serving_status_details [OF st] assms(2)
    have "is_Details st = Some (connection_details host port (cred_appliedPassword creds)) \<and>
      (if rolloutMessage cr = None
       then is_Phase st = PhaseReady \<and> (\<exists>short. shortWorkloads c w' = Inr (short, False))
       else is_Phase st = PhaseUpdating)" by auto
    with cr healthy rest [unfolded restoring_message_None] show ?thesis by blast
  qed
qed

text \<open>A healthy standalone Milvus whose credentials Secret is there.\<close>

definition serving_ctx :: "unit ctx" where
  "serving_ctx = sample_ctx\<lparr>api := sample_api
     \<lparr>GetMilvus := \<lambda>_ _. Inr sample_milvus,
      GetSecret := \<lambda>_ n. Inr \<lparr>sec_Meta = \<lparr>om_Name = n, om_Namespace = ''ns'', om_Labels = []\<rparr>,
        sec_Type = ''Opaque'', sec_Data = [(secretKeyPassword, ''new''), (secretKeyAppliedPassword, ''old'')]\<rparr>\<rparr>\<rparr>"

lemma serving_ctx_status:
  "ProviderStatus serving_ctx () =
     (Inr \<lparr>is_Phase = PhaseReady, is_Message = '''',
           is_Details = Some (connection_details ''inst-milvus.ns.svc.cluster.local'' ''19530'' ''old'')\<rparr>, ())"
proof -
  have m: "existing_milvus serving_ctx () = Inr sample_milvus"
    by (simp add: serving_ctx_def existing_milvus_def sample_ctx_def)
  have rest: "restoring_message serving_ctx () = Inr None"
    by (simp add: restoring_message_None serving_ctx_def sample_ctx_def sample_api_def activeRestore_def)
  have creds: "ensureCredentials serving_ctx () = (Inr \<lparr>cred_password = ''new'', cred_appliedPassword = ''old''\<rparr>, ())"
    by (simp add: ensureCredentials_def serving_ctx_def sample_ctx_def secret_value_def
        secretKeyPassword_def secretKeyAppliedPassword_def Let_def)
  have short: "shortWorkloads serving_ctx () = Inr ([], False)"
    by (simp add: shortWorkloads_def serving_ctx_def sample_ctx_def sample_api_def count_workloads_def
        short_report_eq Let_def)
  have facts: "Status (CRStatus sample_milvus) = StatusHealthy" "failingDependency sample_milvus = None"
    "rolloutMessage sample_milvus = None"
    by (simp_all add: sample_milvus_def failingDependency_def first_failing_def rolloutMessage_def
        dependencyConditions_def)
  have ep: "resolveEndpoint serving_ctx () sample_milvus = ReadyEndpoint ''inst-milvus.ns.svc.cluster.local'' ''19530''"
    by (simp add: resolveEndpoint_def serviceTypeFromSpec_def sample_milvus_def sample_spec_def
        MilvusModeCluster_def splitEndpoint_def milvusPort_def Let_def)
  show ?thesis
    by (simp add: ProviderStatus_def m rest cr_status_def healthy_status_def facts ep creds serving_status_def short)
qed

theorem published_only_when_serving_witness:
  "\<exists>st w' cr host. ProviderStatus serving_ctx () = (Inr st, w') \<and>
     existing_milvus serving_ctx () = Inr cr \<and> resolveEndpoint serving_ctx () cr = ReadyEndpoint host ''19530'' \<and>
     is_Details st = Some (connection_details host ''19530'' ''old'')"
proof -
  have "\<exists>cr host port (creds :: rootCredentials). existing_milvus serving_ctx () = Inr cr \<and>
      resolveEndpoint serving_ctx () cr = ReadyEndpoint host port \<and>
      connection_details ''inst-milvus.ns.svc.cluster.local'' ''19530'' ''old'' =
        connection_details host port (cred_appliedPassword creds)"
    using published_only_when_serving [OF serving_ctx_status disjI2]
    by (simp only: InstanceStatus.simps option.inject simp_thms True_implies_equals)
      (elim exE conjE, intro exI conjI, assumption+)
  then obtain cr host port creds where "existing_milvus serving_ctx () = Inr cr"
    "resolveEndpoint serving_ctx () cr = ReadyEndpoint host port" "host = ''inst-milvus.ns.svc.cluster.local''"
    "port = ''19530''"
    by (auto simp: connection_details_def)
  with serving_ctx_status show ?thesis by simp
qed

lemma sync_spec_Inr:
  assumes "sync_spec c w = (Inr spec, w')"
  obtains spec0 where "BuildMilvusSpec c w = Inr spec0"
    "applyStorageCredentials c (applyAuthConfig spec0 (credentialsSecretName (Name c))) w = (Inr spec, w')"
  using assms by (auto simp: sync_spec_def split: sum.splits)

text \<open>Adding the storage's keys touches one Helm value, and nothing else of the spec.\<close>

lemma applyStorageCredentials_spec:
  assumes "applyStorageCredentials c spec w = (Inr spec', w')"
  shows "spec' = spec \<or>
    (\<exists>dep ic name. Dep spec = Some dep \<and> StorageInCluster (DepStorage dep) = Some ic \<and>
       spec' = spec\<lparr>Dep := Some (put_existing_secret name dep ic)\<rparr>)"
  using assms
  by (auto simp: applyStorageCredentials_def Let_def error_simps split: option.splits if_splits sum.splits bool.splits)

lemma applyStorageCredentials_keeps:
  assumes "applyStorageCredentials c spec w = (Inr spec', w')"
  shows "Mode spec' = Mode spec" "Com spec' = Com spec" "Conf spec' = Conf spec"
  using applyStorageCredentials_spec [OF assms] by auto

text \<open>
  C15: Sync applies what it rendered. If \<open>Sync\<close> succeeds, or ends with a schedule's configuration
  error, the Milvus CR was applied before that, with the spec prepared for the Instance:
  the mode of its topology, authorization enabled, and the root password from the Secret. So
  a schedule error never keeps an instance from being reconciled.
\<close>

theorem sync_applies_authorized_spec:
  assumes "ProviderSync p c w = (r, w')" "r = Inr () \<or> (\<exists>why m. r = Inl (BackupConfigError why m))"
    and "topology_type c = ''standalone'' \<or> topology_type c = ''cluster''"
  shows "\<exists>creds spec w1 w2. sync_prepare c w = (Inr (creds, spec), w1) \<and>
    ApplyMilvus (api c) (Name c) spec w1 = (Inr (), w2) \<and> Mode spec = topology_type c \<and>
    (\<exists>conf. Conf spec = Some conf \<and>
       at_path [''common'', ''security'', ''authorizationEnabled''] conf = Some (VBool True)) \<and>
    (\<exists>src. env_Name (last (Env (Com spec))) = rootPasswordEnv \<and>
       env_ValueFrom (last (Env (Com spec))) = Some src \<and>
       evs_SecretKeyRef src = Some \<lparr>sks_Name = credentialsSecretName (Name c), sks_Key = secretKeyPassword\<rparr>)"
proof -
  have plain: "\<nexists>why m. fst (plain_step x) = Inl (BackupConfigError why m)" for x :: "'x result \<times> 'w"
    by (cases "fst x") (auto simp: plain_step_def)
  obtain creds spec w1 where prep: "sync_prepare c w = (Inr (creds, spec), w1)"
  proof (cases "fst (sync_prepare c w)")
    case (Inl e)
    then have "r = Inl (PlainError e)"
      using assms(1) by (cases "sync_prepare c w") (auto simp: ProviderSync_def plain_step_def)
    with assms(2) show ?thesis by auto
  next
    case (Inr x)
    with that show ?thesis by (cases x; cases "sync_prepare c w") auto
  qed
  obtain w2 where applied: "ApplyMilvus (api c) (Name c) spec w1 = (Inr (), w2)"
  proof (cases "fst (ApplyMilvus (api c) (Name c) spec w1)")
    case (Inl e)
    then have "r = Inl (PlainError e)"
      using assms(1) prep
      by (cases "ApplyMilvus (api c) (Name c) spec w1") (auto simp: ProviderSync_def plain_step_def)
    with assms(2) show ?thesis by auto
  next
    case (Inr x)
    with that show ?thesis by (cases "ApplyMilvus (api c) (Name c) spec w1") auto
  qed
  obtain w0 w0' where "sync_spec c w0 = (Inr spec, w0')"
    using prep by (auto simp: sync_prepare_def error_simps Let_def)
  then obtain spec0 where b: "BuildMilvusSpec c w0 = Inr spec0"
    and a: "applyStorageCredentials c (applyAuthConfig spec0 (credentialsSecretName (Name c))) w0 = (Inr spec, w0')"
    by (rule sync_spec_Inr)
  note keeps = applyStorageCredentials_keeps [OF a]
  have "at_path [''common'', ''security'', ''authorizationEnabled'']
      (deepMergeValues (deref (Conf spec0) [])
        [(''common'', VMap [(''security'', VMap [(''authorizationEnabled'', VBool True)])])]) = Some (VBool True)"
    by (rule deepMerge_leaf) (simp_all add: wf_vmap_def)
  with prep applied keeps mode_is_topology [OF b assms(3)] show ?thesis
    by (simp add: applyAuthConfig_def)
qed

theorem sync_applies_authorized_spec_witness:
  "\<exists>creds spec w1 w2. ProviderSync (NewProvider (sample_ctx :: unit ctx)) sample_ctx () = (Inr (), ()) \<and>
     sync_prepare (sample_ctx :: unit ctx) () = (Inr (creds, spec), w1) \<and>
     ApplyMilvus (api (sample_ctx :: unit ctx)) ''inst'' spec w1 = (Inr (), w2) \<and> Mode spec = ''standalone''"
proof -
  let ?c = "sample_ctx :: unit ctx"
  have none: "existing_milvus ?c () = Inl (GoError NotFound ''not found'')"
    by (simp add: existing_milvus_def sample_ctx_def sample_api_def)
  have t: "topology_type ?c = ''standalone''"
    by (simp add: topology_type_def sample_ctx_def sample_Instance_def)
  obtain pw where creds: "ensureCredentials ?c () = (Inr \<lparr>cred_password = pw, cred_appliedPassword = pw\<rparr>, ())"
    by (simp add: ensureCredentials_def generatePassword_def fillFromAlphabet_def sample_ctx_def sample_api_def
        apply_and_return_def applyCredentialsSecret_def Let_def)
  obtain spec0 where build: "BuildMilvusSpec ?c () = Inr spec0"
    using sample_builds by blast
  have secret: "ensureStorageSecret ?c n () = (Inr (), ())" for n
    by (simp add: ensureStorageSecret_def generatePassword_def fillFromAlphabet_def sample_ctx_def
        sample_api_def Let_def)
  have gen: "generatedStorageCredentials ?c () = Inr True" by (simp add: generatedStorageCredentials_def none)
  have stored: "\<exists>spec'. applyStorageCredentials ?c spec () = (Inr spec', ())" for spec
    by (simp add: applyStorageCredentials_def gen secret Let_def split: option.split)
  then obtain spec where spec: "sync_spec ?c () = (Inr spec, ())" by (auto simp: sync_spec_def build)
  have loc: "syncStorageLocationSecret ?c (storageDependencyParam ?c tt) () = (Inr (), ())" for tt
    by (simp add: syncStorageLocationSecret_def storageDependencyParam_def standaloneDependencyParams_def
        clusterDependencyParams_def sample_ctx_def zero_ClusterDependencies_def)
  have prep: "sync_prepare ?c () = (Inr (\<lparr>cred_password = pw, cred_appliedPassword = pw\<rparr>, spec), ())"
    by (simp add: sync_prepare_def creds spec loc clearDroppedAutoscaling_def none Let_def)
  have monitor: "syncPodMonitor ?c () = (Inr (), ())"
    by (simp add: syncPodMonitor_def deleteOperatorPodMonitor_def prometheusParams_def prometheusEnabled_def
        sample_ctx_def sample_api_def Let_def)
  have seed: "syncDataSource ?c () = (Inr (), ())"
    by (simp add: syncDataSource_def sample_ctx_def sample_Instance_def)
  have rotate: "syncRootPassword p ?c \<lparr>cred_password = pw, cred_appliedPassword = pw\<rparr> () = (Inr (), ())" for p
    by (simp add: syncRootPassword_def rotationPending_def)
  have schedules: "syncBackupSchedules ?c () = (Inr (), ())"
    by (simp add: syncBackupSchedules_def desired_schedules_def pruneBackupSchedules_def enforceRetention_def
        sample_ctx_def sample_Instance_def sample_api_def plain_step_def)
  have run: "ProviderSync (NewProvider ?c) ?c () = (Inr (), ())"
    by (simp add: ProviderSync_def prep monitor seed rotate schedules plain_step_def)
      (simp add: sample_ctx_def sample_api_def)
  have name: "Name ?c = ''inst''" by (simp add: sample_ctx_def)
  from sync_applies_authorized_spec [OF run disjI1 [OF refl] disjI1 [OF t]] run t name
  show ?thesis by metis
qed

end
