(* ===== verification/History.thy ===== *)
theory History
  imports Reconcile
begin

text \<open>
  The Milvus CR of an instance over its whole life: a sequence of edits of the Instance, each
  accepted by \<open>validateInstance\<close> and applied by \<open>Sync\<close>, in whatever states of the cluster. What
  a single accepted update keeps is kept along the sequence.
\<close>

section \<open>What Sync adds is not looked at\<close>

text \<open>What Sync adds to the rendered spec is nothing validation looks at.\<close>

lemma sub_map_authorized:
  "k \<noteq> ''common'' \<Longrightarrow>
     sub_map (deref (Conf (applyAuthConfig spec secret)) []) k = sub_map (deref (Conf spec) []) k"
  by (simp add: applyAuthConfig_def sub_map_def deepMergeValues_not_in del: deepMergeValues.simps)

lemma view_authorized: "view_of name (applyAuthConfig spec secret) = view_of name spec"
proof -
  have "milvusComponentSpecs (Com (applyAuthConfig spec secret)) = milvusComponentSpecs (Com spec)"
    "Version (Com (applyAuthConfig spec secret)) = Version (Com spec)"
    by (simp_all add: applyAuthConfig_def milvusComponentSpecs_def)
  then have "componentVersions (Com (applyAuthConfig spec secret)) = componentVersions (Com spec)"
    by (simp add: componentVersions_def case_prod_unfold)
  moreover have "Mode (applyAuthConfig spec secret) = Mode spec" "Dep (applyAuthConfig spec secret) = Dep spec"
    by (simp_all add: applyAuthConfig_def)
  ultimately show ?thesis
    by (simp add: view_of_def objectStore_def rootPathOrDefault_def sub_map_authorized currentStorageSize_def
        split: option.split)
qed

lemma dep_authorized [simp]: "Dep (applyAuthConfig spec secret) = Dep spec"
  by (simp add: applyAuthConfig_def)

lemma view_existing_secret:
  assumes "Dep spec = Some dep" "StorageInCluster (DepStorage dep) = Some ic"
  shows "view_of n (spec\<lparr>Dep := Some (put_existing_secret secret dep ic)\<rparr>) = view_of n spec"
proof -
  have "sub_map (AList.update ''existingSecret'' v m) ''persistence'' = sub_map m ''persistence''" for v m
    by (simp add: sub_map_def alist_simps)
  then show ?thesis
    using assms
    by (simp add: view_of_def objectStore_def put_existing_secret_def dependencyStorageClass_def
        in_cluster_storage_class_def currentStorageSize_def stream_of_def Let_def)
qed

lemma view_applied:
  assumes "applyStorageCredentials c (applyAuthConfig spec0 secret) w = (Inr spec, w')"
  shows "view_of n spec = view_of n spec0"
  using applyStorageCredentials_spec [OF assms] view_existing_secret view_authorized by metis

section \<open>Settled specs and what an update keeps of them\<close>

text \<open>A spec \<open>Sync\<close> may have applied: complete, and with a bundled storage of a known size.\<close>

definition settled_view :: "lib \<Rightarrow> spec_view \<Rightarrow> bool" where
  "settled_view l v \<longleftrightarrow>
     v_mode v \<in> {''standalone'', ''cluster''} \<and> v_has_deps v \<and>
     (v_mode v = ''cluster'' \<longleftrightarrow> v_stream v \<noteq> '''') \<and>
     (if CHR ''/'' \<in> set (v_store v) then v_size v = ''''
      else v_size v \<noteq> '''' \<and> (\<exists>q. ParseQuantity l (v_size v) = Inr q))"

definition kept_view :: "lib \<Rightarrow> spec_view \<Rightarrow> spec_view \<Rightarrow> bool" where
  "kept_view l v v' \<longleftrightarrow>
     v_mode v' = v_mode v \<and> v_store v' = v_store v \<and> v_etcd_root v' = v_etcd_root v \<and>
     v_minio_root v' = v_minio_root v \<and> v_class v' = v_class v \<and> v_stream v' = v_stream v \<and>
     (\<forall>old new. CHR ''/'' \<notin> set (v_store v) \<and> ParseQuantity l (v_size v) = Inr old \<and>
        ParseQuantity l (v_size v') = Inr new \<longrightarrow> q_amount old \<le> q_amount new)"

lemma kept_view_refl: "kept_view l v v"
  by (auto simp: kept_view_def)

lemma kept_view_trans:
  assumes "settled_view l v'" "kept_view l v v'" "kept_view l v' v''"
  shows "kept_view l v v''"
proof -
  have "q_amount old \<le> q_amount new"
    if "CHR ''/'' \<notin> set (v_store v)" "ParseQuantity l (v_size v) = Inr old"
      "ParseQuantity l (v_size v'') = Inr new" for old new
  proof -
    have "CHR ''/'' \<notin> set (v_store v')" using that(1) assms(2) by (simp add: kept_view_def)
    moreover from this obtain mid where "ParseQuantity l (v_size v') = Inr mid"
      using assms(1) by (auto simp: settled_view_def)
    ultimately have "q_amount old \<le> q_amount mid" "q_amount mid \<le> q_amount new"
      using that assms(2,3) unfolding kept_view_def by blast+
    then show ?thesis by simp
  qed
  with assms(2,3) show ?thesis by (simp add: kept_view_def)
qed

section \<open>Rendering a settled spec\<close>

lemma storage_rendered: "\<exists>sc. DepStorage (buildDependencies c w t p) = buildStorage p sc"
  by (auto simp: buildDependencies_def Let_def)

lemma standalone_stream:
  assumes "topology_type c \<noteq> ''cluster''" "BuildMilvusSpec c w = Inr spec"
  shows "stream_of (Dep spec) = ''''"
proof -
  obtain p where "Dep spec = Some (buildDependencies c w (topology_type c) p)"
    using BuildMilvusSpec_Inr [OF assms(2)] by metis
  with assms(1) show ?thesis
    by (simp add: buildDependencies_def stream_of_def zero_MilvusPulsar_def Let_def)
qed

lemma rendered_store:
  assumes "BuildMilvusSpec c w = Inr spec"
  shows "CHR ''/'' \<in> set (objectStore spec) \<longleftrightarrow> requestedStorageSize c (topology_type c) = ''''"
proof -
  obtain q where q: "resolveStorageLocation c w (storageDependencyParam c (topology_type c)) = Inr q"
    and dep: "Dep spec = Some (buildDependencies c w (topology_type c) q)"
    using BuildMilvusSpec_Inr [OF assms] by metis
  obtain sc where st: "DepStorage (buildDependencies c w (topology_type c) q) = buildStorage q sc"
    using storage_rendered [of c w "topology_type c" q] by blast
  have ext: "StorageExternal (buildStorage q sc) \<longleftrightarrow> (\<exists>s. q = Some s \<and> st_External s)"
    by (auto simp: buildStorage_def zero_MilvusStorage_def Let_def split: option.split)
  have "deref (size_of p) defaultStoragePersistence \<noteq> ''''" for p
    by (cases "size_of p") (auto simp: defaultStoragePersistence_def dest: size_of_not_empty)
  then have "requestedStorageSize c (topology_type c) = '''' \<longleftrightarrow> (\<exists>s. q = Some s \<and> st_External s)"
    using resolved_storage [OF q]
    by (cases "storageDependencyParam c (topology_type c)")
      (auto simp: requestedStorageSize_def defaultStoragePersistence_def)
  with dep st ext show ?thesis by (auto simp: objectStore_def)
qed

lemma accepted_stream:
  assumes "validateInstance c w = None" "decoders_agree c" "topology_type c = ''cluster''"
  shows "validateMessageStream c w (cd_MessageStreamType (clusterDependencyParams c)) = None"
proof -
  have d: "validateDependencies c w ''cluster'' = None"
    using validateInstance_None(6) [OF assms(1)] assms(3) by simp
  then obtain p where p: "decodeTopologyParametersIfPresent c zero_ClusterTopologyParameters (DecodeCluster c) = Inr p"
    by (auto simp: validateDependencies_def dependencies_to_validate_def error_simps split: sum.splits)
  with d have "validateMessageStream c w
      (case ctp_Dependencies p of None \<Rightarrow> '''' | Some d \<Rightarrow> cd_MessageStreamType d) = None"
    by (auto simp: validateDependencies_def dependencies_to_validate_def Let_def split: option.splits)
  with requested_stream [OF assms(2) p] show ?thesis by simp
qed

lemma rendered_settled:
  assumes "validateInstance c w = None" "BuildMilvusSpec c w = Inr spec"
  shows "settled_view (lib c) (view_of n spec)"
proof -
  note v = validateInstance_None [OF assms(1)]
  have mode: "Mode spec = topology_type c" by (rule mode_is_topology [OF assms(2) v(1)])
  have "Dep spec \<noteq> None" using BuildMilvusSpec_Inr [OF assms(2)] by (metis option.distinct(1))
  moreover have "Mode spec = ''cluster'' \<longleftrightarrow> stream_of (Dep spec) \<noteq> ''''"
    using mode stream_built [OF _ assms(2)] standalone_stream [OF _ assms(2)] messageStreamType_not_empty
    by metis
  moreover have size: "currentStorageSize (sample_milvus\<lparr>Spec := spec\<rparr>) = requestedStorageSize c (topology_type c)"
    by (rule rendered_storage_size [OF assms(2)]) simp
  moreover have "\<exists>q. ParseQuantity (lib c) (requestedStorageSize c (topology_type c)) = Inr q"
    if "requestedStorageSize c (topology_type c) \<noteq> ''''"
    using v(5) that by (auto simp: validateStorageNotDecreased_def Let_def split: sum.splits)
  ultimately show ?thesis
    using mode v(1) rendered_store [OF assms(2)] by (auto simp: settled_view_def view_of_def)
qed

lemma accepted_keeps_view:
  assumes ok: "validateInstance c w = None" and m: "existing_milvus c w = Inr m"
    and settled: "settled_view (lib c) (view_of (Name c) (Spec m))" and dec: "decoders_agree c"
    and build: "BuildMilvusSpec c w = Inr spec"
  shows "kept_view (lib c) (view_of (Name c) (Spec m)) (view_of (Name c) spec)"
proof -
  note v = validateInstance_None [OF ok]
  have set: "Mode (Spec m) \<noteq> ''''" "Dep (Spec m) \<noteq> None"
    "Mode (Spec m) = ''cluster'' \<longleftrightarrow> stream_of (Dep (Spec m)) \<noteq> ''''"
    using settled by (auto simp: settled_view_def view_of_def)
  obtain spec' where same: "BuildMilvusSpec c w = Inr spec'" "Mode (Spec m) = topology_type c"
    "objectStore spec' = objectStore (Spec m)"
    "rootPathOrDefault (Conf spec') ''etcd'' (Name c) = rootPathOrDefault (Conf (Spec m)) ''etcd'' (Name c)"
    "rootPathOrDefault (Conf spec') ''minio'' defaultMinioRootPath =
       rootPathOrDefault (Conf (Spec m)) ''minio'' defaultMinioRootPath"
    "dependencyStorageClass (Dep spec') = dependencyStorageClass (Dep (Spec m))"
    by (rule accepted_update [OF ok m set(1)]) (use set(2) in blast)
  then have kept: "spec' = spec" using build by simp
  have mode: "Mode spec = topology_type c" by (rule mode_is_topology [OF build v(1)])
  have stream: "stream_of (Dep spec) = stream_of (Dep (Spec m))"
  proof (cases "topology_type c = ''cluster''")
    case True
    let ?req = "cd_MessageStreamType (clusterDependencyParams c)"
    have "existingMessageStreamType c w \<noteq> ''''" using existing_stream [OF m] set(3) same(2) True by simp
    with accepted_stream [OF ok dec True] have "messageStreamType c w ?req = existingMessageStreamType c w"
      by (auto simp: validateMessageStream_def messageStreamType_def Let_def split: if_splits)
    then show ?thesis using stream_built [OF True build] existing_stream [OF m] by simp
  next
    case False
    then show ?thesis using standalone_stream [OF False build] set(3) same(2) by simp
  qed
  have size_m: "currentStorageSize m = currentStorageSize (sample_milvus\<lparr>Spec := Spec m\<rparr>)"
    by (rule currentStorageSize_spec) simp
  have "q_amount old \<le> q_amount new"
    if "CHR ''/'' \<notin> set (objectStore (Spec m))" "ParseQuantity (lib c) (currentStorageSize m) = Inr old"
      "ParseQuantity (lib c) (currentStorageSize (sample_milvus\<lparr>Spec := spec\<rparr>)) = Inr new" for old new
  proof -
    have "requestedStorageSize c (topology_type c) \<noteq> ''''"
      using that(1) rendered_store [OF build] same(3) kept by simp
    moreover have "currentStorageSize (sample_milvus\<lparr>Spec := spec\<rparr>) = requestedStorageSize c (topology_type c)"
      by (rule rendered_storage_size [OF build]) simp
    moreover have "currentStorageSize m \<noteq> ''''" using settled that(1) size_m by (auto simp: settled_view_def view_of_def)
    ultimately show ?thesis
      using v(5) m that(2,3) by (auto simp: validateStorageNotDecreased_def Let_def split: if_splits)
  qed
  then show ?thesis using same(2-6) mode stream kept size_m by (auto simp: kept_view_def view_of_def)
qed

section \<open>Histories\<close>

text \<open>
  One accepted edit, applied: \<open>c\<close> holds the Instance as it is then and \<open>w\<close> the cluster, whose
  CR has the spec before. The name, the library and the API stay the same along a history.
\<close>

inductive update_step :: "string \<Rightarrow> lib \<Rightarrow> 'w api \<Rightarrow> MilvusSpec \<Rightarrow> MilvusSpec \<Rightarrow> bool" for n l a where
  update: "Name c = n \<Longrightarrow> lib c = l \<Longrightarrow> api c = a \<Longrightarrow> decoders_agree c \<Longrightarrow>
    existing_milvus c w = Inr m \<Longrightarrow> validateInstance c w = None \<Longrightarrow>
    sync_spec c w = (Inr spec, w') \<Longrightarrow> update_step n l a (Spec m) spec"

lemma sync_view:
  assumes "sync_spec c w = (Inr spec, w')"
  obtains spec0 where "BuildMilvusSpec c w = Inr spec0" "view_of n spec = view_of n spec0"
proof -
  obtain spec0 where b: "BuildMilvusSpec c w = Inr spec0"
    and a: "applyStorageCredentials c (applyAuthConfig spec0 (credentialsSecretName (Name c))) w = (Inr spec, w')"
    by (rule sync_spec_Inr [OF assms])
  show thesis by (rule that [OF b view_applied [OF a]])
qed

lemma update_step_view:
  assumes "update_step n l a spec spec'" "settled_view l (view_of n spec)"
  shows "settled_view l (view_of n spec') \<and> kept_view l (view_of n spec) (view_of n spec')"
  using assms(1)
proof cases
  case (update c w m w')
  obtain spec0 where b: "BuildMilvusSpec c w = Inr spec0" and view: "view_of n spec' = view_of n spec0"
    by (rule sync_view [OF update(8), of n])
  have settled: "settled_view (lib c) (view_of (Name c) (Spec m))" using assms(2) update by simp
  have "kept_view (lib c) (view_of (Name c) (Spec m)) (view_of (Name c) spec0)"
    by (rule accepted_keeps_view [OF update(7,6) settled update(5) b])
  with rendered_settled [OF update(7) b, of n] view update show ?thesis by simp
qed

lemma history_view:
  assumes "(update_step n l a)\<^sup>*\<^sup>* spec spec'" "settled_view l (view_of n spec)"
  shows "settled_view l (view_of n spec') \<and> kept_view l (view_of n spec) (view_of n spec')"
  using assms(1)
proof induction
  case base
  show ?case using assms(2) kept_view_refl by blast
next
  case (step spec1 spec2)
  with update_step_view [OF step(2)] kept_view_trans show ?case by blast
qed

lemma view_of_size: "v_size (view_of n (Spec m)) = currentStorageSize m"
  using currentStorageSize_spec [of m "sample_milvus\<lparr>Spec := Spec m\<rparr>"] by (simp add: view_of_def)

section \<open>Properties\<close>

text \<open>
  C2: no sequence of edits moves what validation compares. Take the spec \<open>Sync\<close> prepared for an
  accepted Instance, and any sequence of further Instances, each accepted and prepared over
  the CR of the one before, whatever happens in the cluster between: the CR keeps its
  topology, its bundled or external object storage (if external, with its endpoint and
  bucket), the etcd and object-storage root paths, the class of the etcd and object-storage
  volumes and the write-ahead log of the first, and its bundled storage is never smaller. The
  bucket of a bundled storage, the class of Pulsar's volumes and the choice of etcd are not
  compared, and may change.
\<close>

theorem history_keeps_data:
  assumes "validateInstance c w = None" "sync_spec c w = (Inr (Spec m), w')" "Name c = n"
    and "(update_step n (lib c) a)\<^sup>*\<^sup>* (Spec m) (Spec m')"
  shows "Mode (Spec m') = Mode (Spec m) \<and> objectStore (Spec m') = objectStore (Spec m) \<and>
    same_object_store (Spec m') (Spec m) \<and>
    rootPathOrDefault (Conf (Spec m')) ''etcd'' n = rootPathOrDefault (Conf (Spec m)) ''etcd'' n \<and>
    rootPathOrDefault (Conf (Spec m')) ''minio'' defaultMinioRootPath =
      rootPathOrDefault (Conf (Spec m)) ''minio'' defaultMinioRootPath \<and>
    dependencyStorageClass (Dep (Spec m')) = dependencyStorageClass (Dep (Spec m)) \<and>
    stream_of (Dep (Spec m')) = stream_of (Dep (Spec m)) \<and>
    (\<forall>old new. currentStorageSize m \<noteq> '''' \<and> ParseQuantity (lib c) (currentStorageSize m) = Inr old \<and>
       ParseQuantity (lib c) (currentStorageSize m') = Inr new \<longrightarrow> q_amount old \<le> q_amount new)"
proof -
  obtain spec0 where b: "BuildMilvusSpec c w = Inr spec0" and v0: "view_of n (Spec m) = view_of n spec0"
    by (rule sync_view [OF assms(2), of n])
  have settled: "settled_view (lib c) (view_of n (Spec m))"
    using rendered_settled [OF assms(1) b, of n] v0 by simp
  have kept: "kept_view (lib c) (view_of n (Spec m)) (view_of n (Spec m'))"
    using history_view [OF assms(4) settled] by blast
  have "CHR ''/'' \<notin> set (v_store (view_of n (Spec m)))" if "currentStorageSize m \<noteq> ''''"
    using settled that view_of_size [of n m] by (auto simp: settled_view_def)
  with kept view_of_size [of n m] view_of_size [of n m'] show ?thesis
    unfolding kept_view_def by (simp add: view_of_def same_object_storeI)
qed

text \<open>The sample Instance, applied and then reconciled over its own CR.\<close>

lemma accept_ctx_syncs:
  assumes "BuildMilvusSpec accept_ctx w = Inr spec0"
  shows "\<exists>spec. sync_spec accept_ctx w = (Inr spec, w)"
proof -
  have "ensureStorageSecret accept_ctx n w = (Inr (), w)" for n w
    by (simp add: ensureStorageSecret_def accept_ctx_def milvus_store_ctx_def generatePassword_def
        fillFromAlphabet_def sample_ctx_def sample_api_def Let_def)
  then have "\<exists>spec'. applyStorageCredentials accept_ctx spec w = (Inr spec', w)" for spec
    by (cases w) (auto simp: applyStorageCredentials_def generatedStorageCredentials_def Let_def
        split: option.split if_split bool.split)
  with assms show ?thesis by (simp add: sync_spec_def)
qed

lemma accept_ctx_contracts:
  "same_reads accept_ctx w w'" "decoders_agree accept_ctx" "\<not> SemverCompare (lib accept_ctx) v v < 0"
  by (simp_all add: same_reads_def accept_ctx_def milvus_store_ctx_def sample_api_def sample_ctx_def
      decoders_agree_def decodeTopologyParametersIfPresent_def sample_Instance_def sample_lib_def
      sample_compare_def split: option.split)

theorem history_keeps_data_witness:
  "\<exists>(m :: Milvus) (m' :: Milvus). sync_spec accept_ctx None = (Inr (Spec m), None) \<and>
     update_step ''inst'' sample_lib (api accept_ctx) (Spec m) (Spec m') \<and>
     Mode (Spec m') = Mode (Spec m) \<and> objectStore (Spec m') = objectStore (Spec m)"
proof -
  obtain spec0 where b0: "BuildMilvusSpec accept_ctx None = Inr spec0" using accept_ctx_applied by blast
  then obtain spec where s: "sync_spec accept_ctx None = (Inr spec, None)" using accept_ctx_syncs by blast
  let ?m = "sample_milvus\<lparr>Spec := spec\<rparr>"
  have "view_of (Name accept_ctx) (Spec ?m) = view_of (Name accept_ctx) spec0"
    by (rule sync_view [OF s, of "Name accept_ctx"]) (simp add: b0)
  note again = revalidation [OF accept_ctx_accepted b0 accept_ctx_simps(5) this accept_ctx_contracts]
  obtain spec' where s': "sync_spec accept_ctx (Some ?m) = (Inr spec', Some ?m)"
    using accept_ctx_syncs [OF again(2)] by blast
  let ?m' = "sample_milvus\<lparr>Spec := spec'\<rparr>"
  have step: "update_step ''inst'' sample_lib (api accept_ctx) (Spec ?m) (Spec ?m')"
    using update_step.update [OF accept_ctx_simps(7,6) refl accept_ctx_contracts(2) accept_ctx_simps(5) again(1), of spec']
      s' by simp
  have s1: "sync_spec accept_ctx None = (Inr (Spec ?m), None)" using s by simp
  have "(update_step ''inst'' (lib accept_ctx) (api accept_ctx))\<^sup>*\<^sup>* (Spec ?m) (Spec ?m')"
    using r_into_rtranclp [of "update_step ''inst'' sample_lib (api accept_ctx)"] step by simp
  from history_keeps_data [OF accept_ctx_accepted s1 accept_ctx_simps(7) this]
  have "Mode (Spec ?m') = Mode (Spec ?m) \<and> objectStore (Spec ?m') = objectStore (Spec ?m)" by blast
  with s1 step show ?thesis by blast
qed

end
