(* ===== verification/Operations.thy ===== *)
theory Operations
  imports BackupSchedule
begin

text \<open>
  The milvus-backup runs of one instance as a state machine: the reconciles of its Backups
  and Restores (\<open>SyncBackup\<close>, \<open>SyncRestore\<close>, \<open>CleanupBackup\<close> of \<open>internal/provider/backup.go\<close>)
  interleave in any order with a cluster in which Jobs run, finish and are deleted, and in
  which the CronJobs of \<open>backup_schedule.go\<close> start Jobs of their own.
\<close>

section \<open>The Jobs of an instance\<close>

text \<open>
  The on-demand runs that touch Milvus: Jobs of the instance that take or restore a backup and
  were not started by a schedule, have not finished and are not being deleted. Jobs that
  delete a backup's data, Jobs of schedules and Jobs being deleted are not among them: the code
  starts the first two without a look at other runs, and ignores the last.
\<close>

definition active_run :: "'w ctx \<Rightarrow> Job \<Rightarrow> bool" where
  "active_run c job \<longleftrightarrow>
     job_Namespace job = Namespace c \<and> map_of (job_Labels job) backupJobInstanceLabel = Some (Name c) \<and>
     map_of (job_Labels job) backupJobOperationLabel \<noteq> Some (operation_text operationDelete) \<and>
     map_of (job_Labels job) backupScheduleLabel = None \<and>
     \<not> job_Deleting job \<and> \<not> snd (jobFinished job)"

definition active_runs :: "'w ctx \<Rightarrow> Job list \<Rightarrow> string list" where
  "active_runs c jobs = map job_Name (filter (active_run c) jobs)"

text \<open>
  The contract of the API server's Jobs, with \<open>jobs w\<close> those it holds: lists are current,
  every Job has a name, creating a Job adds at most that Job (also when the answer is lost),
  and writing a ConfigMap does not touch them.
\<close>

definition job_store :: "'w ctx \<Rightarrow> ('w \<Rightarrow> Job list) \<Rightarrow> bool" where
  "job_store c jobs \<longleftrightarrow>
     (\<forall>w. \<forall>j\<in>set (jobs w). job_Name j \<noteq> '''') \<and>
     (\<forall>w ns inst. ListJobs (api c) w ns inst = Inr (filter (\<lambda>j. job_Namespace j = ns \<and>
        map_of (job_Labels j) backupJobInstanceLabel = Some inst) (jobs w))) \<and>
     (\<forall>j w. set (jobs (snd (CreateJob (api c) j w))) \<subseteq> insert j (set (jobs w))) \<and>
     (\<forall>owner cm w. jobs (snd (CreateOrUpdateConfigMap (api c) owner cm w)) = jobs w)"

section \<open>Steps\<close>

text \<open>
  A step is a reconcile of the provider, the start of a Job by a schedule's CronJob, which has
  the schedule's label, or anything else the cluster does to Jobs short of starting one: it
  may finish, delete or change them.
\<close>

inductive operation_step :: "'w ctx \<Rightarrow> ('w \<Rightarrow> Job list) \<Rightarrow> 'w \<Rightarrow> 'w \<Rightarrow> bool" for c jobs where
  backup: "bk_Namespace b = Namespace c \<Longrightarrow> operation_step c jobs w (snd (SyncBackup c b w))"
| restore: "rs_Namespace r = Namespace c \<Longrightarrow> operation_step c jobs w (snd (SyncRestore c r w))"
| cleanup: "operation_step c jobs w (snd (CleanupBackup c b w))"
| scheduled: "map_of (job_Labels j) backupScheduleLabel \<noteq> None \<Longrightarrow>
    set (jobs w') \<subseteq> insert j (set (jobs w)) \<Longrightarrow> operation_step c jobs w w'"
| cluster: "set (active_runs c (jobs w')) \<subseteq> set (active_runs c (jobs w)) \<Longrightarrow> operation_step c jobs w w'"

section \<open>Lemmas\<close>

lemma job_labels_lookup:
  "map_of (backupJobLabels inst op) backupJobInstanceLabel = Some inst"
  "map_of (backupJobLabels inst op) backupJobOperationLabel = Some (operation_text op)"
  by (simp_all add: backupJobLabels_def backupJobInstanceLabel_def backupJobOperationLabel_def)

text \<open>Ensuring a Job adds at most the one it is asked for.\<close>

lemma ensureBackupJob_effect:
  assumes "job_store c jobs"
  shows "\<exists>j. set (jobs (snd (ensureBackupJob c spec w))) \<subseteq> insert j (set (jobs w)) \<and>
    job_Name j = backupJobName (deref (js_owner spec) '''') (js_op spec) \<and>
    job_Labels j = backupJobLabels (js_instance spec) (js_op spec)"
proof -
  let ?owner = "deref (js_owner spec) ''''"
  let ?name = "backupJobName ?owner (js_op spec)" and ?labels = "backupJobLabels (js_instance spec) (js_op spec)"
  define cm where "cm = \<lparr>cm_Meta = \<lparr>om_Name = ?name, om_Namespace = js_namespace spec, om_Labels = ?labels\<rparr>,
    cm_Data = [(''backup.yaml'', js_config spec)]\<rparr>"
  define job where "job = \<lparr>job_Name = ?name, job_Namespace = js_namespace spec, job_Labels = ?labels,
    job_Owner = js_owner spec, job_Deleting = False, job_Spec = backupJobTemplate (lib c) spec ?name ?labels,
    job_Conditions = [], job_StartTime = None, job_CompletionTime = None\<rparr>"
  obtain r w1 where w1: "CreateOrUpdateConfigMap (api c) ?owner cm w = (r, w1)" by fastforce
  have same: "jobs w1 = jobs w"
    using assms w1 unfolding job_store_def by (metis snd_conv)
  have created: "set (jobs (snd (CreateJob (api c) job w1))) \<subseteq> insert job (set (jobs w))"
    using assms same unfolding job_store_def by metis
  have "set (jobs (snd (ensureBackupJob c spec w))) \<subseteq> insert job (set (jobs w))"
    using created same
    by (cases r) (auto simp: ensureBackupJob_def Let_def w1 [unfolded cm_def] job_def split: sum.split option.split)
  then show ?thesis by (intro exI [of _ job]) (simp add: job_def)
qed

lemma snd_and_then_pure: "snd (and_then r (\<lambda>x w. (f x w, w))) = snd r"
  by (cases r; cases "fst r") auto

lemma sync_operation_moves:
  "snd (sync_operation c ns name job_request w) = w \<or>
     (\<exists>spec. existingJob c w ns name = Inr None \<and> job_request w = Inr spec \<and>
        snd (sync_operation c ns name job_request w) = snd (ensureBackupJob c spec w))"
  by (auto simp: sync_operation_def snd_and_then_pure split: sum.split option.split)

lemma delete_request_op: "delete_request c b w = Inr spec \<Longrightarrow> js_op spec = operationDelete"
  by (auto simp: delete_request_def Let_def split: sum.splits if_splits)

lemma CleanupBackup_moves:
  "snd (CleanupBackup c b w) = w \<or>
     (\<exists>spec. js_op spec = operationDelete \<and> snd (CleanupBackup c b w) = snd (ensureBackupJob c spec w))"
  using delete_request_op [of c b w]
  by (auto simp: CleanupBackup_def snd_and_then_pure split: sum.split option.split)

text \<open>With no other run active, a started operation is the only one.\<close>

lemma started_is_only:
  assumes store: "job_store c jobs" and idle: "activeBackupJob c w (Namespace c) (Name c) name = Inr ''''"
    and name: "backupJobName (deref (js_owner spec) '''') (js_op spec) = name"
  shows "set (active_runs c (jobs (snd (ensureBackupJob c spec w)))) \<subseteq> {name}"
proof -
  let ?listed = "filter (\<lambda>j. job_Namespace j = Namespace c \<and>
     map_of (job_Labels j) backupJobInstanceLabel = Some (Name c)) (jobs w)"
  have listed: "ListJobs (api c) w (Namespace c) (Name c) = Inr ?listed"
    using store by (simp add: job_store_def)
  have "\<forall>j\<in>set (jobs w). job_Name j \<noteq> ''''" using store unfolding job_store_def by blast
  then have named: "\<forall>j\<in>set ?listed. job_Name j \<noteq> ''''" by simp
  have "\<forall>j\<in>set (jobs w). active_run c j \<longrightarrow> job_Name j = name"
    using activeBackupJob_Inr [OF listed named idle] by (auto simp: active_run_def)
  moreover obtain j where "set (jobs (snd (ensureBackupJob c spec w))) \<subseteq> insert j (set (jobs w))"
    "job_Name j = name"
    using ensureBackupJob_effect [OF store, of spec w] name by blast
  ultimately show ?thesis by (auto simp: active_runs_def)
qed

lemma operation_step_single:
  assumes store: "job_store c jobs" and step: "operation_step c jobs w w'"
    and single: "set (active_runs c (jobs w)) \<subseteq> {n}"
  shows "\<exists>n. set (active_runs c (jobs w')) \<subseteq> {n}"
  using step
proof cases
  case (backup b)
  show ?thesis
  proof (cases "w' = w")
    case False
    then obtain spec where spec: "backup_request c b w = Inr spec" and w': "w' = snd (ensureBackupJob c spec w)"
      using sync_operation_moves [of c "bk_Namespace b" "createJobName b" "backup_request c b" w] backup
      by (auto simp: SyncBackup_def)
    note req = backup_request_Inr [OF spec]
    show ?thesis
      using started_is_only [OF store _ refl, of w spec] req(1,3,5,6) backup(2) w'
      by (auto simp: createJobName_def)
  qed (use single in blast)
next
  case (restore r)
  show ?thesis
  proof (cases "w' = w")
    case False
    then obtain spec where spec: "restore_request c r w = Inr spec" and w': "w' = snd (ensureBackupJob c spec w)"
      using sync_operation_moves [of c "rs_Namespace r" "backupJobName (rs_Name r) operationRestore"
          "restore_request c r" w] restore
      by (auto simp: SyncRestore_def)
    note req = restore_request_Inr [OF spec]
    show ?thesis
      using started_is_only [OF store _ refl, of w spec] req(2,4,5) restore(2) w' by auto
  qed (use single in blast)
next
  case (cleanup b)
  show ?thesis
  proof (cases "w' = w")
    case False
    then obtain spec where op: "js_op spec = operationDelete" and w': "w' = snd (ensureBackupJob c spec w)"
      using CleanupBackup_moves [of c b w] cleanup by auto
    obtain j where "set (jobs w') \<subseteq> insert j (set (jobs w))" and j: "job_Labels j =
        backupJobLabels (js_instance spec) operationDelete"
      using ensureBackupJob_effect [OF store, of spec w] op w' by auto
    moreover have "\<not> active_run c j" using j by (simp add: active_run_def job_labels_lookup)
    ultimately have "set (active_runs c (jobs w')) \<subseteq> set (active_runs c (jobs w))"
      by (auto simp: active_runs_def)
    with single show ?thesis by blast
  qed (use single in blast)
next
  case (scheduled j)
  then have "set (active_runs c (jobs w')) \<subseteq> set (active_runs c (jobs w))"
    by (auto simp: active_runs_def active_run_def)
  with single show ?thesis by blast
qed (use single in blast)

section \<open>Properties\<close>

text \<open>
  C5: at most one on-demand run works on an instance. Whatever order its Backups and Restores
  are reconciled and cleaned up in, whatever the cluster does to the Jobs meanwhile and
  whenever its schedules start Jobs of their own, the on-demand Jobs that take or restore a
  backup and are neither finished nor being deleted all have one name, as long as the Jobs the
  provider lists are current. Runs of schedules, deletions of data and Jobs being deleted are
  not counted.
\<close>

theorem operations_are_serialized:
  assumes "job_store c jobs" "(operation_step c jobs)\<^sup>*\<^sup>* w0 w" "active_runs c (jobs w0) = []"
  shows "\<exists>name. set (active_runs c (jobs w)) \<subseteq> {name}"
  using assms(2)
proof induction
  case base
  show ?case using assms(3) by simp
next
  case (step v w)
  then show ?case using operation_step_single [OF assms(1)] by blast
qed

lemma backup_ctx_store: "job_store backup_ctx held_jobs"
proof -
  have "\<forall>w. \<forall>j\<in>set (held_jobs w). job_Name j \<noteq> ''''"
    by (auto simp: held_jobs_def split: option.splits if_splits)
  moreover have "set (held_jobs (Some j)) \<subseteq> insert j (set (held_jobs w))" for j w
    by (simp add: held_jobs_def)
  ultimately show ?thesis by (simp add: job_store_def)
qed

theorem operations_are_serialized_witness:
  "\<exists>w name. w \<noteq> None \<and> operation_step backup_ctx held_jobs None w \<and>
     set (active_runs backup_ctx (held_jobs w)) \<subseteq> {name}"
proof -
  obtain st j where run: "SyncBackup backup_ctx (sample_backup ''nightly'') None = (Inr st, Some j)"
    using backup_ctx_starts(1) by blast
  have step: "operation_step backup_ctx held_jobs None (Some j)"
    using operation_step.backup [of "sample_backup ''nightly''" backup_ctx held_jobs None] run
    by (simp add: sample_backup_def)
  have "active_runs backup_ctx (held_jobs None) = []" by (simp add: active_runs_def held_jobs_def)
  moreover have "(operation_step backup_ctx held_jobs)\<^sup>*\<^sup>* None (Some j)"
    using step by (rule r_into_rtranclp)
  ultimately have "\<exists>name. set (active_runs backup_ctx (held_jobs (Some j))) \<subseteq> {name}"
    using operations_are_serialized [OF backup_ctx_store] by blast
  with step show ?thesis by blast
qed

end
