(* ===== verification/Watches.thy ===== *)
theory Watches
  imports RootPassword Health BackupSchedule
begin

text \<open>
  The watches the provider registers with the runtime: \<open>New\<close> of \<open>internal/provider/provider.go\<close>,
  \<open>BackupWatches\<close> and \<open>RestoreWatches\<close> of \<open>backup.go\<close> and \<open>OperatorBackupType\<close> of
  \<open>backup_schedule.go\<close>. A watch is a kind of object and what a change of one of them wakes: the
  object that owns it, or the requests a mapping function names.
\<close>

section \<open>Watched objects\<close>

datatype object_kind = KindMilvus | KindSecret | KindRestore | KindBackup | KindStatefulSet | KindDeployment | KindJob

text \<open>A change of an object; a workload comes with its namespace, a Milvus CR with its name.\<close>

datatype cluster_object =
    MilvusObject string string
  | SecretObject Secret
  | RestoreObject Restore
  | BackupObject Backup
  | StatefulSetObject string Workload
  | DeploymentObject string Workload
  | JobObject Job

fun kind_of :: "cluster_object \<Rightarrow> object_kind" where
  "kind_of (MilvusObject _ _) = KindMilvus"
| "kind_of (SecretObject _) = KindSecret"
| "kind_of (RestoreObject _) = KindRestore"
| "kind_of (BackupObject _) = KindBackup"
| "kind_of (StatefulSetObject _ _) = KindStatefulSet"
| "kind_of (DeploymentObject _ _) = KindDeployment"
| "kind_of (JobObject _) = KindJob"

fun secret_name :: "cluster_object \<Rightarrow> string" where
  "secret_name (SecretObject s) = om_Name (sec_Meta s)"
| "secret_name _ = ''''"

text \<open>The type assertions of the mapping functions.\<close>

fun as_restore :: "cluster_object \<Rightarrow> Restore option" where
  "as_restore (RestoreObject r) = Some r"
| "as_restore _ = None"

fun as_backup :: "cluster_object \<Rightarrow> Backup option" where
  "as_backup (BackupObject b) = Some b"
| "as_backup _ = None"

fun enqueue_workload :: "cluster_object \<Rightarrow> (string \<times> string) list" where
  "enqueue_workload (StatefulSetObject ns w) = enqueueDependencyInstance ns (wl_Annotations w)"
| "enqueue_workload (DeploymentObject ns w) = enqueueDependencyInstance ns (wl_Annotations w)"
| "enqueue_workload _ = []"

fun enqueue_job :: "cluster_object \<Rightarrow> (string \<times> string) list" where
  "enqueue_job (JobObject j) = enqueueScheduledBackup j"
| "enqueue_job _ = []"

section \<open>Registrations\<close>

datatype watch_config =
    WatchOwned object_kind "cluster_object \<Rightarrow> bool"
  | WatchExternal object_kind "cluster_object \<Rightarrow> (string \<times> string) list"

definition New_WatchConfigs :: "watch_config list" where
  "New_WatchConfigs =
     [WatchOwned KindMilvus (\<lambda>_. True),
      WatchOwned KindSecret (credentialsSecretChanged \<circ> secret_name),
      WatchExternal KindRestore (enqueueRestoreInstance \<circ> as_restore),
      WatchExternal KindBackup (enqueueScheduledBackupInstance \<circ> as_backup),
      WatchExternal KindStatefulSet enqueue_workload,
      WatchExternal KindDeployment enqueue_workload]"

definition BackupWatches :: "watch_config list" where
  "BackupWatches = [WatchOwned KindJob (\<lambda>_. True), WatchExternal KindJob enqueue_job]"

definition RestoreWatches :: "watch_config list" where
  "RestoreWatches = [WatchOwned KindJob (\<lambda>_. True)]"

text \<open>The kind of object the runtime hands to \<open>Mirror\<close>.\<close>

definition OperatorBackupType :: object_kind where
  "OperatorBackupType = KindJob"

section \<open>What a change wakes\<close>

text \<open>
  The requests a change of \<open>obj\<close> enqueues. Which object owns another is the runtime's
  knowledge: \<open>owner\<close> is the reconciled object that controls \<open>obj\<close>, if there is one.
\<close>

fun watch_requests :: "(cluster_object \<Rightarrow> (string \<times> string) option) \<Rightarrow> cluster_object \<Rightarrow> watch_config
    \<Rightarrow> (string \<times> string) list" where
  "watch_requests owner obj (WatchOwned kind predicate) =
     (if kind_of obj = kind \<and> predicate obj
      then (case owner obj of None \<Rightarrow> [] | Some request \<Rightarrow> [request]) else [])"
| "watch_requests owner obj (WatchExternal kind enqueue) =
     (if kind_of obj = kind then enqueue obj else [])"

definition wakes :: "watch_config list \<Rightarrow> (cluster_object \<Rightarrow> (string \<times> string) option) \<Rightarrow> cluster_object
    \<Rightarrow> (string \<times> string) list" where
  "wakes watches owner obj = concat (map (watch_requests owner obj) watches)"

section \<open>Lemmas\<close>

lemma dependencyInstance_workload:
  assumes "workloadName inst wl \<noteq> ''''" "label_at (wl_Labels wl) milvusNameLabel \<noteq> ''milvus''"
  shows "dependencyInstance (label_at (wl_Annotations wl) helmReleaseAnnotation) = inst"
  using assms by (auto simp: workloadName_def Let_def split: if_splits)

lemma instance_wakes:
  "wakes New_WatchConfigs owner (RestoreObject r) = enqueueRestoreInstance (Some r)"
  "wakes New_WatchConfigs owner (BackupObject b) = enqueueScheduledBackupInstance (Some b)"
  "wakes New_WatchConfigs owner (StatefulSetObject ns wl) = enqueueDependencyInstance ns (wl_Annotations wl)"
  "wakes New_WatchConfigs owner (DeploymentObject ns wl) = enqueueDependencyInstance ns (wl_Annotations wl)"
  "wakes New_WatchConfigs owner (SecretObject s) =
     (if credentialsSecretChanged (om_Name (sec_Meta s))
      then (case owner (SecretObject s) of None \<Rightarrow> [] | Some request \<Rightarrow> [request]) else [])"
  "wakes New_WatchConfigs owner (MilvusObject ns n) =
     (case owner (MilvusObject ns n) of None \<Rightarrow> [] | Some request \<Rightarrow> [request])"
  by (simp_all add: wakes_def New_WatchConfigs_def)

lemma Mirror_Some:
  assumes "Mirror c (Some job) w = Inr (Some b)"
  shows "bk_Name b = job_Name job" "bk_Namespace b = job_Namespace job"
    "bk_InstanceRef b = Some (job_label job backupJobInstanceLabel)"
    "bk_ScheduleName b = job_label job backupScheduleLabel" "job_label job backupScheduleLabel \<noteq> ''''"
  using assms by (auto simp: Mirror_def split: if_splits sum.splits option.splits)

section \<open>Properties\<close>

text \<open>
  C32: What an instance's status and its schedules depend on wakes it when it changes: the
  Restores into it (which hide it while they run), the scheduled Backups that retention acts
  on, the workloads of its bundled dependencies that \<open>shortWorkloads\<close> counts, and the Secret
  with its password. And the Job of a scheduled run wakes the very Backup that mirrors it,
  which is owned by no Backup.
\<close>

theorem changes_reach_their_instance:
  assumes "inst \<noteq> ''''"
  shows "(rs_InstanceRef r = inst \<longrightarrow>
      wakes New_WatchConfigs owner (RestoreObject r) = [(rs_Namespace r, inst)]) \<and>
    (workloadName inst wl \<noteq> '''' \<and> label_at (wl_Labels wl) milvusNameLabel \<noteq> ''milvus'' \<longrightarrow>
      wakes New_WatchConfigs owner (StatefulSetObject ns wl) = [(ns, inst)] \<and>
      wakes New_WatchConfigs owner (DeploymentObject ns wl) = [(ns, inst)]) \<and>
    (om_Name (sec_Meta s) = credentialsSecretName inst \<and> owner (SecretObject s) = Some (ns, inst) \<longrightarrow>
      wakes New_WatchConfigs owner (SecretObject s) = [(ns, inst)]) \<and>
    (Mirror c (Some job) w = Inr (Some b) \<and> owner (JobObject job) = None \<longrightarrow>
      wakes BackupWatches owner (JobObject job) = [(bk_Namespace b, bk_Name b)] \<and>
      wakes New_WatchConfigs owner (BackupObject b) =
        [(bk_Namespace b, job_label job backupJobInstanceLabel)])"
proof (intro conjI impI)
  assume "workloadName inst wl \<noteq> '''' \<and> label_at (wl_Labels wl) milvusNameLabel \<noteq> ''milvus''"
  then have "dependencyInstance (label_at (wl_Annotations wl) helmReleaseAnnotation) = inst"
    using dependencyInstance_workload by blast
  then have "enqueueDependencyInstance ns (wl_Annotations wl) = [(ns, inst)]"
    using assms by (simp add: enqueueDependencyInstance_def Let_def)
  then show "wakes New_WatchConfigs owner (StatefulSetObject ns wl) = [(ns, inst)]"
    "wakes New_WatchConfigs owner (DeploymentObject ns wl) = [(ns, inst)]"
    by (simp_all add: instance_wakes)
next
  assume "Mirror c (Some job) w = Inr (Some b) \<and> owner (JobObject job) = None"
  then have run: "Mirror c (Some job) w = Inr (Some b)" and own: "owner (JobObject job) = None" by auto
  note b = Mirror_Some [OF run]
  show "wakes BackupWatches owner (JobObject job) = [(bk_Namespace b, bk_Name b)]"
    using b own by (simp add: wakes_def BackupWatches_def enqueueScheduledBackup_def)
  show "wakes New_WatchConfigs owner (BackupObject b) =
      [(bk_Namespace b, job_label job backupJobInstanceLabel)]"
    using b by (simp add: instance_wakes enqueueScheduledBackupInstance_def)
qed (use assms in \<open>auto simp: instance_wakes enqueueRestoreInstance_def\<close>)

theorem changes_reach_their_instance_witness:
  "wakes New_WatchConfigs (\<lambda>_. None) (StatefulSetObject ''ns'' (etcd_workload 1 1)) = [(''ns'', ''inst'')] \<and>
   wakes New_WatchConfigs (\<lambda>_. None) (RestoreObject sample_restore) = [(''ns'', ''inst'')]"
proof -
  have "workloadName ''inst'' (etcd_workload 1 1) \<noteq> ''''" by code_simp
  moreover have "label_at (wl_Labels (etcd_workload 1 1)) milvusNameLabel \<noteq> ''milvus''" by code_simp
  moreover have "rs_InstanceRef sample_restore = ''inst''" "rs_Namespace sample_restore = ''ns''"
    by (simp_all add: sample_restore_def)
  moreover have "''inst'' \<noteq> ''''" by simp
  ultimately show ?thesis
    using changes_reach_their_instance [where inst = "''inst''" and r = sample_restore and owner = "\<lambda>_. None"
        and wl = "etcd_workload 1 1" and ns = "''ns''" and c = "sample_ctx :: unit ctx"]
    by metis
qed

end
