(* ===== verification/Spec2Isabelle.thy ===== *)
theory Spec2Isabelle
  imports History Operations Watches
begin

text \<open>
  A verification development for the OpenEverest provider of Milvus: the Go code under
  \<open>src/internal/provider\<close>, \<open>src/internal/milvusapi\<close>, \<open>src/internal/common\<close> and the parameter
  types of \<open>src/definition\<close>.

  \<^bold>\<open>The program.\<close> An Instance of OpenEverest asks for a Milvus database. The runtime calls the
  provider's \<open>Validate\<close>, \<open>Sync\<close>, \<open>Status\<close> and \<open>Cleanup\<close> (\<open>provider.go\<close>) whenever one of the
  watched objects changes. \<open>Sync\<close> ensures the credentials, renders the spec of a Milvus custom
  resource (CR) from the Instance and its parameters, applies it for the Milvus operator to
  act on, and keeps the PodMonitor, the seeding, the root password and the backup schedules
  in step. \<open>Status\<close> reads the CR and the workloads back and decides whether connection details
  are published. Backups and Restores are objects of their own, which the provider turns into
  Jobs of the \<open>milvus-backup\<close> tool.

  \<^bold>\<open>Conventions.\<close> Everything outside the repository is the argument \<open>c :: 'w ctx\<close> (theory
  \<open>Context\<close>): \<open>lib c\<close> holds pure library functions, \<open>api c\<close> reads and writes of the outside world
  \<open>'w\<close>, and the rest is the Instance under reconciliation with its decoded parameters. The
  definitions assume nothing of them; a theorem that needs something names it as a
  hypothesis, such as \<open>job_store\<close> or \<open>secrets_read_back\<close>. A Go function that returns an error
  is a function into \<open>go_error + 'a\<close>; one that only returns an error, into \<open>go_error option\<close>; one
  that changes the world, a \<open>('w, 'a) step\<close>, which also returns the next world. Names are the
  code's; record fields carry a short prefix where the code's name is taken.

  \<^item> An \<open>int32\<close> is an \<open>int\<close>, and its additions wrap around (\<open>add32\<close>); the products of a retention
    window and the seconds of a \<open>Time\<close> wrap around at 64 bits (\<open>wrap64\<close>); SHA-256 runs on
    \<open>32 word\<close>. Lengths are unbounded.
  \<^item> Strings are lists of characters; the code only treats ASCII specially. A Go map is an
    association list, and where the code ranges over one a theorem shows that the order does
    not matter (locale \<open>order_free\<close> of \<open>Prelude\<close>). \<open>sort.Slice\<close>, whose order of equal elements
    is unspecified, is a parameter.
  \<^item> Loops are structural recursions or folds; \<open>deepMergeValues\<close>, which recurs into nested maps,
    and SHA-256's block loop have measures. No definition uses fuel, so every operation is
    total.

  \<^bold>\<open>Theories.\<close> \<open>Prelude\<close>, \<open>GoStrings\<close>, \<open>GoFormat\<close> and \<open>Sha256\<close> model what the code uses of Go's
  language and standard library; \<open>KubeTypes\<close> and \<open>BackupTypes\<close> the API objects it touches;
  \<open>Samples\<close> the concrete cluster the witnesses run on. The components:

  \<^item> \<open>Values\<close> (\<open>deepMergeValues\<close> in \<open>provider.go\<close>), \<open>MilvusTypes\<close> (\<open>milvus_types.go\<close>) and \<open>ParamTypes\<close>
    (\<open>definition/\<close>): the data.
  \<^item> \<open>Dependencies\<close> (\<open>dependencies.go\<close>), \<open>PodSettings\<close> (\<open>pod.go\<close>, \<open>probes.go\<close>, \<open>scheduling.go\<close>),
    \<open>DeploymentGroups\<close> (\<open>groups.go\<close>), \<open>Scaling\<close> (\<open>scaling.go\<close>), \<open>Exposure\<close> (\<open>exposure.go\<close>), \<open>Version\<close>
    (\<open>version.go\<close>) and \<open>BuildSpec\<close> (\<open>BuildMilvusSpec\<close>): rendering. Their lemmas say what ends up
    in the spec: sizes, storage classes, images, probes, autoscalers, groups.
  \<^item> \<open>Credentials\<close> (\<open>credentials.go\<close>), \<open>RestClient\<close> and \<open>RootPassword\<close> (\<open>rootpassword.go\<close>): passwords
    and keys are stable, and the rotation is a step relation of edits and of reconciles with
    faults (Milvus unhealthy, requests, answers and Secret writes lost), with what can be lost
    on the way.
  \<^item> \<open>Monitoring\<close> (\<open>monitoring.go\<close>) and \<open>Health\<close> (\<open>health.go\<close>): the PodMonitor, failing
    dependencies and workloads short of pods.
  \<^item> \<open>Validate\<close> (\<open>validate.go\<close>): every check in its order; what acceptance guarantees for a new
    Instance and for an update.
  \<^item> \<open>BackupConfig\<close> (\<open>backup_config.go\<close>, \<open>storage_location.go\<close>), \<open>BackupJob\<close> (\<open>backup_job.go\<close>), \<open>Backup\<close>
    (\<open>backup.go\<close>) and \<open>BackupSchedule\<close> (\<open>backup_schedule.go\<close>): where data is kept, the names and
    outcomes of Jobs (locale \<open>bounded_name\<close>), operations that start one Job (locale
    \<open>job_operation\<close>, interpreted for backups and restores), schedules and retention.
  \<^item> \<open>Operations\<close>: the interleavings of backup, restore and cleanup reconciles with the Jobs of
    the cluster, those its schedules start included, as an inductive step relation with the
    invariant that on-demand runs are serialized. Runs of schedules and deletions of data are
    not: the code starts them without a look at other runs.
  \<^item> \<open>Watches\<close> (\<open>New\<close>, \<open>BackupWatches\<close>, \<open>RestoreWatches\<close>): what a change of an object wakes.
  \<^item> \<open>Reconcile\<close> (\<open>provider.go\<close>): the four entry points, composed as the code does; what is
    published and what is applied.
  \<^item> \<open>History\<close>: the CR of an instance along any sequence of accepted edits, as a step relation
    whose invariant is what validation compares of the data's location: the object storage and
    an external bucket, the root paths, the class of the etcd and object-storage volumes, the
    write-ahead log. It does not compare the bucket of a bundled storage, the class of Pulsar's
    volumes and which etcd is used, so those may change.
  \<^item> This theory: validation, rendering and the applied CR together. An accepted Instance
    renders, and once its spec is applied, validating and preparing it again change nothing.

  \<^bold>\<open>Not modelled.\<close> The process entry point \<open>cmd/provider/main.go\<close>, the RBAC markers, the code
  generation directives and the registration of Go schemes: they only set up the runtime.
  Logging. The decoding of JSON and YAML, quantities, cron expressions, semantic versions
  and URLs belongs to libraries and is a parameter. Retention windows of so many months that
  the year leaves the range of \<open>Time\<close>, where the result is up to the library's
  internals. The deep copies of the Milvus types are JSON round trips. A read through the
  runtime's cache may be stale; theorems that need a current one say so.
\<close>

section \<open>Rendering, applying and validating together\<close>

text \<open>
  Preparing the same rendered spec again either gives the same result or fails where the
  storage Secret cannot be read or written.
\<close>

definition same_or_storage_error :: "'w ctx \<Rightarrow> 'w \<Rightarrow> MilvusSpec \<Rightarrow> MilvusSpec result \<Rightarrow> bool" where
  "same_or_storage_error c w spec r \<longleftrightarrow>
     r = Inr spec \<or>
     (\<exists>e. r = Inl e \<and> fst (ensureStorageSecret c (storageSecretName (Name c)) w) = Inl e)"

lemma applied_again:
  assumes "applyStorageCredentials c (applyAuthConfig spec0 secret) w = (Inr spec, w1)"
    and "generatedStorageCredentials c w' = generatedStorageCredentials c w"
  shows "same_or_storage_error c w' spec (fst (applyStorageCredentials c (applyAuthConfig spec0 secret) w'))"
  using assms
  by (cases "ensureStorageSecret c (storageSecretName (Name c)) w'";
      cases "fst (ensureStorageSecret c (storageSecretName (Name c)) w')")
    (auto simp: same_or_storage_error_def applyStorageCredentials_def Let_def error_simps
      split: option.splits if_splits sum.splits bool.splits)

lemma key_mode_after_apply:
  assumes "BuildMilvusSpec c w = Inr spec0"
    and "applyStorageCredentials c (applyAuthConfig spec0 secret) w = (Inr spec, w1)"
    and "existing_milvus c w' = Inr m" "Spec m = spec"
  shows "StorageExternal (DepStorage (the (Dep spec0))) \<or>
    generatedStorageCredentials c w' = generatedStorageCredentials c w"
proof -
  obtain p where dep: "Dep (applyAuthConfig spec0 secret) = Some (buildDependencies c w (topology_type c) p)"
    "Dep spec0 = Some (buildDependencies c w (topology_type c) p)"
    using BuildMilvusSpec_Inr [OF assms(1)] by (metis dep_authorized)
  obtain sc where sc: "DepStorage (buildDependencies c w (topology_type c) p) = buildStorage p sc"
    using storage_rendered [of c w "topology_type c" p] by blast
  from storage_key_mode_kept [OF assms(2) dep(1) sc _ assms(3)] assms(4) dep(2) show ?thesis by auto
qed

lemma external_applied:
  assumes "StorageExternal (DepStorage (the (Dep spec0)))" "Dep spec0 \<noteq> None"
  shows "applyStorageCredentials c (applyAuthConfig spec0 secret) w = (Inr (applyAuthConfig spec0 secret), w)"
  using assms by (auto simp: applyStorageCredentials_def)

text \<open>Validation looks at the storage parameter that rendering uses.\<close>

lemma validated_storage_param:
  assumes "decoders_agree c" "dependencies_to_validate c w t = Inr (etcd, pulsar, storage)"
  shows "storageDependencyParam c t = storage"
  using assms
  by (auto simp: decoders_agree_def dependencies_to_validate_def storageDependencyParam_def
      standaloneDependencyParams_def zero_ClusterTopologyParameters_def zero_StandaloneTopologyParameters_def
      error_simps Let_def split: if_splits option.splits)

lemma validated_storage_location:
  assumes "decoders_agree c" "validateDependencies c w t = None"
    and "storageDependencyParam c t = Some s" "st_BackupStorageName s \<noteq> ''''"
  shows "\<exists>q. resolveStorageLocation c w (Some s) = Inr q"
    "\<exists>ks. storageLocationKeys c w (st_BackupStorageName s) = Inr ks"
proof -
  obtain etcd pulsar storage where d: "dependencies_to_validate c w t = Inr (etcd, pulsar, storage)"
    using assms(2) by (auto simp: validateDependencies_def split: sum.splits)
  have "storage = Some s" using validated_storage_param [OF assms(1) d] assms(3) by simp
  with assms(2,4) d show "\<exists>q. resolveStorageLocation c w (Some s) = Inr q"
    "\<exists>ks. storageLocationKeys c w (st_BackupStorageName s) = Inr ks"
    by (auto simp: validateDependencies_def error_simps)
qed

section \<open>Properties\<close>

text \<open>
  C4: Nothing \<open>validateInstance\<close> accepts fails to render. With a catalog to take images from, an
  accepted Instance has a Milvus CR spec, and the Secret of its storage location can be
  prepared: the only way \<open>syncStorageLocationSecret\<close> fails is that the API server refuses the
  Secret.
\<close>

theorem accepted_instance_renders:
  assumes "validateInstance c w = None" "decoders_agree c" "ProviderSpecOf c = Inr catalog"
  shows "(\<exists>spec. BuildMilvusSpec c w = Inr spec) \<and>
    (let r = fst (syncStorageLocationSecret c (storageDependencyParam c (topology_type c)) w)
     in r = Inr () \<or> (\<exists>e secret. r = Inl e \<and> fst (ApplySecret (api c) secret w) = Inl e))"
proof
  let ?p = "storageDependencyParam c (topology_type c)"
  note v = validateInstance_None [OF assms(1)]
  note loc = validated_storage_location [OF assms(2) v(6)]
  obtain config where config: "milvusEngineConfig c = Inr config"
    using v(11) by (auto simp: err_of_None)
  have "\<exists>q. resolveStorageLocation c w ?p = Inr q"
    using loc(1) by (cases ?p) (auto simp: resolveStorageLocation_def)
  with config assms(3) show "\<exists>spec. BuildMilvusSpec c w = Inr spec"
    by (auto simp: BuildMilvusSpec_def Let_def)
  show "let r = fst (syncStorageLocationSecret c ?p w)
     in r = Inr () \<or> (\<exists>e secret. r = Inl e \<and> fst (ApplySecret (api c) secret w) = Inl e)"
  proof (cases ?p)
    case (Some s)
    show ?thesis
    proof (cases "st_BackupStorageName s = ''''")
      case False
      then obtain ks where ks: "storageLocationKeys c w (st_BackupStorageName s) = Inr ks"
        using loc(2) Some by blast
      define secret where "secret = \<lparr>sec_Meta = ObjectMetaOf c (storageLocationSecretName (Name c)),
        sec_Type = ''Opaque'', sec_Data = [(storageSecretKeyUser, fst ks), (storageSecretKeyPassword, snd ks)]\<rparr>"
      have "syncStorageLocationSecret c ?p w = ApplySecret (api c) secret w"
        using Some False ks by (simp add: syncStorageLocationSecret_def secret_def split: prod.split)
      then show ?thesis by (cases "fst (ApplySecret (api c) secret w)") (auto simp: Let_def)
    qed (simp add: Some syncStorageLocationSecret_def)
  qed (simp add: syncStorageLocationSecret_def)
qed

theorem accepted_instance_renders_witness:
  "\<exists>spec. validateInstance accept_ctx None = None \<and> BuildMilvusSpec accept_ctx None = Inr spec"
proof -
  from accepted_instance_renders [OF accept_ctx_accepted accept_ctx_contracts(2) accept_ctx_simps(8)] accept_ctx_accepted
  show ?thesis by blast
qed


text \<open>
  C1: reconciling is stable. Once the spec \<open>Sync\<close> prepared for an accepted Instance is the spec
  of its Milvus CR, the same Instance is accepted again, renders the same spec, and a
  further pass prepares exactly the spec that is already there, unless the storage Secret
  cannot be read or written: a reconcile never moves a running instance.
\<close>

theorem reconcile_is_stable:
  assumes "validateInstance c w = None" "sync_spec c w = (Inr spec, w1)"
    and "existing_milvus c w' = Inr m" "Spec m = spec"
    and "same_reads c w w'" "decoders_agree c" "\<forall>v. \<not> SemverCompare (lib c) v v < 0"
  shows "validateInstance c w' = None \<and>
    (\<exists>spec0. BuildMilvusSpec c w = Inr spec0 \<and> BuildMilvusSpec c w' = Inr spec0) \<and>
    same_or_storage_error c w' spec (fst (sync_spec c w'))"
proof -
  obtain spec0 where b: "BuildMilvusSpec c w = Inr spec0"
    and a: "applyStorageCredentials c (applyAuthConfig spec0 (credentialsSecretName (Name c))) w = (Inr spec, w1)"
    by (rule sync_spec_Inr [OF assms(2)])
  have view: "view_of (Name c) (Spec m) = view_of (Name c) spec0"
    using view_applied [OF a] assms(4) by simp
  note again = revalidation [OF assms(1) b assms(3) view assms(5,6) assms(7) [rule_format]]
  from key_mode_after_apply [OF b a assms(3,4)]
  have "same_or_storage_error c w' spec (fst (applyStorageCredentials c
      (applyAuthConfig spec0 (credentialsSecretName (Name c))) w'))"
  proof
    assume ext: "StorageExternal (DepStorage (the (Dep spec0)))"
    have dep: "Dep spec0 \<noteq> None" using BuildMilvusSpec_Inr [OF b] by (metis option.distinct(1))
    from a show ?thesis unfolding external_applied [OF ext dep] by (simp add: same_or_storage_error_def)
  qed (rule applied_again [OF a])
  with again b show ?thesis by (auto simp: sync_spec_def)
qed

theorem reconcile_is_stable_witness:
  "\<exists>spec. sync_spec accept_ctx None = (Inr spec, None) \<and>
     validateInstance accept_ctx (Some (sample_milvus\<lparr>Spec := spec\<rparr>)) = None \<and>
     sync_spec accept_ctx (Some (sample_milvus\<lparr>Spec := spec\<rparr>)) =
       (Inr spec, Some (sample_milvus\<lparr>Spec := spec\<rparr>))"
proof -
  obtain spec0 where b: "BuildMilvusSpec accept_ctx None = Inr spec0"
    using accept_ctx_applied by blast
  obtain spec where s: "sync_spec accept_ctx None = (Inr spec, None)"
    using accept_ctx_syncs [OF b] by blast
  let ?w = "Some (sample_milvus\<lparr>Spec := spec\<rparr>)"
  have irrefl: "\<forall>v. \<not> SemverCompare (lib accept_ctx) v v < 0" using accept_ctx_contracts(3) by blast
  from reconcile_is_stable [OF accept_ctx_accepted s
      accept_ctx_simps(5) [of "sample_milvus\<lparr>Spec := spec\<rparr>"] _ accept_ctx_contracts(1,2) irrefl]
  have stable: "validateInstance accept_ctx ?w = None" "\<exists>spec0. BuildMilvusSpec accept_ctx ?w = Inr spec0"
    "same_or_storage_error accept_ctx ?w spec (fst (sync_spec accept_ctx ?w))" by auto
  then obtain spec1 where "BuildMilvusSpec accept_ctx ?w = Inr spec1" by blast
  then obtain spec' where again: "sync_spec accept_ctx ?w = (Inr spec', ?w)"
    using accept_ctx_syncs by blast
  with stable(3) have "spec' = spec" by (simp add: same_or_storage_error_def)
  with again stable(1) s show ?thesis by blast
qed

end
